(* ===== verification/Prelude.thy ===== *)
theory Prelude
  imports Main "HOL-Library.Multiset"
begin

text \<open>
  Shared vocabulary of the development: the fragment of the JavaScript string, array and
  object library that the sources under \<^verbatim>\<open>ui/src\<close> call, as executable HOL functions, with the
  lemmas about them that the component theories rely on.

  A JavaScript string is modelled by \<^typ>\<open>string\<close>: one \<^typ>\<open>char\<close> per UTF-16 code unit, for the
  code units U+0000 to U+00FF. A code unit above U+00FF that occurs in a literal of the source
  (dashes, ellipses and arrows in messages) is written as the single substitute character
  \<open>u_sub\<close>, so that lengths count code units as the source does.
\<close>

named_theorems js_str \<open>equations about JavaScript strings\<close>
named_theorems js_obj \<open>equations about JavaScript objects and maps\<close>

section \<open>Truthiness and nullish values\<close>

text \<open>
  An optional or nullable field is an \<open>option\<close>; \<open>a ?? b\<close> is \<open>nullish a b\<close>, and on strings
  \<open>a || b\<close> is \<open>str_or a b\<close> (the empty string is the only falsy string).
\<close>

definition nullish :: "'a option \<Rightarrow> 'a \<Rightarrow> 'a" where
  "nullish a b = (case a of None \<Rightarrow> b | Some x \<Rightarrow> x)"

lemma nullish_simps [simp]: "nullish None b = b" "nullish (Some a) b = a"
  by (simp_all add: nullish_def)

definition str_or :: "string \<Rightarrow> string \<Rightarrow> string" where
  "str_or a b = (if a = [] then b else a)"

definition truthy :: "string option \<Rightarrow> bool" where
  "truthy a = (case a of None \<Rightarrow> False | Some s \<Rightarrow> s \<noteq> [])"

definition non_empty :: "string \<Rightarrow> string option" where
  \<comment> \<open>\<open>s || null\<close>\<close>
  "non_empty s = (if s = [] then None else Some s)"

lemma truthy_simps [simp]: "truthy None = False" "truthy (Some s) = (s \<noteq> [])"
  by (simp_all add: truthy_def)

lemma non_empty_simps [simp]:
  "non_empty [] = None"
  "s \<noteq> [] \<Longrightarrow> non_empty s = Some s"
  "non_empty s = None \<longleftrightarrow> s = []"
  "non_empty s = Some t \<longleftrightarrow> s = t \<and> t \<noteq> []"
  by (auto simp: non_empty_def)

lemma str_or_simps [simp]:
  "str_or [] b = b"
  "a \<noteq> [] \<Longrightarrow> str_or a b = a"
  "str_or a b = [] \<longleftrightarrow> a = [] \<and> b = []"
  by (auto simp: str_or_def)

section \<open>Characters\<close>

abbreviation code :: "char \<Rightarrow> nat" where
  "code c \<equiv> of_char c"

definition u_sub :: char where
  "u_sub = CHR 0x1A"

definition is_ws :: "char \<Rightarrow> bool" where
  \<comment> \<open>the ECMAScript WhiteSpace and LineTerminator code units below U+0100\<close>
  "is_ws c = (code c \<in> {9, 10, 11, 12, 13, 32, 160})"

definition is_digit :: "char \<Rightarrow> bool" where
  "is_digit c = (48 \<le> code c \<and> code c \<le> 57)"

definition is_lower_az :: "char \<Rightarrow> bool" where
  "is_lower_az c = (97 \<le> code c \<and> code c \<le> 122)"

definition is_upper :: "char \<Rightarrow> bool" where
  \<comment> \<open>the code units below U+0100 that Unicode lower-cases\<close>
  "is_upper c = ((65 \<le> code c \<and> code c \<le> 90) \<or> (192 \<le> code c \<and> code c \<le> 222 \<and> code c \<noteq> 215))"

definition lower_char :: "char \<Rightarrow> char" where
  "lower_char c = (if is_upper c then char_of (code c + 32) else c)"

lemma code_lower_char: "code (lower_char c) = (if is_upper c then code c + 32 else code c)"
  by (auto simp: lower_char_def is_upper_def take_bit_eq_mod)

lemma lower_char_idem [simp]: "lower_char (lower_char c) = lower_char c"
proof -
  have "\<not> is_upper (lower_char c)"
    by (auto simp: is_upper_def code_lower_char split: if_splits)
  then show ?thesis by (simp add: lower_char_def [of "lower_char c"])
qed

section \<open>Strings\<close>

definition toLowerCase :: "string \<Rightarrow> string" where
  "toLowerCase s = map lower_char s"

lemma toLowerCase_idem [simp]: "toLowerCase (toLowerCase s) = toLowerCase s"
  by (simp add: toLowerCase_def comp_def)

lemma toLowerCase_Cons [js_str]: "toLowerCase (c # s) = lower_char c # toLowerCase s"
  by (simp add: toLowerCase_def)

lemma toLowerCase_simps [simp]:
  "toLowerCase [] = []"
  "length (toLowerCase s) = length s" "toLowerCase s = [] \<longleftrightarrow> s = []"
  by (simp_all add: toLowerCase_def)

definition trimStart :: "string \<Rightarrow> string" where
  "trimStart s = dropWhile is_ws s"

definition trimEnd :: "string \<Rightarrow> string" where
  "trimEnd s = rev (dropWhile is_ws (rev s))"

definition trim :: "string \<Rightarrow> string" where
  "trim s = trimEnd (trimStart s)"

lemma trimEnd_Cons: "trimEnd (c # s) = (if trimEnd s = [] \<and> is_ws c then [] else c # trimEnd s)"
  by (simp add: trimEnd_def dropWhile_append)

lemma trim_Nil [simp]: "trim [] = []"
  by (simp add: trim_def trimStart_def trimEnd_def)

lemma trim_ends:
  "trim s = [] \<or> (\<not> is_ws (hd (trim s)) \<and> \<not> is_ws (last (trim s)))"
proof (cases "dropWhile is_ws s")
  case Nil
  show ?thesis unfolding trim_def trimStart_def trimEnd_def Nil by simp
next
  case (Cons c t)
  then have c: "\<not> is_ws c" by (metis hd_dropWhile list.distinct(1) list.sel(1))
  then have eq: "trim s = c # trimEnd t"
    using Cons by (simp add: trim_def trimStart_def trimEnd_Cons)
  have "\<not> is_ws (last (c # trimEnd t))"
  proof (cases "dropWhile is_ws (rev t)")
    case Nil
    with c show ?thesis by (simp add: trimEnd_def)
  next
    case (Cons d u)
    then have "\<not> is_ws d" by (metis hd_dropWhile list.distinct(1) list.sel(1))
    with Cons show ?thesis by (simp add: trimEnd_def)
  qed
  with c eq show ?thesis by simp
qed

lemma trim_fixed:
  assumes "s = [] \<or> (\<not> is_ws (hd s) \<and> \<not> is_ws (last s))"
  shows "trim s = s"
proof (cases s)
  case (Cons c t)
  with assms have "dropWhile is_ws s = s" by simp
  moreover have "dropWhile is_ws (rev s) = rev s"
    using assms Cons by (metis dropWhile_eq_self_iff hd_rev list.distinct(1))
  ultimately show ?thesis by (simp add: trim_def trimStart_def trimEnd_def)
qed simp

lemma trim_idem [simp]: "trim (trim s) = trim s"
  by (rule trim_fixed) (rule trim_ends)

lemma trim_fixed_iff: "trim s = s \<longleftrightarrow> s = [] \<or> (\<not> is_ws (hd s) \<and> \<not> is_ws (last s))"
  using trim_ends [of s] trim_fixed [of s] by metis

lemma set_trim: "set (trim s) \<subseteq> set s"
  unfolding trim_def trimStart_def trimEnd_def
  by (metis dual_order.trans set_dropWhileD set_rev subsetI)

lemma trim_Cons_not_ws: "\<not> is_ws c \<Longrightarrow> trim (c # s) \<noteq> []"
  by (simp add: trim_def trimStart_def trimEnd_Cons)

lemma trim_eq_Nil_iff: "trim s = [] \<longleftrightarrow> (\<forall>c \<in> set s. is_ws c)"
proof
  assume "trim s = []"
  then show "\<forall>c \<in> set s. is_ws c"
  proof (induction s)
    case (Cons a s)
    then have a: "is_ws a" using trim_Cons_not_ws by blast
    then have "trim (a # s) = trim s" by (simp add: trim_def trimStart_def)
    with Cons a show ?case by simp
  qed simp
next
  assume "\<forall>c \<in> set s. is_ws c"
  then have nil: "dropWhile is_ws s = []" by simp
  show "trim s = []" unfolding trim_def trimStart_def trimEnd_def nil by simp
qed

definition startsWith :: "string \<Rightarrow> string \<Rightarrow> bool" where
  "startsWith s p = (take (length p) s = p)"

definition endsWith :: "string \<Rightarrow> string \<Rightarrow> bool" where
  "endsWith s p = (length p \<le> length s \<and> drop (length s - length p) s = p)"

fun str_includes :: "string \<Rightarrow> string \<Rightarrow> bool" where
  "str_includes [] p = (p = [])"
| "str_includes (c # s) p = (startsWith (c # s) p \<or> str_includes s p)"

lemma startsWith_iff: "startsWith s p \<longleftrightarrow> (\<exists>t. s = p @ t)"
  unfolding startsWith_def by (metis append_eq_conv_conj append_take_drop_id)

lemma startsWith_append [simp]: "startsWith (p @ s) p"
  by (simp add: startsWith_def)

lemma endsWith_iff: "endsWith s p \<longleftrightarrow> (\<exists>t. s = t @ p)"
  unfolding endsWith_def by (auto intro: exI [of _ "take (length s - length p) s"])
    (metis append_take_drop_id)

lemma str_includes_iff: "str_includes s p \<longleftrightarrow> (\<exists>u v. s = u @ p @ v)"
proof (induction s)
  case (Cons c s)
  have "(\<exists>u v. c # s = u @ p @ v) \<longleftrightarrow> startsWith (c # s) p \<or> (\<exists>u v. s = u @ p @ v)"
  proof
    assume "\<exists>u v. c # s = u @ p @ v"
    then obtain u v where uv: "c # s = u @ p @ v" by blast
    show "startsWith (c # s) p \<or> (\<exists>u v. s = u @ p @ v)"
    proof (cases u)
      case Nil
      with uv show ?thesis by (simp add: startsWith_iff)
    next
      case (Cons a u')
      with uv show ?thesis by auto
    qed
  next
    assume "startsWith (c # s) p \<or> (\<exists>u v. s = u @ p @ v)"
    then show "\<exists>u v. c # s = u @ p @ v"
      by (metis append_Cons append_Nil startsWith_iff)
  qed
  with Cons show ?case by simp
qed simp

definition stripTrailingSlashes :: "string \<Rightarrow> string" where
  \<comment> \<open>\<open>s.replace(/\/+$/, "")\<close>\<close>
  "stripTrailingSlashes s = rev (dropWhile (\<lambda>c. c = CHR ''/'') (rev s))"

lemma stripTrailingSlashes_last:
  "stripTrailingSlashes s = [] \<or> last (stripTrailingSlashes s) \<noteq> CHR ''/''"
  unfolding stripTrailingSlashes_def
  by (metis (mono_tags, lifting) hd_dropWhile last_rev rev_is_Nil_conv)

lemma stripTrailingSlashes_idem [simp]:
  "stripTrailingSlashes (stripTrailingSlashes s) = stripTrailingSlashes s"
  by (simp add: stripTrailingSlashes_def)

fun splitOn :: "char \<Rightarrow> string \<Rightarrow> string list" where
  \<comment> \<open>\<open>s.split(c)\<close> for a one-character separator\<close>
  "splitOn d [] = [[]]"
| "splitOn d (c # s) =
     (if c = d then [] # splitOn d s
      else (case splitOn d s of [] \<Rightarrow> [[c]] | w # ws \<Rightarrow> (c # w) # ws))"

lemma splitOn_not_Nil [simp]: "splitOn d s \<noteq> []"
  by (induction s) (auto split: list.splits)

fun joinWith :: "string \<Rightarrow> string list \<Rightarrow> string" where
  "joinWith sep [] = []"
| "joinWith sep [w] = w"
| "joinWith sep (w # v # ws) = w @ sep @ joinWith sep (v # ws)"

lemma splitOn_no_sep: "\<forall>w \<in> set (splitOn d s). d \<notin> set w"
  by (induction s) (auto split: list.splits)

lemma splitOn_single: "d \<notin> set w \<Longrightarrow> splitOn d w = [w]"
  by (induction w) auto

lemma splitOn_append:
  "d \<notin> set w \<Longrightarrow> splitOn d (w @ d # s) = w # splitOn d s"
  by (induction w) auto

lemma join_splitOn [simp]: "joinWith [d] (splitOn d s) = s"
proof (induction s)
  case (Cons c s)
  obtain w ws where sp: "splitOn d s = w # ws" by (cases "splitOn d s") auto
  with Cons show ?case by (cases ws) auto
qed simp

lemma set_joinWith: "c \<in> set (joinWith sep ws) \<Longrightarrow> c \<in> set sep \<or> (\<exists>w \<in> set ws. c \<in> set w)"
  by (induction sep ws rule: joinWith.induct) auto

fun indexOfChar :: "char \<Rightarrow> string \<Rightarrow> nat option" where
  \<comment> \<open>\<open>s.indexOf(c)\<close>, with \<open>None\<close> for \<open>-1\<close>\<close>
  "indexOfChar d [] = None"
| "indexOfChar d (c # s) = (if c = d then Some 0 else map_option Suc (indexOfChar d s))"

lemma indexOfChar_Some:
  "indexOfChar d s = Some n \<Longrightarrow> s = take n s @ d # drop (Suc n) s \<and> d \<notin> set (take n s)"
  by (induction s arbitrary: n) (auto split: if_splits)

section \<open>Decimal integers\<close>

definition digit_char :: "nat \<Rightarrow> char" where
  "digit_char d = char_of (48 + d)"

definition digit_val :: "char \<Rightarrow> nat" where
  "digit_val c = code c - 48"

lemma code_digit_char [simp]: "d < 10 \<Longrightarrow> code (digit_char d) = 48 + d"
  by (simp add: digit_char_def take_bit_eq_mod)

lemma digit_char_props [simp]:
  "d < 10 \<Longrightarrow> is_digit (digit_char d)" "d < 10 \<Longrightarrow> digit_val (digit_char d) = d"
  by (simp_all add: is_digit_def digit_val_def)

fun nat_str :: "nat \<Rightarrow> string" where
  "nat_str n = (if n < 10 then [digit_char n] else nat_str (n div 10) @ [digit_char (n mod 10)])"

declare nat_str.simps [simp del]

definition int_str :: "int \<Rightarrow> string" where
  \<comment> \<open>\<open>String(i)\<close> for an integral number below \<open>2 ^ 53\<close> in absolute value\<close>
  "int_str i = (if i < 0 then CHR ''-'' # nat_str (nat (- i)) else nat_str (nat i))"

definition digits_val :: "string \<Rightarrow> nat" where
  "digits_val s = foldl (\<lambda>n c. 10 * n + digit_val c) 0 s"

lemma digits_val_append: "digits_val (s @ [c]) = 10 * digits_val s + digit_val c"
  by (simp add: digits_val_def)

lemma nat_str_digits: "nat_str n \<noteq> [] \<and> (\<forall>c \<in> set (nat_str n). is_digit c)"
proof (induction n rule: nat_str.induct)
  case (1 n)
  then show ?case by (subst (1 2) nat_str.simps) auto
qed

lemma digits_val_nat_str [simp]: "digits_val (nat_str n) = n"
proof (induction n rule: nat_str.induct)
  case (1 n)
  show ?case
  proof (cases "n < 10")
    case True
    then show ?thesis by (subst nat_str.simps) (simp add: digits_val_def)
  next
    case False
    with 1 show ?thesis by (subst nat_str.simps) (simp add: digits_val_append)
  qed
qed

lemma nat_str_inject [simp]: "nat_str m = nat_str n \<longleftrightarrow> m = n"
  by (metis digits_val_nat_str)

definition parse_decimal :: "string \<Rightarrow> int option" where
  \<comment> \<open>the integer that \<open>parseInt(s, 10)\<close> reads: leading white space, one optional sign,
     the longest run of digits; \<open>None\<close> stands for \<open>NaN\<close>\<close>
  "parse_decimal s =
     (let t = trimStart s;
          neg = startsWith t ''-'';
          body = (if neg \<or> startsWith t ''+'' then tl t else t);
          ds = takeWhile is_digit body
      in if ds = [] then None
         else Some (if neg then - int (digits_val ds) else int (digits_val ds)))"

lemma is_digit_not_ws: "is_digit c \<Longrightarrow> \<not> is_ws c"
  by (auto simp: is_digit_def is_ws_def)

lemma is_digit_not_sign: "is_digit c \<Longrightarrow> c \<noteq> CHR ''-'' \<and> c \<noteq> CHR ''+''"
  by (auto simp: is_digit_def)

lemma trimStart_digits:
  "\<forall>c \<in> set s. is_digit c \<Longrightarrow> trimStart s = s"
  by (cases s) (auto simp: trimStart_def is_digit_not_ws)

lemma takeWhile_digits:
  "\<forall>c \<in> set s. is_digit c \<Longrightarrow> takeWhile is_digit s = s"
  by (simp add: takeWhile_eq_all_conv)

lemma parse_decimal_nat_str: "parse_decimal (nat_str n) = Some (int n)"
proof -
  obtain c t where ct: "nat_str n = c # t" using nat_str_digits by (metis list.exhaust)
  then have "is_digit c" using nat_str_digits [of n] by simp
  then have "c \<noteq> CHR ''-'' \<and> c \<noteq> CHR ''+''" by (rule is_digit_not_sign)
  with ct have nosign: "\<not> startsWith (nat_str n) ''-''" "\<not> startsWith (nat_str n) ''+''"
    by (simp_all add: startsWith_def)
  have ts: "trimStart (nat_str n) = nat_str n" "takeWhile is_digit (nat_str n) = nat_str n"
    using nat_str_digits by (blast intro: trimStart_digits, blast intro: takeWhile_digits)
  show ?thesis using nat_str_digits [of n] by (simp add: parse_decimal_def ts nosign)
qed

lemma parse_decimal_int_str [simp]: "parse_decimal (int_str i) = Some i"
proof (cases "i < 0")
  case True
  let ?m = "nat (- i)"
  have "trimStart (CHR ''-'' # nat_str ?m) = CHR ''-'' # nat_str ?m"
    by (simp add: trimStart_def is_ws_def)
  moreover have tw: "takeWhile is_digit (nat_str ?m) = nat_str ?m"
    using nat_str_digits by (blast intro: takeWhile_digits)
  moreover have "nat_str ?m \<noteq> []" using nat_str_digits by blast
  ultimately show ?thesis
    using True unfolding int_str_def parse_decimal_def Let_def
    by (simp only: if_True) (simp add: startsWith_def tw)
next
  case False
  then show ?thesis by (simp add: int_str_def parse_decimal_nat_str)
qed

section \<open>Objects and maps\<close>

text \<open>
  A JavaScript object used as a dictionary and a \<open>Map\<close> are association lists with distinct
  keys, in insertion order. Assigning to a present key keeps its position.
\<close>

type_synonym ('k, 'v) jsmap = "('k \<times> 'v) list"
type_synonym dict = "(string, string) jsmap"

fun obj_set :: "'k \<Rightarrow> 'v \<Rightarrow> ('k, 'v) jsmap \<Rightarrow> ('k, 'v) jsmap" where
  "obj_set k v [] = [(k, v)]"
| "obj_set k v ((k', v') # m) = (if k = k' then (k, v) # m else (k', v') # obj_set k v m)"

definition obj_del :: "'k \<Rightarrow> ('k, 'v) jsmap \<Rightarrow> ('k, 'v) jsmap" where
  "obj_del k m = filter (\<lambda>(k', _). k' \<noteq> k) m"

abbreviation obj_get :: "('k, 'v) jsmap \<Rightarrow> 'k \<Rightarrow> 'v option" where
  "obj_get m k \<equiv> map_of m k"

abbreviation obj_keys :: "('k, 'v) jsmap \<Rightarrow> 'k list" where
  "obj_keys m \<equiv> map fst m"

abbreviation wf_obj :: "('k, 'v) jsmap \<Rightarrow> bool" where
  "wf_obj m \<equiv> distinct (map fst m)"

definition obj_assign :: "('k, 'v) jsmap \<Rightarrow> ('k, 'v) jsmap \<Rightarrow> ('k, 'v) jsmap" where
  \<comment> \<open>the spread \<open>{ ...a, ...b }\<close>\<close>
  "obj_assign a b = foldl (\<lambda>m (k, v). obj_set k v m) a b"

lemma obj_get_set [simp, js_obj]: "obj_get (obj_set k v m) = (obj_get m)(k \<mapsto> v)"
  by (induction m) (auto simp: fun_eq_iff)

lemma keys_obj_set [js_obj]: "set (obj_keys (obj_set k v m)) = insert k (set (obj_keys m))"
  by (induction m) (force split: if_splits)+

lemma obj_set_fresh: "k \<notin> set (map fst m) \<Longrightarrow> obj_set k v m = m @ [(k, v)]"
  by (induction m) auto

lemma wf_obj_set [simp, js_obj]: "wf_obj m \<Longrightarrow> wf_obj (obj_set k v m)"
proof (induction m)
  case (Cons p m)
  then show ?case using keys_obj_set [of k v m] by (cases p) auto
qed simp

lemma obj_get_del [simp, js_obj]: "obj_get (obj_del k m) = (obj_get m)(k := None)"
  by (induction m) (auto simp: obj_del_def fun_eq_iff)

lemma keys_obj_del: "set (obj_keys (obj_del k m)) = set (obj_keys m) - {k}"
  by (induction m) (auto simp: obj_del_def)

lemma wf_obj_del [simp, js_obj]: "wf_obj m \<Longrightarrow> wf_obj (obj_del k m)"
  by (induction m) (auto simp: obj_del_def rev_image_eqI)

lemma length_obj_set:
  "length (obj_set k v m) = (if k \<in> set (obj_keys m) then length m else Suc (length m))"
  by (induction m) (force split: if_splits)+

text \<open>
  The contract of a dictionary: what the components that keep their state in one rely on.
\<close>

locale dictionary =
  fixes empty :: 'm
    and put :: "'k \<Rightarrow> 'v \<Rightarrow> 'm \<Rightarrow> 'm"
    and del :: "'k \<Rightarrow> 'm \<Rightarrow> 'm"
    and get :: "'m \<Rightarrow> 'k \<Rightarrow> 'v option"
    and ok :: "'m \<Rightarrow> bool"
  assumes get_empty: "get empty k = None"
    and get_put: "ok m \<Longrightarrow> get (put k v m) k' = (if k' = k then Some v else get m k')"
    and get_del: "ok m \<Longrightarrow> get (del k m) k' = (if k' = k then None else get m k')"
    and ok_empty: "ok empty"
    and ok_put: "ok m \<Longrightarrow> ok (put k v m)"
    and ok_del: "ok m \<Longrightarrow> ok (del k m)"
begin

definition put_all :: "('k \<times> 'v) list \<Rightarrow> 'm \<Rightarrow> 'm" where
  "put_all kvs m = foldl (\<lambda>m (k, v). put k v m) m kvs"

lemma put_all_ok: "ok m \<Longrightarrow> ok (put_all kvs m)"
  by (induction kvs arbitrary: m) (auto simp: put_all_def ok_put)

lemma put_all_get:
  "ok m \<Longrightarrow> get (put_all kvs m) k =
     (case map_of (rev kvs) k of None \<Rightarrow> get m k | Some v \<Rightarrow> Some v)"
proof (induction kvs arbitrary: m)
  case (Cons p kvs)
  obtain k0 v0 where p: "p = (k0, v0)" by (cases p)
  have "get (put_all (p # kvs) m) k = get (put_all kvs (put k0 v0 m)) k"
    by (simp add: put_all_def p)
  also have "\<dots> = (case map_of (rev kvs) k of None \<Rightarrow> get (put k0 v0 m) k | Some v \<Rightarrow> Some v)"
    using Cons ok_put by blast
  finally show ?case
    using Cons.prems by (auto simp: p get_put map_add_def split: option.splits)
qed (simp add: put_all_def)

lemma put_del_other: "ok m \<Longrightarrow> k \<noteq> k' \<Longrightarrow> get (del k (put k' v m)) k' = Some v"
  by (simp add: get_del get_put ok_put)

end

interpretation js: dictionary "[]" obj_set obj_del "\<lambda>m k. map_of m k" wf_obj
  by unfold_locales auto

lemma obj_assign_put_all: "obj_assign a b = js.put_all b a"
  by (simp add: obj_assign_def js.put_all_def)

lemma wf_obj_assign [simp, js_obj]: "wf_obj a \<Longrightarrow> wf_obj (obj_assign a b)"
  by (simp add: obj_assign_put_all js.put_all_ok)

lemma obj_get_assign [js_obj]:
  assumes "wf_obj a" "wf_obj b"
  shows "obj_get (obj_assign a b) k = (case obj_get b k of None \<Rightarrow> obj_get a k | Some v \<Rightarrow> Some v)"
proof -
  have "map_of (rev b) = map_of b"
    using assms(2) by (metis map_of_inject_set distinct_rev rev_map set_rev)
  with assms(1) show ?thesis by (simp add: obj_assign_put_all js.put_all_get)
qed

section \<open>Array.prototype.sort\<close>

text \<open>
  ECMAScript requires a stable sort. For a comparator \<open>cmp\<close> that returns a negative, zero or
  positive number, stable insertion sort is a reference implementation.
\<close>

fun insert_by :: "('a \<Rightarrow> 'a \<Rightarrow> int) \<Rightarrow> 'a \<Rightarrow> 'a list \<Rightarrow> 'a list" where
  "insert_by cmp x [] = [x]"
| "insert_by cmp x (y # ys) = (if cmp x y \<le> 0 then x # y # ys else y # insert_by cmp x ys)"

fun sort_by :: "('a \<Rightarrow> 'a \<Rightarrow> int) \<Rightarrow> 'a list \<Rightarrow> 'a list" where
  "sort_by cmp [] = []"
| "sort_by cmp (x # xs) = insert_by cmp x (sort_by cmp xs)"

definition comparator :: "('a \<Rightarrow> 'a \<Rightarrow> int) \<Rightarrow> bool" where
  \<comment> \<open>what ECMAScript calls a consistent comparator\<close>
  "comparator cmp \<longleftrightarrow>
     (\<forall>a b. (cmp a b < 0) = (cmp b a > 0)) \<and>
     (\<forall>a b c. cmp a b \<le> 0 \<longrightarrow> cmp b c \<le> 0 \<longrightarrow> cmp a c \<le> 0)"

abbreviation sorted_by :: "('a \<Rightarrow> 'a \<Rightarrow> int) \<Rightarrow> 'a list \<Rightarrow> bool" where
  "sorted_by cmp \<equiv> sorted_wrt (\<lambda>a b. cmp a b \<le> 0)"

lemma comparator_total: "comparator cmp \<Longrightarrow> \<not> cmp a b \<le> 0 \<Longrightarrow> cmp b a \<le> 0"
  unfolding comparator_def by (metis less_le_not_le linorder_le_less_linear)

lemma comparator_trans: "comparator cmp \<Longrightarrow> cmp a b \<le> 0 \<Longrightarrow> cmp b c \<le> 0 \<Longrightarrow> cmp a c \<le> 0"
  unfolding comparator_def by blast

lemma mset_insert_by [simp]: "mset (insert_by cmp x xs) = add_mset x (mset xs)"
  by (induction xs) auto

lemma mset_sort_by [simp]: "mset (sort_by cmp xs) = mset xs"
  by (induction xs) auto

lemma set_insert_by [simp]: "set (insert_by cmp x xs) = insert x (set xs)"
  by (metis mset_insert_by set_mset_add_mset_insert set_mset_mset)

lemma set_sort_by [simp]: "set (sort_by cmp xs) = set xs"
  by (metis mset_sort_by set_mset_mset)

lemma length_sort_by [simp]: "length (sort_by cmp xs) = length xs"
  by (metis mset_sort_by size_mset)

lemma sorted_insert_by:
  assumes "comparator cmp" "sorted_by cmp xs"
  shows "sorted_by cmp (insert_by cmp x xs)"
  using assms(2)
proof (induction xs)
  case (Cons y ys)
  show ?case
  proof (cases "cmp x y \<le> 0")
    case True
    with Cons.prems show ?thesis by (auto intro: comparator_trans [OF assms(1)])
  next
    case False
    then have "cmp y x \<le> 0" using assms(1) by (rule comparator_total [rotated])
    with False Cons show ?thesis by auto
  qed
qed simp

lemma sorted_sort_by: "comparator cmp \<Longrightarrow> sorted_by cmp (sort_by cmp xs)"
  by (induction xs) (auto intro: sorted_insert_by)

end
