(* ===== verification/Js_Number.thy ===== *)
theory Js_Number
  imports Prelude Complex_Main "HOL-Library.Log_Nat"
begin

text \<open>
  JavaScript numbers: IEEE 754 binary64 values as exact rationals with \<open>NaN\<close> and the two
  infinities, the rounding of an exact result to a representable value (round half to even,
  gradual underflow), and the conversions the sources use: \<open>parseInt\<close>, \<open>parseFloat\<close>,
  \<open>Number.isFinite\<close>, \<open>Math.floor\<close> and \<open>Math.round\<close>. Positive and negative zero are identified:
  no modelled function distinguishes them.
\<close>

datatype jsnum = NaN | Infinite bool \<comment> \<open>\<open>True\<close> for minus infinity\<close> | Num rat

section \<open>Rounding to binary64\<close>

definition pow2 :: "int \<Rightarrow> rat" where
  "pow2 e = (if 0 \<le> e then 2 ^ nat e else 1 / 2 ^ nat (- e))"

lemma pow2_pos [simp]: "0 < pow2 e" "pow2 e \<noteq> 0"
  by (simp_all add: pow2_def)

lemma pow2_powr: "pow2 e = 2 powi e"
  by (simp add: pow2_def power_int_def field_simps)

lemma pow2_mono_less: "e < f \<Longrightarrow> pow2 e < pow2 f"
  unfolding pow2_powr by (rule power_int_strict_increasing) simp_all

lemma pow2_less_iff [simp]: "pow2 e < pow2 f \<longleftrightarrow> e < f"
  by (metis linorder_neqE_linordered_idom order_less_asym pow2_mono_less)

lemma pow2_diff: "pow2 (a - b) = pow2 a / pow2 b"
  unfolding pow2_powr by (simp add: power_int_diff)

definition ilog2 :: "rat \<Rightarrow> int" where
  \<comment> \<open>the exponent of the binade of a positive rational\<close>
  "ilog2 x =
     (let (p, q) = quotient_of x; e = bitlen p - bitlen q in if pow2 e \<le> x then e else e - 1)"

lemma bitlen_bounds_rat:
  assumes "0 < p"
  shows "pow2 (bitlen p - 1) \<le> of_int p" "of_int p < pow2 (bitlen p)"
proof -
  have b: "2 ^ nat (bitlen p - 1) \<le> p \<and> p < 2 ^ nat (bitlen p)"
    using assms by (rule bitlen_bounds)
  have pos: "0 \<le> bitlen p - 1" "0 \<le> bitlen p"
    using assms bitlen_ge_iff_power [of 1 p] by (auto simp: bitlen_nonneg)
  have "(of_int (2 ^ nat (bitlen p - 1)) :: rat) \<le> of_int p" using b by (simp only: of_int_le_iff)
  with pos show "pow2 (bitlen p - 1) \<le> of_int p" by (simp add: pow2_def)
  have "(of_int p :: rat) < of_int (2 ^ nat (bitlen p))" using b by (simp only: of_int_less_iff)
  with pos show "of_int p < pow2 (bitlen p)" by (simp add: pow2_def)
qed

lemma pow2_ilog2_le:
  assumes "0 < x"
  shows "pow2 (ilog2 x) \<le> x"
proof -
  obtain p q where pq: "quotient_of x = (p, q)" by (cases "quotient_of x")
  then have x: "x = of_int p / of_int q" and q: "0 < q"
    by (rule quotient_of_div, rule quotient_of_denom_pos)
  have p: "0 < p" using assms q unfolding x by (simp add: zero_less_divide_iff)
  have "pow2 (bitlen p - bitlen q - 1) = pow2 (bitlen p - 1) / pow2 (bitlen q)"
    using pow2_diff [of "bitlen p - 1" "bitlen q"] by (simp add: algebra_simps)
  also have "\<dots> \<le> of_int p / of_int q"
    using bitlen_bounds_rat [OF p] bitlen_bounds_rat [OF q] p q
    by (intro frac_le) (auto simp: less_imp_le)
  finally show ?thesis unfolding ilog2_def pq by (simp add: Let_def x [symmetric])
qed

definition round_half_even :: "rat \<Rightarrow> int" where
  "round_half_even x =
     (let f = \<lfloor>x\<rfloor>; d = x - of_int f
      in if d < 1 / 2 then f else if d > 1 / 2 then f + 1 else if even f then f else f + 1)"

lemma round_half_even_int [simp]: "round_half_even (of_int n) = n"
  by (simp add: round_half_even_def)

definition ulp :: "rat \<Rightarrow> rat" where
  \<comment> \<open>the spacing of binary64 values in the binade of \<open>x\<close>\<close>
  "ulp x = pow2 (max (ilog2 \<bar>x\<bar> - 52) (- 1074))"

definition round_binary64 :: "rat \<Rightarrow> rat" where
  "round_binary64 x = (if x = 0 then 0 else of_int (round_half_even (x / ulp x)) * ulp x)"

definition num_of_rat :: "rat \<Rightarrow> jsnum" where
  "num_of_rat x =
     (let y = round_binary64 x in if pow2 1024 \<le> \<bar>y\<bar> then Infinite (y < 0) else Num y)"

lemma round_binary64_exact:
  assumes "\<bar>n\<bar> < 2 ^ 53"
  shows "round_binary64 (of_int n) = of_int n"
proof (cases "n = 0")
  case False
  let ?e = "max (ilog2 \<bar>of_int n\<bar> - 52) (- 1074)"
  have "pow2 (ilog2 \<bar>of_int n\<bar>) \<le> \<bar>of_int n\<bar>" using False by (intro pow2_ilog2_le) simp
  also have "\<dots> < pow2 53"
  proof -
    have "(of_int \<bar>n\<bar> :: rat) < of_int (2 ^ 53)" using assms by (simp only: of_int_less_iff)
    then show ?thesis by (simp add: pow2_def)
  qed
  finally have "ilog2 \<bar>of_int n\<bar> < 53" by simp
  then have e: "?e \<le> 0" by simp
  then have u: "pow2 ?e = 1 / 2 ^ nat (- ?e)" by (cases "?e = 0") (auto simp: pow2_def)
  have "of_int n / pow2 ?e = (of_int (n * 2 ^ nat (- ?e)) :: rat)" by (simp add: u)
  then have "round_half_even (of_int n / pow2 ?e) = n * 2 ^ nat (- ?e)"
    by (simp only: round_half_even_int)
  with False show ?thesis by (simp add: round_binary64_def ulp_def u)
qed (simp add: round_binary64_def)

lemma num_of_int [simp]:
  assumes "\<bar>n\<bar> < 2 ^ 53"
  shows "num_of_rat (of_int n) = Num (of_int n)"
proof -
  have "(of_int \<bar>n\<bar> :: rat) < of_int (2 ^ 53)" using assms by (simp only: of_int_less_iff)
  then have "\<bar>of_int n\<bar> < pow2 53" by (simp add: pow2_def)
  also have "\<dots> < pow2 1024" by simp
  finally show ?thesis
    using round_binary64_exact [OF assms] by (simp add: num_of_rat_def)
qed

section \<open>Comparisons and Math functions\<close>

fun num_less :: "jsnum \<Rightarrow> jsnum \<Rightarrow> bool" where
  \<comment> \<open>\<open>a < b\<close>: false as soon as one operand is \<open>NaN\<close>\<close>
  "num_less (Num a) (Num b) = (a < b)"
| "num_less (Num a) (Infinite s) = (\<not> s)"
| "num_less (Infinite s) (Num b) = s"
| "num_less (Infinite s) (Infinite t) = (s \<and> \<not> t)"
| "num_less _ _ = False"

fun num_le :: "jsnum \<Rightarrow> jsnum \<Rightarrow> bool" where
  "num_le (Num a) (Num b) = (a \<le> b)"
| "num_le (Num a) (Infinite s) = (\<not> s)"
| "num_le (Infinite s) (Num b) = s"
| "num_le (Infinite s) (Infinite t) = (s \<or> \<not> t)"
| "num_le _ _ = False"

abbreviation inum :: "int \<Rightarrow> jsnum" where
  "inum i \<equiv> Num (of_int i)"

fun isFinite :: "jsnum \<Rightarrow> bool" where
  "isFinite (Num x) = True" | "isFinite _ = False"

fun isNaN :: "jsnum \<Rightarrow> bool" where
  "isNaN NaN = True" | "isNaN _ = False"

fun isInteger :: "jsnum \<Rightarrow> bool" where
  "isInteger (Num x) = (of_int \<lfloor>x\<rfloor> = x)" | "isInteger _ = False"

fun num_falsy :: "jsnum \<Rightarrow> bool" where
  \<comment> \<open>\<open>!x\<close>\<close>
  "num_falsy (Num x) = (x = 0)" | "num_falsy NaN = True" | "num_falsy (Infinite _) = False"

fun Math_floor :: "jsnum \<Rightarrow> jsnum" where
  "Math_floor (Num x) = inum \<lfloor>x\<rfloor>" | "Math_floor x = x"

fun Math_round :: "jsnum \<Rightarrow> jsnum" where
  \<comment> \<open>ties go towards plus infinity\<close>
  "Math_round (Num x) = inum \<lfloor>x + 1 / 2\<rfloor>" | "Math_round x = x"

fun Math_min :: "jsnum \<Rightarrow> jsnum \<Rightarrow> jsnum" where
  "Math_min NaN _ = NaN" | "Math_min _ NaN = NaN"
| "Math_min a b = (if num_le a b then a else b)"

fun Math_max :: "jsnum \<Rightarrow> jsnum \<Rightarrow> jsnum" where
  "Math_max NaN _ = NaN" | "Math_max _ NaN = NaN"
| "Math_max a b = (if num_le a b then b else a)"

fun num_mul :: "jsnum \<Rightarrow> jsnum \<Rightarrow> jsnum" where
  "num_mul (Num a) (Num b) = num_of_rat (a * b)"
| "num_mul NaN _ = NaN" | "num_mul _ NaN = NaN"
| "num_mul (Infinite s) (Num b) = (if b = 0 then NaN else Infinite (s \<noteq> (b < 0)))"
| "num_mul (Num a) (Infinite s) = (if a = 0 then NaN else Infinite (s \<noteq> (a < 0)))"
| "num_mul (Infinite s) (Infinite t) = Infinite (s \<noteq> t)"

definition parseInt10 :: "string \<Rightarrow> jsnum" where
  \<comment> \<open>\<open>Number.parseInt(s, 10)\<close>\<close>
  "parseInt10 s = (case parse_decimal s of None \<Rightarrow> NaN | Some i \<Rightarrow> num_of_rat (of_int i))"

lemma parseInt10_int_str [simp]: "\<bar>i\<bar> < 2 ^ 53 \<Longrightarrow> parseInt10 (int_str i) = inum i"
  by (simp add: parseInt10_def)

section \<open>Decimal fractions\<close>

definition decimal_val :: "string \<Rightarrow> string \<Rightarrow> rat" where
  \<comment> \<open>the exact value of \<open>ip.fp\<close>\<close>
  "decimal_val ip fp = of_nat (digits_val (ip @ fp)) / 10 ^ length fp"

definition pow10 :: "int \<Rightarrow> rat" where
  "pow10 e = (if 0 \<le> e then 10 ^ nat e else 1 / 10 ^ nat (- e))"

definition exponent_part :: "string \<Rightarrow> int" where
  \<comment> \<open>the value of an exponent part at the start of the string, \<open>0\<close> when there is none\<close>
  "exponent_part r =
     (if startsWith r ''e'' \<or> startsWith r ''E'' then
        (let t = tl r;
             neg = startsWith t ''-'';
             ds = takeWhile is_digit (if neg \<or> startsWith t ''+'' then tl t else t)
         in if neg then - int (digits_val ds) else int (digits_val ds))
      else 0)"

definition parseFloat :: "string \<Rightarrow> jsnum" where
  \<comment> \<open>the longest prefix, after white space, that is a decimal literal\<close>
  "parseFloat s =
     (let t = trimStart s;
          neg = startsWith t ''-'';
          body = (if neg \<or> startsWith t ''+'' then tl t else t);
          ip = takeWhile is_digit body;
          r1 = dropWhile is_digit body;
          fp = (if startsWith r1 ''.'' then takeWhile is_digit (tl r1) else []);
          r2 = (if startsWith r1 ''.'' then drop (Suc (length fp)) r1 else r1)
      in if startsWith body ''Infinity'' then Infinite neg
         else if ip = [] \<and> fp = [] then NaN
         else (let v = decimal_val ip fp * pow10 (exponent_part r2)
               in num_of_rat (if neg then - v else v)))"

lemma num_le_trans: "num_le a b \<Longrightarrow> num_le b c \<Longrightarrow> num_le a c"
  by (cases a; cases b; cases c) auto

lemma num_less_iff: "num_less a b \<longleftrightarrow> num_le a b \<and> \<not> num_le b a"
  by (cases a; cases b) auto

lemma num_le_total: "\<not> isNaN a \<Longrightarrow> \<not> isNaN b \<Longrightarrow> num_le a b \<or> num_le b a"
  by (cases a; cases b) auto

lemma round_binary64_is_int: "\<exists>m. round_binary64 (of_int n) = of_int m"
proof (cases "n = 0")
  case False
  let ?e = "max (ilog2 \<bar>of_int n :: rat\<bar> - 52) (- 1074)"
  show ?thesis
  proof (cases "0 \<le> ?e")
    case True
    then have "pow2 ?e = of_int (2 ^ nat ?e)" by (simp add: pow2_def)
    then have "round_binary64 (of_int n) =
        of_int (round_half_even (of_int n / ulp (of_int n)) * 2 ^ nat ?e)"
      using False by (simp add: round_binary64_def ulp_def)
    then show ?thesis by blast
  next
    case e: False
    then have u: "pow2 ?e = 1 / 2 ^ nat (- ?e)" by (simp add: pow2_def)
    have "of_int n / pow2 ?e = (of_int (n * 2 ^ nat (- ?e)) :: rat)" by (simp add: u)
    then have "round_half_even (of_int n / pow2 ?e) = n * 2 ^ nat (- ?e)"
      by (simp only: round_half_even_int)
    with False have "round_binary64 (of_int n) = of_int n"
      by (simp add: round_binary64_def ulp_def u)
    then show ?thesis by blast
  qed
qed (auto simp: round_binary64_def intro: exI [of _ 0])

lemma parseInt10_integral:
  assumes "parseInt10 s = Num x"
  shows "\<exists>i. x = of_int i"
proof -
  obtain n where "num_of_rat (of_int n) = Num x"
    using assms by (auto simp: parseInt10_def split: option.splits)
  then have "x = round_binary64 (of_int n)"
    by (simp add: num_of_rat_def Let_def split: if_splits)
  with round_binary64_is_int show ?thesis by metis
qed

end
