(* ===== verification/Js_Json.thy ===== *)
theory Js_Json
  imports Js_Number
begin

text \<open>
  JSON values and \<open>JSON.stringify\<close>, percent-encoding (\<open>encodeURIComponent\<close>) and the
  \<open>application/x-www-form-urlencoded\<close> serialisation of \<open>URLSearchParams\<close>, with the fact the
  API layer relies on: encoding is injective and never emits a delimiter of the URL grammar.
\<close>

datatype json =
    JNull
  | JBool bool
  | JNum jsnum
  | JStr string
  | JArr "json list"
  | JObj "(string \<times> json) list"

definition json_field :: "json \<Rightarrow> string \<Rightarrow> json option" where
  \<comment> \<open>\<open>v[k]\<close> on an object; \<open>None\<close> is \<open>undefined\<close>\<close>
  "json_field j k = (case j of JObj kvs \<Rightarrow> map_of kvs k | _ \<Rightarrow> None)"

section \<open>JSON.stringify\<close>

text \<open>
  The decimal rendering of a number that is not an integer below \<open>2 ^ 53\<close> in absolute value
  (\<open>Number::toString\<close>: the shortest digits that round to the number) is the argument \<open>fs\<close>.
\<close>

definition hex_digit :: "nat \<Rightarrow> char" where
  "hex_digit d = (if d < 10 then char_of (48 + d) else char_of (87 + d))"

definition upper_hex_digit :: "nat \<Rightarrow> char" where
  "upper_hex_digit d = (if d < 10 then char_of (48 + d) else char_of (55 + d))"

definition escape_char :: "char \<Rightarrow> string" where
  "escape_char c =
     (let n = code c in
      if n = 34 then [CHR 0x5C, CHR 0x22]
      else if n = 92 then [CHR 0x5C, CHR 0x5C]
      else if n = 8 then [CHR 0x5C, CHR ''b'']
      else if n = 12 then [CHR 0x5C, CHR ''f'']
      else if n = 10 then [CHR 0x5C, CHR ''n'']
      else if n = 13 then [CHR 0x5C, CHR ''r'']
      else if n = 9 then [CHR 0x5C, CHR ''t'']
      else if n < 32 then [CHR 0x5C, CHR ''u'', CHR ''0'', CHR ''0'', hex_digit (n div 16), hex_digit (n mod 16)]
      else [c])"

definition quote_str :: "string \<Rightarrow> string" where
  "quote_str s = CHR 0x22 # concat (map escape_char s) @ [CHR 0x22]"

fun num_str :: "(rat \<Rightarrow> string) \<Rightarrow> jsnum \<Rightarrow> string" where
  \<comment> \<open>\<open>String(x)\<close>\<close>
  "num_str fs NaN = ''NaN''"
| "num_str fs (Infinite s) = (if s then ''-Infinity'' else ''Infinity'')"
| "num_str fs (Num x) =
     (if of_int \<lfloor>x\<rfloor> = x \<and> \<bar>x\<bar> < 2 ^ 53 then int_str \<lfloor>x\<rfloor> else fs x)"

lemma num_str_inum [simp]: "\<bar>i\<bar> < 2 ^ 53 \<Longrightarrow> num_str fs (inum i) = int_str i"
proof -
  assume "\<bar>i\<bar> < 2 ^ 53"
  then have "(of_int \<bar>i\<bar> :: rat) < of_int (2 ^ 53)" by (simp only: of_int_less_iff)
  then show ?thesis by simp
qed

fun stringify :: "(rat \<Rightarrow> string) \<Rightarrow> json \<Rightarrow> string" where
  "stringify fs JNull = ''null''"
| "stringify fs (JBool b) = (if b then ''true'' else ''false'')"
| "stringify fs (JNum x) = (if isFinite x then num_str fs x else ''null'')"
| "stringify fs (JStr s) = quote_str s"
| "stringify fs (JArr js) = ''['' @ joinWith '','' (map (stringify fs) js) @ '']''"
| "stringify fs (JObj kvs) =
     ''{'' @ joinWith '','' (map (\<lambda>(k, v). quote_str k @ '':'' @ stringify fs v) kvs) @ ''}''"

fun js_typeof_object :: "json \<Rightarrow> bool" where
  \<comment> \<open>\<open>v !== null \&\& typeof v === "object"\<close>\<close>
  "js_typeof_object (JArr _) = True"
| "js_typeof_object (JObj _) = True"
| "js_typeof_object _ = False"

section \<open>Percent-encoding\<close>

definition is_alnum :: "char \<Rightarrow> bool" where
  "is_alnum c = (is_digit c \<or> is_lower_az c \<or> (65 \<le> code c \<and> code c \<le> 90))"

definition uri_unreserved :: "char \<Rightarrow> bool" where
  "uri_unreserved c = (is_alnum c \<or> c \<in> set ''-_.!~*'' \<or> c = CHR 0x27 \<or> c \<in> set ''()'')"

definition form_safe :: "char \<Rightarrow> bool" where
  "form_safe c = (is_alnum c \<or> c \<in> set ''*-._'')"

definition pct :: "nat \<Rightarrow> string" where
  "pct n = [CHR ''%'', upper_hex_digit (n div 16), upper_hex_digit (n mod 16)]"

definition utf8_pct :: "char \<Rightarrow> string" where
  \<comment> \<open>the percent-encoded UTF-8 bytes of a code point below U+0100\<close>
  "utf8_pct c =
     (let n = code c in if n < 128 then pct n else pct (192 + n div 64) @ pct (128 + n mod 64))"

definition encode_char :: "char \<Rightarrow> string" where
  "encode_char c = (if uri_unreserved c then [c] else utf8_pct c)"

definition encodeURIComponent :: "string \<Rightarrow> string" where
  "encodeURIComponent s = concat (map encode_char s)"

definition form_encode_char :: "char \<Rightarrow> string" where
  "form_encode_char c =
     (if form_safe c then [c] else if c = CHR '' '' then ''+'' else utf8_pct c)"

definition form_encode :: "string \<Rightarrow> string" where
  "form_encode s = concat (map form_encode_char s)"

definition search_params :: "(string \<times> string) list \<Rightarrow> string" where
  \<comment> \<open>\<open>URLSearchParams.toString()\<close>\<close>
  "search_params kvs = joinWith ''&'' (map (\<lambda>(k, v). form_encode k @ ''='' @ form_encode v) kvs)"

text \<open>
  A decoder for the encoders above, as the reference the encoding is proved against: \<open>pl\<close>
  selects the treatment of the plus sign in form encoding.
\<close>

definition unhex :: "char \<Rightarrow> nat" where
  "unhex c = (if is_digit c then code c - 48 else if is_lower_az c then code c - 87 else code c - 55)"

fun pct_bytes :: "bool \<Rightarrow> string \<Rightarrow> nat list" where
  "pct_bytes pl [] = []"
| "pct_bytes pl (c # s) =
     (if c = CHR ''%'' then
        (case s of a # b # t \<Rightarrow> (16 * unhex a + unhex b) # pct_bytes pl t | _ \<Rightarrow> [])
      else (if pl \<and> c = CHR ''+'' then 32 else code c) # pct_bytes pl s)"

fun utf8_chars :: "nat list \<Rightarrow> string" where
  "utf8_chars [] = []"
| "utf8_chars (n # ns) =
     (if n < 128 then char_of n # utf8_chars ns
      else (case ns of [] \<Rightarrow> [] | m # ms \<Rightarrow> char_of ((n - 192) * 64 + (m - 128)) # utf8_chars ms))"

definition pct_decode :: "bool \<Rightarrow> string \<Rightarrow> string" where
  "pct_decode pl s = utf8_chars (pct_bytes pl s)"

lemma code_upper_hex_digit:
  "d < 16 \<Longrightarrow> code (upper_hex_digit d) = (if d < 10 then 48 + d else 55 + d)"
  by (simp add: upper_hex_digit_def take_bit_eq_mod)

lemma unhex_upper_hex_digit [simp]: "d < 16 \<Longrightarrow> unhex (upper_hex_digit d) = d"
  by (simp add: unhex_def is_digit_def is_lower_az_def code_upper_hex_digit)

lemma pct_bytes_pct: "n < 256 \<Longrightarrow> pct_bytes pl (pct n @ s) = n # pct_bytes pl s"
  by (simp add: pct_def less_mult_imp_div_less)

lemma code_less_256 [simp]: "code c < 256"
  by (metis of_char_of nat_of_char_less_256)

lemma pct_bytes_utf8:
  "pct_bytes pl (utf8_pct c @ s) =
     (if code c < 128 then code c # pct_bytes pl s
      else (192 + code c div 64) # (128 + code c mod 64) # pct_bytes pl s)"
proof -
  have "192 + code c div 64 < 256" "128 + code c mod 64 < 256"
    using code_less_256 [of c] by arith+
  then show ?thesis by (simp add: utf8_pct_def pct_bytes_pct Let_def)
qed

lemma utf8_chars_utf8:
  "utf8_chars ((192 + code c div 64) # (128 + code c mod 64) # ns) = c # utf8_chars ns"
proof -
  have "code c div 64 * 64 + code c mod 64 = code c" by simp
  then show ?thesis by simp
qed

lemma char_of_32: "char_of (32 :: nat) = CHR '' ''"
proof -
  have "char_of (code (CHR '' '')) = CHR '' ''" by (rule char_of_char)
  then show ?thesis by simp
qed

lemma decode_encode_char:
  assumes "plain = (\<lambda>c. c \<noteq> CHR ''%'' \<and> code c < 128 \<and> \<not> (pl \<and> c = CHR ''+''))"
    and "e = [c] \<and> plain c \<or> e = utf8_pct c \<or> pl \<and> c = CHR '' '' \<and> e = ''+''"
  shows "utf8_chars (pct_bytes pl (e @ s)) = c # utf8_chars (pct_bytes pl s)"
  using assms by (auto simp: pct_bytes_utf8 utf8_chars_utf8 char_of_32)

lemma alnum_code: "is_alnum c \<Longrightarrow> code c < 128 \<and> code c \<noteq> 37 \<and> code c \<noteq> 43"
  by (auto simp: is_alnum_def is_digit_def is_lower_az_def)

lemma unreserved_plain: "uri_unreserved c \<Longrightarrow> c \<noteq> CHR ''%'' \<and> code c < 128"
  using alnum_code [of c] by (auto simp: uri_unreserved_def)

lemma form_safe_plain: "form_safe c \<Longrightarrow> c \<noteq> CHR ''%'' \<and> c \<noteq> CHR ''+'' \<and> code c < 128"
  using alnum_code [of c] by (auto simp: form_safe_def)

lemma pct_decode_encodeURIComponent [simp]: "pct_decode False (encodeURIComponent s) = s"
proof (induction s)
  case (Cons c s)
  have "utf8_chars (pct_bytes False (encode_char c @ encodeURIComponent s)) =
      c # utf8_chars (pct_bytes False (encodeURIComponent s))"
    by (rule decode_encode_char [OF refl])
      (auto simp: encode_char_def dest: unreserved_plain)
  with Cons show ?case by (simp add: pct_decode_def encodeURIComponent_def)
qed (simp add: pct_decode_def encodeURIComponent_def)

lemma pct_decode_form_encode [simp]: "pct_decode True (form_encode s) = s"
proof (induction s)
  case (Cons c s)
  have "utf8_chars (pct_bytes True (form_encode_char c @ form_encode s)) =
      c # utf8_chars (pct_bytes True (form_encode s))"
    by (rule decode_encode_char [OF refl])
      (auto simp: form_encode_char_def dest: form_safe_plain)
  with Cons show ?case by (simp add: pct_decode_def form_encode_def)
qed (simp add: pct_decode_def form_encode_def)

lemma encodeURIComponent_inject [simp]:
  "encodeURIComponent s = encodeURIComponent t \<longleftrightarrow> s = t"
  by (metis pct_decode_encodeURIComponent)

lemma form_encode_inject [simp]: "form_encode s = form_encode t \<longleftrightarrow> s = t"
  by (metis pct_decode_form_encode)

definition uri_delim :: "char \<Rightarrow> bool" where
  "uri_delim c = (c \<in> set ''/?#&=:@'')"

lemma upper_hex_digit_no_delim: "d < 16 \<Longrightarrow> \<not> uri_delim (upper_hex_digit d)"
proof
  assume d: "d < 16" and "uri_delim (upper_hex_digit d)"
  then have "code (upper_hex_digit d) \<in> {47, 63, 35, 38, 61, 58, 64}"
    by (auto simp: uri_delim_def)
  with d show False by (auto simp: code_upper_hex_digit split: if_splits)
qed

lemma pct_no_delim: "n < 256 \<Longrightarrow> c \<in> set (pct n) \<Longrightarrow> \<not> uri_delim c"
  using upper_hex_digit_no_delim [of "n div 16"] upper_hex_digit_no_delim [of "n mod 16"]
  by (auto simp: pct_def uri_delim_def less_mult_imp_div_less)

lemma utf8_pct_no_delim: "c \<in> set (utf8_pct d) \<Longrightarrow> \<not> uri_delim c"
proof -
  have "192 + code d div 64 < 256" "128 + code d mod 64 < 256"
    using code_less_256 [of d] by arith+
  then have "c \<in> set (pct (192 + code d div 64)) \<Longrightarrow> \<not> uri_delim c"
    "c \<in> set (pct (128 + code d mod 64)) \<Longrightarrow> \<not> uri_delim c"
    "c \<in> set (pct (code d)) \<Longrightarrow> \<not> uri_delim c"
    using pct_no_delim code_less_256 by blast+
  then show "c \<in> set (utf8_pct d) \<Longrightarrow> \<not> uri_delim c"
    by (auto simp: utf8_pct_def Let_def split: if_splits)
qed

lemma alnum_no_delim: "is_alnum c \<Longrightarrow> \<not> uri_delim c"
  by (auto simp: is_alnum_def is_digit_def is_lower_az_def uri_delim_def)

lemma encodeURIComponent_no_delim:
  "c \<in> set (encodeURIComponent s) \<Longrightarrow> \<not> uri_delim c"
  by (auto simp: encodeURIComponent_def encode_char_def uri_unreserved_def uri_delim_def
      dest: utf8_pct_no_delim alnum_no_delim split: if_splits)

lemma form_encode_no_delim: "c \<in> set (form_encode s) \<Longrightarrow> \<not> uri_delim c"
  by (auto simp: form_encode_def form_encode_char_def form_safe_def uri_delim_def
      dest: utf8_pct_no_delim alnum_no_delim split: if_splits)

text \<open>Reading a query string back: the reference for \<open>URLSearchParams.toString()\<close>.\<close>

definition parse_pair :: "string \<Rightarrow> string \<times> string" where
  "parse_pair s =
     (let k = takeWhile (\<lambda>c. c \<noteq> CHR ''='') s
      in (pct_decode True k, pct_decode True (drop (Suc (length k)) s)))"

definition parse_search :: "string \<Rightarrow> (string \<times> string) list" where
  "parse_search s = (if s = [] then [] else map parse_pair (splitOn (CHR ''&'') s))"

lemma parse_pair_encode: "parse_pair (form_encode k @ ''='' @ form_encode v) = (k, v)"
proof -
  have "CHR ''='' \<notin> set (form_encode k)"
    using form_encode_no_delim [of "CHR ''=''" k] by (auto simp: uri_delim_def)
  then have "takeWhile (\<lambda>c. c \<noteq> CHR ''='') (form_encode k @ ''='' @ form_encode v) = form_encode k"
    by (auto simp: takeWhile_append takeWhile_eq_all_conv)
  then show ?thesis by (simp add: parse_pair_def)
qed

lemma splitOn_joinWith:
  "ws \<noteq> [] \<Longrightarrow> \<forall>w \<in> set ws. d \<notin> set w \<Longrightarrow> splitOn d (joinWith [d] ws) = ws"
  by (induction "[d]" ws rule: joinWith.induct) (auto simp: splitOn_single splitOn_append)

lemma parse_search_params: "parse_search (search_params kvs) = kvs"
proof (cases "kvs = []")
  case False
  let ?ws = "map (\<lambda>(k, v). form_encode k @ ''='' @ form_encode v) kvs"
  have no_amp: "\<forall>w \<in> set ?ws. CHR ''&'' \<notin> set w"
    using form_encode_no_delim [of "CHR ''&''"] by (auto simp: uri_delim_def)
  have ne: "search_params kvs \<noteq> []"
    using False by (cases kvs rule: remdups_adj.cases) (auto simp: search_params_def)
  have "splitOn (CHR ''&'') (search_params kvs) = ?ws"
    unfolding search_params_def using False no_amp by (intro splitOn_joinWith) auto
  then have "parse_search (search_params kvs) = map parse_pair ?ws"
    using ne by (simp add: parse_search_def)
  also have "\<dots> = kvs"
    unfolding map_map comp_def by (rule map_idI) (auto simp only: split: prod.split simp: parse_pair_encode)
  finally show ?thesis .
qed (simp add: parse_search_def search_params_def)

section \<open>Reading values of unknown type\<close>

fun json_truthy :: "json \<Rightarrow> bool" where
  "json_truthy JNull = False"
| "json_truthy (JBool b) = b"
| "json_truthy (JNum x) = (\<not> num_falsy x)"
| "json_truthy (JStr s) = (s \<noteq> [])"
| "json_truthy (JArr _) = True"
| "json_truthy (JObj _) = True"

definition opt_truthy :: "json option \<Rightarrow> bool" where
  \<comment> \<open>\<open>undefined\<close> is \<open>None\<close>\<close>
  "opt_truthy v = (case v of None \<Rightarrow> False | Some j \<Rightarrow> json_truthy j)"

lemma opt_truthy_simps [simp]: "opt_truthy None = False" "opt_truthy (Some j) = json_truthy j"
  by (simp_all add: opt_truthy_def)

fun js_nullish :: "json option \<Rightarrow> bool" where
  "js_nullish None = True"
| "js_nullish (Some JNull) = True"
| "js_nullish _ = False"

fun opt_field :: "json option \<Rightarrow> string \<Rightarrow> json option" where
  \<comment> \<open>\<open>v?.k\<close>\<close>
  "opt_field None k = None"
| "opt_field (Some j) k = json_field j k"

fun js_length :: "json option \<Rightarrow> nat option" where
  \<comment> \<open>\<open>v?.length\<close>\<close>
  "js_length (Some (JArr xs)) = Some (length xs)"
| "js_length (Some (JStr s)) = Some (length s)"
| "js_length _ = None"

fun str_or_empty :: "json option \<Rightarrow> string" where
  \<comment> \<open>\<open>v ?? ""\<close> for a string-typed value\<close>
  "str_or_empty (Some (JStr s)) = s"
| "str_or_empty _ = []"

fun str_or_default :: "string \<Rightarrow> json option \<Rightarrow> string" where
  \<comment> \<open>\<open>v ?? d\<close> for a string-typed value\<close>
  "str_or_default d (Some (JStr s)) = s"
| "str_or_default d _ = d"

fun num_or :: "jsnum \<Rightarrow> json option \<Rightarrow> jsnum" where
  \<comment> \<open>\<open>v ?? d\<close> for a number-typed value\<close>
  "num_or d (Some (JNum x)) = x"
| "num_or d _ = d"

fun arr_or_empty :: "json option \<Rightarrow> json list" where
  \<comment> \<open>\<open>v ?? []\<close> for an array-typed value\<close>
  "arr_or_empty (Some (JArr xs)) = xs"
| "arr_or_empty _ = []"

end
