(* ===== verification/Rate_Limit.thy ===== *)
theory Rate_Limit
  imports Js_Json
begin

text \<open>
  The fixed-window rate limiter in front of the copilot runtime
  (\<^verbatim>\<open>ui/src/lib/copilot/rate-limit.ts\<close>): a per-key budget for fairness and a global budget that
  bounds the spend. Times are milliseconds (\<open>Date.now()\<close>), counters are integers. The
  \<open>Map\<close> of buckets is an association list; the buckets that the code mutates in place are
  written back to it.
\<close>

type_synonym env = "string \<Rightarrow> string option"
  \<comment> \<open>\<open>process.env\<close>\<close>

definition WINDOW_MS :: int where "WINDOW_MS = 60000"
definition DEFAULT_PER_KEY_LIMIT :: int where "DEFAULT_PER_KEY_LIMIT = 60"
definition DEFAULT_GLOBAL_LIMIT :: int where "DEFAULT_GLOBAL_LIMIT = 300"
definition MAX_TRACKED_KEYS :: nat where "MAX_TRACKED_KEYS = 10000"

definition readLimit :: "env \<Rightarrow> string \<Rightarrow> int \<Rightarrow> jsnum" where
  "readLimit e name fallback =
     (case e name of
        None \<Rightarrow> inum fallback
      | Some raw \<Rightarrow>
          (if raw = [] then inum fallback
           else (let parsed = parseInt10 raw
                 in if isFinite parsed \<and> num_less (Num 0) parsed then parsed else inum fallback)))"

record rate_limits =
  perKeyPerMinute :: jsnum
  globalPerMinute :: jsnum

definition copilotRateLimits :: "env \<Rightarrow> rate_limits" where
  "copilotRateLimits e =
     \<lparr>perKeyPerMinute = readLimit e ''COPILOT_RATE_LIMIT_PER_MINUTE'' DEFAULT_PER_KEY_LIMIT,
      globalPerMinute = readLimit e ''COPILOT_GLOBAL_RATE_LIMIT_PER_MINUTE'' DEFAULT_GLOBAL_LIMIT\<rparr>"

record bucket =
  count :: int
  resetAt :: int

record limiter =
  perKey :: "(string, bucket) jsmap"
  globalBucket :: bucket

definition zero_bucket :: bucket where
  "zero_bucket = \<lparr>count = 0, resetAt = 0\<rparr>"

definition resetCopilotRateLimit :: limiter where
  "resetCopilotRateLimit = \<lparr>perKey = [], globalBucket = zero_bucket\<rparr>"

definition copilotRateLimitKey :: "string option \<Rightarrow> string option \<Rightarrow> string" where
  \<comment> \<open>from the \<open>x-forwarded-for\<close> and \<open>x-real-ip\<close> headers\<close>
  "copilotRateLimitKey forwarded realIpHeader =
     (let first = trim (hd (splitOn (CHR '','') (nullish forwarded []))) in
      if truthy forwarded \<and> first \<noteq> [] then first
      else str_or (trim (nullish realIpHeader [])) ''unattributed'')"

definition retryAfter :: "bucket \<Rightarrow> int \<Rightarrow> int" where
  "retryAfter b now = max 1 (- ((now - resetAt b) div 1000))"

definition hasRoom :: "bucket \<Rightarrow> jsnum \<Rightarrow> int \<Rightarrow> bool \<times> bucket" where
  \<comment> \<open>rolls the window over in place when it has expired\<close>
  "hasRoom b limit now =
     (let b' = (if now \<ge> resetAt b then \<lparr>count = 0, resetAt = now + WINDOW_MS\<rparr> else b)
      in (num_less (inum (count b')) limit, b'))"

definition find_bucket :: "string \<Rightarrow> int \<Rightarrow> (string, bucket) jsmap \<Rightarrow> bucket option \<times> (string, bucket) jsmap" where
  \<comment> \<open>the bucket of the key, created on demand; expired entries are pruned when the map is full\<close>
  "find_bucket key now m =
     (case obj_get m key of
        Some b \<Rightarrow> (Some b, m)
      | None \<Rightarrow>
          (let m1 = (if length m \<ge> MAX_TRACKED_KEYS
                     then filter (\<lambda>(k, b). \<not> now \<ge> resetAt b) m else m)
           in if length m1 < MAX_TRACKED_KEYS
              then (Some zero_bucket, obj_set key zero_bucket m1) else (None, m1)))"

definition charge :: "bucket \<Rightarrow> bucket" where
  "charge b = b\<lparr>count := count b + 1\<rparr>"

definition check_budgets ::
  "rate_limits \<Rightarrow> string \<Rightarrow> int \<Rightarrow> limiter \<Rightarrow> int option \<times> limiter" where
  \<comment> \<open>the body of \<open>checkCopilotRateLimit\<close>, for given limits; \<open>None\<close> admits the request\<close>
  "check_budgets lims key now st =
     (let (bucket, m) = find_bucket key now (perKey st);
          (gRoom, g) = hasRoom (globalBucket st) (globalPerMinute lims) now
      in if \<not> gRoom then (Some (retryAfter g now), \<lparr>perKey = m, globalBucket = g\<rparr>)
         else (case bucket of
                 None \<Rightarrow> (None, \<lparr>perKey = m, globalBucket = charge g\<rparr>)
               | Some b0 \<Rightarrow>
                   (let (kRoom, b) = hasRoom b0 (perKeyPerMinute lims) now
                    in if \<not> kRoom
                       then (Some (retryAfter b now), \<lparr>perKey = obj_set key b m, globalBucket = g\<rparr>)
                       else (None, \<lparr>perKey = obj_set key (charge b) m, globalBucket = charge g\<rparr>))))"

definition checkCopilotRateLimit ::
  "env \<Rightarrow> string \<Rightarrow> int \<Rightarrow> limiter \<Rightarrow> int option \<times> limiter" where
  "checkCopilotRateLimit e key now st = check_budgets (copilotRateLimits e) key now st"

section \<open>Limits are never disabled\<close>

lemma readLimit_positive:
  assumes "0 < fallback"
  shows "\<exists>L > 0. readLimit e name fallback = inum L"
proof -
  have fb: "\<exists>L > 0. inum fallback = inum L" using assms by blast
  show ?thesis
  proof (cases "\<exists>raw. e name = Some raw \<and> raw \<noteq> [] \<and> isFinite (parseInt10 raw) \<and>
      num_less (Num 0) (parseInt10 raw)")
    case True
    then obtain raw where raw: "e name = Some raw" "raw \<noteq> []" "isFinite (parseInt10 raw)"
        "num_less (Num 0) (parseInt10 raw)" by blast
    then obtain x where x: "parseInt10 raw = Num x" by (cases "parseInt10 raw") auto
    then obtain i where "x = of_int i" using parseInt10_integral by blast
    with raw x show ?thesis by (auto simp: readLimit_def intro!: exI [of _ i])
  next
    case False
    then have "readLimit e name fallback = inum fallback"
      by (auto simp: readLimit_def Let_def split: option.splits)
    with fb show ?thesis by simp
  qed
qed

section \<open>The bucket map\<close>

lemma find_bucket_wf:
  "wf_obj m \<Longrightarrow> find_bucket key now m = (b, m') \<Longrightarrow> wf_obj m'"
  by (auto simp: find_bucket_def Let_def distinct_map_filter split: option.splits if_splits)

lemma find_bucket_size:
  assumes "length m \<le> MAX_TRACKED_KEYS" "find_bucket key now m = (b, m')"
  shows "length m' \<le> MAX_TRACKED_KEYS"
proof -
  have "length (filter (\<lambda>(k, b). \<not> now \<ge> resetAt b) m) \<le> MAX_TRACKED_KEYS"
    using assms(1) length_filter_le order_trans by blast
  with assms show ?thesis
    unfolding find_bucket_def Let_def
    by (auto simp: length_obj_set split: option.splits if_splits simp del: not_less not_le)
qed

lemma find_bucket_key:
  assumes "find_bucket key now m = (Some b, m')"
  shows "key \<in> set (obj_keys m')"
proof -
  have "key \<in> set (obj_keys (obj_set key zero_bucket m1))" for m1
    by (simp only: keys_obj_set) simp
  with assms show ?thesis
    by (auto simp: find_bucket_def Let_def split: option.splits if_splits
        dest!: map_of_SomeD intro: rev_image_eqI)
qed

definition limiter_inv :: "limiter \<Rightarrow> bool" where
  "limiter_inv st \<longleftrightarrow> wf_obj (perKey st) \<and> length (perKey st) \<le> MAX_TRACKED_KEYS"

lemma limiter_inv_check:
  assumes "limiter_inv st" "check_budgets lims key now st = (r, st')"
  shows "limiter_inv st'"
proof -
  obtain b m where fb: "find_bucket key now (perKey st) = (b, m)" by fastforce
  then have m: "wf_obj m" "length m \<le> MAX_TRACKED_KEYS"
    using assms(1) by (auto simp: limiter_inv_def dest: find_bucket_wf find_bucket_size)
  show ?thesis
  proof (cases b)
    case None
    with assms(2) fb m show ?thesis
      by (auto simp: check_budgets_def limiter_inv_def Let_def split: prod.splits if_splits)
  next
    case (Some b0)
    with fb have "length (obj_set key b' m) = length m" for b'
      using find_bucket_key [of key now "perKey st" b0 m] by (simp only: length_obj_set if_True)
    with Some assms(2) fb m show ?thesis
      by (auto simp: check_budgets_def limiter_inv_def Let_def split: prod.splits if_splits)
  qed
qed

section \<open>The global budget\<close>

text \<open>What one check does to the global bucket, whatever the per-key map holds.\<close>

definition current_global :: "limiter \<Rightarrow> int \<Rightarrow> bucket" where
  "current_global st now =
     (if now \<ge> resetAt (globalBucket st) then \<lparr>count = 0, resetAt = now + WINDOW_MS\<rparr>
      else globalBucket st)"

lemma check_global:
  assumes "check_budgets lims key now st = (r, st')" "globalPerMinute lims = inum G"
  shows "if r = None then count (current_global st now) < G \<and>
                           globalBucket st' = charge (current_global st now)
         else globalBucket st' = current_global st now"
  using assms
  by (auto simp: check_budgets_def hasRoom_def current_global_def Let_def
      split: prod.splits option.splits if_splits)

fun run_limiter :: "rate_limits \<Rightarrow> limiter \<Rightarrow> (string \<times> int) list \<Rightarrow> int option list \<times> limiter" where
  \<comment> \<open>a sequence of checks, each for a key at a time\<close>
  "run_limiter lims st [] = ([], st)"
| "run_limiter lims st ((key, now) # cs) =
     (let (r, st1) = check_budgets lims key now st; (rs, st2) = run_limiter lims st1 cs
      in (r # rs, st2))"

definition admitted :: "int option list \<Rightarrow> int" where
  "admitted rs = int (length (filter (\<lambda>r. r = None) rs))"

lemma admitted_simps [simp]:
  "admitted [] = 0" "admitted (None # rs) = 1 + admitted rs" "admitted (Some x # rs) = admitted rs"
  by (simp_all add: admitted_def)

lemma admitted_nonneg: "0 \<le> admitted rs"
  by (simp add: admitted_def)

lemma run_limiter_Cons:
  assumes "run_limiter lims st ((key, now) # cs) = (rs, st'')"
  obtains r st1 rs' where "check_budgets lims key now st = (r, st1)"
    "run_limiter lims st1 cs = (rs', st'')" "rs = r # rs'"
  using assms by (auto simp: Let_def split: prod.splits)

lemma admitted_one_window:
  assumes "globalPerMinute lims = inum G" "count (globalBucket st) \<le> G"
    and "\<forall>(k, t) \<in> set cs. t < resetAt (globalBucket st)"
    and "run_limiter lims st cs = (rs, st')"
  shows "admitted rs \<le> G - count (globalBucket st)"
  using assms(2-4)
proof (induction cs arbitrary: st rs)
  case (Cons c cs)
  obtain key now where c: "c = (key, now)" by (cases c)
  with Cons.prems(3) obtain r st1 rs' where st1: "check_budgets lims key now st = (r, st1)"
    and rest: "run_limiter lims st1 cs = (rs', st')" and rs: "rs = r # rs'"
    using run_limiter_Cons by metis
  have now: "now < resetAt (globalBucket st)" using Cons.prems(2) c by auto
  show ?case
  proof (cases r)
    case None
    with check_global [OF st1 assms(1)] now have
      "count (globalBucket st) < G" "globalBucket st1 = charge (globalBucket st)" by (simp_all add: current_global_def)
    with Cons.IH [OF _ _ rest] Cons.prems(2) rs None show ?thesis by (auto simp: charge_def)
  next
    case (Some x)
    with check_global [OF st1 assms(1)] now have "globalBucket st1 = globalBucket st"
        by (simp add: current_global_def)
    with Cons.IH [OF _ _ rest] Cons.prems rs Some show ?thesis by auto
  qed
qed simp

lemma admitted_two_windows:
  assumes "globalPerMinute lims = inum G" "0 < G" "count (globalBucket st) \<le> G"
    and "\<forall>(k, t) \<in> set cs. t0 \<le> t \<and> t < t0 + WINDOW_MS"
    and "run_limiter lims st cs = (rs, st')"
  shows "admitted rs \<le> (G - count (globalBucket st)) + G"
  using assms(3-5)
proof (induction cs arbitrary: st rs)
  case (Cons c cs)
  obtain key now where c: "c = (key, now)" by (cases c)
  with Cons.prems(3) obtain r st1 rs' where st1: "check_budgets lims key now st = (r, st1)"
    and rest: "run_limiter lims st1 cs = (rs', st')" and rs: "rs = r # rs'"
    using run_limiter_Cons by metis
  note g = check_global [OF st1 assms(1)]
  show ?case
  proof (cases "now < resetAt (globalBucket st)")
    case True
    show ?thesis
    proof (cases r)
      case None
      with g True have "count (globalBucket st) < G" "globalBucket st1 = charge (globalBucket st)"
        by (simp_all add: current_global_def)
      with Cons.IH [OF _ _ rest] Cons.prems(2) rs None show ?thesis by (auto simp: charge_def)
    next
      case (Some x)
      with g True have "globalBucket st1 = globalBucket st"
        by (simp add: current_global_def)
      with Cons.IH [OF _ _ rest] Cons.prems rs Some show ?thesis by auto
    qed
  next
    case False
    have "t0 \<le> now" using Cons.prems(2) c by auto
    then have later: "\<forall>(k, t) \<in> set cs. t < now + WINDOW_MS" using Cons.prems(2) by force
    have "admitted rs \<le> G"
    proof (cases r)
      case None
      with g False have g1: "globalBucket st1 = \<lparr>count = 1, resetAt = now + WINDOW_MS\<rparr>"
        by (simp add: charge_def current_global_def)
      then have "admitted rs' \<le> G - 1"
        using admitted_one_window [OF assms(1) _ _ rest] later assms(2) by simp
      with rs None show ?thesis by simp
    next
      case (Some x)
      with g False have "globalBucket st1 = \<lparr>count = 0, resetAt = now + WINDOW_MS\<rparr>"
        by (simp add: current_global_def)
      then have "admitted rs' \<le> G"
        using admitted_one_window [OF assms(1) _ _ rest] later assms(2) by simp
      with rs Some show ?thesis by simp
    qed
    with Cons.prems(1) show ?thesis by simp
  qed
qed (use assms(2) in simp)

section \<open>Properties\<close>

lemma hasRoom_charged:
  assumes "hasRoom b limit now = (True, b')"
  shows "num_less (inum (count b')) limit \<and> now < resetAt b'"
  using assms by (auto simp: hasRoom_def Let_def WINDOW_MS_def split: if_splits)

lemma hasRoom_refused:
  assumes "hasRoom b limit now = (False, b')" "num_less (Num 0) limit"
  shows "now < resetAt b \<and> b' = b"
  using assms by (auto simp: hasRoom_def Let_def split: if_splits)

lemma retryAfter_reaches: "1 \<le> retryAfter b now \<and> resetAt b \<le> now + 1000 * retryAfter b now"
proof -
  let ?d = "(now - resetAt b) div 1000"
  have "?d * 1000 + (now - resetAt b) mod 1000 = now - resetAt b" by (rule div_mult_mod_eq)
  moreover have "0 \<le> (now - resetAt b) mod 1000" by simp
  ultimately have "resetAt b \<le> now + 1000 * (- ?d)" by linarith
  then show ?thesis unfolding retryAfter_def by (simp add: max_def)
qed

lemma obj_get_filter:
  assumes "wf_obj m" "obj_get (filter P m) k = Some v"
  shows "obj_get m k = Some v"
proof -
  have "(k, v) \<in> set m" using map_of_SomeD [OF assms(2)] by simp
  with assms(1) show ?thesis by simp
qed

lemma find_bucket_counts:
  assumes "wf_obj m" "find_bucket key now m = (b, m')" "obj_get m' k = Some b'"
  shows "(\<exists>b. obj_get m k = Some b \<and> count b' = count b) \<or> count b' = 0"
proof -
  have "obj_get m' k = Some zero_bucket \<or> obj_get m k = Some b'"
    using assms obj_get_filter [OF assms(1), of "\<lambda>(k, b). \<not> now \<ge> resetAt b" k b'] unfolding find_bucket_def Let_def
    by (auto split: option.splits if_splits simp del: map_of_eq_Some_iff)
  with assms(3) show ?thesis by (auto simp: zero_bucket_def simp del: map_of_eq_Some_iff)
qed

lemma find_bucket_get: "find_bucket key now m = (Some b, m') \<Longrightarrow> obj_get m' key = Some b"
  by (auto simp: find_bucket_def Let_def split: option.splits if_splits)

lemma limits_positive:
  "num_less (Num 0) (perKeyPerMinute (copilotRateLimits e))"
  "num_less (Num 0) (globalPerMinute (copilotRateLimits e))"
proof -
  have "0 < fb \<Longrightarrow> num_less (Num 0) (readLimit e name fb)" for name fb
    using readLimit_positive [of fb e name] by auto
  then show "num_less (Num 0) (perKeyPerMinute (copilotRateLimits e))"
    "num_less (Num 0) (globalPerMinute (copilotRateLimits e))"
    by (simp_all add: copilotRateLimits_def DEFAULT_GLOBAL_LIMIT_def DEFAULT_PER_KEY_LIMIT_def)
qed

text \<open>The two ways a check refuses, with the state each leaves.\<close>

lemma refusal_cases:
  assumes "check_budgets lims key now st = (Some secs, st')"
    and "num_less (Num 0) (perKeyPerMinute lims)" "num_less (Num 0) (globalPerMinute lims)"
    and "find_bucket key now (perKey st) = (b, m)"
  obtains (global) "secs = retryAfter (globalBucket st) now" "now < resetAt (globalBucket st)"
      "globalBucket st' = globalBucket st" "perKey st' = m"
    | (key) b0 where "secs = retryAfter b0 now" "now < resetAt b0" "b = Some b0"
      "globalBucket st' = current_global st now" "perKey st' = obj_set key b0 m"
  using assms
  by (auto simp: check_budgets_def Let_def current_global_def hasRoom_def
      split: prod.splits option.splits if_splits) (simp_all add: linorder_not_le)

fun run_requests :: "env \<Rightarrow> limiter \<Rightarrow> (string \<times> int) list \<Rightarrow> int option list \<times> limiter" where
  \<comment> \<open>a sequence of checks, each for a key at a time\<close>
  "run_requests e st [] = ([], st)"
| "run_requests e st ((key, now) # cs) =
     (let (r, st1) = checkCopilotRateLimit e key now st; (rs, st2) = run_requests e st1 cs
      in (r # rs, st2))"

lemma run_requests_eq: "run_requests e st cs = run_limiter (copilotRateLimits e) st cs"
  by (induction cs arbitrary: st) (auto simp: checkCopilotRateLimit_def split: prod.splits)

lemma run_requests_inv:
  "limiter_inv st \<Longrightarrow> run_requests e st cs = (rs, st') \<Longrightarrow> limiter_inv st'"
proof (induction cs arbitrary: st rs)
  case (Cons c cs)
  then show ?case
    by (cases c) (auto simp: checkCopilotRateLimit_def split: prod.splits
        intro: Cons.IH limiter_inv_check)
qed simp

lemma run_limiter_count:
  assumes "globalPerMinute lims = inum G" "0 \<le> count (globalBucket st)" "0 < G"
    "count (globalBucket st) \<le> G" "run_limiter lims st cs = (rs, st')"
  shows "0 \<le> count (globalBucket st') \<and> count (globalBucket st') \<le> G"
  using assms(2-5)
proof (induction cs arbitrary: st rs)
  case (Cons c cs)
  obtain key now where c: "c = (key, now)" by (cases c)
  with Cons.prems(4) obtain r st1 rs' where st1: "check_budgets lims key now st = (r, st1)"
    and rest: "run_limiter lims st1 cs = (rs', st')" and rs: "rs = r # rs'"
    using run_limiter_Cons by metis
  have "0 \<le> count (globalBucket st1) \<and> count (globalBucket st1) \<le> G"
    using check_global [OF st1 assms(1)] Cons.prems(1-3)
    by (auto simp: current_global_def charge_def split: if_splits)
  with Cons.IH [OF _ _ _ rest] Cons.prems(2) show ?case by blast
qed simp

lemma spend_bound:
  assumes "run_requests e resetCopilotRateLimit history = (rs0, st)"
    and "\<forall>(k, t) \<in> set cs. t0 \<le> t \<and> t < t0 + WINDOW_MS"
    and "run_requests e st cs = (rs, st')"
  shows "\<exists>G > 0. globalPerMinute (copilotRateLimits e) = inum G \<and> admitted rs \<le> 2 * G"
proof -
  obtain G where G: "0 < G" "globalPerMinute (copilotRateLimits e) = inum G"
    using readLimit_positive [of DEFAULT_GLOBAL_LIMIT e]
    by (auto simp: copilotRateLimits_def DEFAULT_GLOBAL_LIMIT_def)
  have st: "run_limiter (copilotRateLimits e) resetCopilotRateLimit history = (rs0, st)"
    and cs: "run_limiter (copilotRateLimits e) st cs = (rs, st')"
    using assms(1,3) by (simp_all only: run_requests_eq)
  have "0 \<le> count (globalBucket st) \<and> count (globalBucket st) \<le> G"
    by (rule run_limiter_count [OF G(2) _ G(1) _ st])
      (use G(1) in \<open>simp_all add: resetCopilotRateLimit_def zero_bucket_def\<close>)
  with admitted_two_windows [OF G(2,1) _ assms(2) cs] have "admitted rs \<le> 2 * G" by linarith
  with G show ?thesis by blast
qed

text \<open>
  C2: the cost ceiling. Start from a fresh limiter and let any history of requests happen; then in
  any stretch of one minute (\<open>WINDOW_MS\<close>), whatever keys the callers present, at most twice the
  configured global budget is admitted, and the configured budget is a positive number whatever
  the environment variable holds.
\<close>

theorem global_budget_bounds_spend:
  assumes "run_requests e resetCopilotRateLimit history = (rs0, st)"
    and "\<forall>(k, t) \<in> set cs. t0 \<le> t \<and> t < t0 + WINDOW_MS"
    and "run_requests e st cs = (rs, st')"
  shows "\<exists>G > 0. globalPerMinute (copilotRateLimits e) = inum G \<and> admitted rs \<le> 2 * G"
  by (rule spend_bound [OF assms])

theorem global_budget_bounds_spend_witness:
  "admitted (fst (run_requests (\<lambda>_. None) resetCopilotRateLimit [(''a'', 1000), (''b'', 1001)])) \<le> 600"
  using global_budget_bounds_spend [of "\<lambda>_. None" "[]" "[]" resetCopilotRateLimit
      "[(''a'', 1000), (''b'', 1001)]" 0
      "fst (run_requests (\<lambda>_. None) resetCopilotRateLimit [(''a'', 1000), (''b'', 1001)])"
      "snd (run_requests (\<lambda>_. None) resetCopilotRateLimit [(''a'', 1000), (''b'', 1001)])"]
  by (auto simp: WINDOW_MS_def copilotRateLimits_def readLimit_def DEFAULT_GLOBAL_LIMIT_def)

text \<open>
  the map of per-key buckets stays a map with at most \<open>MAX_TRACKED_KEYS\<close> entries, whatever
  sequence of (attacker-chosen) keys is presented: no header value can make it grow without bound.
\<close>

theorem tracked_keys_bounded:
  assumes "run_requests e resetCopilotRateLimit cs = (rs, st)"
  shows "length (perKey st) \<le> MAX_TRACKED_KEYS \<and> distinct (obj_keys (perKey st))"
  using run_requests_inv [OF _ assms]
  by (simp add: limiter_inv_def resetCopilotRateLimit_def)

theorem tracked_keys_bounded_witness:
  "length (perKey (snd (run_requests (\<lambda>_. None) resetCopilotRateLimit [(''a'', 1000)]))) \<le> MAX_TRACKED_KEYS"
  using tracked_keys_bounded [of "\<lambda>_. None" "[(''a'', 1000)]"
      "fst (run_requests (\<lambda>_. None) resetCopilotRateLimit [(''a'', 1000)])"
      "snd (run_requests (\<lambda>_. None) resetCopilotRateLimit [(''a'', 1000)])"]
  by simp

text \<open>
  A refused request is charged to nobody. The refusal names a delay of at least one second;
  the global counter is not incremented; every per-key counter is unchanged or reset; and waiting
  for the named delay outlasts the window that caused the refusal.
\<close>

theorem refusal_is_not_charged:
  assumes "run_requests e resetCopilotRateLimit history = (rs, st)"
    and "checkCopilotRateLimit e key now st = (Some secs, st')"
  shows "1 \<le> secs \<and>
    (count (globalBucket st') = count (globalBucket st) \<or> count (globalBucket st') = 0) \<and>
    (\<forall>k b'. obj_get (perKey st') k = Some b' \<longrightarrow>
       (\<exists>b. obj_get (perKey st) k = Some b \<and> count b' = count b) \<or> count b' = 0) \<and>
    ((now < resetAt (globalBucket st') \<and> resetAt (globalBucket st') \<le> now + 1000 * secs) \<or>
     (\<exists>b. obj_get (perKey st') key = Some b \<and> now < resetAt b \<and> resetAt b \<le> now + 1000 * secs))"
proof -
  have wf: "wf_obj (perKey st)"
    using run_requests_inv [OF _ assms(1)] by (simp add: limiter_inv_def resetCopilotRateLimit_def)
  obtain b m where fb: "find_bucket key now (perKey st) = (b, m)" by fastforce
  note counts = find_bucket_counts [OF wf fb]
  from assms(2) [unfolded checkCopilotRateLimit_def] limits_positive fb show ?thesis
  proof (cases rule: refusal_cases)
    case global
    with counts retryAfter_reaches [of "globalBucket st" now] show ?thesis by auto
  next
    case (key b0)
    then have "obj_get m key = Some b0" using fb find_bucket_get by blast
    with key counts retryAfter_reaches [of b0 now] show ?thesis
      by (auto simp: current_global_def)
  qed
qed

theorem refusal_is_not_charged_witness:
  "1 \<le> the (fst (checkCopilotRateLimit (\<lambda>_. Some ''1'') ''a'' 1001
      (snd (run_requests (\<lambda>_. Some ''1'') resetCopilotRateLimit [(''a'', 1000)]))))"
proof -
  let ?st = "snd (run_requests (\<lambda>_. Some ''1'') resetCopilotRateLimit [(''a'', 1000)])"
  let ?c = "checkCopilotRateLimit (\<lambda>_. Some ''1'') ''a'' 1001 ?st"
  have one: "parseInt10 ''1'' = Num 1"
  proof -
    have "parse_decimal ''1'' = Some 1" by code_simp
    then show ?thesis using num_of_int [of 1] by (simp add: parseInt10_def)
  qed
  have "copilotRateLimits (\<lambda>_. Some ''1'') = \<lparr>perKeyPerMinute = Num 1, globalPerMinute = Num 1\<rparr>"
    by (simp add: copilotRateLimits_def readLimit_def one)
  then have c: "fst ?c = Some 60"
    by (simp add: checkCopilotRateLimit_def check_budgets_def find_bucket_def hasRoom_def charge_def
        resetCopilotRateLimit_def zero_bucket_def MAX_TRACKED_KEYS_def WINDOW_MS_def retryAfter_def)
  have "?c = (Some 60, snd ?c)" using surjective_pairing [of ?c] unfolding c .
  from refusal_is_not_charged [OF surjective_pairing this] show ?thesis unfolding c by simp
qed

end
