(* ===== verification/Copilot_Gate.thy ===== *)
theory Copilot_Gate
  imports Rate_Limit
begin

text \<open>
  The gate in front of the copilot runtime: the server-side configuration
  (\<^verbatim>\<open>ui/src/lib/copilot/server-config.ts\<close>), the verification of the bearer token
  (\<^verbatim>\<open>ui/src/lib/copilot/verify-jwt.ts\<close>) and the \<open>onRequest\<close> hook and the model choice of
  \<^verbatim>\<open>ui/src/app/copilotkit/[[...slug]]/route.ts\<close>.

  The OIDC metadata fetch, \<open>createRemoteJWKSet\<close> (with \<open>new URL\<close>) and \<open>jwtVerify\<close> belong to the
  network and to the \<open>jose\<close> package; they are the fields of a record \<open>idp\<close>, an argument of the
  definitions. A thrown \<open>Response\<close> is a value of \<open>http_reject\<close>.
\<close>

section \<open>Configuration\<close>

datatype copilot_provider = Anthropic | Openai

record copilot_config =
  enabled :: bool
  provider :: "copilot_provider option"
  modelId :: "string option"
  baseUrl :: "string option"
  reason :: "string option"

record warn_state =
  warnedReason :: "string option"
  warnings :: "string list" \<comment> \<open>the lines given to \<open>console.warn\<close>, oldest first\<close>

definition warnOnce :: "string \<Rightarrow> warn_state \<Rightarrow> warn_state" where
  "warnOnce r w =
     (if warnedReason w \<noteq> Some r
      then \<lparr>warnedReason = Some r, warnings = warnings w @ [''[copilot] '' @ r]\<rparr> else w)"

definition off_config :: "string option \<Rightarrow> copilot_config" where
  "off_config r = \<lparr>enabled = False, provider = None, modelId = None, baseUrl = None, reason = r\<rparr>"

definition disabled :: "string option \<Rightarrow> warn_state \<Rightarrow> copilot_config \<times> warn_state" where
  "disabled r w =
     (off_config r, if truthy r then warnOnce (''disabled: '' @ the r) w else w)"

definition is_http_url :: "string \<Rightarrow> bool" where
  \<comment> \<open>\<open>/^https?:\/\//i.test(raw)\<close>\<close>
  "is_http_url raw =
     (startsWith (toLowerCase raw) ''http://'' \<or> startsWith (toLowerCase raw) ''https://'')"

definition resolveBaseUrl :: "env \<Rightarrow> warn_state \<Rightarrow> string option \<times> warn_state" where
  "resolveBaseUrl e w =
     (let raw = trim (nullish (e ''COPILOT_BASE_URL'') []) in
      if raw = [] then (None, w)
      else if \<not> is_http_url raw
      then (None, warnOnce (''COPILOT_BASE_URL='' @ quote_str raw @ '' is not an http(s) URL; ignoring'') w)
      else (Some (stripTrailingSlashes raw), w))"

definition split_model :: "string \<Rightarrow> string \<times> string" where
  \<comment> \<open>provider and model id around the first slash, which must not be the first character\<close>
  "split_model model =
     (case indexOfChar (CHR ''/'') model of
        Some slash \<Rightarrow> (if 0 < slash then (take slash model, drop (slash + 1) model) else ([], []))
      | None \<Rightarrow> ([], []))"

definition parse_provider :: "string \<Rightarrow> copilot_provider option" where
  "parse_provider s =
     (if s = ''anthropic'' then Some Anthropic else if s = ''openai'' then Some Openai else None)"

fun keyVar :: "copilot_provider \<Rightarrow> string" where
  "keyVar Anthropic = ''ANTHROPIC_API_KEY''"
| "keyVar Openai = ''OPENAI_API_KEY''"

definition resolveCopilotServerConfig :: "env \<Rightarrow> warn_state \<Rightarrow> copilot_config \<times> warn_state" where
  "resolveCopilotServerConfig e w =
     (if e ''COPILOT_ENABLED'' = Some ''false'' then (off_config None, w)
      else
        (let model = nullish (e ''COPILOT_MODEL'') [];
             hasAnyKey = (truthy (e ''ANTHROPIC_API_KEY'') \<or> truthy (e ''OPENAI_API_KEY''))
         in if model = []
            then disabled (if hasAnyKey
                           then Some (''an LLM API key is set but COPILOT_MODEL is missing '' @
                                      ''(expected <provider>/<model>, e.g. anthropic/claude-sonnet-4-5)'')
                           else None) w
            else
              (let (p, mid) = split_model model in
               case (if mid = [] then None else parse_provider p) of
                 None \<Rightarrow>
                   disabled (Some (''COPILOT_MODEL='' @ quote_str model @ '' is not supported '' @
                                   ''(expected anthropic/<model> or openai/<model>)'')) w
               | Some prov \<Rightarrow>
                   (if \<not> truthy (e (keyVar prov))
                    then disabled (Some (''COPILOT_MODEL targets '' @ p @ '' but '' @ keyVar prov @
                                         '' is not set'')) w
                    else (let (url, w') = resolveBaseUrl e w
                          in (\<lparr>enabled = True, provider = Some prov, modelId = Some mid, baseUrl = url,
                               reason = None\<rparr>, w'))))))"

definition copilotRequiresAuth :: "env \<Rightarrow> bool" where
  "copilotRequiresAuth e = (e ''COPILOT_REQUIRE_AUTH'' \<noteq> Some ''false'')"

section \<open>Token verification\<close>

datatype http_reject = Reject (rej_status: nat) (rej_body: string) (rej_headers: dict)

datatype metadata_outcome =
    MetaThrows string \<comment> \<open>the fetch rejects, or the body is not JSON\<close>
  | MetaNotOk nat
  | Metadata "string option" \<comment> \<open>\<open>jwks_uri\<close>\<close>

record 'r idp =
  fetch_metadata :: "string \<Rightarrow> metadata_outcome"
  createRemoteJWKSet :: "string \<Rightarrow> string + 'r"
  jwtVerify :: "string \<Rightarrow> 'r \<Rightarrow> string \<Rightarrow> string option \<Rightarrow> string option"
    \<comment> \<open>token, resolver, issuer, audience; \<open>None\<close> accepts, \<open>Some msg\<close> throws\<close>

record 'r jwks_state =
  jwks :: "'r option"
  jwksIssuer :: "string option"
  warnedMisconfigured :: bool
  auth_log :: "string list"

definition resetJwksCache :: "'r jwks_state \<Rightarrow> 'r jwks_state" where
  "resetJwksCache s = s\<lparr>jwks := None, jwksIssuer := None, warnedMisconfigured := False\<rparr>"

definition stripOneSlash :: "string \<Rightarrow> string" where
  \<comment> \<open>\<open>s.replace(/\/$/, "")\<close>\<close>
  "stripOneSlash s = (if endsWith s ''/'' then butlast s else s)"

definition metadataUrl :: "string \<Rightarrow> string" where
  "metadataUrl issuer = stripOneSlash issuer @ ''/.well-known/openid-configuration''"

definition getJwks :: "'r idp \<Rightarrow> string \<Rightarrow> 'r jwks_state \<Rightarrow> (string + 'r) \<times> 'r jwks_state" where
  "getJwks idp issuer s =
     (case (jwks s, jwksIssuer s = Some issuer) of
        (Some r, True) \<Rightarrow> (Inr r, s)
      | _ \<Rightarrow>
        (case fetch_metadata idp (metadataUrl issuer) of
           MetaThrows msg \<Rightarrow> (Inl msg, s)
         | MetaNotOk st \<Rightarrow>
             (Inl (''OIDC metadata fetch failed: '' @ nat_str st @ '' '' @ metadataUrl issuer), s)
         | Metadata uri \<Rightarrow>
             (if \<not> truthy uri then (Inl (''OIDC metadata has no jwks_uri: '' @ metadataUrl issuer), s)
              else (case createRemoteJWKSet idp (the uri) of
                      Inl msg \<Rightarrow> (Inl msg, s)
                    | Inr r \<Rightarrow> (Inr r, s\<lparr>jwks := Some r, jwksIssuer := Some issuer\<rparr>)))))"

definition misconfigured_message :: string where
  "misconfigured_message =
     ''[copilot] refusing to serve /copilotkit: auth is required but '' @
     ''COPILOT_OIDC_ISSUER_URL is unset, so tokens cannot be verified. '' @
     ''Set the issuer, or set COPILOT_REQUIRE_AUTH=false if an upstream '' @
     ''layer already authenticates every request.''"

record copilot_request =
  authorization :: "string option"
  x_forwarded_for :: "string option"
  x_real_ip :: "string option"

definition assertCopilotAuth ::
  "'r idp \<Rightarrow> env \<Rightarrow> copilot_request \<Rightarrow> 'r jwks_state \<Rightarrow> http_reject option \<times> 'r jwks_state" where
  \<comment> \<open>\<open>None\<close>: returns; \<open>Some\<close>: the thrown \<open>Response\<close>\<close>
  "assertCopilotAuth idp e req s =
     (if \<not> truthy (e ''COPILOT_OIDC_ISSUER_URL'')
      then (Some (Reject 503 ''Copilot auth is misconfigured'' []),
            if warnedMisconfigured s then s
            else s\<lparr>warnedMisconfigured := True, auth_log := auth_log s @ [misconfigured_message]\<rparr>)
      else
        (let issuer = the (e ''COPILOT_OIDC_ISSUER_URL'');
             header = nullish (authorization req) []
         in if \<not> startsWith header ''Bearer '' \<or> length header \<le> 7
            then (Some (Reject 401 ''Unauthorized'' []), s)
            else
              (let token = drop 7 header;
                   (res, s1) = getJwks idp issuer s;
                   failure = (case res of
                                Inl msg \<Rightarrow> Some msg
                              | Inr r \<Rightarrow> jwtVerify idp token r issuer
                                           (non_empty (nullish (e ''COPILOT_OIDC_AUDIENCE'') [])))
               in case failure of
                    None \<Rightarrow> (None, s1)
                  | Some msg \<Rightarrow>
                      (Some (Reject 401 ''Unauthorized'' []),
                       s1\<lparr>auth_log := auth_log s1 @ [''[copilot] JWT verification failed: '' @ msg]\<rparr>))))"

section \<open>The request hook\<close>

record 'r gate =
  warn :: warn_state
  auth :: "'r jwks_state"
  limits :: limiter

definition onRequest ::
  "'r idp \<Rightarrow> env \<Rightarrow> copilot_request \<Rightarrow> int \<Rightarrow> 'r gate \<Rightarrow> http_reject option \<times> 'r gate" where
  \<comment> \<open>\<open>now\<close> is \<open>Date.now()\<close> when the rate limit is checked\<close>
  "onRequest idp e req now g =
     (let (config, w) = resolveCopilotServerConfig e (warn g); g1 = g\<lparr>warn := w\<rparr> in
      if \<not> enabled config then (Some (Reject 503 ''{\"error\":\"copilot disabled\"}'' []), g1)
      else
        (let (rej, s) = (if copilotRequiresAuth e then assertCopilotAuth idp e req (auth g1)
                         else (None, auth g1));
             g2 = g1\<lparr>auth := s\<rparr>
         in case rej of
              Some r \<Rightarrow> (Some r, g2)
            | None \<Rightarrow>
                (let (ra, lim) = checkCopilotRateLimit e
                       (copilotRateLimitKey (x_forwarded_for req) (x_real_ip req)) now (limits g2);
                     g3 = g2\<lparr>limits := lim\<rparr>
                 in case ra of
                      None \<Rightarrow> (None, g3)
                    | Some secs \<Rightarrow>
                        (Some (Reject 429 ''{\"error\":\"rate limit exceeded\"}''
                                 [(''Retry-After'', int_str secs)]), g3))))"

section \<open>The model of a run\<close>

definition MAX_AGENT_STEPS :: nat where
  "MAX_AGENT_STEPS = 5"

datatype language_model =
    ProviderDefault copilot_provider string \<comment> \<open>provider default endpoint, model id\<close>
  | ProviderAt copilot_provider string string \<comment> \<open>base URL, model id (the chat API for openai)\<close>

definition resolveModel :: "env \<Rightarrow> warn_state \<Rightarrow> language_model option \<times> warn_state" where
  "resolveModel e w =
     (let (config, w') = resolveCopilotServerConfig e w in
      (if \<not> enabled config \<or> \<not> truthy (modelId config) then None
       else (case provider config of
               None \<Rightarrow> None
             | Some p \<Rightarrow>
                 Some (if truthy (baseUrl config)
                       then ProviderAt p (the (baseUrl config)) (the (modelId config))
                       else ProviderDefault p (the (modelId config)))), w'))"

datatype route_method = AgentRun string | OtherRoute

fun onBeforeHandler :: "route_method \<Rightarrow> string list" where
  \<comment> \<open>the lines logged\<close>
  "onBeforeHandler (AgentRun agentId) = [''[copilot] run agent='' @ agentId]"
| "onBeforeHandler OtherRoute = []"

section \<open>When the copilot is on\<close>

fun provider_name :: "copilot_provider \<Rightarrow> string" where
  "provider_name Anthropic = ''anthropic''"
| "provider_name Openai = ''openai''"

lemma parse_provider_iff: "parse_provider s = Some p \<longleftrightarrow> s = provider_name p"
  by (cases p) (auto simp: parse_provider_def)

lemma parse_provider_name [simp]: "parse_provider (provider_name p) = Some p"
  by (simp add: parse_provider_iff)

lemma provider_name_inject [simp]: "provider_name p = provider_name q \<longleftrightarrow> p = q"
  by (metis option.inject parse_provider_name)

lemma indexOfChar_first: "d \<notin> set u \<Longrightarrow> indexOfChar d (u @ d # v) = Some (length u)"
  by (induction u) auto

lemma split_model_iff:
  "split_model m = (provider_name p, i) \<and> i \<noteq> [] \<longleftrightarrow> m = provider_name p @ ''/'' @ i \<and> i \<noteq> []"
proof
  assume "split_model m = (provider_name p, i) \<and> i \<noteq> []"
  then show "m = provider_name p @ ''/'' @ i \<and> i \<noteq> []"
    using indexOfChar_Some [of "CHR ''/''" m]
    by (auto simp: split_model_def split: option.splits if_splits)
next
  have "CHR ''/'' \<notin> set (provider_name p)" by (cases p) auto
  moreover have "provider_name p \<noteq> []" by (cases p) auto
  moreover assume "m = provider_name p @ ''/'' @ i \<and> i \<noteq> []"
  ultimately show "split_model m = (provider_name p, i) \<and> i \<noteq> []"
    by (simp add: split_model_def indexOfChar_first)
qed

lemma disabled_off [simp]: "enabled (fst (disabled r w)) = False"
  by (simp add: disabled_def off_config_def)

lemma config_enabled_cases:
  "enabled (fst (resolveCopilotServerConfig e w)) \<longleftrightarrow>
     e ''COPILOT_ENABLED'' \<noteq> Some ''false'' \<and>
     (\<exists>p i. split_model (nullish (e ''COPILOT_MODEL'') []) = (provider_name p, i) \<and> i \<noteq> [] \<and>
       truthy (e (keyVar p)))"
proof (cases "e ''COPILOT_ENABLED'' = Some ''false'' \<or> nullish (e ''COPILOT_MODEL'') [] = []")
  case True
  then show ?thesis
    by (auto simp: resolveCopilotServerConfig_def off_config_def split_model_def Let_def)
next
  case False
  obtain s i where sp: "split_model (nullish (e ''COPILOT_MODEL'') []) = (s, i)" by fastforce
  show ?thesis
  proof (cases "parse_provider s")
    case None
    then have "s \<noteq> provider_name p" for p by auto
    with None False sp show ?thesis
      by (auto simp: resolveCopilotServerConfig_def Let_def)
  next
    case (Some p)
    then have "s = provider_name p" by (simp add: parse_provider_iff)
    with False sp show ?thesis
      by (auto simp: resolveCopilotServerConfig_def Let_def split: prod.splits)
  qed
qed

text \<open>
  The copilot is off unless the deployment asks for it completely: it is enabled exactly when
  \<open>COPILOT_ENABLED\<close> is not the literal \<open>false\<close>, \<open>COPILOT_MODEL\<close> is \<open>anthropic/\<close> or \<open>openai/\<close>
  followed by a non-empty model id, and the API key variable of that provider is non-empty; no
  other variable matters.
\<close>

theorem copilot_enabled_iff:
  "enabled (fst (resolveCopilotServerConfig e w)) \<longleftrightarrow>
     e ''COPILOT_ENABLED'' \<noteq> Some ''false'' \<and>
     (\<exists>p i. e ''COPILOT_MODEL'' = Some (provider_name p @ ''/'' @ i) \<and> i \<noteq> [] \<and>
        truthy (e (keyVar p)))"
proof -
  have "nullish x [] = provider_name p @ ''/'' @ i \<longleftrightarrow> x = Some (provider_name p @ ''/'' @ i)"
    for x p i by (cases x) auto
  then have "(split_model (nullish (e ''COPILOT_MODEL'') []) = (provider_name p, i) \<and> i \<noteq> []) =
      (e ''COPILOT_MODEL'' = Some (provider_name p @ ''/'' @ i) \<and> i \<noteq> [])" for p i
    by (simp only: split_model_iff)
  then show ?thesis unfolding config_enabled_cases by (simp only: conj_assoc [symmetric])
qed

section \<open>What the hook guarantees\<close>

lemma assertCopilotAuth_accepts:
  assumes "assertCopilotAuth idp e req s = (None, s')"
  shows "\<exists>issuer token r. e ''COPILOT_OIDC_ISSUER_URL'' = Some issuer \<and> issuer \<noteq> [] \<and>
    authorization req = Some (''Bearer '' @ token) \<and> token \<noteq> [] \<and>
    getJwks idp issuer s = (Inr r, s') \<and>
    jwtVerify idp token r issuer (non_empty (nullish (e ''COPILOT_OIDC_AUDIENCE'') [])) = None"
proof -
  from assms obtain issuer where i: "e ''COPILOT_OIDC_ISSUER_URL'' = Some issuer" "issuer \<noteq> []"
    by (cases "e ''COPILOT_OIDC_ISSUER_URL''")
      (auto simp: assertCopilotAuth_def split: if_splits)
  let ?h = "nullish (authorization req) []"
  from assms i have h: "startsWith ?h ''Bearer ''" "\<not> length ?h \<le> 7"
    by (auto simp: assertCopilotAuth_def Let_def split: if_splits)
  then obtain token where t: "?h = ''Bearer '' @ token" "token \<noteq> []"
    by (auto simp: startsWith_iff)
  then have "authorization req = Some (''Bearer '' @ token)"
    by (cases "authorization req") auto
  moreover obtain res s1 where g: "getJwks idp issuer s = (res, s1)" by fastforce
  moreover have "drop 7 ?h = token" using t by simp
  ultimately show ?thesis using assms i h t(2)
    by (cases res) (auto simp: assertCopilotAuth_def Let_def split: option.splits)
qed

lemma assertCopilotAuth_rejects:
  assumes "assertCopilotAuth idp e req s = (Some r, s')"
  shows "rej_status r = (if truthy (e ''COPILOT_OIDC_ISSUER_URL'') then 401 else 503)"
  using assms
  by (auto simp: assertCopilotAuth_def Let_def split: if_splits prod.splits sum.splits option.splits)

lemma onRequest_cases:
  assumes "onRequest idp e req now g = (r, g')"
  obtains (off) "\<not> enabled (fst (resolveCopilotServerConfig e (warn g)))"
      "r = Some (Reject 503 ''{\"error\":\"copilot disabled\"}'' [])" "limits g' = limits g" "auth g' = auth g"
  | (unauthorized) rej where "enabled (fst (resolveCopilotServerConfig e (warn g)))"
      "copilotRequiresAuth e" "assertCopilotAuth idp e req (auth g) = (Some rej, auth g')"
      "r = Some rej" "limits g' = limits g"
  | (checked) ra where "enabled (fst (resolveCopilotServerConfig e (warn g)))"
      "if copilotRequiresAuth e then assertCopilotAuth idp e req (auth g) = (None, auth g')
       else auth g' = auth g"
      "checkCopilotRateLimit e (copilotRateLimitKey (x_forwarded_for req) (x_real_ip req)) now
         (limits g) = (ra, limits g')"
      "r = map_option (\<lambda>secs. Reject 429 ''{\"error\":\"rate limit exceeded\"}''
                               [(''Retry-After'', int_str secs)]) ra"
proof -
  obtain c w where c: "resolveCopilotServerConfig e (warn g) = (c, w)" by fastforce
  obtain rej s where a: "(if copilotRequiresAuth e then assertCopilotAuth idp e req (auth g)
      else (None, auth g)) = (rej, s)" by fastforce
  obtain ra lim where l: "checkCopilotRateLimit e
      (copilotRateLimitKey (x_forwarded_for req) (x_real_ip req)) now (limits g) = (ra, lim)"
    by fastforce
  show thesis
  proof (cases "enabled c")
    case False
    with assms c off show thesis by (auto simp: onRequest_def)
  next
    case on: True
    show thesis
    proof (cases rej)
      case (Some rj)
      with assms c on a unauthorized show thesis
        by (auto simp: onRequest_def Let_def cong: if_cong split: if_splits)
    next
      case None
      with assms c on a l have "r = map_option (\<lambda>secs. Reject 429 ''{\"error\":\"rate limit exceeded\"}''
                               [(''Retry-After'', int_str secs)]) ra" "limits g' = lim" "auth g' = s"
        by (auto simp: onRequest_def Let_def cong: if_cong split: option.splits)
      with c on a l None checked show thesis by (auto split: if_splits)
    qed
  qed
qed

text \<open>
  C1: a request reaches the copilot runtime only through every gate: the deployment is enabled;
  if authentication is required, an issuer is configured, the request carries a bearer token, and
  \<open>jwtVerify\<close> accepted that token with a key set for that issuer and the configured audience; and the
  rate limiter admitted (and charged) the caller.
\<close>

theorem admission_passes_every_gate:
  assumes "onRequest idp e req now g = (None, g')"
  shows "enabled (fst (resolveCopilotServerConfig e (warn g))) \<and>
    (copilotRequiresAuth e \<longrightarrow>
      (\<exists>issuer token r. e ''COPILOT_OIDC_ISSUER_URL'' = Some issuer \<and> issuer \<noteq> [] \<and>
        authorization req = Some (''Bearer '' @ token) \<and> token \<noteq> [] \<and>
        getJwks idp issuer (auth g) = (Inr r, auth g') \<and>
        jwtVerify idp token r issuer (non_empty (nullish (e ''COPILOT_OIDC_AUDIENCE'') [])) = None)) \<and>
    checkCopilotRateLimit e (copilotRateLimitKey (x_forwarded_for req) (x_real_ip req)) now
      (limits g) = (None, limits g')"
  using assms
proof (cases rule: onRequest_cases)
  case (checked ra)
  moreover from checked have "ra = None" by (cases ra) auto
  ultimately show ?thesis
    by (auto dest: assertCopilotAuth_accepts split: if_splits)
qed auto

definition initial_gate :: "'r gate" where
  "initial_gate = \<lparr>warn = \<lparr>warnedReason = None, warnings = []\<rparr>,
     auth = \<lparr>jwks = None, jwksIssuer = None, warnedMisconfigured = False, auth_log = []\<rparr>,
     limits = resetCopilotRateLimit\<rparr>"

definition demo_env :: env where
  "demo_env = map_of [(''COPILOT_MODEL'', ''openai/gpt-4o''), (''OPENAI_API_KEY'', ''k''),
     (''COPILOT_OIDC_ISSUER_URL'', ''https://idp/realms/r'')]"

definition demo_idp :: "string idp" where
  "demo_idp = \<lparr>fetch_metadata = (\<lambda>u. Metadata (Some ''https://idp/certs'')),
     createRemoteJWKSet = (\<lambda>u. Inr u),
     jwtVerify = (\<lambda>t r i a. if t = ''good'' then None else Some ''bad signature'')\<rparr>"

definition demo_request :: "string \<Rightarrow> copilot_request" where
  "demo_request h = \<lparr>authorization = Some h, x_forwarded_for = Some ''10.0.0.1, 10.0.0.2'', x_real_ip = None\<rparr>"

lemma demo_admitted:
  "fst (onRequest demo_idp demo_env (demo_request ''Bearer good'') 1000 initial_gate) = None"
  by code_simp

lemma demo_rejected:
  "fst (onRequest demo_idp demo_env (demo_request ''Bearer evil'') 1000 initial_gate) =
     Some (Reject 401 ''Unauthorized'' [])"
  by code_simp

lemma pair_of_fst: "fst p = a \<Longrightarrow> p = (a, snd p)"
  by (cases p) simp

theorem admission_passes_every_gate_witness:
  "enabled (fst (resolveCopilotServerConfig demo_env (warn (initial_gate :: string gate))))"
  using admission_passes_every_gate [OF pair_of_fst [OF demo_admitted]] by blast

text \<open>
  a refused request is answered 503, 401 or 429; only a request that passed authentication can
  be counted by the rate limiter, so an unauthenticated caller cannot spend anybody's budget; and
  a 429 carries the delay the limiter computed in \<open>Retry-After\<close>.
\<close>

theorem rejection_is_classified:
  assumes "onRequest idp e req now g = (Some rej, g')"
  shows "rej_status rej \<in> {503, 401, 429} \<and>
    (rej_status rej \<noteq> 429 \<longrightarrow> limits g' = limits g) \<and>
    (rej_status rej = 429 \<longrightarrow>
      (copilotRequiresAuth e \<longrightarrow> assertCopilotAuth idp e req (auth g) = (None, auth g')) \<and>
      (\<exists>secs. checkCopilotRateLimit e (copilotRateLimitKey (x_forwarded_for req) (x_real_ip req)) now
          (limits g) = (Some secs, limits g') \<and>
        rej_headers rej = [(''Retry-After'', int_str secs)]))"
  using assms
proof (cases rule: onRequest_cases)
  case (unauthorized r)
  then show ?thesis using assertCopilotAuth_rejects [OF unauthorized(3)] by (simp split: if_splits)
next
  case (checked ra)
  then show ?thesis by (cases ra) auto
qed auto

theorem rejection_is_classified_witness:
  "limits (snd (onRequest demo_idp demo_env (demo_request ''Bearer evil'') 1000 initial_gate)) = limits (initial_gate :: string gate)"
  using rejection_is_classified [OF pair_of_fst [OF demo_rejected]] by simp

section \<open>The key-set cache\<close>

definition cache_ok :: "'r idp \<Rightarrow> 'r jwks_state \<Rightarrow> bool" where
  \<comment> \<open>a cached resolver was built from the metadata of the issuer it is cached for\<close>
  "cache_ok idp s =
     (case jwks s of
        None \<Rightarrow> True
      | Some r \<Rightarrow>
          (case jwksIssuer s of
             None \<Rightarrow> False
           | Some i \<Rightarrow>
               (case fetch_metadata idp (metadataUrl i) of
                  Metadata (Some uri) \<Rightarrow> createRemoteJWKSet idp uri = Inr r
                | _ \<Rightarrow> False)))"

lemma getJwks_cache_ok:
  assumes "cache_ok idp s" "getJwks idp issuer s = (res, s')"
  shows "cache_ok idp s' \<and>
    (\<forall>r. res = Inr r \<longrightarrow> jwks s' = Some r \<and> jwksIssuer s' = Some issuer)"
  using assms
  by (cases "jwks s"; cases "jwksIssuer s = Some issuer")
    (auto simp: getJwks_def cache_ok_def split: metadata_outcome.splits if_splits sum.splits option.splits)

lemma assertCopilotAuth_cache_ok:
  assumes "cache_ok idp s" "assertCopilotAuth idp e req s = (r, s')"
  shows "cache_ok idp s'"
proof -
  have upd: "cache_ok idp (s1\<lparr>auth_log := l\<rparr>) = cache_ok idp s1"
    "cache_ok idp (s1\<lparr>warnedMisconfigured := b\<rparr>) = cache_ok idp s1" for s1 b l
    by (simp_all add: cache_ok_def cong: option.case_cong)
  obtain res s1 where g: "getJwks idp (the (e ''COPILOT_OIDC_ISSUER_URL'')) s = (res, s1)"
    by fastforce
  then have "cache_ok idp s1" using getJwks_cache_ok [OF assms(1)] by blast
  with assms g show ?thesis
    by (auto simp: assertCopilotAuth_def Let_def upd split: if_splits option.splits)
qed

fun run_gate :: "'r idp \<Rightarrow> env \<Rightarrow> 'r gate \<Rightarrow> (copilot_request \<times> int) list \<Rightarrow> http_reject option list \<times> 'r gate" where
  "run_gate idp e g [] = ([], g)"
| "run_gate idp e g ((req, now) # rs) =
     (let (r, g1) = onRequest idp e req now g; (os, g2) = run_gate idp e g1 rs in (r # os, g2))"

lemma run_gate_cache_ok:
  "cache_ok idp (auth g) \<Longrightarrow> run_gate idp e g rs = (os, g') \<Longrightarrow> cache_ok idp (auth g')"
proof (induction rs arbitrary: g os)
  case (Cons q rs)
  obtain req now where q: "q = (req, now)" by (cases q)
  obtain r g1 where r: "onRequest idp e req now g = (r, g1)" by fastforce
  then have "cache_ok idp (auth g1)"
    by (cases rule: onRequest_cases)
      (use Cons.prems(1) in \<open>auto intro: assertCopilotAuth_cache_ok split: if_splits\<close>)
  with Cons q r show ?case by (auto split: prod.splits)
qed simp



section \<open>Spend through the gate\<close>

lemma run_gate_as_requests:
  assumes "run_gate idp e g rs = (os, g')"
  obtains cs outs where "run_requests e (limits g) cs = (outs, limits g')"
    "\<forall>c \<in> set cs. \<exists>r \<in> set rs. snd c = snd r"
    "int (length (filter (\<lambda>r. r = None) os)) = admitted outs"
  using assms
proof (induction rs arbitrary: g os thesis)
  case Nil
  show ?case by (rule Nil.prems(1) [of "[]" "[]"]) (use Nil.prems(2) in simp_all)
next
  case (Cons q rs)
  obtain req now where q: "q = (req, now)" by (cases q)
  obtain r g1 where r: "onRequest idp e req now g = (r, g1)" by fastforce
  obtain os1 where rest: "run_gate idp e g1 rs = (os1, g')" and os: "os = r # os1"
    using Cons.prems(2) q r by (auto split: prod.splits)
  obtain cs outs where ih: "run_requests e (limits g1) cs = (outs, limits g')"
      "\<forall>c \<in> set cs. \<exists>r \<in> set rs. snd c = snd r"
      "int (length (filter (\<lambda>r. r = None) os1)) = admitted outs"
    using Cons.IH [OF _ rest] by blast
  from r show ?case
  proof (cases rule: onRequest_cases)
    case (checked ra)
    let ?k = "copilotRateLimitKey (x_forwarded_for req) (x_real_ip req)"
    have "run_requests e (limits g) ((?k, now) # cs) = (ra # outs, limits g')"
      using checked ih(1) by simp
    moreover have "int (length (filter (\<lambda>r. r = None) os)) = admitted (ra # outs)"
      using checked ih(3) os by (cases ra) auto
    ultimately show ?thesis using Cons.prems(1) ih(2) q by fastforce
  qed (use Cons.prems(1) ih os q in \<open>fastforce+\<close>)
qed

text \<open>
  C28: end to end, the number of requests that reach the LLM provider is bounded: in any stretch of
  one minute, at most twice the configured (positive) global budget passes \<open>onRequest\<close>, whatever
  headers the requests carry and whatever happened before.
\<close>

theorem gate_bounds_spend:
  assumes "run_gate idp e initial_gate history = (os0, g)"
    and "\<forall>(req, t) \<in> set rs. t0 \<le> t \<and> t < t0 + WINDOW_MS"
    and "run_gate idp e g rs = (os, g')"
  shows "\<exists>G > 0. globalPerMinute (copilotRateLimits e) = inum G \<and>
    int (length (filter (\<lambda>r. r = None) os)) \<le> 2 * G"
proof -
  obtain cs0 outs0 where h: "run_requests e resetCopilotRateLimit cs0 = (outs0, limits g)"
    using run_gate_as_requests [OF assms(1)] by (simp add: initial_gate_def) blast
  obtain cs outs where c: "run_requests e (limits g) cs = (outs, limits g')"
      "\<forall>c \<in> set cs. \<exists>r \<in> set rs. snd c = snd r"
      "int (length (filter (\<lambda>r. r = None) os)) = admitted outs"
    using run_gate_as_requests [OF assms(3)] by blast
  have "\<forall>(k, t) \<in> set cs. t0 \<le> t \<and> t < t0 + WINDOW_MS" using c(2) assms(2) by fastforce
  from spend_bound [OF h this c(1)] c(3) show ?thesis by simp
qed

theorem gate_bounds_spend_witness:
  "length (filter (\<lambda>r. r = None) (fst (run_gate demo_idp demo_env initial_gate
     [(demo_request ''Bearer good'', 1000), (demo_request ''Bearer good'', 1001)]))) \<le> 600"
  using gate_bounds_spend [of demo_idp demo_env "[]" "[]" initial_gate
      "[(demo_request ''Bearer good'', 1000), (demo_request ''Bearer good'', 1001)]" 0
      "fst (run_gate demo_idp demo_env initial_gate
         [(demo_request ''Bearer good'', 1000), (demo_request ''Bearer good'', 1001)])"
      "snd (run_gate demo_idp demo_env initial_gate
         [(demo_request ''Bearer good'', 1000), (demo_request ''Bearer good'', 1001)])"]
  by (auto simp: WINDOW_MS_def copilotRateLimits_def readLimit_def DEFAULT_GLOBAL_LIMIT_def demo_env_def
      simp del: run_gate.simps(2) filter.simps)

end
