(* ===== verification/Edge_Proxy.thy ===== *)
theory Edge_Proxy
  imports Copilot_Gate
begin

text \<open>
  The entry point of the web container (\<^verbatim>\<open>ui/proxy.js\<close>): the headers it forwards, the route it takes
  and its answer when the target fails. Header names reach the Next.js handlers through the
  case-insensitive \<open>Headers.get\<close>. Composed with the rate limiter, the key of a request is the address
  of its peer, whatever the request claims.
\<close>

record node_request =
  nr_url :: "string option"
  nr_headers :: dict
  nr_remoteAddress :: "string option"

section \<open>Addresses\<close>

definition octet :: "string \<Rightarrow> bool" where
  \<comment> \<open>\<open>\d{1,3}\<close>\<close>
  "octet s \<longleftrightarrow> 1 \<le> length s \<and> length s \<le> 3 \<and> list_all is_digit s"

definition dotted_quad :: "string \<Rightarrow> bool" where
  "dotted_quad s \<longleftrightarrow> (let ps = splitOn (CHR ''.'') s in length ps = 4 \<and> list_all octet ps)"

definition normalizeAddress :: "string option \<Rightarrow> string option" where
  "normalizeAddress address =
     (case address of
        None \<Rightarrow> None
      | Some a \<Rightarrow>
          if a = [] then None
          else if startsWith (toLowerCase a) ''::ffff:'' \<and> dotted_quad (drop 7 a) then Some (drop 7 a)
          else Some a)"

section \<open>Headers\<close>

definition forwarding_header :: "string \<Rightarrow> bool" where
  "forwarding_header name \<longleftrightarrow> toLowerCase name = ''x-forwarded-for'' \<or> toLowerCase name = ''x-real-ip''"

definition stripped :: "bool \<Rightarrow> node_request \<Rightarrow> dict" where
  \<comment> \<open>the inbound headers without the host (for the API) and without what they claim about the client\<close>
  "stripped dropHost req =
     filter (\<lambda>(name, v). \<not> forwarding_header name)
       (if dropHost then obj_del ''host'' (nr_headers req) else nr_headers req)"

definition buildForwardedHeaders :: "bool \<Rightarrow> node_request \<Rightarrow> dict" where
  "buildForwardedHeaders dropHost req =
     (case normalizeAddress (nr_remoteAddress req) of
        None \<Rightarrow> stripped dropHost req
      | Some peer \<Rightarrow> obj_set ''x-real-ip'' peer (obj_set ''x-forwarded-for'' peer (stripped dropHost req)))"

definition header_get :: "dict \<Rightarrow> string \<Rightarrow> string option" where
  \<comment> \<open>\<open>Headers.get\<close> of a lower-case name: all values of that name, combined\<close>
  "header_get h name =
     (case map snd (filter (\<lambda>(k, v). toLowerCase k = name) h) of [] \<Rightarrow> None | vs \<Rightarrow> Some (joinWith '', '' vs))"

section \<open>Routing\<close>

datatype proxy_target = ToApi | ToNext

definition proxy_route :: "node_request \<Rightarrow> proxy_target \<times> dict" where
  "proxy_route req =
     (if truthy (nr_url req) \<and> startsWith (the (nr_url req)) ''/api/''
      then (ToApi, buildForwardedHeaders True req) else (ToNext, buildForwardedHeaders False req))"

definition upstream_error :: "string \<Rightarrow> proxy_target \<Rightarrow> bool \<Rightarrow> (nat \<times> json) option" where
  \<comment> \<open>the answer when the target fails; \<open>None\<close>: the headers were sent, and the response is only ended\<close>
  "upstream_error apiUrl t headersSent =
     (if headersSent then None
      else case t of
        ToApi \<Rightarrow> Some (502, JObj [(''error'', JStr ''Bad gateway''), (''target'', JStr apiUrl)])
      | ToNext \<Rightarrow> Some (503, JObj [(''error'', JStr ''UI not ready'')]))"

section \<open>The rate-limit key behind the proxy\<close>

definition proxied_key :: "node_request \<Rightarrow> string" where
  \<comment> \<open>\<open>copilotRateLimitKey\<close> on the headers the proxy passes to Next.js\<close>
  "proxied_key req =
     (let h = buildForwardedHeaders False req
      in copilotRateLimitKey (header_get h ''x-forwarded-for'') (header_get h ''x-real-ip''))"

lemma lower_names [simp]:
  "toLowerCase ''x-forwarded-for'' = ''x-forwarded-for''" "toLowerCase ''x-real-ip'' = ''x-real-ip''"
  by code_simp+

lemma stripped_names:
  "forwarding_header name \<Longrightarrow> filter (\<lambda>(k, v). toLowerCase k = toLowerCase name) (stripped dropHost req) = []"
  by (auto simp: stripped_def filter_empty_conv forwarding_header_def)

lemma built_headers:
  "buildForwardedHeaders dropHost req =
     (case normalizeAddress (nr_remoteAddress req) of
        None \<Rightarrow> stripped dropHost req
      | Some peer \<Rightarrow> stripped dropHost req @ [(''x-forwarded-for'', peer), (''x-real-ip'', peer)])"
proof -
  have fresh: "k \<notin> fst ` set (stripped dropHost req)" if "forwarding_header k" for k
    using that by (auto simp: stripped_def)
  have "forwarding_header ''x-forwarded-for''" "forwarding_header ''x-real-ip''" by (simp_all add: forwarding_header_def)
  then show ?thesis using fresh
    by (auto simp: buildForwardedHeaders_def obj_set_fresh split: option.splits)
qed

lemma forwarded_values:
  "header_get (buildForwardedHeaders dropHost req) ''x-forwarded-for'' = normalizeAddress (nr_remoteAddress req)"
  "header_get (buildForwardedHeaders dropHost req) ''x-real-ip'' = normalizeAddress (nr_remoteAddress req)"
proof -
  have "forwarding_header ''x-forwarded-for''" "forwarding_header ''x-real-ip''" by (simp_all add: forwarding_header_def)
  note gone = this [THEN stripped_names, simplified]
  show "header_get (buildForwardedHeaders dropHost req) ''x-forwarded-for'' = normalizeAddress (nr_remoteAddress req)"
    "header_get (buildForwardedHeaders dropHost req) ''x-real-ip'' = normalizeAddress (nr_remoteAddress req)"
    by (simp_all add: built_headers header_get_def gone split: option.splits)
qed

lemma octet_chars: "octet s \<Longrightarrow> c \<in> set s \<Longrightarrow> is_digit c"
  by (auto simp: octet_def list_all_iff)

lemma dotted_quad_chars:
  assumes "dotted_quad s" "c \<in> set s"
  shows "is_digit c \<or> c = CHR ''.''"
proof -
  consider "c = CHR ''.''" | w where "w \<in> set (splitOn (CHR ''.'') s)" "c \<in> set w"
    using assms(2) set_joinWith [of c "''.''" "splitOn (CHR ''.'') s"] by auto
  then show ?thesis using assms(1) octet_chars by cases (auto simp: dotted_quad_def Let_def list_all_iff)
qed

lemma quad_key:
  assumes "dotted_quad ip"
  shows "copilotRateLimitKey (Some ip) (Some ip) = ip"
proof -
  have ne: "ip \<noteq> []" using assms by (auto simp: dotted_quad_def octet_def)
  have "CHR '','' \<notin> set ip" using dotted_quad_chars [OF assms] by (fastforce simp: is_digit_def)
  then have "hd (splitOn (CHR '','') ip) = ip" by (simp add: splitOn_single)
  moreover have "\<not> is_ws c" if "c \<in> set ip" for c
    using dotted_quad_chars [OF assms that] is_digit_not_ws by (auto simp: is_ws_def)
  then have "trim ip = ip" using ne by (intro trim_fixed) (simp_all add: hd_in_set last_in_set)
  ultimately show ?thesis using ne by (simp add: copilotRateLimitKey_def)
qed

lemma normalize_quad:
  assumes "dotted_quad ip"
  shows "normalizeAddress (Some ip) = Some ip" "normalizeAddress (Some (''::ffff:'' @ ip)) = Some ip"
proof -
  have ne: "ip \<noteq> []" using assms by (auto simp: dotted_quad_def octet_def)
  have "is_digit (hd ip) \<or> hd ip = CHR ''.''" using dotted_quad_chars [OF assms] ne hd_in_set by blast
  then have "hd ip \<noteq> CHR '':''" "lower_char (hd ip) \<noteq> CHR '':''"
    by (auto simp: is_digit_def lower_char_def is_upper_def)
  then have "\<not> startsWith (toLowerCase ip) ''::ffff:''"
    using ne by (cases ip) (auto simp: startsWith_def toLowerCase_def)
  then show "normalizeAddress (Some ip) = Some ip" using ne by (simp add: normalizeAddress_def)
  have "toLowerCase ''::ffff:'' = ''::ffff:''" by code_simp
  then have "startsWith (toLowerCase (''::ffff:'' @ ip)) ''::ffff:''" by (simp add: startsWith_def toLowerCase_def)
  then show "normalizeAddress (Some (''::ffff:'' @ ip)) = Some ip" using assms by (simp add: normalizeAddress_def)
qed

text \<open>
  C13: Forged forwarding headers do not help. Behind the proxy the key under which the copilot route
  counts a request depends on the address of its peer alone: whatever headers two requests from one
  address carry, in whatever case, they are counted together; and for an IPv4 peer, also one that
  arrives as an IPv4-mapped IPv6 address, the key is that IPv4 address.
\<close>

theorem proxied_key_is_peer:
  shows "proxied_key req = copilotRateLimitKey (normalizeAddress (nr_remoteAddress req)) (normalizeAddress (nr_remoteAddress req)) \<and>
    (nr_remoteAddress req = nr_remoteAddress req' \<longrightarrow> proxied_key req = proxied_key req') \<and>
    (dotted_quad ip \<and> nr_remoteAddress req \<in> {Some ip, Some (''::ffff:'' @ ip)} \<longrightarrow> proxied_key req = ip)"
proof -
  have key: "proxied_key r = copilotRateLimitKey (normalizeAddress (nr_remoteAddress r)) (normalizeAddress (nr_remoteAddress r))" for r
    by (simp add: proxied_key_def forwarded_values)
  have "normalizeAddress (nr_remoteAddress req) = Some ip" if "dotted_quad ip" "nr_remoteAddress req \<in> {Some ip, Some (''::ffff:'' @ ip)}"
    using that normalize_quad by auto
  with key quad_key show ?thesis by simp
qed

theorem proxied_key_is_peer_witness:
  "proxied_key \<lparr>nr_url = Some ''/copilotkit'', nr_headers = [(''X-Forwarded-For'', ''1.2.3.4'')],
     nr_remoteAddress = Some ''::ffff:10.0.0.5''\<rparr> = ''10.0.0.5''"
proof -
  let ?r = "\<lparr>nr_url = Some ''/copilotkit'', nr_headers = [(''X-Forwarded-For'', ''1.2.3.4'')],
     nr_remoteAddress = Some ''::ffff:10.0.0.5''\<rparr>"
  have "dotted_quad ''10.0.0.5''" by code_simp
  moreover have "nr_remoteAddress ?r \<in> {Some ''10.0.0.5'', Some (''::ffff:'' @ ''10.0.0.5'')}" by simp
  ultimately show ?thesis using proxied_key_is_peer [of ?r ?r "''10.0.0.5''"] by blast
qed

end
