(* ===== verification/Guide_Markdown.thy ===== *)
theory Guide_Markdown
  imports Prelude
begin

text \<open>
  The hand-written Markdown renderer of operational guides
  (\<^verbatim>\<open>ui/src/components/GuideMarkdown.tsx\<close>): inline spans, blocks and tables. The React elements are
  the datatypes \<open>inline_node\<close> and \<open>md_block\<close>, without class names and keys. The regular expressions are
  written out as the deterministic matchers they amount to. The loop over the lines takes fuel, one
  unit for each iteration, because it does not always end: with one unit more than there are lines it
  ends for every text without a lone carriage return, and for some texts with one no fuel is enough.
\<close>

datatype inline_node =
    NText string
  | NCode string
  | NStrong string
  | NEm string
  | NLink string string \<comment> \<open>\<open>href\<close> and text\<close>

datatype md_block =
    BPre string
  | BHr
  | BHeading nat "inline_node list"
  | BQuote "inline_node list"
  | BTable "inline_node list list" "inline_node list list list"
  | BUl "inline_node list list"
  | BOl "inline_node list list"
  | BPara "inline_node list"

section \<open>Inline spans\<close>

definition isSafeHref :: "string \<Rightarrow> bool" where
  "isSafeHref url \<longleftrightarrow>
     startsWith (toLowerCase url) ''http://'' \<or> startsWith (toLowerCase url) ''https://'' \<or>
     (startsWith url ''/'' \<and> \<not> startsWith url ''//'') \<or> startsWith url ''#''"

definition span_between :: "string \<Rightarrow> (char \<Rightarrow> bool) \<Rightarrow> string \<Rightarrow> string \<Rightarrow> (string \<times> string) option" where
  \<comment> \<open>an opening text, the longest non-empty run of admissible characters, a closing text: the run and what follows\<close>
  "span_between op ok cl s =
     (if startsWith s op
      then (let body = drop (length op) s; run = takeWhile ok body; r = dropWhile ok body
            in if run \<noteq> [] \<and> startsWith r cl then Some (run, drop (length cl) r) else None)
      else None)"

definition link_node :: "string \<Rightarrow> string \<Rightarrow> inline_node" where
  "link_node txt url = (if isSafeHref url then NLink url txt else NText txt)"

definition match_inline :: "string \<Rightarrow> (inline_node \<times> string) option" where
  \<comment> \<open>\<open>INLINE_RE\<close> at the start of the text: the node of the token and the rest\<close>
  "match_inline s =
     (case span_between ''`'' (\<lambda>c. c \<noteq> CHR ''`'') ''`'' s of
        Some (t, r) \<Rightarrow> Some (NCode t, r)
      | None \<Rightarrow>
     (case span_between ''**'' (\<lambda>c. c \<noteq> CHR ''*'') ''**'' s of
        Some (t, r) \<Rightarrow> Some (NStrong t, r)
      | None \<Rightarrow>
     (case span_between ''*'' (\<lambda>c. c \<noteq> CHR ''*'' \<and> c \<noteq> CHR 0x0A) ''*'' s of
        Some (t, r) \<Rightarrow> Some (NEm t, r)
      | None \<Rightarrow>
     (case span_between ''['' (\<lambda>c. c \<noteq> CHR '']'') ''](''  s of
        None \<Rightarrow> None
      | Some (t, r) \<Rightarrow>
          (case span_between [] (\<lambda>c. c \<noteq> CHR '')'') '')'' r of
             None \<Rightarrow> None
           | Some (u, r') \<Rightarrow> Some (link_node t u, r'))))))"

fun find_inline :: "string \<Rightarrow> (string \<times> inline_node \<times> string) option" where
  \<comment> \<open>\<open>INLINE_RE.exec\<close>: the text before the leftmost token, its node, the text after it\<close>
  "find_inline [] = None"
| "find_inline (c # s) =
     (case match_inline (c # s) of
        Some (n, r) \<Rightarrow> Some ([], n, r)
      | None \<Rightarrow> map_option (\<lambda>(p, n, r). (c # p, n, r)) (find_inline s))"

lemma span_between_rest: "span_between op ok cl s = Some (t, r) \<Longrightarrow> t \<noteq> [] \<and> length r < length s"
proof -
  assume *: "span_between op ok cl s = Some (t, r)"
  let ?b = "drop (length op) s"
  from * have t: "t = takeWhile ok ?b" "t \<noteq> []" "r = drop (length cl) (dropWhile ok ?b)"
    by (auto simp: span_between_def Let_def split: if_splits)
  have "length t + length (dropWhile ok ?b) = length ?b"
    unfolding t(1) by (metis length_append takeWhile_dropWhile_id)
  moreover have "length t > 0" using t(2) by simp
  moreover have "length r \<le> length (dropWhile ok ?b)" unfolding t(3) by simp
  moreover have "length ?b \<le> length s" by simp
  ultimately have "length r < length s" by linarith
  with t(2) show ?thesis by blast
qed

lemma match_inline_rest: "match_inline s = Some (n, r) \<Longrightarrow> length r < length s"
  by (auto simp: match_inline_def split: option.splits dest!: span_between_rest)

lemma find_inline_rest: "find_inline s = Some (p, n, r) \<Longrightarrow> length r < length s"
  by (induction s arbitrary: p) (auto split: option.splits dest!: match_inline_rest simp: less_Suc_eq)

function (sequential) renderInline :: "string \<Rightarrow> inline_node list" where
  "renderInline rest =
     (if rest = [] then []
      else case find_inline rest of
        None \<Rightarrow> [NText rest]
      | Some (p, n, r) \<Rightarrow> (if p = [] then [] else [NText p]) @ n # renderInline r)"
  by pat_completeness auto

termination by (relation "measure length") (auto dest: find_inline_rest)

declare renderInline.simps [simp del]

section \<open>Lines\<close>

definition fence :: "string \<Rightarrow> bool" where
  "fence line \<longleftrightarrow> startsWith (trim line) ''```''"

definition rule_line :: "string \<Rightarrow> bool" where
  \<comment> \<open>\<open>/^(-{3,}|\*{3,}|_{3,})$/\<close> on the trimmed line\<close>
  "rule_line line \<longleftrightarrow>
     (let t = trim line in 3 \<le> length t \<and> list_ex (\<lambda>m. list_all (\<lambda>c. c = m) t) ''-*_'')"

definition heading_prefix :: "string \<Rightarrow> (nat \<times> string) option" where
  \<comment> \<open>\<open>/^(#{1,6})\s+/\<close>: the level and what follows the white space\<close>
  "heading_prefix line =
     (let n = length (takeWhile (\<lambda>c. c = CHR ''#'') line); r = dropWhile (\<lambda>c. c = CHR ''#'') line
      in if 1 \<le> n \<and> n \<le> 6 \<and> r \<noteq> [] \<and> is_ws (hd r) then Some (n, dropWhile is_ws r) else None)"

definition line_terminator :: "char \<Rightarrow> bool" where
  "line_terminator c \<longleftrightarrow> c = CHR 0x0A \<or> c = CHR 0x0D"

definition heading :: "string \<Rightarrow> (nat \<times> string) option" where
  \<comment> \<open>\<open>/^(#{1,6})\s+(.*)$/\<close>: the dot matches no line terminator\<close>
  "heading line =
     (case heading_prefix line of
        None \<Rightarrow> None
      | Some (n, t) \<Rightarrow> if list_ex line_terminator t then None else Some (n, t))"

definition quote_line :: "string \<Rightarrow> string option" where
  \<comment> \<open>\<open>/^>\s?/\<close> and what its removal leaves\<close>
  "quote_line line =
     (if startsWith line ''>''
      then Some (let r = tl line in if r \<noteq> [] \<and> is_ws (hd r) then tl r else r)
      else None)"

definition bullet :: "string \<Rightarrow> string option" where
  \<comment> \<open>\<open>/^\s*[-*+]\s+/\<close> and what its removal leaves\<close>
  "bullet line =
     (case dropWhile is_ws line of
        c # w # r \<Rightarrow> if c \<in> set ''-*+'' \<and> is_ws w then Some (dropWhile is_ws r) else None
      | _ \<Rightarrow> None)"

definition numbered :: "string \<Rightarrow> string option" where
  \<comment> \<open>\<open>/^\s*\d+\.\s+/\<close> and what its removal leaves\<close>
  "numbered line =
     (let t = dropWhile is_ws line in
      if takeWhile is_digit t = [] then None
      else case dropWhile is_digit t of
        c # w # r \<Rightarrow> if c = CHR ''.'' \<and> is_ws w then Some (dropWhile is_ws r) else None
      | _ \<Rightarrow> None)"

definition isBlockStart :: "string \<Rightarrow> bool" where
  "isBlockStart line \<longleftrightarrow>
     trim line = [] \<or> fence line \<or> heading_prefix line \<noteq> None \<or> rule_line line \<or> quote_line line \<noteq> None \<or>
     bullet line \<noteq> None \<or> numbered line \<noteq> None"

definition splitTableRow :: "string \<Rightarrow> string list" where
  "splitTableRow row =
     (let r = trim row;
          r = (if startsWith r ''|'' then tl r else r);
          r = (if endsWith r ''|'' then butlast r else r)
      in map trim (splitOn (CHR ''|'') r))"

definition separator_cell :: "string \<Rightarrow> bool" where
  \<comment> \<open>\<open>/^\s*:?-+:?\s*$/\<close>\<close>
  "separator_cell c \<longleftrightarrow>
     (let t = trim c; u = (if startsWith t '':'' then tl t else t); v = dropWhile (\<lambda>c. c = CHR ''-'') u
      in takeWhile (\<lambda>c. c = CHR ''-'') u \<noteq> [] \<and> (v = [] \<or> v = '':''))"

definition isTableSeparator :: "string \<Rightarrow> bool" where
  "isTableSeparator line \<longleftrightarrow>
     CHR ''-'' \<in> set line \<and> CHR ''|'' \<in> set line \<and> list_all separator_cell (splitTableRow line)"

section \<open>Blocks\<close>

fun crlf :: "string \<Rightarrow> string" where
  \<comment> \<open>\<open>replace(/\r\n/g, "\n")\<close>\<close>
  "crlf (c # d # s) = (if c = CHR 0x0D \<and> d = CHR 0x0A then d # crlf s else c # crlf (d # s))"
| "crlf s = s"

definition md_lines :: "string \<Rightarrow> string list" where
  "md_lines md = splitOn (CHR 0x0A) (crlf md)"

definition table_row :: "string \<Rightarrow> bool" where
  "table_row line \<longleftrightarrow> CHR ''|'' \<in> set line \<and> trim line \<noteq> []"

definition next_block :: "string \<Rightarrow> string list \<Rightarrow> md_block option \<times> string list" where
  \<comment> \<open>one iteration of the loop at a line and the lines after it: what it pushes and where it goes on\<close>
  "next_block line rest =
     (if trim line = [] then (None, rest)
      else if fence line
      then (Some (BPre (joinWith [CHR 0x0A] (takeWhile (\<lambda>l. \<not> fence l) rest))), drop 1 (dropWhile (\<lambda>l. \<not> fence l) rest))
      else if rule_line line then (Some BHr, rest)
      else case heading line of
        Some (n, t) \<Rightarrow> (Some (BHeading n (renderInline t)), rest)
      | None \<Rightarrow>
          if quote_line line \<noteq> None
          then (Some (BQuote (renderInline (joinWith '' '' (List.map_filter quote_line (takeWhile (\<lambda>l. quote_line l \<noteq> None) (line # rest)))))),
                dropWhile (\<lambda>l. quote_line l \<noteq> None) (line # rest))
          else if CHR ''|'' \<in> set line \<and> rest \<noteq> [] \<and> isTableSeparator (hd rest)
          then (Some (BTable (map renderInline (splitTableRow line))
                             (map (\<lambda>l. map renderInline (splitTableRow l)) (takeWhile table_row (tl rest)))),
                dropWhile table_row (tl rest))
          else if bullet line \<noteq> None
          then (Some (BUl (map renderInline (List.map_filter bullet (takeWhile (\<lambda>l. bullet l \<noteq> None) (line # rest))))),
                dropWhile (\<lambda>l. bullet l \<noteq> None) (line # rest))
          else if numbered line \<noteq> None
          then (Some (BOl (map renderInline (List.map_filter numbered (takeWhile (\<lambda>l. numbered l \<noteq> None) (line # rest))))),
                dropWhile (\<lambda>l. numbered l \<noteq> None) (line # rest))
          else (Some (BPara (renderInline (joinWith '' '' (takeWhile (\<lambda>l. \<not> isBlockStart l) (line # rest))))),
                dropWhile (\<lambda>l. \<not> isBlockStart l) (line # rest)))"

fun renderBlocks :: "nat \<Rightarrow> string list \<Rightarrow> md_block list option" where
  \<comment> \<open>the loop, with fuel for its iterations; \<open>None\<close> when it runs out\<close>
  "renderBlocks fuel [] = Some []"
| "renderBlocks 0 (line # rest) = None"
| "renderBlocks (Suc fuel) (line # rest) =
     (let (b, rest') = next_block line rest in
      map_option (\<lambda>bs. (case b of None \<Rightarrow> bs | Some x \<Rightarrow> x # bs)) (renderBlocks fuel rest'))"

datatype guide_view = GEmpty | GBlocks "md_block list"

definition GuideMarkdown :: "nat \<Rightarrow> string \<Rightarrow> guide_view option" where
  "GuideMarkdown fuel content =
     (if trim content = [] then Some GEmpty else map_option GBlocks (renderBlocks fuel (md_lines content)))"

section \<open>Termination\<close>

definition line_ok :: "string \<Rightarrow> bool" where
  \<comment> \<open>a line on which the loop advances: what starts like a heading is one\<close>
  "line_ok line \<longleftrightarrow> (heading_prefix line \<noteq> None \<longrightarrow> heading line \<noteq> None)"

lemma dropWhile_head: "P x \<Longrightarrow> length (dropWhile P (x # xs)) \<le> length xs"
  by (simp add: length_dropWhile_le)

lemma paragraph_start:
  assumes "line_ok line" "trim line \<noteq> []" "\<not> fence line" "\<not> rule_line line" "heading line = None"
    "quote_line line = None" "bullet line = None" "numbered line = None"
  shows "\<not> isBlockStart line"
  using assms by (auto simp: isBlockStart_def line_ok_def)

lemma next_block_advances:
  assumes "line_ok line"
  shows "length (snd (next_block line rest)) \<le> length rest"
proof -
  have d: "length (dropWhile P xs) \<le> length xs" for P and xs :: "string list" by (rule length_dropWhile_le)
  have tl: "length (dropWhile table_row (tl rest)) \<le> length rest" using d [of table_row "tl rest"] by simp
  have fenced: "length (dropWhile (\<lambda>l. \<not> fence l) rest) - Suc 0 \<le> length rest"
    using d [of "\<lambda>l. \<not> fence l" rest] by linarith
  show ?thesis
    using assms fenced tl paragraph_start [OF assms]
    by (auto simp: next_block_def length_dropWhile_le split: option.splits)
qed

lemma suffix_next_block: "set (snd (next_block line rest)) \<subseteq> set (line # rest)"
  by (auto simp: next_block_def split: option.splits if_splits
      dest!: set_dropWhileD in_set_dropD list.set_sel(2) [rotated])

lemma renderBlocks_ends:
  "\<forall>l \<in> set ls. line_ok l \<Longrightarrow> length ls \<le> fuel \<Longrightarrow> \<exists>bs. renderBlocks fuel ls = Some bs"
proof (induction fuel ls rule: renderBlocks.induct)
  case (3 fuel line rest)
  obtain b rest' where nb: "next_block line rest = (b, rest')" by fastforce
  have "length rest' \<le> length rest" using next_block_advances [of line rest] "3.prems"(1) nb by simp
  moreover have "\<forall>l \<in> set rest'. line_ok l" using suffix_next_block [of line rest] "3.prems"(1) nb by auto
  ultimately obtain bs where "renderBlocks fuel rest' = Some bs" using "3.IH" [OF nb [symmetric]] "3.prems"(2) by auto
  then show ?case by (simp add: nb)
qed auto

lemma splitOn_sub: "w \<in> set (splitOn d s) \<Longrightarrow> set w \<subseteq> set s"
  by (induction s arbitrary: w) (fastforce split: if_splits list.splits)+

lemma heading_prefix_sub: "heading_prefix line = Some (n, t) \<Longrightarrow> set t \<subseteq> set line"
  by (auto simp: heading_prefix_def Let_def split: if_splits dest!: set_dropWhileD)

lemma line_ok_no_terminator:
  assumes "CHR 0x0A \<notin> set line" "CHR 0x0D \<notin> set line"
  shows "line_ok line"
proof -
  have "\<not> list_ex line_terminator t" if "heading_prefix line = Some (n, t)" for n t
  proof
    assume "list_ex line_terminator t"
    then obtain c where "c \<in> set t" "c = CHR 0x0A \<or> c = CHR 0x0D" unfolding list_ex_iff line_terminator_def by blast
    with heading_prefix_sub [OF that] assms show False by blast
  qed
  then show ?thesis by (auto simp: line_ok_def heading_def split: option.splits)
qed



section \<open>Where it does not end\<close>

lemma heading_prefix_shape:
  assumes "heading_prefix line \<noteq> None"
  shows "startsWith line ''#''"
  using assms by (cases line) (auto simp: heading_prefix_def startsWith_def split: if_splits)

lemma hash_line:
  assumes "startsWith line ''#''"
  shows "trim line \<noteq> []" "\<not> fence line" "\<not> rule_line line" "quote_line line = None" "bullet line = None" "numbered line = None"
proof -
  obtain r where line: "line = CHR ''#'' # r" using assms by (cases line) (auto simp: startsWith_def)
  have ws: "\<not> is_ws (CHR ''#'')" by (simp add: is_ws_def)
  then obtain u where t: "trim line = CHR ''#'' # u"
    unfolding line trim_def trimStart_def by (simp add: trimEnd_Cons)
  show "trim line \<noteq> []" "\<not> fence line" "\<not> rule_line line" by (simp_all add: fence_def rule_line_def t startsWith_def)
  show "quote_line line = None" by (simp add: quote_line_def line startsWith_def)
  show "bullet line = None" using ws by (cases r) (simp_all add: bullet_def line)
  show "numbered line = None" using ws by (simp add: numbered_def line is_digit_def)
qed

lemma stuck_line:
  assumes "heading_prefix line \<noteq> None" "heading line = None" "CHR ''|'' \<notin> set line"
  shows "renderBlocks fuel (line # rest) = None"
proof -
  note hash = hash_line [OF heading_prefix_shape [OF assms(1)]]
  have "isBlockStart line" using assms(1) by (simp add: isBlockStart_def)
  with hash assms have "snd (next_block line rest) = line # rest" by (simp add: next_block_def)
  then show ?thesis
    by (induction fuel) (auto simp: Let_def split: prod.splits)
qed


section \<open>Links\<close>

fun links_of :: "inline_node \<Rightarrow> string list" where
  "links_of (NLink h t) = [h]"
| "links_of _ = []"

definition inline_links :: "inline_node list \<Rightarrow> string list" where
  "inline_links ns = concat (map links_of ns)"

fun block_links :: "md_block \<Rightarrow> string list" where
  "block_links (BHeading n ns) = inline_links ns"
| "block_links (BQuote ns) = inline_links ns"
| "block_links (BTable h rows) = concat (map inline_links h) @ concat (map (\<lambda>r. concat (map inline_links r)) rows)"
| "block_links (BUl xs) = concat (map inline_links xs)"
| "block_links (BOl xs) = concat (map inline_links xs)"
| "block_links (BPara ns) = inline_links ns"
| "block_links _ = []"

fun view_links :: "guide_view \<Rightarrow> string list" where
  "view_links GEmpty = []"
| "view_links (GBlocks bs) = concat (map block_links bs)"

lemma match_inline_safe: "match_inline s = Some (n, r) \<Longrightarrow> h \<in> set (links_of n) \<Longrightarrow> isSafeHref h"
  by (auto simp: match_inline_def link_node_def split: option.splits if_splits)

lemma find_inline_safe: "find_inline s = Some (p, n, r) \<Longrightarrow> h \<in> set (links_of n) \<Longrightarrow> isSafeHref h"
  by (induction s arbitrary: p) (auto split: option.splits dest: match_inline_safe)

lemma renderInline_safe: "h \<in> set (inline_links (renderInline s)) \<Longrightarrow> isSafeHref h"
proof (induction s rule: renderInline.induct)
  case (1 rest)
  show ?case
  proof (cases "find_inline rest")
    case None
    with "1.prems" show ?thesis by (simp add: renderInline.simps [of rest] inline_links_def split: if_splits)
  next
    case (Some x)
    obtain p n r where x: "x = (p, n, r)" by (cases x)
    from Some x have ne: "rest \<noteq> []" by auto
    from "1.prems" Some x ne have "h \<in> set (links_of n) \<or> h \<in> set (inline_links (renderInline r))"
      by (auto simp: renderInline.simps [of rest] inline_links_def split: if_splits)
    then show ?thesis using "1.IH" [OF ne Some [unfolded x]] find_inline_safe Some x by blast
  qed
qed

lemma next_block_safe: "next_block line rest = (Some b, rest') \<Longrightarrow> h \<in> set (block_links b) \<Longrightarrow> isSafeHref h"
  by (auto simp: next_block_def split: if_splits option.splits dest: renderInline_safe)

lemma renderBlocks_safe: "renderBlocks fuel ls = Some bs \<Longrightarrow> b \<in> set bs \<Longrightarrow> h \<in> set (block_links b) \<Longrightarrow> isSafeHref h"
proof (induction fuel ls arbitrary: bs rule: renderBlocks.induct)
  case (3 fuel line rest)
  obtain x rest' where nb: "next_block line rest = (x, rest')" by fastforce
  from "3.prems"(1) obtain cs where cs: "renderBlocks fuel rest' = Some cs" "bs = (case x of None \<Rightarrow> cs | Some y \<Rightarrow> y # cs)"
    by (auto simp: nb)
  with "3.prems"(2) consider "b \<in> set cs" | "x = Some b" by (cases x) auto
  then show ?case
  proof cases
    case 1
    then show ?thesis using "3.IH" [OF nb [symmetric] refl cs(1)] "3.prems"(3) by blast
  next
    case 2
    then show ?thesis using next_block_safe nb "3.prems"(3) by blast
  qed
qed auto

definition scheme_char :: "char \<Rightarrow> bool" where
  "scheme_char c \<longleftrightarrow> is_lower_az (lower_char c) \<or> is_digit c \<or> c \<in> set ''+-.''"

definition url_clean :: "string \<Rightarrow> string" where
  \<comment> \<open>the URL standard: tabs and newlines are removed, leading controls and spaces skipped\<close>
  "url_clean s = dropWhile (\<lambda>c. code c \<le> 32) (filter (\<lambda>c. c \<notin> {CHR 0x09, CHR 0x0A, CHR 0x0D}) s)"

definition url_scheme :: "string \<Rightarrow> string option" where
  \<comment> \<open>the scheme a browser finds in an \<open>href\<close>, if it is not relative\<close>
  "url_scheme s =
     (let t = url_clean s; n = takeWhile scheme_char t
      in if n \<noteq> [] \<and> is_lower_az (lower_char (hd n)) \<and> startsWith (dropWhile scheme_char t) '':''
         then Some (toLowerCase n) else None)"

definition plain_letter :: "char \<Rightarrow> bool" where
  "plain_letter c \<longleftrightarrow> scheme_char c \<and> is_lower_az (lower_char c) \<and> code c > 32 \<and> c \<notin> {CHR 0x09, CHR 0x0A, CHR 0x0D}"

lemma plain_letter_https: "lower_char c \<in> set ''https'' \<Longrightarrow> plain_letter c"
  by (auto simp: plain_letter_def scheme_char_def is_lower_az_def code_lower_char is_upper_def
      dest: arg_cong [of _ _ code] split: if_splits)

lemma scheme_of_prefix:
  assumes "w \<noteq> []" "\<forall>c \<in> set w. plain_letter c"
  shows "url_scheme (w @ CHR '':'' # r) = Some (toLowerCase w)"
proof -
  let ?keep = "\<lambda>c. c \<notin> {CHR 0x09, CHR 0x0A, CHR 0x0D}"
  have "filter ?keep w = w" using assms(2) by (intro filter_True) (simp add: plain_letter_def)
  then have "filter ?keep (w @ CHR '':'' # r) = w @ CHR '':'' # filter ?keep r" by simp
  moreover have "dropWhile (\<lambda>c. code c \<le> 32) (w @ x) = w @ x" for x
    using assms by (cases w) (simp_all add: plain_letter_def)
  ultimately have clean: "url_clean (w @ CHR '':'' # r) = w @ CHR '':'' # filter ?keep r" by (simp only: url_clean_def)
  have colon: "\<not> scheme_char (CHR '':'')" by code_simp
  have all: "\<forall>c \<in> set w. scheme_char c" using assms(2) by (simp add: plain_letter_def)
  then have "takeWhile scheme_char (w @ CHR '':'' # x) = w" "dropWhile scheme_char (w @ CHR '':'' # x) = CHR '':'' # x" for x
    using colon by (simp_all add: takeWhile_append dropWhile_append)
  moreover have "is_lower_az (lower_char (hd w))" using assms by (simp add: plain_letter_def)
  ultimately show ?thesis using assms(1) unfolding url_scheme_def clean by (simp add: startsWith_def)
qed

lemma lower_prefix:
  assumes "startsWith (toLowerCase u) p"
  shows "\<exists>w r. u = w @ r \<and> toLowerCase w = p"
  using assms unfolding startsWith_def toLowerCase_def
  by (metis append_take_drop_id take_map)

lemma scheme_http_prefix:
  assumes "toLowerCase w = p @ ''://''" "p \<in> {''http'', ''https''}"
  shows "url_scheme (w @ r) = Some p"
proof -
  let ?n = "length p"
  have len: "length w = ?n + 3" using assms(1) by (metis toLowerCase_simps(2) length_append length_Cons list.size(3) Suc_1 One_nat_def numeral_3_eq_3)
  have low: "toLowerCase (take ?n w) = p" using assms(1) by (simp add: toLowerCase_def flip: take_map)
  then have letters: "\<forall>c \<in> set (take ?n w). plain_letter c"
    using assms(2) plain_letter_https by (fastforce simp: toLowerCase_def)
  have "lower_char (w ! ?n) = CHR '':''" using assms(1) len by (metis nth_append_length nth_map toLowerCase_def less_add_same_cancel1 zero_less_numeral)
  then have "w ! ?n = CHR '':''" by (auto simp: lower_char_def is_upper_def dest: arg_cong [of _ _ code] split: if_splits)
  then have "w = take ?n w @ CHR '':'' # drop (Suc ?n) w" using len by (metis id_take_nth_drop less_add_same_cancel1 zero_less_numeral)
  then have "url_scheme (w @ r) = url_scheme (take ?n w @ CHR '':'' # (drop (Suc ?n) w @ r))" by (metis append.assoc append_Cons)
  also have "take ?n w \<noteq> []" using low assms(2) by (metis insertE singletonD toLowerCase_simps(3) list.distinct(1))
  then have "url_scheme (take ?n w @ CHR '':'' # (drop (Suc ?n) w @ r)) = Some p" using scheme_of_prefix [OF _ letters] low by simp
  finally show ?thesis .
qed

lemma scheme_relative:
  assumes "startsWith u ''/'' \<or> startsWith u ''#''"
  shows "url_scheme u = None"
proof -
  obtain c r where u: "u = c # r" "c = CHR ''/'' \<or> c = CHR ''#''" using assms by (cases u) (auto simp: startsWith_def)
  have "\<not> scheme_char (CHR ''/'')" "\<not> scheme_char (CHR ''#'')" by code_simp+
  with u show ?thesis by (auto simp: url_scheme_def url_clean_def Let_def)
qed

lemma safe_scheme: "isSafeHref u \<Longrightarrow> url_scheme u \<in> {None, Some ''http'', Some ''https''}"
proof -
  assume "isSafeHref u"
  then consider "startsWith (toLowerCase u) (''http'' @ ''://'')" | "startsWith (toLowerCase u) (''https'' @ ''://'')"
    | "startsWith u ''/'' \<or> startsWith u ''#''"
    by (auto simp: isSafeHref_def)
  then show ?thesis
  proof cases
    case 1
    from lower_prefix [OF 1] scheme_http_prefix show ?thesis by blast
  next
    case 2
    from lower_prefix [OF 2] scheme_http_prefix show ?thesis by blast
  next
    case 3
    from scheme_relative [OF 3] show ?thesis by simp
  qed
qed

text \<open>
  C17: The links of a rendered guide cannot run scripts. Whatever text a guide holds, every link the
  renderer emits is, as a browser resolves it, relative or has the scheme \<open>http\<close> or \<open>https\<close>.
\<close>

theorem guide_links_safe:
  assumes "GuideMarkdown fuel content = Some v" "h \<in> set (view_links v)"
  shows "url_scheme h \<in> {None, Some ''http'', Some ''https''}"
proof -
  from assms obtain bs b where "renderBlocks fuel (md_lines content) = Some bs" "b \<in> set bs" "h \<in> set (block_links b)"
    by (cases v) (auto simp: GuideMarkdown_def split: if_splits)
  then show ?thesis using renderBlocks_safe safe_scheme by blast
qed

definition demo_guide :: string where
  "demo_guide = ''See [docs](https://x.io) or [run](javascript:alert)''"

theorem guide_links_safe_witness:
  "\<exists>v. GuideMarkdown 1 demo_guide = Some v \<and> set (view_links v) = {''https://x.io''} \<and>
     url_scheme ''https://x.io'' \<in> {None, Some ''http'', Some ''https''}"
proof -
  have run: "GuideMarkdown 1 demo_guide =
      Some (GBlocks [BPara [NText ''See '', NLink ''https://x.io'' ''docs'', NText '' or '', NText ''run'']])" by code_simp
  from guide_links_safe [OF run, of "''https://x.io''"] run show ?thesis by (simp add: inline_links_def)
qed

text \<open>
  The comment of \<open>isSafeHref\<close> excludes links that leave the site without a scheme; a browser reads a
  backslash there as a slash.
\<close>

definition network_path :: "string \<Rightarrow> bool" where
  \<comment> \<open>the URL standard on a relative reference: two slashes of either kind start an authority\<close>
  "network_path s \<longleftrightarrow> (case url_clean s of c # d # r \<Rightarrow> {c, d} \<subseteq> {CHR ''/'', CHR 0x5C} | _ \<Rightarrow> False)"

lemma backslash_link_leaves_site: "isSafeHref (''/'' @ CHR 0x5C # ''evil.com'') \<and> network_path (''/'' @ CHR 0x5C # ''evil.com'')"
  by code_simp

end
