(* ===== verification/Auth_Session.thy ===== *)
theory Auth_Session
  imports Js_Json
begin

text \<open>
  The session of the signed-in user: the in-memory auth store
  (\<^verbatim>\<open>ui/src/stores/auth-store.ts\<close>) and the Keycloak bootstrap module
  (\<^verbatim>\<open>ui/src/lib/auth/keycloak.ts\<close>) that owns the token life cycle and mirrors it into the store.
  The \<open>keycloak-js\<close> client itself is third-party code: what it does to its instance on
  \<open>updateToken\<close> and \<open>init\<close> is an argument of the definitions.
\<close>

section \<open>The auth store\<close>

record auth_store =
  accessToken :: "string option"
  claims :: "json option"
  refreshing :: bool

definition initial_auth :: auth_store where
  "initial_auth = \<lparr>accessToken = None, claims = None, refreshing = False\<rparr>"

definition setToken :: "string \<Rightarrow> json option \<Rightarrow> auth_store \<Rightarrow> auth_store" where
  "setToken tok cl s = s\<lparr>accessToken := Some tok, claims := cl\<rparr>"

definition setRefreshing :: "bool \<Rightarrow> auth_store \<Rightarrow> auth_store" where
  "setRefreshing b s = s\<lparr>refreshing := b\<rparr>"

definition clear :: "auth_store \<Rightarrow> auth_store" where
  "clear s = s\<lparr>accessToken := None, claims := None, refreshing := False\<rparr>"

fun json_strings :: "json list \<Rightarrow> string list" where
  "json_strings [] = []"
| "json_strings (JStr s # js) = s # json_strings js"
| "json_strings (_ # js) = json_strings js"

definition getRealmRoles :: "auth_store \<Rightarrow> string list" where
  "getRealmRoles s =
     (case Option.bind (claims s) (\<lambda>c. Option.bind (json_field c ''realm_access'')
            (\<lambda>r. json_field r ''roles'')) of
        Some (JArr js) \<Rightarrow> json_strings js
      | _ \<Rightarrow> [])"

section \<open>The Keycloak module\<close>

record web_oidc_config =
  issuerUrl :: string
  clientId :: string
  redirectUri :: "string option"
  scopes :: "string list option"

record keycloak_instance =
  authenticated :: bool
  kc_token :: "string option"
  tokenParsed :: "json option"

record keycloak_module =
  keycloak :: "keycloak_instance option"
  initPromise :: "(string + keycloak_instance) option" \<comment> \<open>\<open>Inl\<close>: the promise rejects\<close>
  oidcConfig :: "web_oidc_config option"
  store :: auth_store

definition initial_module :: keycloak_module where
  "initial_module =
     \<lparr>keycloak = None, initPromise = None, oidcConfig = None, store = initial_auth\<rparr>"

subsection \<open>Splitting the issuer URL\<close>

definition is_line_terminator :: "char \<Rightarrow> bool" where
  "is_line_terminator c = (code c = 10 \<or> code c = 13)"

definition splitIssuerUrl :: "string \<Rightarrow> string + string \<times> string" where
  \<comment> \<open>\<open>/^(.*)\/realms\/([^/]+)$/\<close> on the issuer without its trailing slashes; the error is the
     message of the thrown \<open>Error\<close>. The realm has no slash, so it is the last segment.\<close>
  "splitIssuerUrl u =
     (let cleaned = stripTrailingSlashes u;
          realm = rev (takeWhile (\<lambda>c. c \<noteq> CHR ''/'') (rev cleaned));
          front = rev (dropWhile (\<lambda>c. c \<noteq> CHR ''/'') (rev cleaned));
          base = take (length front - 8) front
      in if realm \<noteq> [] \<and> endsWith front ''/realms/'' \<and> (\<forall>c \<in> set base. \<not> is_line_terminator c)
         then Inr (base, realm)
         else Inl (''Invalid OIDC issuerUrl: expected '' @ [CHR 0x27] @ ''<base>/realms/<realm>''
                   @ [CHR 0x27] @ '' (got '' @ [CHR 0x27] @ u @ [CHR 0x27] @ '')''))"

subsection \<open>Loading the configuration\<close>

record fetched_config =
  fc_ok :: bool
  fc_status :: nat
  fc_statusText :: string
  fc_body :: "web_oidc_config option" \<comment> \<open>\<open>None\<close>: \<open>res.json()\<close> rejects\<close>

definition OIDC_CONFIG_PATH :: string where
  "OIDC_CONFIG_PATH = ''/web-oidc-config.json''"

definition fetchOidcConfig ::
  "fetched_config \<Rightarrow> keycloak_module \<Rightarrow> (string + web_oidc_config) \<times> keycloak_module" where
  "fetchOidcConfig res m =
     (case oidcConfig m of
        Some cfg \<Rightarrow> (Inr cfg, m)
      | None \<Rightarrow>
          (if \<not> fc_ok res then
             (Inl (''Failed to load '' @ OIDC_CONFIG_PATH @ '': '' @ nat_str (fc_status res) @ '' ''
                   @ fc_statusText res), m)
           else (case fc_body res of
               None \<Rightarrow> (Inl ''SyntaxError'', m)
             | Some data \<Rightarrow>
                 (if issuerUrl data = [] \<or> clientId data = [] then
                    (Inl (OIDC_CONFIG_PATH @ '' is missing required fields (issuerUrl/clientId)''), m)
                  else (Inr data, m\<lparr>oidcConfig := Some data\<rparr>)))))"

subsection \<open>Mirroring the token\<close>

definition syncTokenToStore :: "keycloak_instance \<Rightarrow> auth_store \<Rightarrow> auth_store" where
  "syncTokenToStore kc s =
     (if authenticated kc \<and> truthy (kc_token kc) then setToken (the (kc_token kc)) (tokenParsed kc) s
      else clear s)"

type_synonym kc_update = "keycloak_instance \<Rightarrow> nat \<Rightarrow> bool \<times> keycloak_instance"
  \<comment> \<open>\<open>updateToken\<close>: whether it resolves, and the instance afterwards\<close>

type_synonym kc_init = "string \<times> string \<times> string \<Rightarrow> bool \<times> keycloak_instance"
  \<comment> \<open>constructor and \<open>init\<close> on (url, realm, clientId): whether it resolves, and the instance\<close>

definition initKeycloak ::
  "fetched_config \<Rightarrow> kc_init \<Rightarrow> keycloak_module \<Rightarrow> (string + keycloak_instance) \<times> keycloak_module" where
  \<comment> \<open>the promise is created once and returned to every later caller, settled or not\<close>
  "initKeycloak res kinit m =
     (case initPromise m of
        Some p \<Rightarrow> (p, m)
      | None \<Rightarrow>
          (let (r, m1) = fetchOidcConfig res m;
               (out, m2) =
                 (case r of
                    Inl e \<Rightarrow> (Inl e, m1)
                  | Inr cfg \<Rightarrow>
                      (case splitIssuerUrl (issuerUrl cfg) of
                         Inl e \<Rightarrow> (Inl e, m1)
                       | Inr (url, realm) \<Rightarrow>
                           (case kinit (url, realm, clientId cfg) of
                              (True, kc) \<Rightarrow>
                                (Inr kc, m1\<lparr>store := syncTokenToStore kc (store m1), keycloak := Some kc\<rparr>)
                            | (False, kc) \<Rightarrow> (Inl ''keycloak init rejected'', m1))))
           in (out, m2\<lparr>initPromise := Some out\<rparr>)))"

definition onTokenExpired :: "kc_update \<Rightarrow> keycloak_instance \<Rightarrow> auth_store \<Rightarrow> auth_store" where
  "onTokenExpired updateToken kc s =
     (case updateToken kc 30 of (True, kc') \<Rightarrow> syncTokenToStore kc' s | (False, _) \<Rightarrow> clear s)"

definition onAuthLogout :: "auth_store \<Rightarrow> auth_store" where
  "onAuthLogout s = clear s"

definition getToken :: "keycloak_module \<Rightarrow> string option" where
  "getToken m = Option.bind (keycloak m) kc_token"

definition login ::
  "fetched_config \<Rightarrow> kc_init \<Rightarrow> keycloak_module \<Rightarrow> (string + keycloak_instance) \<times> keycloak_module" where
  \<comment> \<open>the instance whose \<open>login\<close> redirect is started, or the rejection; \<open>logout\<close> has the same shape\<close>
  "login res kinit m =
     (case keycloak m of Some kc \<Rightarrow> (Inr kc, m) | None \<Rightarrow> initKeycloak res kinit m)"

definition refreshToken ::
  "kc_update \<Rightarrow> nat \<Rightarrow> keycloak_module \<Rightarrow> string option \<times> keycloak_module" where
  "refreshToken updateToken minValiditySeconds m =
     (case keycloak m of
        None \<Rightarrow> (None, m)
      | Some kc \<Rightarrow>
          (let s1 = setRefreshing True (store m) in
           (case updateToken kc minValiditySeconds of
              (True, kc') \<Rightarrow>
                (kc_token kc',
                 m\<lparr>keycloak := Some kc', store := setRefreshing False (syncTokenToStore kc' s1)\<rparr>)
            | (False, kc') \<Rightarrow>
                (None, m\<lparr>keycloak := Some kc', store := setRefreshing False (clear s1)\<rparr>))))"

section \<open>Properties\<close>

lemmas auth_defs = setToken_def setRefreshing_def clear_def syncTokenToStore_def

text \<open>
  The store mirrors the client library: with an authenticated instance it holds that
  instance's token, otherwise it is empty.
\<close>

definition mirrors :: "keycloak_instance \<Rightarrow> auth_store \<Rightarrow> bool" where
  "mirrors kc s \<longleftrightarrow>
     (if authenticated kc \<and> truthy (kc_token kc)
      then accessToken s = kc_token kc \<and> claims s = tokenParsed kc
      else accessToken s = None \<and> claims s = None)"

lemma sync_mirrors: "mirrors kc (syncTokenToStore kc s)"
  by (auto simp: mirrors_def auth_defs truthy_def split: option.splits)

lemma mirrors_setRefreshing [simp]: "mirrors kc (setRefreshing b s) = mirrors kc s"
  by (simp add: mirrors_def setRefreshing_def)

lemma stripTrailingSlashes_append_slashes:
  "set sl \<subseteq> {CHR ''/''} \<Longrightarrow> stripTrailingSlashes (s @ sl) = stripTrailingSlashes s"
  unfolding stripTrailingSlashes_def
  by (induction sl rule: rev_induct) auto

lemma splitIssuerUrl_join:
  assumes "realm \<noteq> []" "CHR ''/'' \<notin> set realm" "\<forall>c \<in> set base. \<not> is_line_terminator c"
    and "set sl \<subseteq> {CHR ''/''}"
  shows "splitIssuerUrl (base @ ''/realms/'' @ realm @ sl) = Inr (base, realm)"
proof -
  let ?u = "base @ ''/realms/'' @ realm"
  have "stripTrailingSlashes (?u @ sl) = ?u"
  proof -
    have "hd (rev ?u) \<noteq> CHR ''/''" using assms(1,2) by (metis hd_rev last_appendR last_in_set append_is_Nil_conv)
    then have "dropWhile (\<lambda>c. c = CHR ''/'') (rev ?u) = rev ?u"
      using assms(1) by (subst dropWhile_eq_self_iff) simp
    then have "stripTrailingSlashes ?u = ?u" by (simp add: stripTrailingSlashes_def)
    then show ?thesis using assms(4) stripTrailingSlashes_append_slashes by metis
  qed
  then have cl: "stripTrailingSlashes (base @ ''/realms/'' @ realm @ sl) = ?u" by simp
  have tw: "takeWhile (\<lambda>c. c \<noteq> CHR ''/'') (rev ?u) = rev realm"
    using assms(2) by (simp add: takeWhile_append)
  have dw: "dropWhile (\<lambda>c. c \<noteq> CHR ''/'') (rev ?u) = rev (base @ ''/realms/'')"
    using assms(2) by (simp add: dropWhile_append)
  show ?thesis
    unfolding splitIssuerUrl_def Let_def cl tw dw
    using assms(1,3) by (simp add: endsWith_iff)
qed

lemma splitIssuerUrl_sound:
  assumes "splitIssuerUrl u = Inr (base, realm)"
  shows "stripTrailingSlashes u = base @ ''/realms/'' @ realm \<and> realm \<noteq> [] \<and> CHR ''/'' \<notin> set realm"
proof -
  define c where "c = stripTrailingSlashes u"
  define front where "front = rev (dropWhile (\<lambda>c. c \<noteq> CHR ''/'') (rev c))"
  have r: "realm = rev (takeWhile (\<lambda>c. c \<noteq> CHR ''/'') (rev c))" "realm \<noteq> []"
      "endsWith front ''/realms/''" "base = take (length front - 8) front"
    using assms by (auto simp: splitIssuerUrl_def Let_def c_def front_def split: if_splits)
  have "c = front @ realm"
    unfolding front_def r(1) by (metis rev_append rev_rev_ident takeWhile_dropWhile_id)
  moreover have "front = base @ ''/realms/''"
    using r(3,4) by (auto simp: endsWith_iff)
  moreover have "CHR ''/'' \<notin> set realm"
    unfolding r(1) by (auto dest: set_takeWhileD)
  ultimately show ?thesis using r(2) c_def by simp
qed

lemma initKeycloak_promise:
  "initKeycloak res kinit m = (r, m') \<Longrightarrow> initPromise m' = Some r"
  by (auto simp: initKeycloak_def Let_def split: option.splits prod.splits)

lemma initKeycloak_again:
  "initKeycloak res kinit m = (r, m') \<Longrightarrow> initKeycloak res' kinit' m' = (r, m')"
  using initKeycloak_promise [of res kinit m r m'] by (subst initKeycloak_def) simp

lemma refreshToken_store:
  assumes "refreshToken upd n m = (r, m')" "keycloak m = Some kc"
  shows "\<not> refreshing (store m')"
    and "fst (upd kc n) \<Longrightarrow> keycloak m' = Some (snd (upd kc n)) \<and> mirrors (snd (upd kc n)) (store m')"
    and "\<not> fst (upd kc n) \<Longrightarrow> r = None \<and> accessToken (store m') = None"
  using assms sync_mirrors [of "snd (upd kc n)" "setRefreshing True (store m)"]
  by (auto simp: refreshToken_def Let_def setRefreshing_def clear_def mirrors_def
      split: prod.splits bool.splits)

text \<open>
  An issuer URL in Keycloak's form is taken apart exactly. For every base URL without line
  terminators and every non-empty realm without slashes, \<open>splitIssuerUrl\<close> of the base, \<open>/realms/\<close>,
  the realm and any number of trailing slashes gives back base and realm.
\<close>

theorem issuer_url_roundtrip:
  assumes "realm \<noteq> []" "CHR ''/'' \<notin> set realm" "\<forall>c \<in> set base. \<not> is_line_terminator c"
    and "set sl \<subseteq> {CHR ''/''}"
  shows "splitIssuerUrl (base @ ''/realms/'' @ realm @ sl) = Inr (base, realm)"
  by (rule splitIssuerUrl_join [OF assms])

theorem issuer_url_roundtrip_witness:
  "splitIssuerUrl (''https://kc.example.com/auth'' @ ''/realms/'' @ ''acko'' @ ''//'') =
     Inr (''https://kc.example.com/auth'', ''acko'')"
  using issuer_url_roundtrip [of "''acko''" "''https://kc.example.com/auth''" "''//''"]
  by (simp add: is_line_terminator_def)

text \<open>
  Refreshing the token leaves the session consistent. Whatever the client library does, the
  refreshing flag is down afterwards; on success the store mirrors the library's new token exactly
  and the call returns it; on failure the call returns nothing, and the store holds no token.
\<close>

theorem refresh_leaves_consistent_session:
  assumes "refreshToken upd n m = (r, m')" "keycloak m = Some kc"
  shows "\<not> refreshing (store m') \<and>
    (if fst (upd kc n) then r = kc_token (snd (upd kc n)) \<and> mirrors (snd (upd kc n)) (store m')
     else r = None \<and> accessToken (store m') = None \<and> claims (store m') = None)"
  using assms sync_mirrors [of "snd (upd kc n)" "setRefreshing True (store m)"]
  by (auto simp: refreshToken_def Let_def setRefreshing_def clear_def mirrors_def
      split: prod.splits bool.splits)

definition demo_module :: keycloak_module where
  "demo_module = initial_module\<lparr>keycloak := Some \<lparr>authenticated = True, kc_token = Some ''t1'', tokenParsed = None\<rparr>\<rparr>"

theorem refresh_leaves_consistent_session_witness:
  "accessToken (store (snd (refreshToken (\<lambda>kc n. (False, kc)) 30 demo_module))) = None"
proof -
  let ?r = "refreshToken (\<lambda>kc n. (False, kc)) 30 demo_module"
  have "keycloak demo_module = Some \<lparr>authenticated = True, kc_token = Some ''t1'', tokenParsed = None\<rparr>"
    by (simp add: demo_module_def)
  from refresh_leaves_consistent_session [OF surjective_pairing this, of "\<lambda>kc n. (False, kc)" 30]
  show ?thesis by simp
qed

text \<open>
  Initialisation happens once. After the first call of \<open>initKeycloak\<close>, whatever it returned, any
  later call with any configuration returns the same outcome and changes nothing.
\<close>

theorem init_happens_once:
  assumes "initKeycloak res kinit m = (r, m')"
  shows "initKeycloak res' kinit' m' = (r, m')"
  by (rule initKeycloak_again [OF assms])

definition demo_missing_config :: fetched_config where
  "demo_missing_config = \<lparr>fc_ok = False, fc_status = 404, fc_statusText = ''Not Found'', fc_body = None\<rparr>"

definition demo_good_config :: fetched_config where
  "demo_good_config = \<lparr>fc_ok = True, fc_status = 200, fc_statusText = ''OK'', fc_body = None\<rparr>"

theorem init_happens_once_witness:
  "initKeycloak demo_good_config (\<lambda>_. (False, \<lparr>authenticated = False, kc_token = None, tokenParsed = None\<rparr>))
     (snd (initKeycloak demo_missing_config (\<lambda>_. (False, \<lparr>authenticated = False, kc_token = None, tokenParsed = None\<rparr>))
        initial_module)) =
   initKeycloak demo_missing_config (\<lambda>_. (False, \<lparr>authenticated = False, kc_token = None, tokenParsed = None\<rparr>))
     initial_module"
  using init_happens_once [OF surjective_pairing] by (metis surjective_pairing)

end
