(* ===== verification/Cluster_Selector.thy ===== *)
theory Cluster_Selector
  imports Js_Json
begin

text \<open>
  The cluster selector store (\<^verbatim>\<open>ui/src/stores/cluster-selector-store.ts\<close>): the registry of
  clusters fetched at boot, the persisted choice of cluster, and the single-flight hydration
  promise that every API request awaits. Promises are numbered; a step relation interleaves
  the beginnings and ends of any number of concurrent hydrations.
\<close>

section \<open>The store\<close>

record cluster_entry =
  ce_id :: string
  displayName :: string
  apiUrl :: string
  ce_labels :: "dict option"

record cluster_registry =
  defaultClusterId :: string
  clusters :: "cluster_entry list"

record selector_store =
  registry :: "cluster_registry option"
  currentClusterId :: "string option"
  registryError :: "string option"

definition initial_selector :: selector_store where
  "initial_selector = \<lparr>registry = None, currentClusterId = None, registryError = None\<rparr>"

definition setRegistry :: "cluster_registry \<Rightarrow> selector_store \<Rightarrow> selector_store" where
  "setRegistry reg s =
     (let ids = map ce_id (clusters reg);
          valid = (if truthy (currentClusterId s) \<and> the (currentClusterId s) \<in> set ids
                   then currentClusterId s else Some (defaultClusterId reg))
      in s\<lparr>registry := Some reg, currentClusterId := valid, registryError := None\<rparr>)"

definition setRegistryError :: "string option \<Rightarrow> selector_store \<Rightarrow> selector_store" where
  "setRegistryError e s = s\<lparr>registryError := e\<rparr>"

definition setCurrentClusterId :: "string \<Rightarrow> selector_store \<Rightarrow> selector_store" where
  "setCurrentClusterId i s = s\<lparr>currentClusterId := Some i\<rparr>"

definition partialize :: "selector_store \<Rightarrow> string option" where
  \<comment> \<open>what the \<open>persist\<close> middleware writes to local storage\<close>
  "partialize s = currentClusterId s"

definition rehydrate :: "string option \<Rightarrow> selector_store" where
  "rehydrate p = initial_selector\<lparr>currentClusterId := p\<rparr>"

definition getActiveCluster :: "selector_store \<Rightarrow> cluster_entry option" where
  "getActiveCluster s =
     (case registry s of
        None \<Rightarrow> None
      | Some reg \<Rightarrow>
          (case find (\<lambda>c. Some (ce_id c) = currentClusterId s) (clusters reg) of
             Some c \<Rightarrow> Some c
           | None \<Rightarrow>
               (case find (\<lambda>c. ce_id c = defaultClusterId reg) (clusters reg) of
                  Some c \<Rightarrow> Some c
                | None \<Rightarrow> (case clusters reg of [] \<Rightarrow> None | c # _ \<Rightarrow> Some c))))"

definition getActiveApiUrl :: "selector_store \<Rightarrow> string option" where
  "getActiveApiUrl s = map_option apiUrl (getActiveCluster s)"

section \<open>Hydration\<close>

record hydration =
  hydrationPromise :: "nat option"
  resolveHydration :: "nat option"
  settled :: "nat \<Rightarrow> bool"
  fresh :: nat \<comment> \<open>the number of the next promise\<close>
  inFlight :: nat \<comment> \<open>hydrations begun and not ended\<close>
  selector :: selector_store

definition initial_hydration :: "selector_store \<Rightarrow> hydration" where
  "initial_hydration s =
     \<lparr>hydrationPromise = None, resolveHydration = None, settled = (\<lambda>_. False), fresh = 0,
      inFlight = 0, selector = s\<rparr>"

definition ensurePendingPromise :: "hydration \<Rightarrow> hydration" where
  "ensurePendingPromise h =
     (case hydrationPromise h of
        Some _ \<Rightarrow> h
      | None \<Rightarrow> h\<lparr>hydrationPromise := Some (fresh h), resolveHydration := Some (fresh h),
                  fresh := Suc (fresh h)\<rparr>)"

definition settleHydration :: "hydration \<Rightarrow> hydration" where
  "settleHydration h =
     (case resolveHydration h of
        Some r \<Rightarrow> h\<lparr>resolveHydration := None, settled := (settled h)(r := True)\<rparr>
      | None \<Rightarrow>
          (if hydrationPromise h = None
           then h\<lparr>hydrationPromise := Some (fresh h), settled := (settled h)(fresh h := True),
                  fresh := Suc (fresh h)\<rparr>
           else h))"

datatype registry_fetch =
    FetchRejected string \<comment> \<open>the fetcher itself rejects\<close>
  | HttpError nat string \<comment> \<open>\<open>!res.ok\<close>: status and status text\<close>
  | BadJson string \<comment> \<open>\<open>res.json()\<close> rejects\<close>
  | BadShape \<comment> \<open>no cluster array or no default id\<close>
  | Loaded cluster_registry

definition REGISTRY_PATH :: string where
  "REGISTRY_PATH = ''/cluster-registry.json''"

definition registry_outcome :: "registry_fetch \<Rightarrow> selector_store \<Rightarrow> (string + cluster_registry) \<times> selector_store" where
  \<comment> \<open>the body of the \<open>try\<close> block, up to the settling of the promise\<close>
  "registry_outcome f s =
     (case f of
        FetchRejected e \<Rightarrow> (Inl e, s)
      | HttpError st txt \<Rightarrow>
          (let msg = ''Failed to load '' @ REGISTRY_PATH @ '': '' @ nat_str st @ '' '' @ txt
           in (Inl msg, setRegistryError (Some msg) s))
      | BadJson e \<Rightarrow> (Inl e, s)
      | BadShape \<Rightarrow>
          (let msg = REGISTRY_PATH @ '' has invalid shape''
           in (Inl msg, setRegistryError (Some msg) s))
      | Loaded reg \<Rightarrow> (Inr reg, setRegistry reg s))"

definition hydrate_begin :: "hydration \<Rightarrow> hydration" where
  \<comment> \<open>\<open>hydrateClusterRegistry\<close> up to its first \<open>await\<close>\<close>
  "hydrate_begin h = (ensurePendingPromise h)\<lparr>inFlight := Suc (inFlight h)\<rparr>"

definition hydrate_end :: "registry_fetch \<Rightarrow> hydration \<Rightarrow> (string + cluster_registry) \<times> hydration" where
  \<comment> \<open>the rest of it, once the fetch has an outcome\<close>
  "hydrate_end f h =
     (let (r, sel) = registry_outcome f (selector h);
          h1 = h\<lparr>selector := sel, inFlight := inFlight h - 1\<rparr>
      in (r, case r of
               Inr _ \<Rightarrow> settleHydration h1
             | Inl _ \<Rightarrow> (settleHydration h1)\<lparr>hydrationPromise := None, resolveHydration := None\<rparr>))"

definition resetHydrationPromise :: "hydration \<Rightarrow> hydration" where
  "resetHydrationPromise h = h\<lparr>hydrationPromise := None, resolveHydration := None\<rparr>"

definition must_wait :: "hydration \<Rightarrow> bool" where
  \<comment> \<open>\<open>getHydrationPromise()\<close> returns a promise that is still pending\<close>
  "must_wait h = (case hydrationPromise h of None \<Rightarrow> False | Some p \<Rightarrow> \<not> settled h p)"

inductive hydration_step :: "hydration \<Rightarrow> hydration \<Rightarrow> bool" where
  begin_step: "hydration_step h (hydrate_begin h)"
| end_step: "0 < inFlight h \<Longrightarrow> hydrate_end f h = (r, h') \<Longrightarrow> hydration_step h h'"
| choose_step: "hydration_step h (h\<lparr>selector := setCurrentClusterId i (selector h)\<rparr>)"

inductive hydration_reachable :: "hydration \<Rightarrow> bool" where
  init: "hydration_reachable (initial_hydration (rehydrate p))"
| step: "hydration_reachable h \<Longrightarrow> hydration_step h h' \<Longrightarrow> hydration_reachable h'"

inductive_cases hydration_stepE: "hydration_step h h'"

definition hydration_inv :: "hydration \<Rightarrow> bool" where
  \<comment> \<open>at most one promise is pending; it is the current one, its resolver is at hand and some
     hydration that will call it is in flight\<close>
  "hydration_inv h \<longleftrightarrow>
     (\<forall>q. settled h q \<longrightarrow> q < fresh h) \<and>
     (\<forall>q. hydrationPromise h = Some q \<longrightarrow> q < fresh h) \<and>
     (case resolveHydration h of
        None \<Rightarrow> \<forall>q < fresh h. settled h q
      | Some p \<Rightarrow> hydrationPromise h = Some p \<and> \<not> settled h p \<and> 0 < inFlight h \<and>
                   (\<forall>q < fresh h. q \<noteq> p \<longrightarrow> settled h q))"

lemma hydration_inv_initial: "hydration_inv (initial_hydration s)"
  by (simp add: hydration_inv_def initial_hydration_def)

lemma hydration_inv_begin:
  assumes "hydration_inv h"
  shows "hydration_inv (hydrate_begin h)"
proof (cases "hydrationPromise h")
  case None
  with assms have "resolveHydration h = None" by (auto simp: hydration_inv_def split: option.splits)
  with assms None show ?thesis
    by (fastforce simp: hydration_inv_def hydrate_begin_def ensurePendingPromise_def less_Suc_eq)
next
  case (Some p)
  with assms show ?thesis
    by (simp add: hydration_inv_def hydrate_begin_def ensurePendingPromise_def split: option.splits)
qed

lemma settle_all:
  assumes "hydration_inv h"
  shows "\<forall>q < fresh (settleHydration h). settled (settleHydration h) q"
    and "resolveHydration (settleHydration h) = None"
    and "\<forall>q. settled (settleHydration h) q \<longrightarrow> q < fresh (settleHydration h)"
    and "\<forall>q. hydrationPromise (settleHydration h) = Some q \<longrightarrow> q < fresh (settleHydration h)"
  using assms
  by (cases "resolveHydration h"; cases "hydrationPromise h";
      force simp: hydration_inv_def settleHydration_def less_Suc_eq)+

lemma settle_frame [simp]:
  "settleHydration (h\<lparr>selector := s, inFlight := n\<rparr>) = (settleHydration h)\<lparr>selector := s, inFlight := n\<rparr>"
  by (cases "resolveHydration h"; cases "hydrationPromise h") (simp_all add: settleHydration_def)

lemma hydrate_end_eq:
  "snd (hydrate_end f h) =
     (let h2 = (settleHydration h)
            \<lparr>selector := snd (registry_outcome f (selector h)), inFlight := inFlight h - 1\<rparr>
      in if isl (fst (registry_outcome f (selector h)))
         then h2\<lparr>hydrationPromise := None, resolveHydration := None\<rparr> else h2)"
  by (simp add: hydrate_end_def Let_def split: prod.splits sum.splits)

lemma hydrate_end_settles:
  assumes "hydration_inv h"
  shows "\<forall>q < fresh (snd (hydrate_end f h)). settled (snd (hydrate_end f h)) q"
    and "resolveHydration (snd (hydrate_end f h)) = None"
  using settle_all [OF assms] by (simp_all add: hydrate_end_eq Let_def)

lemma hydration_inv_end:
  assumes "hydration_inv h"
  shows "hydration_inv (snd (hydrate_end f h))"
  using settle_all [OF assms] by (simp add: hydration_inv_def hydrate_end_eq Let_def)

lemma hydration_inv_choose: "hydration_inv h \<Longrightarrow> hydration_inv (h\<lparr>selector := s\<rparr>)"
  by (simp add: hydration_inv_def split: option.splits)

lemma hydration_reachable_inv: "hydration_reachable h \<Longrightarrow> hydration_inv h"
proof (induction rule: hydration_reachable.induct)
  case (init p)
  show ?case by (rule hydration_inv_initial)
next
  case (step h h')
  from step(2,3) show ?case
    by (elim hydration_stepE)
      (metis hydration_inv_begin, metis hydration_inv_end snd_conv, metis hydration_inv_choose)
qed

section \<open>Choosing a cluster\<close>

lemma find_in_set: "find P xs = Some x \<Longrightarrow> x \<in> set xs \<and> P x"
  by (auto simp: find_Some_iff)

lemma getActiveCluster_in_registry:
  "registry s = Some reg \<Longrightarrow> getActiveCluster s = Some c \<Longrightarrow> c \<in> set (clusters reg)"
  by (auto simp: getActiveCluster_def split: option.splits list.splits dest!: find_in_set)

lemma getActiveCluster_None_iff:
  "getActiveCluster s = None \<longleftrightarrow> (case registry s of None \<Rightarrow> True | Some reg \<Rightarrow> clusters reg = [])"
  by (auto simp: getActiveCluster_def find_None_iff split: option.splits list.splits)

lemma getActiveCluster_current:
  assumes "registry s = Some reg" "c \<in> set (clusters reg)" "currentClusterId s = Some (ce_id c)"
  shows "\<exists>c'. getActiveCluster s = Some c' \<and> ce_id c' = ce_id c"
proof -
  obtain c' where c': "find (\<lambda>c. Some (ce_id c) = currentClusterId s) (clusters reg) = Some c'"
    using assms by (metis (mono_tags, lifting) find_None_iff not_None_eq)
  then have "ce_id c' = ce_id c" using assms(3) by (auto dest: find_in_set)
  with assms(1) c' show ?thesis by (auto simp: getActiveCluster_def)
qed

section \<open>Properties\<close>

text \<open>
  C12: no caller waits for the registry forever. In every reachable state of the hydration protocol,
  with any number of concurrent hydrations: when a hydration ends, however it ends, every promise
  handed out so far is settled; and when no hydration is in flight, no caller of
  \<open>getHydrationPromise\<close> has to wait.
\<close>

theorem hydration_strands_nobody:
  assumes "hydration_reachable h"
  shows "(\<forall>q < fresh (snd (hydrate_end f h)). settled (snd (hydrate_end f h)) q) \<and>
    (inFlight h = 0 \<longrightarrow> \<not> must_wait h)"
proof -
  note inv = hydration_reachable_inv [OF assms]
  have "\<not> must_wait h" if "inFlight h = 0"
    using inv that by (auto simp: hydration_inv_def must_wait_def split: option.splits)
  with hydrate_end_settles(1) [OF inv] show ?thesis by blast
qed

definition demo_registry :: cluster_registry where
  "demo_registry = \<lparr>defaultClusterId = ''a'', clusters = [\<lparr>ce_id = ''a'', displayName = ''A'', apiUrl = ''https://a/api'', ce_labels = None\<rparr>]\<rparr>"

lemma demo_reachable:
  "hydration_reachable (snd (hydrate_end BadShape (hydrate_begin (initial_hydration (rehydrate None)))))"
  by (rule hydration_reachable.step [OF hydration_reachable.step [OF hydration_reachable.init begin_step]],
      rule end_step [where f = BadShape and r = "fst (hydrate_end BadShape (hydrate_begin (initial_hydration (rehydrate None))))"])
    (simp_all add: hydrate_begin_def)

theorem hydration_strands_nobody_witness:
  "\<not> must_wait (snd (hydrate_end BadShape (hydrate_begin (initial_hydration (rehydrate None)))))"
  using hydration_strands_nobody [OF demo_reachable]
  by (simp add: hydrate_end_eq Let_def hydrate_begin_def initial_hydration_def ensurePendingPromise_def)

text \<open>
  The active cluster is always a registered one, and there is one as soon as the registry lists
  any: it is the chosen cluster if that is registered, else the registry's default, else the first
  entry; \<open>None\<close> only when no registry is loaded or it is empty.
\<close>

theorem active_cluster_is_registered:
  assumes "registry s = Some reg" "clusters reg \<noteq> []"
  shows "\<exists>c. getActiveCluster s = Some c \<and> c \<in> set (clusters reg) \<and>
    (\<forall>i. currentClusterId s = Some i \<and> i \<in> ce_id ` set (clusters reg) \<longrightarrow> ce_id c = i) \<and>
    (\<not> (\<exists>i. currentClusterId s = Some i \<and> i \<in> ce_id ` set (clusters reg)) \<longrightarrow>
       defaultClusterId reg \<in> ce_id ` set (clusters reg) \<longrightarrow> ce_id c = defaultClusterId reg)"
proof -
  obtain c where c: "getActiveCluster s = Some c"
    using getActiveCluster_None_iff [of s] assms by fastforce
  have 1: "c \<in> set (clusters reg)" by (rule getActiveCluster_in_registry [OF assms(1) c])
  have 2: "ce_id c = i" if "currentClusterId s = Some i" "i \<in> ce_id ` set (clusters reg)" for i
    using getActiveCluster_current [OF assms(1)] that c by fastforce
  have 3: "ce_id c = defaultClusterId reg"
    if none: "\<not> (\<exists>i. currentClusterId s = Some i \<and> i \<in> ce_id ` set (clusters reg))"
      and d: "defaultClusterId reg \<in> ce_id ` set (clusters reg)"
  proof -
    have "find (\<lambda>c. Some (ce_id c) = currentClusterId s) (clusters reg) = None"
      using none by (metis (mono_tags, lifting) find_None_iff imageI)
    moreover obtain c' where "find (\<lambda>c. ce_id c = defaultClusterId reg) (clusters reg) = Some c'"
      using d by (metis (mono_tags, lifting) find_None_iff imageE not_None_eq)
    ultimately show ?thesis
      using c assms(1) by (auto simp: getActiveCluster_def dest: find_in_set)
  qed
  from c 1 2 3 show ?thesis by blast
qed

theorem active_cluster_is_registered_witness:
  "\<exists>c. getActiveCluster (setRegistry demo_registry (rehydrate None)) = Some c \<and> c \<in> set (clusters demo_registry)"
  using active_cluster_is_registered [of "setRegistry demo_registry (rehydrate None)" demo_registry]
  by (auto simp: setRegistry_def demo_registry_def Let_def split: option.splits)

end
