(* ===== verification/Api_Client.thy ===== *)
theory Api_Client
  imports Auth_Session Cluster_Selector
begin

text \<open>
  The fetch client of the UI (\<^verbatim>\<open>ui/src/lib/api/client.ts\<close>), the mapping of its errors to UI
  states (\<^verbatim>\<open>error-mapping.ts\<close>) and the structured error log (\<^verbatim>\<open>log.ts\<close>). The network is an
  argument \<open>net\<close>: the outcome of the \<open>n\<close>-th request sent, as a function of the request. The
  state threaded through a call is the record \<open>world\<close>: the Keycloak module with its auth store,
  the cluster selector, the requests sent so far, the login redirects started and the abort
  listeners registered on the caller's signal.
\<close>

section \<open>Requests, responses, errors\<close>

definition API_PREFIX :: string where
  "API_PREFIX = ''/api''"

definition DEFAULT_TIMEOUT_MS :: nat where
  "DEFAULT_TIMEOUT_MS = 30000"

datatype query_value = QStr string | QNum jsnum | QBool bool

record api_request_init =
  ri_method :: "string option"
  ri_json :: "json option"
  ri_body :: "string option"
  ri_timeoutMs :: "nat option"
  ri_query :: "(string \<times> query_value option) list option"
  ri_headers :: "(string \<times> string) list"
  ri_signal :: "bool option" \<comment> \<open>a caller's signal, and whether it is already aborted\<close>

definition empty_init :: api_request_init where
  "empty_init =
     \<lparr>ri_method = None, ri_json = None, ri_body = None, ri_timeoutMs = None, ri_query = None,
      ri_headers = [], ri_signal = None\<rparr>"

record http_request =
  rq_url :: string
  rq_method :: "string option"
  rq_headers :: dict
  rq_body :: "string option"

record http_response =
  status :: nat
  statusText :: string
  contentType :: "string option"
  bodyText :: "string option" \<comment> \<open>\<open>None\<close>: reading the body rejects\<close>

definition response_ok :: "http_response \<Rightarrow> bool" where
  "response_ok r = (200 \<le> status r \<and> status r \<le> 299)"

datatype fetch_outcome =
    Fetched http_response
  | AbortError
  | FetchError "string option" \<comment> \<open>the message, when the rejection is an \<open>Error\<close>\<close>

record api_error =
  err_status :: nat
  err_message :: string
  err_body :: json \<comment> \<open>\<open>JNull\<close> for \<open>null\<close>, \<open>JStr\<close> for a text body\<close>

datatype js_error =
    ApiErr api_error
  | ErrorObj string \<comment> \<open>any other \<open>Error\<close>, by its message\<close>
  | NonError string \<comment> \<open>a thrown value that is not an \<open>Error\<close>, by \<open>String(value)\<close>\<close>

datatype api_value = Undefined | JsonValue json | TextValue string

datatype api_outcome = Value api_value | Throws js_error

record world =
  kcm :: keycloak_module
  sel :: selector_store
  sent :: "http_request list"
  logins :: nat
  listeners :: nat

abbreviation world_token :: "world \<Rightarrow> string option" where
  "world_token w \<equiv> accessToken (store (kcm w))"

type_synonym network = "nat \<Rightarrow> http_request \<Rightarrow> fetch_outcome"

definition detail :: "(rat \<Rightarrow> string) \<Rightarrow> api_error \<Rightarrow> string" where
  "detail fs e =
     (case err_body e of
        JStr s \<Rightarrow> s
      | b \<Rightarrow>
          (case json_field b ''detail'' of
             Some (JStr d) \<Rightarrow> d
           | Some JNull \<Rightarrow> err_message e
           | Some d \<Rightarrow> stringify fs d
           | None \<Rightarrow> err_message e))"

section \<open>Building the URL\<close>

fun query_value_str :: "(rat \<Rightarrow> string) \<Rightarrow> query_value \<Rightarrow> string" where
  "query_value_str fs (QStr s) = s"
| "query_value_str fs (QNum x) = num_str fs x"
| "query_value_str fs (QBool b) = (if b then ''true'' else ''false'')"

fun query_params :: "(rat \<Rightarrow> string) \<Rightarrow> (string \<times> query_value option) list \<Rightarrow> (string \<times> string) list" where
  "query_params fs [] = []"
| "query_params fs ((k, None) # q) = query_params fs q"
| "query_params fs ((k, Some v) # q) = (k, query_value_str fs v) # query_params fs q"

definition buildUrl ::
  "(rat \<Rightarrow> string) \<Rightarrow> selector_store \<Rightarrow> string \<Rightarrow> (string \<times> query_value option) list option \<Rightarrow> string" where
  "buildUrl fs s path query =
     (let base = (if startsWith path ''/'' then path else ''/'' @ path);
          full = (if startsWith base API_PREFIX then base else API_PREFIX @ base);
          apiBase = getActiveApiUrl s;
          withBase = (if truthy apiBase then stripTrailingSlashes (the apiBase) @ full else full)
      in (case query of
            None \<Rightarrow> withBase
          | Some q \<Rightarrow>
              (let qs = search_params (query_params fs q)
               in if qs \<noteq> [] then withBase @ ''?'' @ qs else withBase)))"

section \<open>One request\<close>

definition hdr_append :: "dict \<Rightarrow> string \<times> string \<Rightarrow> dict" where
  \<comment> \<open>\<open>Headers.append\<close>: names are case-insensitive, repeated values are joined\<close>
  "hdr_append h kv =
     (let k = toLowerCase (fst kv) in
      case obj_get h k of None \<Rightarrow> obj_set k (snd kv) h | Some v \<Rightarrow> obj_set k (v @ '', '' @ snd kv) h)"

definition headers_of :: "(string \<times> string) list \<Rightarrow> dict" where
  "headers_of kvs = foldl hdr_append [] kvs"

definition hdr_has :: "dict \<Rightarrow> string \<Rightarrow> bool" where
  "hdr_has h k = (obj_get h (toLowerCase k) \<noteq> None)"

definition hdr_set :: "string \<Rightarrow> string \<Rightarrow> dict \<Rightarrow> dict" where
  "hdr_set k v h = obj_set (toLowerCase k) v h"

definition final_headers :: "api_request_init \<Rightarrow> bool \<Rightarrow> string option \<Rightarrow> dict" where
  "final_headers init attachAuth token =
     (let h0 = headers_of (ri_headers init);
          h1 = (if \<not> hdr_has h0 ''Accept'' then hdr_set ''Accept'' ''application/json'' h0 else h0);
          h2 = (if ri_json init \<noteq> None \<and> \<not> hdr_has h1 ''Content-Type''
                then hdr_set ''Content-Type'' ''application/json'' h1 else h1)
      in if attachAuth \<and> \<not> hdr_has h2 ''Authorization'' \<and> truthy token
         then hdr_set ''Authorization'' (''Bearer '' @ the token) h2 else h2)"

definition executeRequest ::
  "(rat \<Rightarrow> string) \<Rightarrow> network \<Rightarrow> string \<Rightarrow> api_request_init \<Rightarrow> bool \<Rightarrow> world \<Rightarrow> fetch_outcome \<times> world" where
  \<comment> \<open>an already aborted signal makes \<open>fetch\<close> reject without sending; otherwise a listener is
     registered for the duration of the request and removed in the \<open>finally\<close> block\<close>
  "executeRequest fs net url init attachAuth w =
     (let attached = (ri_signal init = Some False);
          w1 = (if attached then w\<lparr>listeners := Suc (listeners w)\<rparr> else w);
          req = \<lparr>rq_url = url, rq_method = ri_method init,
                 rq_headers = final_headers init attachAuth (world_token w1),
                 rq_body = (case ri_json init of Some j \<Rightarrow> Some (stringify fs j) | None \<Rightarrow> ri_body init)\<rparr>;
          (out, w2) = (if ri_signal init = Some True then (AbortError, w1)
                       else (net (length (sent w1)) req, w1\<lparr>sent := sent w1 @ [req]\<rparr>));
          w3 = (if attached then w2\<lparr>listeners := listeners w2 - 1\<rparr> else w2)
      in (out, w3))"

section \<open>The call\<close>

definition network_error :: "nat \<Rightarrow> fetch_outcome \<Rightarrow> js_error" where
  "network_error timeoutMs out =
     (case out of
        FetchError m \<Rightarrow>
          ApiErr \<lparr>err_status = 0, err_message = nullish m ''Network error'', err_body = JNull\<rparr>
      | _ \<Rightarrow>
          ApiErr \<lparr>err_status = 0,
                  err_message = ''Request aborted or timed out after '' @ nat_str timeoutMs @ ''ms'',
                  err_body = JNull\<rparr>)"

definition attemptTokenRefresh :: "kc_update \<Rightarrow> world \<Rightarrow> string option \<times> world" where
  "attemptTokenRefresh upd w =
     (let (t, m) = refreshToken upd 30 (kcm w) in (t, w\<lparr>kcm := m\<rparr>))"

definition redirectToLogin :: "world \<Rightarrow> world" where
  \<comment> \<open>fire and forget: the redirect is started, its failure is swallowed\<close>
  "redirectToLogin w = w\<lparr>logins := Suc (logins w)\<rparr>"

definition is_json_response :: "http_response \<Rightarrow> bool" where
  "is_json_response r = str_includes (nullish (contentType r) []) ''application/json''"

definition error_of_response :: "(string \<Rightarrow> json option) \<Rightarrow> http_response \<Rightarrow> api_error" where
  \<comment> \<open>the \<open>!response.ok\<close> branch; \<open>parse\<close> is \<open>JSON.parse\<close>\<close>
  "error_of_response parse r =
     (let body = (if is_json_response r then nullish (Option.bind (bodyText r) parse) JNull
                  else (case bodyText r of Some t \<Rightarrow> JStr t | None \<Rightarrow> JNull));
          msg = (case json_field body ''detail'' of Some (JStr d) \<Rightarrow> d | _ \<Rightarrow> statusText r)
      in \<lparr>err_status = status r, err_message = str_or msg (''HTTP '' @ nat_str (status r)),
          err_body = body\<rparr>)"

definition finish_response :: "(string \<Rightarrow> json option) \<Rightarrow> http_response \<Rightarrow> api_outcome" where
  "finish_response parse r =
     (if status r = 204 then Value Undefined
      else if status r = 202 then
        (case bodyText r of
           None \<Rightarrow> Throws (ErrorObj ''body read failed'')
         | Some t \<Rightarrow>
             (if t = [] then Value Undefined
              else (case parse t of Some j \<Rightarrow> Value (JsonValue j) | None \<Rightarrow> Value Undefined)))
      else if \<not> response_ok r then Throws (ApiErr (error_of_response parse r))
      else (case bodyText r of
              None \<Rightarrow> Throws (ErrorObj ''body read failed'')
            | Some t \<Rightarrow>
                (if \<not> is_json_response r then Value (TextValue t)
                 else (case parse t of Some j \<Rightarrow> Value (JsonValue j)
                       | None \<Rightarrow> Throws (ErrorObj ''SyntaxError'')))))"

definition after_unauthorized ::
  "(string \<Rightarrow> json option) \<Rightarrow> http_response \<Rightarrow> world \<Rightarrow> api_outcome \<times> world" where
  "after_unauthorized parse r w =
     (if status r = 401
      then (Throws (ApiErr \<lparr>err_status = 401, err_message = ''Session expired'', err_body = JNull\<rparr>),
            redirectToLogin w)
      else (finish_response parse r, w))"

definition apiFetch ::
  "(rat \<Rightarrow> string) \<Rightarrow> (string \<Rightarrow> json option) \<Rightarrow> network \<Rightarrow> kc_update \<Rightarrow> string \<Rightarrow> api_request_init
     \<Rightarrow> world \<Rightarrow> api_outcome \<times> world" where
  "apiFetch fs parse net upd path init w =
     (let url = buildUrl fs (sel w) path (ri_query init);
          timeoutMs = nullish (ri_timeoutMs init) DEFAULT_TIMEOUT_MS;
          (o1, w1) = executeRequest fs net url init True w
      in (case o1 of
            Fetched r1 \<Rightarrow>
              (if status r1 = 401 \<and> truthy (world_token w1) then
                 (let (newToken, w2) = attemptTokenRefresh upd w1 in
                  if truthy newToken then
                    (let (o2, w3) = executeRequest fs net url init True w2 in
                     (case o2 of
                        Fetched r2 \<Rightarrow> after_unauthorized parse r2 w3
                      | _ \<Rightarrow> (Throws (network_error timeoutMs o2), w3)))
                  else after_unauthorized parse r1 w2)
               else (finish_response parse r1, w1))
          | _ \<Rightarrow> (Throws (network_error timeoutMs o1), w1)))"

section \<open>Mapping errors to UI states\<close>

datatype api_error_kind =
    SecurityDisabled string
  | PermissionDenied string
  | NotFound string
  | Conflict string
  | Validation string
  | Unreachable string
  | Timeout string
  | Generic string

definition looksLikeSecurityDisabled :: "string \<Rightarrow> bool" where
  "looksLikeSecurityDisabled d = str_includes (toLowerCase d) ''security is not enabled''"

fun mapApiError :: "(rat \<Rightarrow> string) \<Rightarrow> js_error \<Rightarrow> api_error_kind" where
  "mapApiError fs (ApiErr e) =
     (let d = detail fs e; st = err_status e in
      if st = 403 \<and> looksLikeSecurityDisabled d then SecurityDisabled d
      else if st = 403 then PermissionDenied d
      else if st = 404 then NotFound d
      else if st = 409 then Conflict (str_or d (''Conflict '' @ [u_sub] @ '' record/version mismatch''))
      else if st = 422 then Validation (if d \<noteq> [] then ''Validation: '' @ d else ''Validation error'')
      else if st = 503 then Unreachable d
      else if st = 504 then Timeout (str_or d (''Aerospike timeout '' @ [u_sub] @ '' try again''))
      else Generic d)"
| "mapApiError fs (ErrorObj m) = Generic m"
| "mapApiError fs (NonError s) = Generic s"

section \<open>Logging errors\<close>

datatype log_payload =
    FullLog nat string json \<comment> \<open>status, detail, body\<close>
  | SafeLog nat string string \<comment> \<open>status, scope, message\<close>
  | RawLog js_error

definition logFetchError :: "(rat \<Rightarrow> string) \<Rightarrow> bool \<Rightarrow> string \<Rightarrow> js_error \<Rightarrow> string \<times> log_payload" where
  "logFetchError fs production scope err =
     (''['' @ scope @ ''] fetch failed'',
      case err of
        ApiErr e \<Rightarrow>
          (if \<not> production then FullLog (err_status e) (detail fs e) (err_body e)
           else SafeLog (err_status e) scope (err_message e))
      | _ \<Rightarrow> RawLog err)"

section \<open>Properties\<close>

lemma executeRequest_frame:
  assumes "executeRequest fs net url init a w = (out, w')"
  shows "listeners w' = listeners w" "kcm w' = kcm w" "sel w' = sel w" "logins w' = logins w"
  using assms by (auto simp: executeRequest_def Let_def split: if_splits)

definition request_of :: "(rat \<Rightarrow> string) \<Rightarrow> string \<Rightarrow> api_request_init \<Rightarrow> bool \<Rightarrow> string option \<Rightarrow> http_request" where
  "request_of fs url init a token =
     \<lparr>rq_url = url, rq_method = ri_method init, rq_headers = final_headers init a token,
      rq_body = (case ri_json init of Some j \<Rightarrow> Some (stringify fs j) | None \<Rightarrow> ri_body init)\<rparr>"

lemma executeRequest_cases:
  assumes "executeRequest fs net url init a w = (out, w')"
  obtains "ri_signal init = Some True" "out = AbortError" "w' = w"
  | "ri_signal init \<noteq> Some True"
    "net (length (sent w)) (request_of fs url init a (world_token w)) = out"
    "w' = w\<lparr>sent := sent w @ [request_of fs url init a (world_token w)]\<rparr>"
  using assms by (auto simp: executeRequest_def request_of_def Let_def split: if_splits)

lemma refresh_frame:
  "attemptTokenRefresh upd w = (t, w') \<Longrightarrow>
     sent w' = sent w \<and> logins w' = logins w \<and> listeners w' = listeners w \<and> sel w' = sel w"
  by (auto simp: attemptTokenRefresh_def split: prod.splits)

lemma after_unauthorized_frame:
  "after_unauthorized parse r w = (out, w') \<Longrightarrow>
     sent w' = sent w \<and> listeners w' = listeners w \<and> kcm w' = kcm w \<and>
     logins w' = (if status r = 401 then Suc (logins w) else logins w)"
  by (auto simp: after_unauthorized_def redirectToLogin_def split: if_splits)

lemma finish_Value_ok: "finish_response parse r = Value v \<Longrightarrow> response_ok r"
  by (auto simp: finish_response_def response_ok_def split: if_splits option.splits)

lemma finish_ApiErr_status:
  "finish_response parse r = Throws (ApiErr e) \<Longrightarrow> \<not> response_ok r \<and> e = error_of_response parse r"
  by (auto simp: finish_response_def split: if_splits option.splits)

text \<open>
  The three ways a call can go: no response at all, an answer that ends the call, or a 401
  that is retried once with a refreshed token.
\<close>

lemma apiFetch_cases:
  fixes fs path init w
  defines "url \<equiv> buildUrl fs (sel w) path (ri_query init)"
  assumes "apiFetch fs parse net upd path init w = (out, w')"
  obtains (failed) o1 t where "executeRequest fs net url init True w = (o1, w')"
      "\<forall>r. o1 \<noteq> Fetched r" "out = Throws (network_error t o1)"
  | (answered) r1 where "executeRequest fs net url init True w = (Fetched r1, w')"
      "\<not> (status r1 = 401 \<and> truthy (world_token w'))" "out = finish_response parse r1"
  | (not_refreshed) r1 w1 t w2 where "executeRequest fs net url init True w = (Fetched r1, w1)"
      "status r1 = 401" "truthy (world_token w1)" "attemptTokenRefresh upd w1 = (t, w2)" "\<not> truthy t"
      "after_unauthorized parse r1 w2 = (out, w')"
  | (retried) r1 w1 t w2 r2 w3 where "executeRequest fs net url init True w = (Fetched r1, w1)"
      "status r1 = 401" "truthy (world_token w1)" "attemptTokenRefresh upd w1 = (t, w2)" "truthy t"
      "executeRequest fs net url init True w2 = (Fetched r2, w3)"
      "after_unauthorized parse r2 w3 = (out, w')"
  | (retry_failed) r1 w1 t w2 o2 n where "executeRequest fs net url init True w = (Fetched r1, w1)"
      "status r1 = 401" "truthy (world_token w1)" "attemptTokenRefresh upd w1 = (t, w2)" "truthy t"
      "executeRequest fs net url init True w2 = (o2, w')"
      "\<forall>r. o2 \<noteq> Fetched r" "out = Throws (network_error n o2)"
  using assms(2) unfolding apiFetch_def url_def [symmetric]
  by (auto simp: Let_def split: prod.splits fetch_outcome.splits if_splits)

lemma lower_literals:
  "toLowerCase ''Authorization'' = ''authorization''"
  "toLowerCase ''Accept'' = ''accept''"
  "toLowerCase ''Content-Type'' = ''content-type''"
  by code_simp+

lemma final_headers_authorization:
  assumes "truthy token" "\<not> hdr_has (headers_of (ri_headers init)) ''Authorization''"
  shows "obj_get (final_headers init True token) ''authorization'' = Some (''Bearer '' @ the token)"
proof -
  define h1 where "h1 = (if \<not> hdr_has (headers_of (ri_headers init)) ''Accept''
    then hdr_set ''Accept'' ''application/json'' (headers_of (ri_headers init)) else headers_of (ri_headers init))"
  define h2 where "h2 = (if ri_json init \<noteq> None \<and> \<not> hdr_has h1 ''Content-Type''
    then hdr_set ''Content-Type'' ''application/json'' h1 else h1)"
  have "\<not> hdr_has h1 ''Authorization''"
    using assms(2) unfolding h1_def by (simp add: hdr_has_def hdr_set_def lower_literals)
  then have "\<not> hdr_has h2 ''Authorization''"
    unfolding h2_def by (simp add: hdr_has_def hdr_set_def lower_literals)
  then have "final_headers init True token = hdr_set ''Authorization'' (''Bearer '' @ the token) h2"
    using assms(1) unfolding final_headers_def Let_def h1_def [symmetric] h2_def [symmetric]
    by (simp only: if_True simp_thms)
  then show ?thesis by (simp add: hdr_set_def lower_literals)
qed

text \<open>
  C9: A call of \<open>apiFetch\<close> sends at most two requests, both to the same URL with the same method
  and body; a second one is sent only when the first was answered with 401 while a token was
  held; every abort listener registered on the caller's signal is removed again.
\<close>

theorem apiFetch_bounded_traffic:
  assumes "apiFetch fs parse net upd path init w = (out, w')"
  shows "listeners w' = listeners w \<and>
    (\<exists>l. sent w' = sent w @ l \<and> length l \<le> 2 \<and>
       (\<forall>q \<in> set l. rq_url q = buildUrl fs (sel w) path (ri_query init) \<and>
          rq_method q = ri_method init \<and>
          rq_body q = (case ri_json init of Some j \<Rightarrow> Some (stringify fs j) | None \<Rightarrow> ri_body init)) \<and>
       (length l = 2 \<longrightarrow> truthy (world_token w) \<and>
          (\<exists>r. net (length (sent w)) (hd l) = Fetched r \<and> status r = 401)))"
  using assms
proof (cases rule: apiFetch_cases)
  case (retried r1 w1 t w2 r2 w3)
  note f = refresh_frame [OF retried(4)] after_unauthorized_frame [OF retried(7)]
    executeRequest_frame [OF retried(1)] executeRequest_frame [OF retried(6)]
  from retried(1) show ?thesis
  proof (cases rule: executeRequest_cases)
    case 2
    from retried(6) show ?thesis
      by (cases rule: executeRequest_cases) (use 2 f retried(2,3) in \<open>auto simp: request_of_def\<close>)
  qed simp
next
  case (retry_failed r1 w1 t w2 o2 n)
  note f = refresh_frame [OF retry_failed(4)]
    executeRequest_frame [OF retry_failed(1)] executeRequest_frame [OF retry_failed(6)]
  from retry_failed(1) show ?thesis
  proof (cases rule: executeRequest_cases)
    case 2
    from retry_failed(6) show ?thesis
      by (cases rule: executeRequest_cases) (use 2 f retry_failed(2,3) in \<open>auto simp: request_of_def\<close>)
  qed simp
next
  case (not_refreshed r1 w1 t w2)
  note f = refresh_frame [OF not_refreshed(4)] after_unauthorized_frame [OF not_refreshed(6)]
    executeRequest_frame [OF not_refreshed(1)]
  from not_refreshed(1) show ?thesis
    by (cases rule: executeRequest_cases) (use f in \<open>auto simp: request_of_def\<close>)
next
  case (failed o1 t)
  from failed(1) show ?thesis
    by (cases rule: executeRequest_cases)
      (use executeRequest_frame [OF failed(1)] in \<open>auto simp: request_of_def\<close>)
next
  case (answered r1)
  from answered(1) show ?thesis
    by (cases rule: executeRequest_cases)
      (use executeRequest_frame [OF answered(1)] in \<open>auto simp: request_of_def\<close>)
qed

definition demo_world :: world where
  "demo_world =
     \<lparr>kcm = initial_module\<lparr>keycloak := Some \<lparr>authenticated = True, kc_token = Some ''t1'', tokenParsed = None\<rparr>,
                            store := setToken ''t1'' None initial_auth\<rparr>,
      sel = initial_selector, sent = [], logins = 0, listeners = 0\<rparr>"

definition demo_net :: network where
  \<comment> \<open>401 first, then an empty success\<close>
  "demo_net n q = Fetched \<lparr>status = (if n = 0 then 401 else 204), statusText = [], contentType = None,
                           bodyText = Some []\<rparr>"

definition demo_update :: kc_update where
  "demo_update kc n = (True, kc\<lparr>kc_token := Some ''t2''\<rparr>)"

definition demo_init :: api_request_init where
  "demo_init = empty_init\<lparr>ri_method := Some ''GET'', ri_signal := Some False\<rparr>"

definition demo_run :: "api_outcome \<times> world" where
  "demo_run = apiFetch (\<lambda>_. ''0'') (\<lambda>_. None) demo_net demo_update ''/connections'' demo_init demo_world"

lemma demo_run_fetch:
  "apiFetch (\<lambda>_. ''0'') (\<lambda>_. None) demo_net demo_update ''/connections'' demo_init demo_world =
     (fst demo_run, snd demo_run)"
  by (simp add: demo_run_def)

lemma executeRequest_send:
  "ri_signal init \<noteq> Some True \<Longrightarrow>
     executeRequest fs net url init a w =
       (net (length (sent w)) (request_of fs url init a (world_token w)),
        w\<lparr>sent := sent w @ [request_of fs url init a (world_token w)]\<rparr>)"
  by (simp add: executeRequest_def request_of_def Let_def)

lemmas demo_defs = demo_net_def demo_world_def demo_init_def demo_update_def empty_init_def
  initial_module_def initial_auth_def

lemma demo_run_eval:
  "fst demo_run = Value Undefined" "length (sent (snd demo_run)) = 2"
  "world_token (snd demo_run) = Some ''t2''" "sent demo_world = []" "listeners demo_world = 0"
  "logins demo_world = 0"
  by (simp_all add: demo_run_def apiFetch_def executeRequest_send demo_defs attemptTokenRefresh_def
      refreshToken_def auth_defs after_unauthorized_def finish_response_def Let_def)

lemma apiFetch_bounded_traffic_witness:
  "listeners (snd demo_run) = 0 \<and> (\<exists>l. sent (snd demo_run) = l \<and> length l \<le> 2)"
  using apiFetch_bounded_traffic [OF demo_run_fetch] unfolding demo_run_eval append_Nil by blast

text \<open>
  C36: A call returns a value only for a response in the 2xx range, and that response is the
  answer to the last request it sent: no error status is ever taken for a result.
\<close>

theorem apiFetch_value_is_success:
  assumes "apiFetch fs parse net upd path init w = (Value v, w')"
  shows "sent w' \<noteq> [] \<and>
    (\<exists>r. net (length (sent w') - 1) (last (sent w')) = Fetched r \<and> response_ok r \<and>
         finish_response parse r = Value v)"
  using assms
proof (cases rule: apiFetch_cases)
  case (answered r1)
  from answered(1) show ?thesis
    by (cases rule: executeRequest_cases) (use answered finish_Value_ok [of parse r1 v] in auto)
next
  case (not_refreshed r1 w1 t w2)
  then show ?thesis by (simp add: after_unauthorized_def)
next
  case (retried r1 w1 t w2 r2 w3)
  then have fin: "finish_response parse r2 = Value v" "w' = w3"
    by (auto simp: after_unauthorized_def split: if_splits)
  from retried(6) show ?thesis
    by (cases rule: executeRequest_cases) (use fin in \<open>auto dest: finish_Value_ok\<close>)
qed auto

lemma apiFetch_value_is_success_witness:
  "sent (snd demo_run) \<noteq> [] \<and>
    (\<exists>r. demo_net (length (sent (snd demo_run)) - 1) (last (sent (snd demo_run))) = Fetched r \<and>
         response_ok r)"
  using apiFetch_value_is_success [OF demo_run_fetch [unfolded demo_run_eval(1)]] by auto

text \<open>
  The retry after a silent refresh carries the refreshed token: when a call sent two
  requests and the caller set no \<open>Authorization\<close> header of its own, the second request's header
  is the bearer token that the auth store holds after the refresh.
\<close>

theorem apiFetch_retry_uses_new_token:
  assumes "apiFetch fs parse net upd path init w = (out, w')"
    and "length (sent w') = length (sent w) + 2"
    and "truthy (world_token w')"
    and "\<not> hdr_has (headers_of (ri_headers init)) ''Authorization''"
  shows "obj_get (rq_headers (last (sent w'))) ''authorization'' =
    Some (''Bearer '' @ the (world_token w'))"
  using assms(1)
proof (cases rule: apiFetch_cases)
  case (retried r1 w1 t w2 r2 w3)
  note f = refresh_frame [OF retried(4)] after_unauthorized_frame [OF retried(7)]
    executeRequest_frame [OF retried(6)]
  from retried(6) show ?thesis
    by (cases rule: executeRequest_cases)
      (use f assms(3,4) in \<open>auto simp: request_of_def final_headers_authorization\<close>)
next
  case (retry_failed r1 w1 t w2 o2 n)
  note f = refresh_frame [OF retry_failed(4)] executeRequest_frame [OF retry_failed(6)]
  from retry_failed(6) show ?thesis
  proof (cases rule: executeRequest_cases)
    case 1
    with retry_failed(1) show ?thesis by (auto elim: executeRequest_cases)
  qed (use f assms(3,4) in \<open>auto simp: request_of_def final_headers_authorization\<close>)
next
  case (failed o1 t)
  from failed(1) show ?thesis by (cases rule: executeRequest_cases) (use assms(2) in auto)
next
  case (answered r1)
  from answered(1) show ?thesis by (cases rule: executeRequest_cases) (use assms(2) in auto)
next
  case (not_refreshed r1 w1 t w2)
  note f = refresh_frame [OF not_refreshed(4)] after_unauthorized_frame [OF not_refreshed(6)]
  from not_refreshed(1) show ?thesis
    by (cases rule: executeRequest_cases) (use f assms(2) in auto)
qed

lemma apiFetch_retry_uses_new_token_witness:
  "obj_get (rq_headers (last (sent (snd demo_run)))) ''authorization'' = Some ''Bearer t2''"
proof -
  have "\<not> hdr_has (headers_of (ri_headers demo_init)) ''Authorization''" by code_simp
  then show ?thesis
    using apiFetch_retry_uses_new_token [OF demo_run_fetch] by (simp add: demo_run_eval)
qed

text \<open>
  A session that cannot be renewed ends in exactly one login redirect: a call starts a
  redirect only when it held a token and rejects with \<open>ApiError(401, "Session expired")\<close>, and it
  never starts a second one.
\<close>

theorem apiFetch_login_redirect:
  assumes "apiFetch fs parse net upd path init w = (out, w')"
  shows "logins w' = logins w \<or>
    logins w' = Suc (logins w) \<and> truthy (world_token w) \<and>
    out = Throws (ApiErr \<lparr>err_status = 401, err_message = ''Session expired'', err_body = JNull\<rparr>)"
  using assms
proof (cases rule: apiFetch_cases)
  case (retried r1 w1 t w2 r2 w3)
  note f = refresh_frame [OF retried(4)] after_unauthorized_frame [OF retried(7)]
    executeRequest_frame [OF retried(1)] executeRequest_frame [OF retried(6)]
  with retried show ?thesis by (auto simp: after_unauthorized_def split: if_splits)
next
  case (not_refreshed r1 w1 t w2)
  note f = refresh_frame [OF not_refreshed(4)] after_unauthorized_frame [OF not_refreshed(6)]
    executeRequest_frame [OF not_refreshed(1)]
  with not_refreshed show ?thesis by (auto simp: after_unauthorized_def split: if_splits)
next
  case (retry_failed r1 w1 t w2 o2 n)
  with refresh_frame [OF retry_failed(4)] executeRequest_frame [OF retry_failed(1)]
    executeRequest_frame [OF retry_failed(6)] show ?thesis by simp
qed (auto dest: executeRequest_frame)

lemma apiFetch_login_redirect_witness: "logins (snd demo_run) = 0"
  using apiFetch_login_redirect [OF demo_run_fetch] by (auto simp: demo_run_eval)

text \<open>
  The URL of a call: the origin of the active cluster without trailing slashes, a path under
  the API prefix, and the query string.
\<close>

definition api_path :: "string \<Rightarrow> string" where
  "api_path path =
     (let base = (if startsWith path ''/'' then path else ''/'' @ path)
      in if startsWith base API_PREFIX then base else API_PREFIX @ base)"

definition api_origin :: "selector_store \<Rightarrow> string" where
  "api_origin s =
     (if truthy (getActiveApiUrl s) then stripTrailingSlashes (the (getActiveApiUrl s)) else [])"

lemma buildUrl_eq:
  "buildUrl fs s path query =
     api_origin s @ api_path path @
       (case query of
          None \<Rightarrow> []
        | Some q \<Rightarrow> (let qs = search_params (query_params fs q) in if qs = [] then [] else ''?'' @ qs))"
  by (simp add: buildUrl_def api_path_def api_origin_def Let_def split: option.split)

text \<open>
  The query string of a built URL is faithful: when the path has no question mark, cutting
  the URL after origin and path leaves exactly the non-null parameters, decoded in order; no
  parameter name or value can inject or hide another one.
\<close>

theorem buildUrl_query_roundtrip:
  "\<exists>qs. buildUrl fs s path (Some q) = api_origin s @ api_path path @ qs \<and>
     (qs = [] \<and> query_params fs q = [] \<or>
      (\<exists>t. qs = CHR ''?'' # t \<and> CHR ''?'' \<notin> set t \<and> CHR ''#'' \<notin> set t \<and>
           parse_search t = query_params fs q))"
proof (cases "search_params (query_params fs q) = []")
  case True
  then have "query_params fs q = []" using parse_search_params [of "query_params fs q"]
    by (simp add: parse_search_def)
  with True show ?thesis by (simp add: buildUrl_eq Let_def)
next
  case False
  let ?t = "search_params (query_params fs q)"
  have "c \<in> set ?t \<Longrightarrow> c \<noteq> CHR ''?'' \<and> c \<noteq> CHR ''#''" for c
    using form_encode_no_delim [of "CHR ''?''"] form_encode_no_delim [of "CHR ''#''"]
    unfolding search_params_def
    by (auto simp: uri_delim_def dest!: set_joinWith)
  with False show ?thesis
    by (auto simp: buildUrl_eq Let_def parse_search_params)
qed

text \<open>
  Error mapping is exact on 403: an error maps to the security-disabled state if and only
  if it is an \<open>ApiError\<close> with status 403 whose detail contains the backend's phrase in any letter
  case; every other 403 maps to permission-denied with the detail verbatim.
\<close>

theorem mapApiError_403:
  "(mapApiError fs (ApiErr e) = SecurityDisabled m \<longleftrightarrow>
     err_status e = 403 \<and> m = detail fs e \<and>
     (\<exists>u v. toLowerCase (detail fs e) = u @ ''security is not enabled'' @ v)) \<and>
   (mapApiError fs (ApiErr e) = PermissionDenied m \<longleftrightarrow>
     err_status e = 403 \<and> m = detail fs e \<and>
     (\<nexists>u v. toLowerCase (detail fs e) = u @ ''security is not enabled'' @ v))"
  by (auto simp: looksLikeSecurityDisabled_def str_includes_iff Let_def)

text \<open>
  The message of an error built from a JSON error body is the body's detail, and that
  message is what the production log carries: a non-empty string \<open>detail\<close> in a response body
  reaches the log in production although the detail and the body are withheld there.
\<close>

theorem production_log_carries_detail:
  assumes "is_json_response r" "bodyText r = Some t" "parse t = Some (JObj kvs)"
    and "map_of kvs ''detail'' = Some (JStr d)" "d \<noteq> []"
  shows "snd (logFetchError fs True scope (ApiErr (error_of_response parse r))) =
      SafeLog (status r) scope d \<and>
    detail fs (error_of_response parse r) = d"
  using assms by (simp add: logFetchError_def error_of_response_def detail_def json_field_def)

definition demo_error_response :: http_response where
  "demo_error_response =
     \<lparr>status = 400, statusText = ''Bad Request'', contentType = Some ''application/json'',
      bodyText = Some ''body''\<rparr>"

lemma production_log_carries_detail_witness:
  "snd (logFetchError (\<lambda>_. []) True ''test''
      (ApiErr (error_of_response (\<lambda>_. Some (JObj [(''detail'', JStr ''pw=x'')])) demo_error_response))) =
    SafeLog 400 ''test'' ''pw=x''"
  using production_log_carries_detail
    [of demo_error_response "''body''" "\<lambda>_. Some (JObj [(''detail'', JStr ''pw=x'')])"
        "[(''detail'', JStr ''pw=x'')]" "''pw=x''" "\<lambda>_. []" "''test''"]
  by (simp add: demo_error_response_def is_json_response_def startsWith_def)

end
