(* ===== verification/Api_Endpoints.thy ===== *)
theory Api_Endpoints
  imports Api_Client
begin

text \<open>
  The endpoint wrappers of \<^verbatim>\<open>ui/src/lib/api\<close>: every exported function builds a path and a request
  init and hands them to \<open>apiFetch\<close>. A wrapper is modelled by the call it makes, a pair of path and
  init (\<open>api_call\<close>); request bodies are JSON values. The wrappers that do more than one thing
  (the note upserts, and those that unwrap a list response) take the client as an argument
  \<open>send\<close>, which is \<open>send_with fs parse net upd\<close> for the client of \<^verbatim>\<open>client.ts\<close>.
\<close>

type_synonym api_call = "string \<times> api_request_init"
type_synonym client = "api_call \<Rightarrow> world \<Rightarrow> api_outcome \<times> world"

abbreviation enc :: "string \<Rightarrow> string" where
  "enc \<equiv> encodeURIComponent"

section \<open>Verb wrappers (client.ts)\<close>

definition apiGet :: "string \<Rightarrow> api_request_init \<Rightarrow> api_call" where
  "apiGet path init = (path, init\<lparr>ri_method := Some ''GET''\<rparr>)"

definition apiPost :: "string \<Rightarrow> json option \<Rightarrow> api_request_init \<Rightarrow> api_call" where
  "apiPost path body init = (path, init\<lparr>ri_method := Some ''POST'', ri_json := body\<rparr>)"

definition apiPut :: "string \<Rightarrow> json option \<Rightarrow> api_request_init \<Rightarrow> api_call" where
  "apiPut path body init = (path, init\<lparr>ri_method := Some ''PUT'', ri_json := body\<rparr>)"

definition apiPatch :: "string \<Rightarrow> json option \<Rightarrow> api_request_init \<Rightarrow> api_call" where
  "apiPatch path body init = (path, init\<lparr>ri_method := Some ''PATCH'', ri_json := body\<rparr>)"

definition apiDelete :: "string \<Rightarrow> api_request_init \<Rightarrow> api_call" where
  "apiDelete path init = (path, init\<lparr>ri_method := Some ''DELETE''\<rparr>)"

definition with_query :: "(string \<times> query_value option) list \<Rightarrow> api_request_init" where
  "with_query q = empty_init\<lparr>ri_query := Some q\<rparr>"

definition patch_init :: "json \<Rightarrow> api_request_init" where
  \<comment> \<open>\<open>{ method: "PATCH", json: body }\<close>\<close>
  "patch_init body = empty_init\<lparr>ri_method := Some ''PATCH'', ri_json := Some body\<rparr>"

definition send_with ::
  "(rat \<Rightarrow> string) \<Rightarrow> (string \<Rightarrow> json option) \<Rightarrow> network \<Rightarrow> kc_update \<Rightarrow> client" where
  "send_with fs parse net upd c w = apiFetch fs parse net upd (fst c) (snd c) w"

definition opt_str :: "string option \<Rightarrow> query_value option" where
  "opt_str s = map_option QStr s"

definition opt_num :: "jsnum option \<Rightarrow> query_value option" where
  "opt_num n = map_option QNum n"

datatype pk_type = PkAuto | PkString | PkInt | PkBytes

fun pk_type_str :: "pk_type \<Rightarrow> string" where
  "pk_type_str PkAuto = ''auto''"
| "pk_type_str PkString = ''string''"
| "pk_type_str PkInt = ''int''"
| "pk_type_str PkBytes = ''bytes''"

datatype guide_type = DataPlane | ControlPlane

fun guide_type_str :: "guide_type \<Rightarrow> string" where
  "guide_type_str DataPlane = ''data-plane''"
| "guide_type_str ControlPlane = ''control-plane''"

definition GUIDE_TYPES :: "guide_type list" where
  "GUIDE_TYPES = [DataPlane, ControlPlane]"

section \<open>Cluster and template management (k8s.ts)\<close>

definition getK8sCluster :: "string \<Rightarrow> string \<Rightarrow> api_call" where
  "getK8sCluster namespace name =
     apiGet (''/k8s/clusters/'' @ enc namespace @ ''/'' @ enc name) empty_init"

definition createK8sCluster :: "json \<Rightarrow> api_call" where
  "createK8sCluster body =
     apiPost ''/k8s/clusters'' (Some body) empty_init"

definition updateK8sCluster :: "string \<Rightarrow> string \<Rightarrow> json \<Rightarrow> api_call" where
  "updateK8sCluster namespace name body =
     (''/k8s/clusters/'' @ enc namespace @ ''/'' @ enc name, patch_init body)"

definition deleteK8sCluster :: "string \<Rightarrow> string \<Rightarrow> api_call" where
  "deleteK8sCluster namespace name =
     apiDelete (''/k8s/clusters/'' @ enc namespace @ ''/'' @ enc name) empty_init"

definition scaleK8sCluster :: "string \<Rightarrow> string \<Rightarrow> json \<Rightarrow> api_call" where
  "scaleK8sCluster namespace name body =
     apiPost (''/k8s/clusters/'' @ enc namespace @ ''/'' @ enc name @ ''/scale'') (Some body) empty_init"

definition importK8sCluster :: "json \<Rightarrow> api_call" where
  "importK8sCluster body =
     apiPost ''/k8s/clusters/import'' (Some body) empty_init"

definition cloneK8sCluster :: "string \<Rightarrow> string \<Rightarrow> json \<Rightarrow> api_call" where
  "cloneK8sCluster namespace name body =
     apiPost (''/k8s/clusters/'' @ enc namespace @ ''/'' @ enc name @ ''/clone'') (Some body) empty_init"

definition updateNodeBlocklist :: "string \<Rightarrow> string \<Rightarrow> json \<Rightarrow> api_call" where
  "updateNodeBlocklist namespace name body =
     (''/k8s/clusters/'' @ enc namespace @ ''/'' @ enc name @ ''/node-blocklist'', patch_init body)"

definition forceReconcileK8sCluster :: "string \<Rightarrow> string \<Rightarrow> api_call" where
  "forceReconcileK8sCluster namespace name =
     apiPost (''/k8s/clusters/'' @ enc namespace @ ''/'' @ enc name @ ''/force-reconcile'') None empty_init"

definition resetCircuitBreaker :: "string \<Rightarrow> string \<Rightarrow> api_call" where
  "resetCircuitBreaker namespace name =
     apiPost (''/k8s/clusters/'' @ enc namespace @ ''/'' @ enc name @ ''/reset-circuit-breaker'') None empty_init"

definition resyncTemplate :: "string \<Rightarrow> string \<Rightarrow> api_call" where
  "resyncTemplate namespace name =
     apiPost (''/k8s/clusters/'' @ enc namespace @ ''/'' @ enc name @ ''/resync-template'') None empty_init"

definition getK8sClusterHealth :: "string \<Rightarrow> string \<Rightarrow> api_call" where
  "getK8sClusterHealth namespace name =
     apiGet (''/k8s/clusters/'' @ enc namespace @ ''/'' @ enc name @ ''/health'') empty_init"

definition getK8sClusterConfigDrift :: "string \<Rightarrow> string \<Rightarrow> api_call" where
  "getK8sClusterConfigDrift namespace name =
     apiGet (''/k8s/clusters/'' @ enc namespace @ ''/'' @ enc name @ ''/config-drift'') empty_init"

definition getReconciliationStatus :: "string \<Rightarrow> string \<Rightarrow> api_call" where
  "getReconciliationStatus namespace name =
     apiGet (''/k8s/clusters/'' @ enc namespace @ ''/'' @ enc name @ ''/reconciliation-status'') empty_init"

definition getReconciliationHealth :: "string \<Rightarrow> string \<Rightarrow> api_call" where
  "getReconciliationHealth namespace name =
     apiGet (''/k8s/clusters/'' @ enc namespace @ ''/'' @ enc name @ ''/reconciliation-health'') empty_init"

definition getMigrationStatus :: "string \<Rightarrow> string \<Rightarrow> api_call" where
  "getMigrationStatus namespace name =
     apiGet (''/k8s/clusters/'' @ enc namespace @ ''/'' @ enc name @ ''/migration-status'') empty_init"

definition getK8sClusterYaml :: "string \<Rightarrow> string \<Rightarrow> api_call" where
  "getK8sClusterYaml namespace name =
     apiGet (''/k8s/clusters/'' @ enc namespace @ ''/'' @ enc name @ ''/yaml'') empty_init"

definition listK8sClusterPvcs :: "string \<Rightarrow> string \<Rightarrow> api_call" where
  "listK8sClusterPvcs namespace name =
     apiGet (''/k8s/clusters/'' @ enc namespace @ ''/'' @ enc name @ ''/pvcs'') empty_init"

definition deleteK8sClusterPvc :: "string \<Rightarrow> string \<Rightarrow> string \<Rightarrow> api_call" where
  "deleteK8sClusterPvc namespace name pvcName =
     apiDelete (''/k8s/clusters/'' @ enc namespace @ ''/'' @ enc name @ ''/pvcs/'' @ enc pvcName) empty_init"

definition triggerK8sOperation :: "string \<Rightarrow> string \<Rightarrow> json \<Rightarrow> api_call" where
  "triggerK8sOperation namespace name body =
     apiPost (''/k8s/clusters/'' @ enc namespace @ ''/'' @ enc name @ ''/operations'') (Some body) empty_init"

definition clearK8sOperations :: "string \<Rightarrow> string \<Rightarrow> api_call" where
  "clearK8sOperations namespace name =
     apiDelete (''/k8s/clusters/'' @ enc namespace @ ''/'' @ enc name @ ''/operations'') empty_init"

definition getK8sClusterHpa :: "string \<Rightarrow> string \<Rightarrow> api_call" where
  "getK8sClusterHpa namespace name =
     apiGet (''/k8s/clusters/'' @ enc namespace @ ''/'' @ enc name @ ''/hpa'') empty_init"

definition upsertK8sClusterHpa :: "string \<Rightarrow> string \<Rightarrow> json \<Rightarrow> api_call" where
  "upsertK8sClusterHpa namespace name body =
     apiPost (''/k8s/clusters/'' @ enc namespace @ ''/'' @ enc name @ ''/hpa'') (Some body) empty_init"

definition deleteK8sClusterHpa :: "string \<Rightarrow> string \<Rightarrow> api_call" where
  "deleteK8sClusterHpa namespace name =
     apiDelete (''/k8s/clusters/'' @ enc namespace @ ''/'' @ enc name @ ''/hpa'') empty_init"

definition listK8sTemplates :: "api_call" where
  "listK8sTemplates =
     apiGet ''/k8s/templates'' empty_init"

definition getK8sTemplate :: "string \<Rightarrow> api_call" where
  "getK8sTemplate name =
     apiGet (''/k8s/templates/'' @ enc name) empty_init"

definition createK8sTemplate :: "json \<Rightarrow> api_call" where
  "createK8sTemplate body =
     apiPost ''/k8s/templates'' (Some body) empty_init"

definition updateK8sTemplate :: "string \<Rightarrow> json \<Rightarrow> api_call" where
  "updateK8sTemplate name body =
     (''/k8s/templates/'' @ enc name, patch_init body)"

definition deleteK8sTemplate :: "string \<Rightarrow> api_call" where
  "deleteK8sTemplate name =
     apiDelete (''/k8s/templates/'' @ enc name) empty_init"

definition listK8sNamespaces :: "api_call" where
  "listK8sNamespaces =
     apiGet ''/k8s/namespaces'' empty_init"

definition listK8sNodes :: "api_call" where
  "listK8sNodes =
     apiGet ''/k8s/nodes'' empty_init"

definition listK8sStorageClasses :: "api_call" where
  "listK8sStorageClasses =
     apiGet ''/k8s/storageclasses'' empty_init"

section \<open>Records (records.ts)\<close>

definition putRecord :: "string \<Rightarrow> json \<Rightarrow> api_call" where
  "putRecord connId body =
     apiPost (''/records/'' @ enc connId) (Some body) empty_init"

definition filterRecords :: "string \<Rightarrow> json \<Rightarrow> api_call" where
  "filterRecords connId body =
     apiPost (''/records/'' @ enc connId @ ''/filter'') (Some body) empty_init"

section \<open>Users and roles (admin.ts)\<close>

definition listUsers :: "string \<Rightarrow> api_call" where
  "listUsers connId =
     apiGet (''/admin/'' @ enc connId @ ''/users'') empty_init"

definition createUser :: "string \<Rightarrow> json \<Rightarrow> api_call" where
  "createUser connId body =
     apiPost (''/admin/'' @ enc connId @ ''/users'') (Some body) empty_init"

definition changeUserPassword :: "string \<Rightarrow> json \<Rightarrow> api_call" where
  "changeUserPassword connId body =
     (''/admin/'' @ enc connId @ ''/users'', patch_init body)"

definition deleteUser :: "string \<Rightarrow> string \<Rightarrow> api_call" where
  "deleteUser connId username =
     apiDelete (''/admin/'' @ enc connId @ ''/users'') (with_query [(''username'', Some (QStr username))])"

definition listRoles :: "string \<Rightarrow> api_call" where
  "listRoles connId =
     apiGet (''/admin/'' @ enc connId @ ''/roles'') empty_init"

definition createRole :: "string \<Rightarrow> json \<Rightarrow> api_call" where
  "createRole connId body =
     apiPost (''/admin/'' @ enc connId @ ''/roles'') (Some body) empty_init"

definition deleteRole :: "string \<Rightarrow> string \<Rightarrow> api_call" where
  "deleteRole connId name =
     apiDelete (''/admin/'' @ enc connId @ ''/roles'') (with_query [(''name'', Some (QStr name))])"

section \<open>Connection profiles (connections.ts)\<close>

definition listConnections :: "api_call" where
  "listConnections =
     apiGet ''/connections'' empty_init"

definition getConnection :: "string \<Rightarrow> api_call" where
  "getConnection connId =
     apiGet (''/connections/'' @ enc connId) empty_init"

definition createConnection :: "json \<Rightarrow> api_call" where
  "createConnection body =
     apiPost ''/connections'' (Some body) empty_init"

definition updateConnection :: "string \<Rightarrow> json \<Rightarrow> api_call" where
  "updateConnection connId body =
     apiPut (''/connections/'' @ enc connId) (Some body) empty_init"

definition deleteConnection :: "string \<Rightarrow> api_call" where
  "deleteConnection connId =
     apiDelete (''/connections/'' @ enc connId) empty_init"

definition getConnectionHealth :: "string \<Rightarrow> api_call" where
  "getConnectionHealth connId =
     apiGet (''/connections/'' @ enc connId @ ''/health'') empty_init"

definition testConnection :: "json \<Rightarrow> api_call" where
  "testConnection body =
     apiPost ''/connections/test'' (Some body) empty_init"

section \<open>Workspaces (workspaces.ts)\<close>

definition listWorkspaces :: "api_call" where
  "listWorkspaces =
     apiGet ''/workspaces'' empty_init"

definition getWorkspace :: "string \<Rightarrow> api_call" where
  "getWorkspace wid =
     apiGet (''/workspaces/'' @ enc wid) empty_init"

definition createWorkspace :: "json \<Rightarrow> api_call" where
  "createWorkspace body =
     apiPost ''/workspaces'' (Some body) empty_init"

definition updateWorkspace :: "string \<Rightarrow> json \<Rightarrow> api_call" where
  "updateWorkspace wid body =
     apiPut (''/workspaces/'' @ enc wid) (Some body) empty_init"

definition deleteWorkspace :: "string \<Rightarrow> api_call" where
  "deleteWorkspace wid =
     apiDelete (''/workspaces/'' @ enc wid) empty_init"

section \<open>Guides (guides.ts)\<close>

definition getGuide :: "string \<Rightarrow> guide_type \<Rightarrow> api_call" where
  "getGuide workspaceId guideType =
     apiGet (''/guides/'' @ enc workspaceId @ ''/'' @ enc (guide_type_str guideType)) empty_init"

definition upsertGuide :: "string \<Rightarrow> guide_type \<Rightarrow> json \<Rightarrow> api_call" where
  "upsertGuide workspaceId guideType body =
     apiPut (''/guides/'' @ enc workspaceId @ ''/'' @ enc (guide_type_str guideType)) (Some body) empty_init"

definition deleteGuide :: "string \<Rightarrow> guide_type \<Rightarrow> api_call" where
  "deleteGuide workspaceId guideType =
     apiDelete (''/guides/'' @ enc workspaceId @ ''/'' @ enc (guide_type_str guideType)) empty_init"

section \<open>Secondary indexes, UDFs, clusters, queries and metrics\<close>

definition listIndexes :: "string \<Rightarrow> api_call" where
  "listIndexes connId =
     apiGet (''/indexes/'' @ enc connId) empty_init"

definition createIndex :: "string \<Rightarrow> json \<Rightarrow> api_call" where
  "createIndex connId body =
     apiPost (''/indexes/'' @ enc connId) (Some body) empty_init"

definition dropIndex :: "string \<Rightarrow> string \<Rightarrow> string \<Rightarrow> api_call" where
  "dropIndex connId name ns =
     apiDelete (''/indexes/'' @ enc connId) (with_query [(''name'', Some (QStr name)), (''ns'', Some (QStr ns))])"

definition listUdfs :: "string \<Rightarrow> api_call" where
  "listUdfs connId =
     apiGet (''/udfs/'' @ enc connId) empty_init"

definition uploadUdf :: "string \<Rightarrow> json \<Rightarrow> api_call" where
  "uploadUdf connId body =
     apiPost (''/udfs/'' @ enc connId) (Some body) empty_init"

definition removeUdf :: "string \<Rightarrow> string \<Rightarrow> api_call" where
  "removeUdf connId filename =
     apiDelete (''/udfs/'' @ enc connId) (with_query [(''filename'', Some (QStr filename))])"

definition getCluster :: "string \<Rightarrow> api_call" where
  "getCluster connId =
     apiGet (''/clusters/'' @ enc connId) empty_init"

definition configureNamespace :: "string \<Rightarrow> json \<Rightarrow> api_call" where
  "configureNamespace connId body =
     apiPost (''/clusters/'' @ enc connId @ ''/namespaces'') (Some body) empty_init"

definition runQuery :: "string \<Rightarrow> json \<Rightarrow> api_call" where
  "runQuery connId body =
     apiPost (''/query/'' @ enc connId) (Some body) empty_init"

definition getClusterMetrics :: "string \<Rightarrow> api_call" where
  "getClusterMetrics connId =
     apiGet (''/metrics/'' @ enc connId) empty_init"

section \<open>Notes (notes.ts)\<close>

definition deleteSetNote :: "string \<Rightarrow> string \<Rightarrow> string \<Rightarrow> api_call" where
  "deleteSetNote connId namespace setName =
     apiDelete (''/notes/sets/'' @ enc connId @ ''/'' @ enc namespace @ ''/'' @ enc setName) empty_init"

section \<open>Calls with optional parameters\<close>

record list_k8s_clusters_params =
  lk_namespace :: "string option"
  lk_limit :: "jsnum option"
  lk_continueToken :: "string option"
  lk_labelSelector :: "string option"

definition listK8sClusters :: "list_k8s_clusters_params \<Rightarrow> api_call" where
  "listK8sClusters p =
     apiGet ''/k8s/clusters''
       (with_query [(''namespace'', opt_str (lk_namespace p)), (''limit'', opt_num (lk_limit p)),
          (''continueToken'', opt_str (lk_continueToken p)),
          (''labelSelector'', opt_str (lk_labelSelector p))])"

record get_pod_logs_params =
  tail :: "jsnum option"
  container :: "string option"

definition getK8sPodLogs :: "string \<Rightarrow> string \<Rightarrow> string \<Rightarrow> get_pod_logs_params \<Rightarrow> api_call" where
  "getK8sPodLogs namespace name pod p =
     apiGet (''/k8s/clusters/'' @ enc namespace @ ''/'' @ enc name @ ''/pods/'' @ enc pod @ ''/logs'')
       (with_query [(''tail'', opt_num (tail p)), (''container'', opt_str (container p))])"

record list_k8s_events_params =
  le_limit :: "jsnum option"
  le_category :: "string option"

definition listK8sClusterEvents :: "string \<Rightarrow> string \<Rightarrow> list_k8s_events_params \<Rightarrow> api_call" where
  "listK8sClusterEvents namespace name p =
     apiGet (''/k8s/clusters/'' @ enc namespace @ ''/'' @ enc name @ ''/events'')
       (with_query [(''limit'', opt_num (le_limit p)), (''category'', opt_str (le_category p))])"

definition listK8sSecrets :: "string option \<Rightarrow> api_call" where
  "listK8sSecrets namespace =
     apiGet ''/k8s/secrets''
       (with_query [(''namespace'', Some (QStr (nullish namespace ''aerospike'')))])"

record list_records_params =
  lr_ns :: string
  lr_set :: "string option"
  lr_pageSize :: "jsnum option"

definition listRecords :: "string \<Rightarrow> list_records_params \<Rightarrow> api_call" where
  "listRecords connId p =
     apiGet (''/records/'' @ enc connId)
       (with_query [(''ns'', Some (QStr (lr_ns p))), (''set'', opt_str (lr_set p)),
          (''pageSize'', opt_num (lr_pageSize p))])"

record record_lookup_params =
  rl_ns :: string
  rl_set :: string
  rl_pk :: string
  rl_pk_type :: "pk_type option"

definition lookup_query :: "record_lookup_params \<Rightarrow> (string \<times> query_value option) list" where
  "lookup_query p =
     [(''ns'', Some (QStr (rl_ns p))), (''set'', Some (QStr (rl_set p))), (''pk'', Some (QStr (rl_pk p))),
      (''pk_type'', map_option (\<lambda>t. QStr (pk_type_str t)) (rl_pk_type p))]"

definition getRecordDetail :: "string \<Rightarrow> record_lookup_params \<Rightarrow> api_call" where
  "getRecordDetail connId p =
     apiGet (''/records/'' @ enc connId @ ''/detail'') (with_query (lookup_query p))"

definition deleteRecord :: "string \<Rightarrow> record_lookup_params \<Rightarrow> api_call" where
  "deleteRecord connId p =
     apiDelete (''/records/'' @ enc connId) (with_query (lookup_query p))"

definition createSampleData :: "string \<Rightarrow> json \<Rightarrow> api_call" where
  "createSampleData connId body =
     apiPost (''/sample-data/'' @ enc connId) (Some body) (empty_init\<lparr>ri_timeoutMs := Some 60000\<rparr>)"

definition deleteRecordNote ::
  "string \<Rightarrow> string \<Rightarrow> string \<Rightarrow> string \<Rightarrow> pk_type \<Rightarrow> api_call" where
  "deleteRecordNote connId namespace setName pk pkType =
     apiDelete (''/notes/records/'' @ enc connId @ ''/'' @ enc namespace @ ''/'' @ enc setName @ ''/'' @
                enc pk @ ''?pk_type='' @ enc (pk_type_str pkType)) empty_init"

section \<open>Wrappers that look at the response\<close>

definition outcome_field :: "string \<Rightarrow> api_outcome \<Rightarrow> api_outcome" where
  \<comment> \<open>\<open>(await call).field\<close>\<close>
  "outcome_field f out =
     (case out of
        Throws e \<Rightarrow> Throws e
      | Value Undefined \<Rightarrow> Throws (ErrorObj (''Cannot read properties of undefined (reading '' @ quote_str f @ '')''))
      | Value (TextValue s) \<Rightarrow> Value Undefined
      | Value (JsonValue JNull) \<Rightarrow> Throws (ErrorObj (''Cannot read properties of null (reading '' @ quote_str f @ '')''))
      | Value (JsonValue v) \<Rightarrow>
          (case json_field v f of None \<Rightarrow> Value Undefined | Some x \<Rightarrow> Value (JsonValue x)))"

definition listGuides :: "client \<Rightarrow> string \<Rightarrow> world \<Rightarrow> api_outcome \<times> world" where
  "listGuides send workspaceId w =
     (let (out, w') = send (apiGet (''/guides/'' @ enc workspaceId) empty_init) w
      in (outcome_field ''guides'' out, w'))"

definition listSetNotes :: "client \<Rightarrow> string \<Rightarrow> string option \<Rightarrow> world \<Rightarrow> api_outcome \<times> world" where
  "listSetNotes send connId namespace w =
     (let qs = (if truthy namespace then ''?namespace='' @ enc (the namespace) else []);
          (out, w') = send (apiGet (''/notes/sets/'' @ enc connId @ qs) empty_init) w
      in (outcome_field ''notes'' out, w'))"

definition listRecordNotes ::
  "client \<Rightarrow> string \<Rightarrow> string \<Rightarrow> string \<Rightarrow> world \<Rightarrow> api_outcome \<times> world" where
  "listRecordNotes send connId namespace setName w =
     (let (out, w') = send (apiGet (''/notes/records/'' @ enc connId @ ''?ns='' @ enc namespace @
                                    ''&set='' @ enc setName) empty_init) w
      in (outcome_field ''notes'' out, w'))"

definition after_delete :: "api_outcome \<times> world \<Rightarrow> api_outcome \<times> world" where
  \<comment> \<open>\<open>await delete(...); return null\<close>\<close>
  "after_delete r =
     (case r of (Throws e, w) \<Rightarrow> (Throws e, w) | (Value _, w) \<Rightarrow> (Value (JsonValue JNull), w))"

definition set_note_path :: "string \<Rightarrow> string \<Rightarrow> string \<Rightarrow> string" where
  "set_note_path connId namespace setName =
     ''/notes/sets/'' @ enc connId @ ''/'' @ enc namespace @ ''/'' @ enc setName"

definition upsertSetNote ::
  "client \<Rightarrow> string \<Rightarrow> string \<Rightarrow> string \<Rightarrow> string \<Rightarrow> world \<Rightarrow> api_outcome \<times> world" where
  "upsertSetNote send connId namespace setName note w =
     (if note = [] \<or> trim note = [] then after_delete (send (deleteSetNote connId namespace setName) w)
      else send (apiPut (set_note_path connId namespace setName)
                   (Some (JObj [(''note'', JStr note)])) empty_init) w)"

record record_note_request =
  rn_note :: string
  rn_pkType :: "pk_type option"

definition record_note_path :: "string \<Rightarrow> string \<Rightarrow> string \<Rightarrow> string \<Rightarrow> string" where
  "record_note_path connId namespace setName pk =
     ''/notes/records/'' @ enc connId @ ''/'' @ enc namespace @ ''/'' @ enc setName @ ''/'' @ enc pk"

definition record_note_json :: "record_note_request \<Rightarrow> json" where
  "record_note_json b =
     JObj ([(''note'', JStr (rn_note b))] @
           (case rn_pkType b of None \<Rightarrow> [] | Some t \<Rightarrow> [(''pkType'', JStr (pk_type_str t))]))"

definition upsertRecordNote ::
  "client \<Rightarrow> string \<Rightarrow> string \<Rightarrow> string \<Rightarrow> string \<Rightarrow> record_note_request \<Rightarrow> world \<Rightarrow> api_outcome \<times> world" where
  "upsertRecordNote send connId namespace setName pk body w =
     (if rn_note body = [] \<or> trim (rn_note body) = []
      then after_delete (send (deleteRecordNote connId namespace setName pk
                                 (nullish (rn_pkType body) PkAuto)) w)
      else send (apiPut (record_note_path connId namespace setName pk)
                   (Some (record_note_json body)) empty_init) w)"

section \<open>Routes\<close>

text \<open>
  What the server sees of a path: the URL parser of the browser splits it at slashes and removes
  dot segments (URL Standard, path state), and the server decodes each remaining segment.
\<close>

definition is_single_dot :: "string \<Rightarrow> bool" where
  "is_single_dot s = (toLowerCase s \<in> set [''.'', ''%2e''])"

definition is_double_dot :: "string \<Rightarrow> bool" where
  "is_double_dot s = (toLowerCase s \<in> set [''..'', ''.%2e'', ''%2e.'', ''%2e%2e''])"

fun url_path :: "string list \<Rightarrow> string list \<Rightarrow> string list" where
  \<comment> \<open>the first argument holds the segments so far, last one first\<close>
  "url_path acc [] = rev acc"
| "url_path acc (s # ss) =
     (if is_double_dot s then url_path (if ss = [] then [] # tl acc else tl acc) ss
      else if is_single_dot s then url_path (if ss = [] then [] # acc else acc) ss
      else url_path (s # acc) ss)"

definition server_route :: "string \<Rightarrow> string list" where
  "server_route path = map (pct_decode False) (url_path [] (tl (splitOn (CHR ''/'') path)))"

definition dotty :: "string \<Rightarrow> bool" where
  "dotty s = (s = ''.'' \<or> s = ''..'')"

lemma code_eq_iff: "code c = code d \<longleftrightarrow> c = d"
  by simp

lemma lower_char_plain:
  assumes "lower_char c = d" "\<not> is_lower_az d" "code d < 128"
  shows "c = d"
proof -
  have "code (lower_char c) = code d" using assms(1) by simp
  with assms(2,3) have "code c = code d"
    by (auto simp: code_lower_char is_upper_def is_lower_az_def split: if_splits)
  then show ?thesis by simp
qed

lemma lower_char_e: "lower_char c = CHR ''e'' \<Longrightarrow> c = CHR ''e'' \<or> c = CHR ''E''"
proof -
  assume "lower_char c = CHR ''e''"
  then have "code (lower_char c) = 101" by simp
  then have "code c = code (CHR ''e'') \<or> code c = code (CHR ''E'')"
    by (auto simp: code_lower_char split: if_splits)
  then show ?thesis by (simp only: code_eq_iff)
qed

lemma lower_dot: "lower_char c = CHR ''.'' \<Longrightarrow> c = CHR ''.''"
  and lower_pct: "lower_char c = CHR ''%'' \<Longrightarrow> c = CHR ''%''"
  and lower_two: "lower_char c = CHR ''2'' \<Longrightarrow> c = CHR ''2''"
  by (erule lower_char_plain; simp add: is_lower_az_def)+

lemma lower_dots:
  "toLowerCase x = ''.'' \<Longrightarrow> x = ''.''"
  "toLowerCase x = ''..'' \<Longrightarrow> x = ''..''"
  "toLowerCase x = ''%2e'' \<Longrightarrow> x \<in> set [''%2e'', ''%2E'']"
  "toLowerCase x = ''.%2e'' \<Longrightarrow> x \<in> set [''.%2e'', ''.%2E'']"
  "toLowerCase x = ''%2e.'' \<Longrightarrow> x \<in> set [''%2e.'', ''%2E.'']"
  "toLowerCase x = ''%2e%2e'' \<Longrightarrow> x \<in> set [''%2e%2e'', ''%2E%2e'', ''%2e%2E'', ''%2E%2E'']"
  unfolding toLowerCase_def
  by (auto simp: map_eq_Cons_conv dest!: lower_dot lower_pct lower_two lower_char_e)

lemma dots_decode:
  "\<forall>x \<in> set [''.'', ''%2e'', ''%2E'']. pct_decode False x = ''.''"
  "\<forall>x \<in> set [''..'', ''.%2e'', ''.%2E'', ''%2e.'', ''%2E.'', ''%2e%2e'', ''%2E%2e'', ''%2e%2E'', ''%2E%2E''].
     pct_decode False x = ''..''"
  by code_simp+

lemma dot_segment_decodes:
  "is_single_dot x \<Longrightarrow> pct_decode False x = ''.''"
  "is_double_dot x \<Longrightarrow> pct_decode False x = ''..''"
proof -
  assume "is_single_dot x"
  then have "x \<in> set [''.'', ''%2e'', ''%2E'']"
    unfolding is_single_dot_def using lower_dots(1,3) by fastforce
  then show "pct_decode False x = ''.''" using dots_decode(1) by blast
next
  assume "is_double_dot x"
  then consider "toLowerCase x = ''..''" | "toLowerCase x = ''.%2e''" | "toLowerCase x = ''%2e.''"
    | "toLowerCase x = ''%2e%2e''" by (auto simp: is_double_dot_def)
  then show "pct_decode False x = ''..''"
  proof cases
    case 1
    with lower_dots(2) [of x] dots_decode(2) show ?thesis by simp
  next
    case 2
    with lower_dots(4) dots_decode(2) show ?thesis by auto
  next
    case 3
    with lower_dots(5) dots_decode(2) show ?thesis by auto
  next
    case 4
    with lower_dots(6) dots_decode(2) show ?thesis by auto
  qed
qed

lemma enc_dot [simp]:
  "is_single_dot (enc s) \<longleftrightarrow> s = ''.''" "is_double_dot (enc s) \<longleftrightarrow> s = ''..''"
proof -
  have "is_single_dot (enc ''.'')" "is_double_dot (enc ''..'')" by code_simp+
  then show "is_single_dot (enc s) \<longleftrightarrow> s = ''.''" "is_double_dot (enc s) \<longleftrightarrow> s = ''..''"
    using dot_segment_decodes [of "enc s"] by auto
qed

lemma url_path_plain: "\<forall>s \<in> set ss. \<not> dotty s \<Longrightarrow> url_path acc (map enc ss) = rev acc @ map enc ss"
  by (induction ss arbitrary: acc) (auto simp: dotty_def)

lemma enc_no_slash: "CHR ''/'' \<notin> set (enc s)"
  using encodeURIComponent_no_delim [of "CHR ''/''" s] by (auto simp: uri_delim_def)

lemma split_route:
  "ss \<noteq> [] \<Longrightarrow> splitOn (CHR ''/'') (''/'' @ joinWith ''/'' (map enc ss)) = [] # map enc ss"
  using splitOn_joinWith [of "map enc ss" "CHR ''/''"] by (simp add: enc_no_slash)

lemma server_route_enc:
  "ss \<noteq> [] \<Longrightarrow> \<forall>s \<in> set ss. \<not> dotty s \<Longrightarrow> server_route (''/'' @ joinWith ''/'' (map enc ss)) = ss"
  by (simp add: server_route_def split_route url_path_plain comp_def del: append.simps)

lemma enc_literals:
  "enc ''api'' = ''api''" "enc ''k8s'' = ''k8s''" "enc ''clusters'' = ''clusters''" "enc ''pvcs'' = ''pvcs''"
  "enc ''templates'' = ''templates''" "enc ''connections'' = ''connections''"
  "enc ''workspaces'' = ''workspaces''" "enc ''guides'' = ''guides''" "enc ''notes'' = ''notes''"
  "enc ''sets'' = ''sets''" "enc ''hpa'' = ''hpa''" "enc ''operations'' = ''operations''"
  "enc ''data-plane'' = ''data-plane''" "enc ''control-plane'' = ''control-plane''"
  by code_simp+

lemma api_path_plain: "api_path (CHR ''/'' # c # t) = (if startsWith (c # t) ''api'' then CHR ''/'' # c # t else ''/api/'' @ c # t)"
  by (simp add: api_path_def API_PREFIX_def startsWith_def Let_def)

lemmas endpoint_path_simps =
  apiDelete_def api_path_plain startsWith_def

text \<open>
  The path of each deleting wrapper, as the encoded segments of a route.
\<close>

lemma delete_paths:
  "api_path (fst (deleteK8sCluster ns n)) = ''/'' @ joinWith ''/'' (map enc [''api'', ''k8s'', ''clusters'', ns, n])"
  "api_path (fst (deleteK8sClusterPvc ns n p)) =
     ''/'' @ joinWith ''/'' (map enc [''api'', ''k8s'', ''clusters'', ns, n, ''pvcs'', p])"
  "api_path (fst (clearK8sOperations ns n)) =
     ''/'' @ joinWith ''/'' (map enc [''api'', ''k8s'', ''clusters'', ns, n, ''operations''])"
  "api_path (fst (deleteK8sClusterHpa ns n)) =
     ''/'' @ joinWith ''/'' (map enc [''api'', ''k8s'', ''clusters'', ns, n, ''hpa''])"
  "api_path (fst (deleteK8sTemplate n)) = ''/'' @ joinWith ''/'' (map enc [''api'', ''k8s'', ''templates'', n])"
  "api_path (fst (deleteConnection n)) = ''/'' @ joinWith ''/'' (map enc [''api'', ''connections'', n])"
  "api_path (fst (deleteWorkspace n)) = ''/'' @ joinWith ''/'' (map enc [''api'', ''workspaces'', n])"
  "api_path (fst (deleteSetNote n ns p)) =
     ''/'' @ joinWith ''/'' (map enc [''api'', ''notes'', ''sets'', n, ns, p])"
  "api_path (fst (deleteGuide n g)) =
     ''/'' @ joinWith ''/'' (map enc [''api'', ''guides'', n, guide_type_str g])"
  by (simp_all add: deleteK8sCluster_def deleteK8sClusterPvc_def clearK8sOperations_def
      deleteK8sClusterHpa_def deleteK8sTemplate_def deleteConnection_def deleteWorkspace_def
      deleteSetNote_def deleteGuide_def endpoint_path_simps enc_literals)

lemma not_dotty_literals:
  "\<not> dotty ''api''" "\<not> dotty ''k8s''" "\<not> dotty ''clusters''" "\<not> dotty ''pvcs''" "\<not> dotty ''operations''"
  "\<not> dotty ''hpa''" "\<not> dotty ''templates''" "\<not> dotty ''connections''" "\<not> dotty ''workspaces''"
  "\<not> dotty ''notes''" "\<not> dotty ''sets''" "\<not> dotty ''guides''" "\<not> dotty (guide_type_str g)"
  by (simp_all add: dotty_def) (cases g; simp)



text \<open>
  C40: the exception of the previous property is real. \<open>encodeURIComponent\<close> leaves dots alone, so a
  namespace \<open>..\<close> makes the deletion of a cluster address a different route, one level up, and a
  workspace or connection id \<open>..\<close> addresses the root of the API.
\<close>

theorem dot_segments_escape:
  "(\<not> dotty n \<longrightarrow> server_route (api_path (fst (deleteK8sCluster ''..'' n))) = [''api'', ''k8s'', n]) \<and>
   server_route (api_path (fst (deleteConnection ''..''))) = [''api'', []] \<and>
   server_route (api_path (fst (deleteWorkspace ''..''))) = [''api'', []]"
proof -
  have nil: "pct_decode False [] = []" by (simp add: pct_decode_def)
  have "server_route (''/'' @ joinWith ''/'' (map enc [''api'', ''k8s'', ''clusters'', ''..'', n])) = [''api'', ''k8s'', n]"
    if "\<not> dotty n"
    using that unfolding server_route_def
    by (subst split_route) (simp_all add: dotty_def)
  moreover have "server_route (''/'' @ joinWith ''/'' (map enc [''api'', s, ''..''])) = [''api'', []]"
    if "\<not> dotty s" for s
    using that unfolding server_route_def
    by (subst split_route) (simp_all add: dotty_def nil)
  ultimately show ?thesis
    unfolding delete_paths using not_dotty_literals(8,9) by blast
qed

theorem dot_segments_escape_witness:
  "server_route (api_path (fst (deleteK8sCluster ''..'' ''nodes''))) = [''api'', ''k8s'', ''nodes'']"
  using dot_segments_escape [of "''nodes''"] by (simp add: dotty_def)

text \<open>
  Saving a blank note clears it. For a note that is empty or only white space, the upsert makes
  exactly the delete call and answers \<open>null\<close> unless that call throws; any other note is put verbatim
  under the same path the delete would use, so the API never sees a blank note.
\<close>

theorem blank_note_is_deleted:
  "upsertSetNote send connId ns st note w =
     (if \<forall>c \<in> set note. is_ws c
      then (case send (deleteSetNote connId ns st) w of
              (Throws e, w') \<Rightarrow> (Throws e, w')
            | (Value v, w') \<Rightarrow> (Value (JsonValue JNull), w'))
      else send (fst (deleteSetNote connId ns st),
                 empty_init\<lparr>ri_method := Some ''PUT'', ri_json := Some (JObj [(''note'', JStr note)])\<rparr>) w)"
  by (auto simp: upsertSetNote_def after_delete_def trim_eq_Nil_iff apiPut_def deleteSetNote_def
      apiDelete_def set_note_path_def split: prod.split api_outcome.split)

theorem blank_note_is_deleted_witness:
  "upsertSetNote (\<lambda>c w. (Value Undefined, w)) ''c'' ''ns'' ''s'' ''  '' demo_world = (Value (JsonValue JNull), demo_world)"
  using blank_note_is_deleted [of "\<lambda>c w. (Value Undefined, w)" "''c''" "''ns''" "''s''" "''  ''" demo_world]
  by (simp add: is_ws_def)

end
