(* ===== verification/Validation.thy ===== *)
theory Validation
  imports Js_Json
begin

text \<open>
  The form validators: bin names (\<^verbatim>\<open>ui/src/lib/validation.ts\<close>) and the Kubernetes fields of the
  cluster wizard (\<^verbatim>\<open>ui/src/lib/validations/k8s.ts\<close>). A validator returns \<open>None\<close> for \<open>null\<close> (valid)
  or the message. The regular expressions are recognisers on strings; \<open>fs\<close> renders the numbers
  that appear in messages.
\<close>

section \<open>Bin names\<close>

definition MAX_BIN_NAME_LENGTH :: nat where
  "MAX_BIN_NAME_LENGTH = 15"

definition is_control :: "char \<Rightarrow> bool" where
  "is_control c = (code c < 32 \<or> code c = 127)"

definition validateBinName :: "string \<Rightarrow> string option" where
  "validateBinName name =
     (if length name = 0 then Some ''Bin name is required.''
      else if length name > MAX_BIN_NAME_LENGTH
      then Some (''Bin name must be at most '' @ nat_str MAX_BIN_NAME_LENGTH @ '' characters.'')
      else if name \<noteq> trim name then Some ''Bin name must not have leading or trailing whitespace.''
      else if list_ex is_control name then Some ''Bin name must not contain control characters.''
      else None)"

section \<open>Kubernetes names and quantities\<close>

definition MAX_NODES :: int where "MAX_NODES = 8"
definition MAX_CE_NAMESPACES :: nat where "MAX_CE_NAMESPACES = 2"

definition AEROSPIKE_IMAGES :: "string list" where
  "AEROSPIKE_IMAGES = [''aerospike:ce-8.1.1.1'']"

definition is_dns_alnum :: "char \<Rightarrow> bool" where
  "is_dns_alnum c = (is_lower_az c \<or> is_digit c)"

definition K8S_NAME_RE :: "string \<Rightarrow> bool" where
  \<comment> \<open>\<open>/^[a-z0-9]([a-z0-9-]*[a-z0-9])?$/\<close>\<close>
  "K8S_NAME_RE s =
     (s \<noteq> [] \<and> is_dns_alnum (hd s) \<and> is_dns_alnum (last s) \<and>
      list_all (\<lambda>c. is_dns_alnum c \<or> c = CHR ''-'') s)"

definition quantity_split :: "string \<Rightarrow> (string \<times> string) option" where
  \<comment> \<open>\<open>[0-9]+(\.[0-9]+)?\<close> at the start: the matched number and the rest\<close>
  "quantity_split s =
     (let ds = takeWhile is_digit s; r = dropWhile is_digit s in
      if ds = [] then None
      else (let fp = (if startsWith r ''.'' then takeWhile is_digit (tl r) else []) in
            if fp = [] then Some (ds, r) else Some (ds @ ''.'' @ fp, dropWhile is_digit (tl r))))"

definition CPU_RE :: "string \<Rightarrow> bool" where
  \<comment> \<open>\<open>/^[0-9]+(\.[0-9]+)?m?$/\<close>\<close>
  "CPU_RE s =
     (case quantity_split s of None \<Rightarrow> False | Some (n, r) \<Rightarrow> r = [] \<or> r = ''m'')"

definition MEMORY_UNITS :: "(string \<times> nat) list" where
  "MEMORY_UNITS = [(''Ki'', 1), (''Mi'', 2), (''Gi'', 3), (''Ti'', 4), (''Pi'', 5), (''Ei'', 6)]"

definition MEM_RE :: "string \<Rightarrow> bool" where
  \<comment> \<open>\<open>/^[0-9]+(\.[0-9]+)?[KMGTPE]i$/\<close>\<close>
  "MEM_RE s =
     (case quantity_split s of
        None \<Rightarrow> False
      | Some (n, r) \<Rightarrow> r \<in> set [''Ki'', ''Mi'', ''Gi'', ''Ti'', ''Pi'', ''Ei''])"

definition validateK8sName :: "string \<Rightarrow> string option" where
  "validateK8sName value =
     (if value = [] then Some ''Name is required''
      else if length value > 63 then Some ''Name must be 63 characters or less''
      else if \<not> K8S_NAME_RE value
      then Some ''Must be lowercase alphanumeric with hyphens, starting and ending with alphanumeric''
      else None)"

definition validateK8sCpu :: "string \<Rightarrow> string option" where
  "validateK8sCpu value =
     (if value = [] then Some ''CPU is required''
      else if \<not> CPU_RE value
      then Some (''Invalid CPU format (e.g., '' @ [CHR 0x27] @ ''500m'' @ [CHR 0x27] @ '', '' @ [CHR 0x27] @ ''1'' @
                 [CHR 0x27] @ '', '' @ [CHR 0x27] @ ''2.5'' @ [CHR 0x27] @ '')'')
      else None)"

definition validateK8sMemory :: "string \<Rightarrow> string option" where
  "validateK8sMemory value =
     (if value = [] then Some ''Memory is required''
      else if \<not> MEM_RE value
      then Some (''Invalid memory format (e.g., '' @ [CHR 0x27] @ ''512Mi'' @ [CHR 0x27] @ '', '' @ [CHR 0x27] @
                 ''1Gi'' @ [CHR 0x27] @ '', '' @ [CHR 0x27] @ ''4Gi'' @ [CHR 0x27] @ '')'')
      else None)"

definition validateImageNotEnterprise :: "string \<Rightarrow> string option" where
  "validateImageNotEnterprise img =
     (if str_includes (toLowerCase img) ''enterprise''
      then Some ''Enterprise images are not supported (CE only)'' else None)"

definition parseCpuMillis :: "string \<Rightarrow> jsnum" where
  "parseCpuMillis cpu =
     (if endsWith cpu ''m'' then parseFloat (butlast cpu) else num_mul (parseFloat cpu) (Num 1000))"

definition parseMemoryBytes :: "string \<Rightarrow> jsnum" where
  "parseMemoryBytes mem =
     (if MEM_RE mem
      then (let (n, u) = the (quantity_split mem)
            in num_mul (parseFloat n) (Num (1024 ^ nullish (map_of MEMORY_UNITS u) 0)))
      else Num 0)"

section \<open>Namespaces\<close>

definition ns_name :: "json \<Rightarrow> string" where
  "ns_name ns = str_or_empty (json_field ns ''name'')"

definition ns_rf :: "json \<Rightarrow> jsnum" where
  "ns_rf ns = num_or (Num 1) (json_field ns ''replicationFactor'')"

definition rf_error :: "(rat \<Rightarrow> string) \<Rightarrow> jsnum \<Rightarrow> json \<Rightarrow> string option" where
  "rf_error fs clusterSize ns =
     (if num_less clusterSize (ns_rf ns)
      then Some (''Namespace '' @ [CHR 0x22] @ ns_name ns @ [CHR 0x22] @ '' replication factor ('' @
                 num_str fs (ns_rf ns) @ '') exceeds cluster size ('' @ num_str fs clusterSize @ '')'')
      else None)"

fun first_error :: "('a \<Rightarrow> string option) \<Rightarrow> 'a list \<Rightarrow> string option" where
  \<comment> \<open>a \<open>for\<close> loop that returns the first message\<close>
  "first_error f [] = None"
| "first_error f (x # xs) = (case f x of None \<Rightarrow> first_error f xs | Some e \<Rightarrow> Some e)"

definition validateNamespaces :: "(rat \<Rightarrow> string) \<Rightarrow> json list \<Rightarrow> jsnum \<Rightarrow> string option" where
  "validateNamespaces fs namespaces clusterSize =
     (if length namespaces = 0 then Some ''At least one namespace is required''
      else if length namespaces > MAX_CE_NAMESPACES
      then Some (''Aerospike CE supports at most '' @ nat_str MAX_CE_NAMESPACES @ '' namespaces'')
      else
        (let names = map (\<lambda>ns. trim (ns_name ns)) namespaces in
         if list_ex (\<lambda>n. length n = 0) names then Some ''All namespace names are required''
         else if card (set names) \<noteq> length names then Some ''Namespace names must be unique''
         else first_error (rf_error fs clusterSize) namespaces))"

section \<open>What the validators accept\<close>

lemma first_error_None: "first_error f xs = None \<longleftrightarrow> (\<forall>x \<in> set xs. f x = None)"
  by (induction xs) (auto split: option.splits)

text \<open>
  A bin name is accepted exactly when it has 1 to 15 characters, does not begin or end with white
  space and contains no ASCII control character (0x00 to 0x1F and 0x7F).
\<close>

theorem validateBinName_iff:
  "validateBinName name = None \<longleftrightarrow>
     1 \<le> length name \<and> length name \<le> 15 \<and> \<not> is_ws (hd name) \<and> \<not> is_ws (last name) \<and>
     list_all (\<lambda>c. 32 \<le> code c \<and> code c \<noteq> 127) name"
proof (cases "name = []")
  case False
  then have "(name \<noteq> trim name) = (is_ws (hd name) \<or> is_ws (last name))"
    using trim_fixed_iff [of name] by auto
  moreover have "list_all (\<lambda>c. 32 \<le> code c \<and> code c \<noteq> 127) name = (\<not> list_ex is_control name)"
    by (auto simp: list_all_iff list_ex_iff is_control_def not_less)
  ultimately show ?thesis
    using False by (auto simp: validateBinName_def MAX_BIN_NAME_LENGTH_def Suc_le_eq not_less)
qed (simp add: validateBinName_def)

text \<open>
  the namespace list of a cluster is accepted exactly when it has one or two entries, the trimmed
  names are non-empty and pairwise different, and no replication factor exceeds the cluster size.
\<close>

theorem validateNamespaces_iff:
  "validateNamespaces fs nss csize = None \<longleftrightarrow>
     1 \<le> length nss \<and> length nss \<le> 2 \<and>
     distinct (map (\<lambda>ns. trim (ns_name ns)) nss) \<and>
     list_all (\<lambda>ns. \<not> list_all is_ws (ns_name ns) \<and> \<not> num_less csize (ns_rf ns)) nss"
proof -
  have "list_ex (\<lambda>n. length n = 0) (map (\<lambda>ns. trim (ns_name ns)) nss) \<longleftrightarrow>
      list_ex (\<lambda>ns. list_all is_ws (ns_name ns)) nss"
    unfolding list_ex_iff list_all_iff trim_eq_Nil_iff [symmetric] by (force intro: rev_image_eqI)
  moreover have "first_error (rf_error fs csize) nss = None \<longleftrightarrow>
      list_all (\<lambda>ns. \<not> num_less csize (ns_rf ns)) nss"
    by (auto simp: first_error_None rf_error_def list_all_iff)
  moreover have "card (set (map (\<lambda>ns. trim (ns_name ns)) nss)) = length (map (\<lambda>ns. trim (ns_name ns)) nss) \<longleftrightarrow>
      distinct (map (\<lambda>ns. trim (ns_name ns)) nss)"
    by (metis card_distinct distinct_card)
  moreover have "length nss = 0 \<longleftrightarrow> \<not> 1 \<le> length nss" by (cases nss) auto
  ultimately show ?thesis
    unfolding validateNamespaces_def Let_def MAX_CE_NAMESPACES_def
    by (simp only: not_less option.distinct if_splits simp_thms) (auto simp: list_all_iff list_ex_iff)
qed

section \<open>Canonical quantities\<close>

lemma parseFloat_nat_str:
  assumes "n < 2 ^ 53"
  shows "parseFloat (nat_str n) = inum (int n)"
proof -
  let ?s = "nat_str n"
  have ds: "\<forall>c \<in> set ?s. is_digit c" and ne: "?s \<noteq> []" using nat_str_digits by auto
  then obtain c t where ct: "?s = c # t" and c: "is_digit c" by (cases ?s) auto
  have "c \<noteq> CHR ''-'' \<and> c \<noteq> CHR ''+''" using c by (rule is_digit_not_sign)
  moreover have "c \<noteq> CHR ''I''" using c by (auto simp: is_digit_def)
  ultimately have st: "\<not> startsWith ?s ''-''" "\<not> startsWith ?s ''+''" "\<not> startsWith ?s ''Infinity''"
    by (simp_all add: startsWith_def ct)
  have tw: "trimStart ?s = ?s" "takeWhile is_digit ?s = ?s" "dropWhile is_digit ?s = []"
    using ds by (blast intro: trimStart_digits, blast intro: takeWhile_digits, simp)
  have "exponent_part [] = 0" by (simp add: exponent_part_def startsWith_def)
  moreover have "num_of_rat (of_int (int n)) = inum (int n)" using assms by (intro num_of_int) simp
  ultimately show ?thesis
    unfolding parseFloat_def Let_def tw using st ne
    by (simp add: tw startsWith_def decimal_val_def pow10_def)
qed

lemma quantity_split_nat_str:
  assumes "r = [] \<or> (\<not> is_digit (hd r) \<and> hd r \<noteq> CHR ''.'')"
  shows "quantity_split (nat_str n @ r) = Some (nat_str n, r)"
proof -
  have ds: "\<forall>c \<in> set (nat_str n). is_digit c" and ne: "nat_str n \<noteq> []"
    using nat_str_digits by auto
  have tw: "takeWhile is_digit (nat_str n @ r) = nat_str n" "dropWhile is_digit (nat_str n @ r) = r"
    using ds assms by (cases r; simp add: takeWhile_eq_all_conv)+
  have "\<not> startsWith r ''.''" using assms by (cases r) (auto simp: startsWith_def)
  with ne show ?thesis unfolding quantity_split_def Let_def tw by simp
qed

lemma quantities_parse:
  assumes "n * 2 ^ 30 < 2 ^ 53"
  shows "validateK8sCpu (nat_str n @ ''m'') = None \<and> parseCpuMillis (nat_str n @ ''m'') = inum (int n) \<and>
    validateK8sCpu (nat_str n) = None \<and> parseCpuMillis (nat_str n) = inum (1000 * int n) \<and>
    validateK8sMemory (nat_str n @ ''Gi'') = None \<and>
    parseMemoryBytes (nat_str n @ ''Gi'') = inum (int n * 2 ^ 30)"
proof -
  have n: "n < 2 ^ 53" "\<bar>1000 * int n\<bar> < 2 ^ 53" "\<bar>int n * 2 ^ 30\<bar> < 2 ^ 53" using assms by auto
  have ne: "nat_str n \<noteq> []" using nat_str_digits by blast
  have last: "is_digit (last (nat_str n))" using nat_str_digits [of n] ne by auto
  have "\<not> endsWith (nat_str n) ''m''"
    using last by (auto simp: endsWith_iff is_digit_def)
  moreover have "endsWith (nat_str n @ ''m'') ''m''" by (auto simp: endsWith_iff)
  moreover have "num_of_rat (of_int (1000 * int n)) = inum (1000 * int n)"
      "num_of_rat (of_int (int n * 2 ^ 30)) = inum (int n * 2 ^ 30)"
    by (rule num_of_int [OF n(2)], rule num_of_int [OF n(3)])
  moreover have q: "quantity_split (nat_str n @ ''m'') = Some (nat_str n, ''m'')"
      "quantity_split (nat_str n) = Some (nat_str n, [])"
      "quantity_split (nat_str n @ ''Gi'') = Some (nat_str n, ''Gi'')"
    using quantity_split_nat_str [of _ n] quantity_split_nat_str [of "[]" n]
    by (simp_all add: is_digit_def)
  ultimately show ?thesis
    using ne parseFloat_nat_str [OF n(1)]
    by (simp add: validateK8sCpu_def validateK8sMemory_def CPU_RE_def MEM_RE_def parseCpuMillis_def
        parseMemoryBytes_def MEMORY_UNITS_def mult.commute)
qed

text \<open>
  The comparison of requests and limits works on exact values. A whole number of millicores,
  cores or gibibytes is accepted by the validators and parsed to exactly its value in millicores
  or bytes, as long as that value is below \<open>2 ^ 53\<close>.
\<close>

theorem canonical_quantities:
  assumes "n * 2 ^ 30 < 2 ^ 53"
  shows "validateK8sCpu (nat_str n @ ''m'') = None \<and> parseCpuMillis (nat_str n @ ''m'') = inum (int n) \<and>
    validateK8sCpu (nat_str n) = None \<and> parseCpuMillis (nat_str n) = inum (1000 * int n) \<and>
    validateK8sMemory (nat_str n @ ''Gi'') = None \<and>
    parseMemoryBytes (nat_str n @ ''Gi'') = inum (int n * 2 ^ 30)"
  by (rule quantities_parse [OF assms])

theorem canonical_quantities_witness: "parseMemoryBytes (nat_str 4 @ ''Gi'') = inum 4294967296"
  using canonical_quantities [of 4] by simp

end
