(* ===== verification/K8s_Types.thy ===== *)
theory K8s_Types
  imports Js_Json
begin

text \<open>
  The request types of \<^verbatim>\<open>ui/src/lib/types/k8s.ts\<close>. A TypeScript interface is a predicate on JSON
  values: \<open>wt_X j\<close> says that \<open>j\<close> is an object whose fields have the types that interface \<open>X\<close>
  declares (optional fields may be absent, nullable ones may be \<open>null\<close>, further fields are allowed).
  The operations of the wizard work on the JSON value itself, as the code does.
\<close>

type_synonym form = "(string, json) jsmap"

section \<open>Type constructors\<close>

fun is_str :: "json \<Rightarrow> bool" where
  "is_str (JStr _) = True" | "is_str _ = False"

fun is_num :: "json \<Rightarrow> bool" where
  "is_num (JNum _) = True" | "is_num _ = False"

fun is_bool :: "json \<Rightarrow> bool" where
  "is_bool (JBool _) = True" | "is_bool _ = False"

definition any_json :: "json \<Rightarrow> bool" where
  \<comment> \<open>\<open>unknown\<close>\<close>
  "any_json j = True"

fun nullable :: "(json \<Rightarrow> bool) \<Rightarrow> json \<Rightarrow> bool" where
  "nullable c JNull = True" | "nullable c j = c j"

definition either :: "(json \<Rightarrow> bool) \<Rightarrow> (json \<Rightarrow> bool) \<Rightarrow> json \<Rightarrow> bool" where
  "either c d j = (c j \<or> d j)"

fun enum :: "string list \<Rightarrow> json \<Rightarrow> bool" where
  \<comment> \<open>a union of string literals\<close>
  "enum ls (JStr s) = (s \<in> set ls)" | "enum ls _ = False"

fun array_of :: "(json \<Rightarrow> bool) \<Rightarrow> json \<Rightarrow> bool" where
  "array_of c (JArr xs) = list_all c xs" | "array_of c _ = False"

fun record_of :: "(json \<Rightarrow> bool) \<Rightarrow> json \<Rightarrow> bool" where
  \<comment> \<open>\<open>Record<string, T>\<close>\<close>
  "record_of c (JObj kvs) = (distinct (map fst kvs) \<and> list_all (\<lambda>(k, v). c v) kvs)"
| "record_of c _ = False"

definition field_ok :: "form \<Rightarrow> string \<times> bool \<times> (json \<Rightarrow> bool) \<Rightarrow> bool" where
  "field_ok kvs spec =
     (let (k, opt, c) = spec in case map_of kvs k of None \<Rightarrow> opt | Some v \<Rightarrow> c v)"

fun obj_of :: "(string \<times> bool \<times> (json \<Rightarrow> bool)) list \<Rightarrow> json \<Rightarrow> bool" where
  \<comment> \<open>field name, whether it is optional, the type of its value\<close>
  "obj_of spec (JObj kvs) = (distinct (map fst kvs) \<and> list_all (field_ok kvs) spec)"
| "obj_of spec _ = False"

lemma field_ok_del:
  "field_ok kvs (f, opt, c) \<Longrightarrow> (f = k \<Longrightarrow> opt) \<Longrightarrow> field_ok (obj_del k kvs) (f, opt, c)"
  by (cases "f = k") (simp_all add: field_ok_def)

lemma field_ok_set:
  "field_ok kvs (f, opt, c) \<Longrightarrow> (f = k \<Longrightarrow> c v) \<Longrightarrow> field_ok (obj_set k v kvs) (f, opt, c)"
  by (cases "f = k") (simp_all add: field_ok_def)

lemma obj_of_del:
  assumes "obj_of spec (JObj kvs)" "list_all (\<lambda>(f, opt, c). f = k \<longrightarrow> opt) spec"
  shows "obj_of spec (JObj (obj_del k kvs))"
  using assms by (fastforce simp: list_all_iff intro: field_ok_del)

lemma obj_of_set:
  assumes "obj_of spec (JObj kvs)" "list_all (\<lambda>(f, opt, c). f = k \<longrightarrow> c v) spec"
  shows "obj_of spec (JObj (obj_set k v kvs))"
  using assms by (fastforce simp: list_all_iff intro: field_ok_set)

section \<open>The interfaces\<close>

definition wt_ACLRoleSpec :: "json \<Rightarrow> bool" where
  "wt_ACLRoleSpec j =
     obj_of
     [(''name'', False, is_str),
      (''privileges'', True, array_of is_str),
      (''whitelist'', True, nullable (array_of is_str))] j"

definition wt_ACLUserSpec :: "json \<Rightarrow> bool" where
  "wt_ACLUserSpec j =
     obj_of
     [(''name'', False, is_str),
      (''secretName'', False, is_str),
      (''roles'', True, array_of is_str)] j"

definition wt_ACLConfig :: "json \<Rightarrow> bool" where
  "wt_ACLConfig j =
     obj_of
     [(''enabled'', True, is_bool),
      (''roles'', True, array_of wt_ACLRoleSpec),
      (''users'', True, array_of wt_ACLUserSpec),
      (''adminPolicyTimeout'', True, is_num)] j"

definition wt_AerospikeNamespaceStorage :: "json \<Rightarrow> bool" where
  "wt_AerospikeNamespaceStorage j =
     obj_of
     [(''type'', True, enum [''memory'', ''device'']),
      (''dataSize'', True, nullable is_num),
      (''file'', True, nullable is_str),
      (''filesize'', True, nullable is_num)] j"

definition wt_AerospikeNamespaceConfig :: "json \<Rightarrow> bool" where
  "wt_AerospikeNamespaceConfig j =
     obj_of
     [(''name'', True, is_str),
      (''replicationFactor'', True, is_num),
      (''storageEngine'', True, wt_AerospikeNamespaceStorage)] j"

definition wt_BandwidthConfig :: "json \<Rightarrow> bool" where
  "wt_BandwidthConfig j =
     obj_of
     [(''ingress'', True, nullable is_str),
      (''egress'', True, nullable is_str)] j"

definition wt_PrometheusRuleConfig :: "json \<Rightarrow> bool" where
  "wt_PrometheusRuleConfig j =
     obj_of
     [(''enabled'', True, is_bool),
      (''labels'', True, nullable (record_of is_str)),
      (''customRules'', True, nullable (array_of (record_of any_json)))] j"

definition wt_ResourceSpec :: "json \<Rightarrow> bool" where
  "wt_ResourceSpec j =
     obj_of
     [(''cpu'', True, is_str),
      (''memory'', True, is_str)] j"

definition wt_ResourceConfig :: "json \<Rightarrow> bool" where
  "wt_ResourceConfig j =
     obj_of
     [(''requests'', True, wt_ResourceSpec),
      (''limits'', True, wt_ResourceSpec)] j"

definition wt_ServiceMonitorConfig :: "json \<Rightarrow> bool" where
  "wt_ServiceMonitorConfig j =
     obj_of
     [(''enabled'', True, is_bool),
      (''interval'', True, nullable is_str),
      (''labels'', True, nullable (record_of is_str))] j"

definition wt_MonitoringConfig :: "json \<Rightarrow> bool" where
  "wt_MonitoringConfig j =
     obj_of
     [(''enabled'', True, is_bool),
      (''port'', True, is_num),
      (''exporterImage'', True, nullable is_str),
      (''resources'', True, nullable wt_ResourceConfig),
      (''metricLabels'', True, nullable (record_of is_str)),
      (''serviceMonitor'', True, nullable wt_ServiceMonitorConfig),
      (''prometheusRule'', True, nullable wt_PrometheusRuleConfig),
      (''exporterEnv'', True, nullable (array_of (record_of is_str)))] j"

definition wt_NetworkAccessConfig :: "json \<Rightarrow> bool" where
  "wt_NetworkAccessConfig j =
     obj_of
     [(''accessType'', True, enum [''pod'', ''hostInternal'', ''hostExternal'', ''configuredIP'']),
      (''alternateAccessType'', True, nullable (enum [''pod'', ''hostInternal'', ''hostExternal'', ''configuredIP''])),
      (''fabricType'', True, nullable (enum [''pod'', ''hostInternal'', ''hostExternal'', ''configuredIP''])),
      (''customAccessNetworkNames'', True, nullable (array_of is_str)),
      (''customAlternateAccessNetworkNames'', True, nullable (array_of is_str)),
      (''customFabricNetworkNames'', True, nullable (array_of is_str))] j"

definition wt_NetworkPolicyAutoConfig :: "json \<Rightarrow> bool" where
  "wt_NetworkPolicyAutoConfig j =
     obj_of
     [(''enabled'', True, is_bool),
      (''type'', True, enum [''kubernetes'', ''cilium''])] j"

definition wt_PodMetadataConfig :: "json \<Rightarrow> bool" where
  "wt_PodMetadataConfig j =
     obj_of
     [(''labels'', True, nullable (record_of is_str)),
      (''annotations'', True, nullable (record_of is_str))] j"

definition wt_TolerationConfig :: "json \<Rightarrow> bool" where
  "wt_TolerationConfig j =
     obj_of
     [(''key'', True, nullable is_str),
      (''operator'', True, enum [''Exists'', ''Equal'']),
      (''value'', True, nullable is_str),
      (''effect'', True, nullable (enum [''NoSchedule'', ''PreferNoSchedule'', ''NoExecute'', ''''])),
      (''tolerationSeconds'', True, nullable is_num)] j"

definition wt_PodSchedulingConfig :: "json \<Rightarrow> bool" where
  "wt_PodSchedulingConfig j =
     obj_of
     [(''nodeSelector'', True, nullable (record_of is_str)),
      (''tolerations'', True, nullable (array_of wt_TolerationConfig)),
      (''multiPodPerHost'', True, nullable is_bool),
      (''hostNetwork'', True, nullable is_bool),
      (''serviceAccountName'', True, nullable is_str),
      (''terminationGracePeriodSeconds'', True, nullable is_num),
      (''readinessGateEnabled'', True, nullable is_bool),
      (''podManagementPolicy'', True, nullable (enum [''OrderedReady'', ''Parallel''])),
      (''dnsPolicy'', True, nullable is_str),
      (''imagePullSecrets'', True, nullable (array_of (record_of is_str))),
      (''securityContext'', True, nullable (record_of any_json)),
      (''topologySpreadConstraints'', True, nullable (array_of (record_of any_json))),
      (''metadata'', True, nullable wt_PodMetadataConfig),
      (''affinity'', True, nullable (record_of any_json)),
      (''priorityClassName'', True, nullable is_str)] j"

definition wt_RackPodSpecConfig :: "json \<Rightarrow> bool" where
  "wt_RackPodSpecConfig j =
     obj_of
     [(''affinity'', True, nullable (record_of any_json)),
      (''tolerations'', True, nullable (array_of wt_TolerationConfig)),
      (''nodeSelector'', True, nullable (record_of is_str))] j"

definition wt_RackStorageConfig :: "json \<Rightarrow> bool" where
  "wt_RackStorageConfig j =
     obj_of
     [(''volumes'', True, nullable (array_of (record_of any_json)))] j"

definition wt_RackConfig :: "json \<Rightarrow> bool" where
  "wt_RackConfig j =
     obj_of
     [(''id'', False, is_num),
      (''zone'', True, nullable is_str),
      (''region'', True, nullable is_str),
      (''rackLabel'', True, nullable is_str),
      (''nodeName'', True, nullable is_str),
      (''aerospikeConfig'', True, nullable (record_of any_json)),
      (''storage'', True, nullable wt_RackStorageConfig),
      (''podSpec'', True, nullable wt_RackPodSpecConfig),
      (''revision'', True, nullable is_str)] j"

definition wt_RackAwareConfig :: "json \<Rightarrow> bool" where
  "wt_RackAwareConfig j =
     obj_of
     [(''racks'', True, array_of wt_RackConfig),
      (''namespaces'', True, nullable (array_of is_str)),
      (''scaleDownBatchSize'', True, nullable is_str),
      (''maxIgnorablePods'', True, nullable is_str),
      (''rollingUpdateBatchSize'', True, nullable is_str)] j"

definition wt_RollingUpdateConfig :: "json \<Rightarrow> bool" where
  "wt_RollingUpdateConfig j =
     obj_of
     [(''batchSize'', True, nullable is_num),
      (''maxUnavailable'', True, nullable is_str),
      (''disablePDB'', True, is_bool)] j"

definition wt_LoadBalancerSpec :: "json \<Rightarrow> bool" where
  "wt_LoadBalancerSpec j =
     obj_of
     [(''annotations'', True, nullable (record_of is_str)),
      (''labels'', True, nullable (record_of is_str)),
      (''externalTrafficPolicy'', True, nullable (enum [''Cluster'', ''Local''])),
      (''port'', True, is_num),
      (''targetPort'', True, is_num),
      (''loadBalancerSourceRanges'', True, nullable (array_of is_str))] j"

definition wt_SeedsFinderServicesConfig :: "json \<Rightarrow> bool" where
  "wt_SeedsFinderServicesConfig j =
     obj_of
     [(''loadBalancer'', True, nullable wt_LoadBalancerSpec)] j"

definition wt_ServiceMetadataConfig :: "json \<Rightarrow> bool" where
  "wt_ServiceMetadataConfig j =
     obj_of
     [(''annotations'', True, nullable (record_of is_str)),
      (''labels'', True, nullable (record_of is_str))] j"

definition wt_SidecarConfig :: "json \<Rightarrow> bool" where
  "wt_SidecarConfig j =
     obj_of
     [(''name'', False, is_str),
      (''image'', False, is_str),
      (''command'', True, nullable (array_of is_str)),
      (''args'', True, nullable (array_of is_str)),
      (''ports'', True, nullable (array_of (record_of any_json))),
      (''env'', True, nullable (array_of (record_of any_json))),
      (''volumeMounts'', True, nullable (array_of (record_of any_json))),
      (''resources'', True, nullable (record_of any_json)),
      (''securityContext'', True, nullable (record_of any_json))] j"

definition wt_AerospikeVolumeAttachment :: "json \<Rightarrow> bool" where
  "wt_AerospikeVolumeAttachment j =
     obj_of
     [(''path'', False, is_str),
      (''readOnly'', True, is_bool),
      (''subPath'', True, nullable is_str),
      (''subPathExpr'', True, nullable is_str),
      (''mountPropagation'', True, nullable is_str)] j"

definition wt_PersistentVolumeClaimSource :: "json \<Rightarrow> bool" where
  "wt_PersistentVolumeClaimSource j =
     obj_of
     [(''storageClass'', True, nullable is_str),
      (''size'', True, is_str),
      (''accessModes'', True, array_of is_str),
      (''volumeMode'', True, enum [''Filesystem'', ''Block'']),
      (''labels'', True, nullable (record_of is_str)),
      (''annotations'', True, nullable (record_of is_str)),
      (''selector'', True, nullable (record_of any_json))] j"

definition wt_VolumeAttachment :: "json \<Rightarrow> bool" where
  "wt_VolumeAttachment j =
     (wt_AerospikeVolumeAttachment j \<and> obj_of
     [(''containerName'', False, is_str)] j)"

definition wt_VolumeSpec :: "json \<Rightarrow> bool" where
  "wt_VolumeSpec j =
     obj_of
     [(''name'', False, is_str),
      (''source'', True, enum [''persistentVolume'', ''emptyDir'', ''secret'', ''configMap'', ''hostPath'']),
      (''persistentVolume'', True, nullable wt_PersistentVolumeClaimSource),
      (''emptyDir'', True, nullable (record_of any_json)),
      (''secret'', True, nullable (record_of any_json)),
      (''configMap'', True, nullable (record_of any_json)),
      (''hostPath'', True, nullable (record_of any_json)),
      (''aerospike'', True, nullable wt_AerospikeVolumeAttachment),
      (''sidecars'', True, nullable (array_of wt_VolumeAttachment)),
      (''initContainers'', True, nullable (array_of wt_VolumeAttachment)),
      (''initMethod'', True, nullable (enum [''none'', ''deleteFiles'', ''dd'', ''blkdiscard'', ''headerCleanup''])),
      (''wipeMethod'', True, nullable (enum [''none'', ''deleteFiles'', ''dd'', ''blkdiscard'', ''headerCleanup'', ''blkdiscardWithHeaderCleanup''])),
      (''cascadeDelete'', True, is_bool)] j"

definition wt_StorageSpec :: "json \<Rightarrow> bool" where
  "wt_StorageSpec j =
     obj_of
     [(''volumes'', True, array_of wt_VolumeSpec),
      (''filesystemVolumePolicy'', True, nullable (record_of any_json)),
      (''blockVolumePolicy'', True, nullable (record_of any_json)),
      (''cleanupThreads'', True, nullable is_num),
      (''localStorageClasses'', True, nullable (array_of is_str)),
      (''deleteLocalStorageOnRestart'', True, is_bool)] j"

definition wt_StorageVolumeConfig :: "json \<Rightarrow> bool" where
  "wt_StorageVolumeConfig j =
     obj_of
     [(''storageClass'', True, is_str),
      (''size'', True, is_str),
      (''mountPath'', True, is_str),
      (''initMethod'', True, nullable (enum [''none'', ''deleteFiles'', ''dd'', ''blkdiscard'', ''headerCleanup''])),
      (''wipeMethod'', True, nullable (enum [''none'', ''deleteFiles'', ''dd'', ''blkdiscard'', ''headerCleanup'', ''blkdiscardWithHeaderCleanup''])),
      (''cascadeDelete'', True, is_bool),
      (''cleanupThreads'', True, nullable is_num),
      (''filesystemVolumePolicy'', True, nullable (record_of any_json)),
      (''blockVolumePolicy'', True, nullable (record_of any_json))] j"

definition wt_TemplateRackConfig :: "json \<Rightarrow> bool" where
  "wt_TemplateRackConfig j =
     obj_of
     [(''maxRacksPerNode'', True, nullable is_num)] j"

definition wt_TemplateSchedulingConfig :: "json \<Rightarrow> bool" where
  "wt_TemplateSchedulingConfig j =
     obj_of
     [(''podAntiAffinityLevel'', True, nullable (enum [''none'', ''preferred'', ''required''])),
      (''podManagementPolicy'', True, nullable (enum [''OrderedReady'', ''Parallel''])),
      (''tolerations'', True, nullable (array_of (record_of any_json))),
      (''nodeAffinity'', True, nullable (record_of any_json)),
      (''topologySpreadConstraints'', True, nullable (array_of (record_of any_json)))] j"

definition wt_TemplateStorageConfig :: "json \<Rightarrow> bool" where
  "wt_TemplateStorageConfig j =
     obj_of
     [(''storageClassName'', True, nullable is_str),
      (''volumeMode'', True, nullable (enum [''Filesystem'', ''Block''])),
      (''accessModes'', True, nullable (array_of is_str)),
      (''size'', True, nullable is_str),
      (''localPVRequired'', True, nullable is_bool)] j"

definition wt_TemplateOverrides :: "json \<Rightarrow> bool" where
  "wt_TemplateOverrides j =
     obj_of
     [(''image'', True, nullable is_str),
      (''size'', True, nullable is_num),
      (''resources'', True, nullable wt_ResourceConfig),
      (''monitoring'', True, nullable wt_MonitoringConfig),
      (''networkPolicy'', True, nullable wt_NetworkAccessConfig),
      (''enableDynamicConfig'', True, nullable is_bool),
      (''scheduling'', True, nullable wt_TemplateSchedulingConfig),
      (''storage'', True, nullable wt_TemplateStorageConfig),
      (''rackConfig'', True, nullable wt_TemplateRackConfig),
      (''aerospikeConfig'', True, nullable (record_of any_json))] j"

definition wt_TemplateRefConfig :: "json \<Rightarrow> bool" where
  "wt_TemplateRefConfig j =
     obj_of
     [(''name'', False, is_str)] j"

definition wt_ValidationPolicyConfig :: "json \<Rightarrow> bool" where
  "wt_ValidationPolicyConfig j =
     obj_of
     [(''skipWorkDirValidate'', True, is_bool)] j"

definition create_spec :: "(string \<times> bool \<times> (json \<Rightarrow> bool)) list" where
  "create_spec =
     [(''name'', False, is_str),
      (''namespace'', True, is_str),
      (''size'', False, is_num),
      (''image'', True, is_str),
      (''namespaces'', True, array_of wt_AerospikeNamespaceConfig),
      (''storage'', True, nullable (either wt_StorageVolumeConfig wt_StorageSpec)),
      (''resources'', True, nullable wt_ResourceConfig),
      (''monitoring'', True, nullable wt_MonitoringConfig),
      (''templateRef'', True, nullable (either wt_TemplateRefConfig is_str)),
      (''templateOverrides'', True, nullable wt_TemplateOverrides),
      (''acl'', True, nullable wt_ACLConfig),
      (''rollingUpdate'', True, nullable wt_RollingUpdateConfig),
      (''rackConfig'', True, nullable wt_RackAwareConfig),
      (''enableDynamicConfig'', True, is_bool),
      (''autoConnect'', True, is_bool),
      (''workspaceId'', True, nullable is_str),
      (''networkPolicy'', True, nullable wt_NetworkAccessConfig),
      (''k8sNodeBlockList'', True, nullable (array_of is_str)),
      (''podScheduling'', True, nullable wt_PodSchedulingConfig),
      (''seedsFinderServices'', True, nullable wt_SeedsFinderServicesConfig),
      (''networkPolicyConfig'', True, nullable wt_NetworkPolicyAutoConfig),
      (''bandwidthConfig'', True, nullable wt_BandwidthConfig),
      (''validationPolicy'', True, nullable wt_ValidationPolicyConfig),
      (''headlessService'', True, nullable wt_ServiceMetadataConfig),
      (''podService'', True, nullable wt_ServiceMetadataConfig),
      (''enableRackIDOverride'', True, nullable is_bool),
      (''podMetadata'', True, nullable wt_PodMetadataConfig),
      (''sidecars'', True, nullable (array_of wt_SidecarConfig)),
      (''initContainers'', True, nullable (array_of wt_SidecarConfig)),
      (''aerospikeContainerSecurityContext'', True, nullable (record_of any_json))]"

definition wt_CreateK8sClusterRequest :: "json \<Rightarrow> bool" where
  "wt_CreateK8sClusterRequest j = obj_of create_spec j"

definition wt_UpdateK8sClusterRequest :: "json \<Rightarrow> bool" where
  "wt_UpdateK8sClusterRequest j =
     obj_of
     [(''size'', True, nullable is_num),
      (''image'', True, nullable is_str),
      (''storage'', True, nullable wt_StorageSpec),
      (''resources'', True, nullable wt_ResourceConfig),
      (''monitoring'', True, nullable wt_MonitoringConfig),
      (''paused'', True, nullable is_bool),
      (''enableDynamicConfig'', True, nullable is_bool),
      (''aerospikeConfig'', True, nullable (record_of any_json)),
      (''rollingUpdateBatchSize'', True, nullable is_num),
      (''maxUnavailable'', True, nullable is_str),
      (''disablePDB'', True, nullable is_bool),
      (''rackConfig'', True, nullable wt_RackAwareConfig),
      (''networkPolicy'', True, nullable wt_NetworkAccessConfig),
      (''k8sNodeBlockList'', True, nullable (array_of is_str)),
      (''podScheduling'', True, nullable wt_PodSchedulingConfig),
      (''seedsFinderServices'', True, nullable wt_SeedsFinderServicesConfig),
      (''networkPolicyConfig'', True, nullable wt_NetworkPolicyAutoConfig),
      (''acl'', True, nullable wt_ACLConfig),
      (''bandwidthConfig'', True, nullable wt_BandwidthConfig),
      (''validationPolicy'', True, nullable wt_ValidationPolicyConfig),
      (''headlessService'', True, nullable wt_ServiceMetadataConfig),
      (''podService'', True, nullable wt_ServiceMetadataConfig),
      (''enableRackIDOverride'', True, nullable is_bool),
      (''podMetadata'', True, nullable wt_PodMetadataConfig),
      (''sidecars'', True, nullable (array_of wt_SidecarConfig)),
      (''initContainers'', True, nullable (array_of wt_SidecarConfig)),
      (''aerospikeContainerSecurityContext'', True, nullable (record_of any_json))] j"

definition wt_TemplateNetworkConfig :: "json \<Rightarrow> bool" where
  "wt_TemplateNetworkConfig j =
     obj_of
     [(''heartbeatMode'', True, nullable (enum [''mesh'', ''multicast''])),
      (''heartbeatPort'', True, nullable is_num),
      (''heartbeatInterval'', True, nullable is_num),
      (''heartbeatTimeout'', True, nullable is_num)] j"

definition wt_TemplateServiceConfig :: "json \<Rightarrow> bool" where
  "wt_TemplateServiceConfig j =
     obj_of
     [(''featureKeyFile'', True, nullable is_str),
      (''protoFdMax'', True, nullable is_num),
      (''extraParams'', True, nullable (record_of any_json))] j"

definition wt_CreateK8sTemplateRequest :: "json \<Rightarrow> bool" where
  "wt_CreateK8sTemplateRequest j =
     obj_of
     [(''name'', False, is_str),
      (''image'', True, nullable is_str),
      (''size'', True, nullable is_num),
      (''resources'', True, nullable wt_ResourceConfig),
      (''monitoring'', True, nullable wt_MonitoringConfig),
      (''scheduling'', True, nullable wt_TemplateSchedulingConfig),
      (''storage'', True, nullable wt_TemplateStorageConfig),
      (''description'', True, nullable is_str),
      (''networkPolicy'', True, nullable wt_NetworkAccessConfig),
      (''aerospikeConfig'', True, nullable (record_of any_json)),
      (''serviceConfig'', True, nullable wt_TemplateServiceConfig),
      (''networkConfig'', True, nullable wt_TemplateNetworkConfig),
      (''rackConfig'', True, nullable wt_TemplateRackConfig)] j"

definition wt_UpdateK8sTemplateRequest :: "json \<Rightarrow> bool" where
  "wt_UpdateK8sTemplateRequest j =
     obj_of
     [(''description'', True, nullable is_str),
      (''image'', True, nullable is_str),
      (''size'', True, nullable is_num),
      (''resources'', True, nullable wt_ResourceConfig),
      (''monitoring'', True, nullable wt_MonitoringConfig),
      (''scheduling'', True, nullable wt_TemplateSchedulingConfig),
      (''storage'', True, nullable wt_TemplateStorageConfig),
      (''networkPolicy'', True, nullable wt_NetworkAccessConfig),
      (''aerospikeConfig'', True, nullable (record_of any_json)),
      (''serviceConfig'', True, nullable wt_TemplateServiceConfig),
      (''networkConfig'', True, nullable wt_TemplateNetworkConfig),
      (''rackConfig'', True, nullable wt_TemplateRackConfig)] j"

definition wt_ScaleK8sClusterRequest :: "json \<Rightarrow> bool" where
  "wt_ScaleK8sClusterRequest j =
     obj_of
     [(''size'', False, is_num)] j"

definition wt_CloneClusterRequest :: "json \<Rightarrow> bool" where
  "wt_CloneClusterRequest j =
     obj_of
     [(''name'', False, is_str),
      (''namespace'', True, nullable is_str)] j"

definition wt_ImportClusterRequest :: "json \<Rightarrow> bool" where
  "wt_ImportClusterRequest j =
     obj_of
     [(''cr'', False, record_of any_json),
      (''namespace'', True, nullable is_str)] j"

definition wt_NodeBlocklistRequest :: "json \<Rightarrow> bool" where
  "wt_NodeBlocklistRequest j =
     obj_of
     [(''nodeNames'', False, array_of is_str)] j"

definition wt_OperationRequest :: "json \<Rightarrow> bool" where
  "wt_OperationRequest j =
     obj_of
     [(''kind'', False, enum [''WarmRestart'', ''PodRestart'']),
      (''id'', True, nullable is_str),
      (''podList'', True, nullable (array_of is_str))] j"

definition wt_HPAConfig :: "json \<Rightarrow> bool" where
  "wt_HPAConfig j =
     obj_of
     [(''minReplicas'', False, is_num),
      (''maxReplicas'', False, is_num),
      (''cpuTargetPercent'', True, nullable is_num),
      (''memoryTargetPercent'', True, nullable is_num)] j"

end
