(* ===== verification/Copilot_Tools.thy ===== *)
theory Copilot_Tools
  imports Api_Endpoints Validation K8s_Types
begin

text \<open>
  The tools of the assistant, \<^verbatim>\<open>ui/src/components/copilot/tools/\<close>: clamping of results (\<open>clamp.ts\<close>),
  the failure shape (\<open>tool-error.ts\<close>), the read tools (\<open>read-tools.tsx\<close>) and the write tools, each
  behind a confirmation card (\<open>write-tools.tsx\<close>), with the limits of \<^verbatim>\<open>ui/src/lib/copilot/ce-constraints.ts\<close>.

  A tool gets its arguments as a JSON object. The schema library and the chat runtime are not part of
  the program: what the runtime does with a tool call (stream its arguments, start executing, complete
  it after a response) are inputs of the step function. Requests go through the client of
  \<open>Api_Client\<close>, the argument \<open>send\<close>. \<open>String(err)\<close> of an \<open>Error\<close> is modelled with the class name
  \<open>Error\<close>.
\<close>

section \<open>Text of values\<close>

fun js_String :: "(rat \<Rightarrow> string) \<Rightarrow> json \<Rightarrow> string" where
  \<comment> \<open>\<open>String(v)\<close>\<close>
  "js_String fs JNull = ''null''"
| "js_String fs (JBool b) = (if b then ''true'' else ''false'')"
| "js_String fs (JNum x) = num_str fs x"
| "js_String fs (JStr s) = s"
| "js_String fs (JArr js) = joinWith '','' (map (\<lambda>j. if j = JNull then [] else js_String fs j) js)"
| "js_String fs (JObj kvs) = ''[object Object]''"

definition arg_text :: "(rat \<Rightarrow> string) \<Rightarrow> form \<Rightarrow> string \<Rightarrow> string \<Rightarrow> string" where
  \<comment> \<open>\<open>String(args.k ?? d).trim()\<close>\<close>
  "arg_text fs args k d = trim (if js_nullish (obj_get args k) then d else js_String fs (the (obj_get args k)))"

definition arg_num :: "form \<Rightarrow> string \<Rightarrow> jsnum \<Rightarrow> jsnum" where
  \<comment> \<open>\<open>(args.k as number) ?? d\<close>; the schema admits only numbers\<close>
  "arg_num args k d =
     (if js_nullish (obj_get args k) then d else (case the (obj_get args k) of JNum n \<Rightarrow> n | _ \<Rightarrow> NaN))"

fun error_string :: "(rat \<Rightarrow> string) \<Rightarrow> js_error \<Rightarrow> string" where
  \<comment> \<open>\<open>err instanceof ApiError ? err.detail : String(err)\<close>\<close>
  "error_string fs (ApiErr e) = detail fs e"
| "error_string fs (ErrorObj m) = ''Error: '' @ m"
| "error_string fs (NonError s) = s"

definition own_entries :: "json option \<Rightarrow> (string, json) jsmap option" where
  \<comment> \<open>\<open>Object.entries(v)\<close>; \<open>None\<close>: it throws, for \<open>undefined\<close> and \<open>null\<close>\<close>
  "own_entries v =
     (case v of
        None \<Rightarrow> None
      | Some JNull \<Rightarrow> None
      | Some (JObj kvs) \<Rightarrow> Some kvs
      | Some (JArr js) \<Rightarrow> Some (map (\<lambda>(i, j). (nat_str i, j)) (enumerate 0 js))
      | Some (JStr s) \<Rightarrow> Some (map (\<lambda>(i, c). (nat_str i, JStr [c])) (enumerate 0 s))
      | Some _ \<Rightarrow> Some [])"

definition type_error :: js_error where
  \<comment> \<open>a \<open>TypeError\<close> for a missing or ill-typed value; the text is the engine's\<close>
  "type_error = ErrorObj ''not a function''"

section \<open>Clamping (clamp.ts)\<close>

definition MAX_RESULT_ROWS :: nat where
  "MAX_RESULT_ROWS = 20"

definition MAX_BIN_CHARS :: nat where
  "MAX_BIN_CHARS = 256"

definition truncation :: "string \<Rightarrow> string" where
  "truncation s = take MAX_BIN_CHARS s @ [u_sub] @ '' [truncated]''"

definition clampBin :: "(rat \<Rightarrow> string) \<Rightarrow> json \<Rightarrow> json \<times> bool" where
  "clampBin fs v =
     (case v of
        JStr s \<Rightarrow> (if length s > MAX_BIN_CHARS then (JStr (truncation s), True) else (v, False))
      | _ \<Rightarrow>
          (if js_typeof_object v \<and> length (stringify fs v) > MAX_BIN_CHARS
           then (JStr (truncation (stringify fs v)), True) else (v, False)))"

definition clamp_bins :: "(rat \<Rightarrow> string) \<Rightarrow> (string, json) jsmap \<Rightarrow> (string, json) jsmap" where
  "clamp_bins fs bins = fold (\<lambda>(name, v). obj_set name (fst (clampBin fs v))) bins []"

definition clamp_record :: "(rat \<Rightarrow> string) \<Rightarrow> json \<Rightarrow> (json \<times> bool) option" where
  \<comment> \<open>\<open>{ ...record, bins }\<close> and whether a bin was shortened; \<open>None\<close>: a record without bins makes it throw\<close>
  "clamp_record fs r =
     (case (r, own_entries (json_field r ''bins'')) of
        (JObj kvs, Some bins) \<Rightarrow>
          Some (JObj (obj_set ''bins'' (JObj (clamp_bins fs bins)) kvs), list_ex (\<lambda>(k, v). snd (clampBin fs v)) bins)
      | _ \<Rightarrow> None)"

record clamped_records =
  cl_records :: "json list"
  cl_truncatedRows :: nat
  cl_truncatedBins :: bool

fun clamp_all :: "(rat \<Rightarrow> string) \<Rightarrow> json list \<Rightarrow> (json list \<times> bool) option" where
  "clamp_all fs [] = Some ([], False)"
| "clamp_all fs (r # rs) =
     (case (clamp_record fs r, clamp_all fs rs) of
        (Some (r', b), Some (rs', bs)) \<Rightarrow> Some (r' # rs', b \<or> bs)
      | _ \<Rightarrow> None)"

definition clampRecords :: "(rat \<Rightarrow> string) \<Rightarrow> json list \<Rightarrow> clamped_records option" where
  "clampRecords fs records =
     map_option (\<lambda>(rs, b). \<lparr>cl_records = rs, cl_truncatedRows = length records - MAX_RESULT_ROWS, cl_truncatedBins = b\<rparr>)
       (clamp_all fs (take MAX_RESULT_ROWS records))"

definition clampLimit :: "jsnum option \<Rightarrow> jsnum" where
  "clampLimit requested =
     (case requested of
        None \<Rightarrow> inum (int MAX_RESULT_ROWS)
      | Some n \<Rightarrow>
          (if num_falsy n \<or> \<not> isFinite n then inum (int MAX_RESULT_ROWS)
           else Math_min (Math_max (inum 1) (Math_floor n)) (inum (int MAX_RESULT_ROWS))))"

section \<open>Failures as values (tool-error.ts, read-tools.tsx)\<close>

definition isToolError :: "json \<Rightarrow> bool" where
  "isToolError v =
     (case v of
        JObj kvs \<Rightarrow>
          (case (obj_get kvs ''error'', obj_get kvs ''retryable'') of (Some (JStr e), Some (JBool r)) \<Rightarrow> True | _ \<Rightarrow> False)
      | _ \<Rightarrow> False)"

fun tool_error :: "(rat \<Rightarrow> string) \<Rightarrow> js_error \<Rightarrow> json" where
  "tool_error fs (ApiErr e) =
     JObj [(''error'', JStr (detail fs e)), (''status'', JNum (inum (int (err_status e)))), (''retryable'', JBool (err_status e \<ge> 500))]"
| "tool_error fs e = JObj [(''error'', JStr (error_string fs e)), (''retryable'', JBool True)]"

definition safeCall :: "(rat \<Rightarrow> string) \<Rightarrow> api_outcome \<Rightarrow> json option" where
  \<comment> \<open>\<open>None\<close> is \<open>undefined\<close>\<close>
  "safeCall fs out =
     (case out of
        Throws e \<Rightarrow> Some (tool_error fs e)
      | Value Undefined \<Rightarrow> None
      | Value (TextValue s) \<Rightarrow> Some (JStr s)
      | Value (JsonValue j) \<Rightarrow> Some j)"

datatype read_tool =
    ListConnections
  | GetConnectionHealth string
  | GetClusterInfo string
  | GetClusterMetrics string
  | ListIndexes string
  | BrowseRecords string string "string option" "jsnum option" \<comment> \<open>connection, namespace, set, page size\<close>
  | RunQuery string string "string option" "string option" "json option" "jsnum option"
      \<comment> \<open>connection, namespace, set, primary key, predicate, record limit\<close>
  | GetCeConstraints
  | ListAckoClusters "string option"
  | GetAckoCluster string string

definition opt_str_json :: "string option \<Rightarrow> json" where
  "opt_str_json s = (case s of None \<Rightarrow> JNull | Some x \<Rightarrow> JStr x)"

fun read_call :: "read_tool \<Rightarrow> api_call option" where
  \<comment> \<open>the request a read tool makes\<close>
  "read_call ListConnections = Some listConnections"
| "read_call (GetConnectionHealth c) = Some (getConnectionHealth c)"
| "read_call (GetClusterInfo c) = Some (getCluster c)"
| "read_call (GetClusterMetrics c) = Some (getClusterMetrics c)"
| "read_call (ListIndexes c) = Some (listIndexes c)"
| "read_call (BrowseRecords c ns st n) =
     Some (listRecords c \<lparr>lr_ns = ns, lr_set = st, lr_pageSize = Some (clampLimit n)\<rparr>)"
| "read_call (RunQuery c ns st pk pr n) =
     Some (runQuery c (JObj [(''namespace'', JStr ns), (''set'', opt_str_json st), (''primaryKey'', opt_str_json pk),
             (''predicate'', nullish pr JNull), (''maxRecords'', JNum (clampLimit n))]))"
| "read_call GetCeConstraints = None"
| "read_call (ListAckoClusters ns) =
     Some (listK8sClusters \<lparr>lk_namespace = (if truthy ns then ns else None), lk_limit = None,
             lk_continueToken = None, lk_labelSelector = None\<rparr>)"
| "read_call (GetAckoCluster ns name) = Some (getK8sCluster ns name)"

definition CE_MAX_NODES :: int where
  "CE_MAX_NODES = 8"

definition CE_CONSTRAINTS :: json where
  "CE_CONSTRAINTS =
     JObj [(''edition'', JStr ''Aerospike Community Edition (CE)''), (''maxNodes'', JNum (inum CE_MAX_NODES)),
       (''maxNamespaces'', JNum (inum 2)),
       (''unavailableFeatures'', JArr [JStr ''XDR (cross-datacenter replication)'', JStr ''TLS'',
          JStr ''enterprise security (auth/LDAP/vault)'', JStr ''compression'', JStr ''strong consistency mode'']),
       (''allowedImage'', JStr ''aerospike/aerospike-server (CE) only''),
       (''enforcedBy'', JStr ''ACKO admission webhook (CRD validation) and aerospike-server CE itself'')]"

definition metric_series :: "string list" where
  "metric_series = [''readTps'', ''writeTps'', ''connectionHistory'', ''memoryUsageByNs'', ''deviceUsageByNs'']"

definition without :: "string list \<Rightarrow> json \<Rightarrow> json option" where
  \<comment> \<open>\<open>const { k, ..., ...rest } = v\<close>; \<open>None\<close>: it throws\<close>
  "without ks v = map_option (\<lambda>kvs. JObj (filter (\<lambda>(k, x). k \<notin> set ks) kvs)) (own_entries (Some v))"

definition present_fields :: "string list \<Rightarrow> json \<Rightarrow> (string \<times> json) list" where
  \<comment> \<open>the named fields that are present, in that order\<close>
  "present_fields ks v = concat (map (\<lambda>k. case json_field v k of None \<Rightarrow> [] | Some x \<Rightarrow> [(k, x)]) ks)"

definition records_of :: "(rat \<Rightarrow> string) \<Rightarrow> json \<Rightarrow> clamped_records option" where
  \<comment> \<open>\<open>clampRecords(page.records)\<close>; \<open>None\<close>: it throws\<close>
  "records_of fs v = (case json_field v ''records'' of Some (JArr rs) \<Rightarrow> clampRecords fs rs | _ \<Rightarrow> None)"

definition browse_json :: "json \<Rightarrow> clamped_records \<Rightarrow> json" where
  "browse_json v cl =
     JObj ([(''records'', JArr (cl_records cl))] @ present_fields [''total'', ''totalEstimated''] v @
       [(''hasMore'', if opt_truthy (json_field v ''hasMore'') then the (json_field v ''hasMore'') else JBool (cl_truncatedRows cl > 0)),
        (''truncatedBins'', JBool (cl_truncatedBins cl))])"

definition query_json :: "json \<Rightarrow> clamped_records \<Rightarrow> json" where
  "query_json v cl =
     JObj ([(''records'', JArr (cl_records cl))] @ present_fields [''executionTimeMs'', ''scannedRecords'', ''returnedRecords''] v @
       [(''truncatedRows'', JNum (inum (int (cl_truncatedRows cl)))), (''truncatedBins'', JBool (cl_truncatedBins cl))])"

definition cluster_rows_json :: "json \<Rightarrow> json option" where
  \<comment> \<open>\<open>res.items.map((c) => ({ namespace: c.namespace, ... }))\<close>; \<open>None\<close>: it throws\<close>
  "cluster_rows_json v =
     (case json_field v ''items'' of
        Some (JArr cs) \<Rightarrow>
          (if JNull \<in> set cs then None
           else Some (JArr (map (\<lambda>c. JObj (present_fields [''namespace'', ''name'', ''size'', ''image'', ''phase''] c)) cs)))
      | _ \<Rightarrow> None)"

fun read_result :: "(rat \<Rightarrow> string) \<Rightarrow> read_tool \<Rightarrow> json \<Rightarrow> js_error + json" where
  \<comment> \<open>what the handler makes of the settled call\<close>
  "read_result fs (GetClusterMetrics c) v =
     (if isToolError v then Inr v else (case without metric_series v of None \<Rightarrow> Inl type_error | Some j \<Rightarrow> Inr j))"
| "read_result fs (BrowseRecords c ns st n) v =
     (if isToolError v then Inr v
      else (case records_of fs v of None \<Rightarrow> Inl type_error | Some cl \<Rightarrow> Inr (browse_json v cl)))"
| "read_result fs (RunQuery c ns st pk pr n) v =
     (if isToolError v then Inr v
      else (case records_of fs v of None \<Rightarrow> Inl type_error | Some cl \<Rightarrow> Inr (query_json v cl)))"
| "read_result fs t v = Inr v"

definition list_acko :: "api_outcome \<Rightarrow> api_outcome" where
  \<comment> \<open>the mapping inside the \<open>safeCall\<close> of \<open>list_acko_clusters\<close>\<close>
  "list_acko out =
     (case out of
        Throws e \<Rightarrow> Throws e
      | Value (JsonValue v) \<Rightarrow> (case cluster_rows_json v of None \<Rightarrow> Throws type_error | Some j \<Rightarrow> Value (JsonValue j))
      | Value _ \<Rightarrow> Throws type_error)"

fun uses_fields :: "read_tool \<Rightarrow> bool" where
  \<comment> \<open>the handler reads fields of the answer outside \<open>safeCall\<close>\<close>
  "uses_fields (GetClusterMetrics c) = True"
| "uses_fields (BrowseRecords c ns st n) = True"
| "uses_fields (RunQuery c ns st pk pr n) = True"
| "uses_fields t = False"

definition read_handler ::
  "(rat \<Rightarrow> string) \<Rightarrow> client \<Rightarrow> read_tool \<Rightarrow> world \<Rightarrow> (js_error + json option) \<times> world" where
  "read_handler fs send t w =
     (case read_call t of
        None \<Rightarrow> (Inr (Some CE_CONSTRAINTS), w)
      | Some call \<Rightarrow>
          (let (out, w') = send call w;
               out' = (case t of ListAckoClusters ns \<Rightarrow> list_acko out | _ \<Rightarrow> out)
           in ((case safeCall fs out' of
                  None \<Rightarrow> (if uses_fields t then Inl type_error else Inr None)
                | Some v \<Rightarrow> (case read_result fs t v of Inl e \<Rightarrow> Inl e | Inr j \<Rightarrow> Inr (Some j))), w')))"

section \<open>Write tools (write-tools.tsx)\<close>

datatype mutation_result = MOk string "string option" | MError string | MCancelled

definition CE_IMAGE :: string where
  "CE_IMAGE = ''aerospike:ce-8.1.1.1''"

definition DEFAULT_NS_DATA_SIZE :: int where
  "DEFAULT_NS_DATA_SIZE = 1073741824"

definition DEFAULT_K8S_NAMESPACE :: string where
  "DEFAULT_K8S_NAMESPACE = ''default''"

definition clampSize :: "jsnum option \<Rightarrow> jsnum" where
  "clampSize sz =
     (let n = Math_round (nullish sz (inum 1))
      in if isNaN n then inum 1 else Math_min (inum CE_MAX_NODES) (Math_max (inum 1) n))"

definition errResult :: "(rat \<Rightarrow> string) \<Rightarrow> js_error \<Rightarrow> mutation_result" where
  "errResult fs err = MError (error_string fs err)"

fun find_named :: "(string \<Rightarrow> bool) \<Rightarrow> json list \<Rightarrow> js_error + json option" where
  \<comment> \<open>\<open>conns.find((c) => test(c.name.toLowerCase()))\<close>\<close>
  "find_named test [] = Inr None"
| "find_named test (c # cs) =
     (case json_field c ''name'' of
        Some (JStr n) \<Rightarrow> (if test (toLowerCase n) then Inr (Some c) else find_named test cs)
      | _ \<Rightarrow> Inl type_error)"

definition resolve_among :: "string \<Rightarrow> json list \<Rightarrow> js_error + json option" where
  \<comment> \<open>the connection that an identifier or a name stands for\<close>
  "resolve_among v conns =
     (case find (\<lambda>c. json_field c ''id'' = Some (JStr v)) conns of
        Some c \<Rightarrow> Inr (Some c)
      | None \<Rightarrow>
          (case find_named (\<lambda>n. n = toLowerCase v) conns of
             Inl e \<Rightarrow> Inl e
           | Inr (Some c) \<Rightarrow> Inr (Some c)
           | Inr None \<Rightarrow> find_named (\<lambda>n. str_includes n (toLowerCase v)) conns))"

definition resolveConnId :: "client \<Rightarrow> string \<Rightarrow> world \<Rightarrow> (js_error + string) \<times> world" where
  "resolveConnId send raw w =
     (let v = trim raw in
      if v = [] then (Inl (ErrorObj ''connection (id or name) is required''), w)
      else (let (out, w') = send listConnections w in
            (case out of
               Throws e \<Rightarrow> Inl e
             | Value (JsonValue (JArr conns)) \<Rightarrow>
                 (case resolve_among v conns of
                    Inl e \<Rightarrow> Inl e
                  | Inr (Some c) \<Rightarrow> Inr (str_or_empty (json_field c ''id''))
                  | Inr None \<Rightarrow> Inl (ErrorObj (''no connection matches '' @ [CHR 0x22] @ v @ [CHR 0x22, CHR '' '', u_sub] @
                      '' open the Connections page or check the name'')))
             | Value _ \<Rightarrow> Inl type_error, w')))"

record plan =
  pl_title :: string
  pl_rows :: "(string \<times> string) list"
  pl_note :: "string option"
  pl_destructive :: bool
  pl_approveLabel :: string
  pl_run :: "client \<Rightarrow> world \<Rightarrow> (js_error + mutation_result) \<times> world"

definition after_call :: "api_outcome \<times> world \<Rightarrow> (api_value \<Rightarrow> js_error + mutation_result) \<Rightarrow> (js_error + mutation_result) \<times> world" where
  \<comment> \<open>\<open>const v = await call; return ...\<close>\<close>
  "after_call r k = (case r of (Throws e, w) \<Rightarrow> (Inl e, w) | (Value v, w) \<Rightarrow> (k v, w))"

definition with_connection ::
  "string \<Rightarrow> (string \<Rightarrow> api_call) \<Rightarrow> (api_value \<Rightarrow> js_error + mutation_result) \<Rightarrow> client \<Rightarrow> world \<Rightarrow>
   (js_error + mutation_result) \<times> world" where
  \<comment> \<open>\<open>const connId = await resolveConnId(connection); await call(connId); return ...\<close>\<close>
  "with_connection connection call k send w =
     (case resolveConnId send connection w of
        (Inl e, w') \<Rightarrow> (Inl e, w')
      | (Inr connId, w') \<Rightarrow> after_call (send (call connId) w') k)"

definition field_text :: "(rat \<Rightarrow> string) \<Rightarrow> api_value \<Rightarrow> string \<Rightarrow> js_error + string" where
  \<comment> \<open>\<open>v.f\<close> in a template literal\<close>
  "field_text fs v f =
     (case outcome_field f (Value v) of
        Throws e \<Rightarrow> Inl e
      | Value (JsonValue j) \<Rightarrow> Inr (js_String fs j)
      | Value _ \<Rightarrow> Inr ''undefined'')"

definition dq :: "string \<Rightarrow> string" where
  "dq s = [CHR 0x22] @ s @ [CHR 0x22]"

definition create_args :: "(rat \<Rightarrow> string) \<Rightarrow> form \<Rightarrow> string \<times> jsnum \<times> string \<times> string" where
  \<comment> \<open>name, size, Aerospike namespace and Kubernetes namespace\<close>
  "create_args fs args =
     (arg_text fs args ''name'' [],
      clampSize (if js_nullish (obj_get args ''size'') then None else Some (arg_num args ''size'' NaN)),
      str_or (arg_text fs args ''namespaceName'' ''test'') ''test'',
      str_or (arg_text fs args ''k8sNamespace'' DEFAULT_K8S_NAMESPACE) DEFAULT_K8S_NAMESPACE)"

definition create_payload_of :: "string \<times> jsnum \<times> string \<times> string \<Rightarrow> json" where
  "create_payload_of a =
     (case a of (name, sz, nsName, k8sNs) \<Rightarrow>
        JObj [(''name'', JStr name), (''namespace'', JStr k8sNs), (''size'', JNum sz), (''image'', JStr CE_IMAGE),
          (''autoConnect'', JBool True),
          (''resources'', JObj [(''requests'', JObj [(''cpu'', JStr ''500m''), (''memory'', JStr ''1Gi'')]),
             (''limits'', JObj [(''cpu'', JStr ''2''), (''memory'', JStr ''4Gi'')])]),
          (''namespaces'', JArr [JObj [(''name'', JStr nsName), (''replicationFactor'', JNum (Math_min (inum 2) sz)),
             (''storageEngine'', JObj [(''type'', JStr ''memory''), (''dataSize'', JNum (inum DEFAULT_NS_DATA_SIZE))])]]),
          (''storage'', JObj [(''storageClass'', JStr ''standard''), (''size'', JStr ''10Gi''),
             (''mountPath'', JStr ''/opt/aerospike/data'')])])"

definition created_result :: "(rat \<Rightarrow> string) \<Rightarrow> api_value \<Rightarrow> js_error + mutation_result" where
  "created_result fs v =
     (case (field_text fs v ''name'', field_text fs v ''namespace'', field_text fs v ''size'') of
        (Inr n, Inr ns, Inr sz) \<Rightarrow>
          Inr (MOk (''AerospikeCluster '' @ dq n @ '' applied to '' @ ns @ '' (size '' @ sz @ '').'') (Some ''/clusters''))
      | (Inl e, _) \<Rightarrow> Inl e
      | _ \<Rightarrow> Inl type_error)"

definition create_acko_cluster :: "(rat \<Rightarrow> string) \<Rightarrow> form \<Rightarrow> plan" where
  "create_acko_cluster fs args =
     (case create_args fs args of (name, sz, nsName, k8sNs) \<Rightarrow>
        \<lparr>pl_title = ''Create cluster?'',
         pl_rows = [(''name'', name), (''k8s namespace'', k8sNs), (''size (nodes)'', num_str fs sz), (''image'', CE_IMAGE),
           (''aerospike ns'', nsName @ '' (memory, RF '' @ num_str fs (Math_min (inum 2) sz) @ '')'')],
         pl_note = Some (''Within CE limits (max '' @ nat_str (nat CE_MAX_NODES) @ '' nodes, 2 namespaces). The ACKO webhook is the final validator.''),
         pl_destructive = False, pl_approveLabel = ''Approve & create'',
         pl_run = (\<lambda>send w. after_call (send (createK8sCluster (create_payload_of (create_args fs args))) w) (created_result fs))\<rparr>)"

definition scale_acko_cluster :: "(rat \<Rightarrow> string) \<Rightarrow> form \<Rightarrow> plan" where
  "scale_acko_cluster fs args =
     (let namespace = arg_text fs args ''namespace'' [];
          name = arg_text fs args ''name'' [];
          sz = clampSize (if js_nullish (obj_get args ''size'') then None else Some (arg_num args ''size'' NaN))
      in \<lparr>pl_title = ''Scale cluster?'',
          pl_rows = [(''k8s namespace'', namespace), (''name'', name), (''new size'', num_str fs sz)],
          pl_note = Some (''Clamped to CE max '' @ nat_str (nat CE_MAX_NODES) @ '' nodes.''),
          pl_destructive = False, pl_approveLabel = ''Approve & scale'',
          pl_run = (\<lambda>send w. after_call (send (scaleK8sCluster namespace name (JObj [(''size'', JNum sz)])) w)
            (\<lambda>v. Inr (MOk (''Scaled '' @ dq name @ '' to '' @ num_str fs sz @ '' node(s).'') (Some ''/clusters''))))\<rparr>)"

definition delete_acko_cluster :: "(rat \<Rightarrow> string) \<Rightarrow> form \<Rightarrow> plan" where
  "delete_acko_cluster fs args =
     (let namespace = arg_text fs args ''namespace'' [];
          name = arg_text fs args ''name'' []
      in \<lparr>pl_title = ''Delete cluster?'', pl_rows = [(''k8s namespace'', namespace), (''name'', name)],
          pl_note = Some ''This deletes the cluster and all its data. Cannot be undone.'',
          pl_destructive = True, pl_approveLabel = ''Approve & delete'',
          pl_run = (\<lambda>send w. after_call (send (deleteK8sCluster namespace name) w)
            (\<lambda>v. Inr (MOk (''Deleted cluster '' @ dq name @ ''.'') None)))\<rparr>)"

definition put_body :: "string \<Rightarrow> string option \<Rightarrow> string \<Rightarrow> json \<Rightarrow> json option \<Rightarrow> json" where
  "put_body namespace st pk bins ttl =
     JObj [(''key'', JObj ([(''namespace'', JStr namespace)] @ (case st of None \<Rightarrow> [] | Some x \<Rightarrow> [(''set'', JStr x)]) @ [(''pk'', JStr pk)])),
           (''bins'', bins), (''ttl'', if js_nullish ttl then JNull else the ttl)]"

definition ns_set_text :: "string \<Rightarrow> string option \<Rightarrow> string" where
  "ns_set_text namespace st = namespace @ (if truthy st then ''/'' @ the st else [])"

definition put_record :: "(rat \<Rightarrow> string) \<Rightarrow> form \<Rightarrow> plan" where
  "put_record fs args =
     (let connection = arg_text fs args ''connection'' [];
          namespace = arg_text fs args ''namespace'' [];
          st = (if opt_truthy (obj_get args ''set'') then Some (trim (js_String fs (the (obj_get args ''set'')))) else None);
          pk = arg_text fs args ''primaryKey'' [];
          bins = (if js_nullish (obj_get args ''bins'') then JObj [] else the (obj_get args ''bins''))
      in \<lparr>pl_title = ''Write record?'',
          pl_rows = [(''connection'', connection), (''ns / set'', ns_set_text namespace st), (''pk'', pk), (''bins'', stringify fs bins)],
          pl_note = None,
          pl_destructive = False, pl_approveLabel = ''Approve & write'',
          pl_run = with_connection connection (\<lambda>c. putRecord c (put_body namespace st pk bins (obj_get args ''ttl'')))
            (\<lambda>v. Inr (MOk (''Wrote record pk='' @ dq pk @ '' to '' @ ns_set_text namespace st @ ''.'') None))\<rparr>)"

definition delete_record :: "(rat \<Rightarrow> string) \<Rightarrow> form \<Rightarrow> plan" where
  "delete_record fs args =
     (let connection = arg_text fs args ''connection'' [];
          namespace = arg_text fs args ''namespace'' [];
          st = arg_text fs args ''set'' [];
          pk = arg_text fs args ''primaryKey'' []
      in \<lparr>pl_title = ''Delete record?'',
          pl_rows = [(''connection'', connection), (''ns / set'', namespace @ ''/'' @ st), (''pk'', pk)],
          pl_note = None,
          pl_destructive = True, pl_approveLabel = ''Approve & delete'',
          pl_run = with_connection connection
            (\<lambda>c. deleteRecord c \<lparr>rl_ns = namespace, rl_set = st, rl_pk = pk, rl_pk_type = None\<rparr>)
            (\<lambda>v. Inr (MOk (''Deleted record pk='' @ dq pk @ ''.'') None))\<rparr>)"

definition sample_count :: "form \<Rightarrow> jsnum" where
  "sample_count args = Math_min (inum 10000) (Math_max (inum 1) (Math_round (arg_num args ''recordCount'' (inum 100))))"

definition sample_result :: "(rat \<Rightarrow> string) \<Rightarrow> string \<Rightarrow> api_value \<Rightarrow> js_error + mutation_result" where
  "sample_result fs place v =
     (case (field_text fs v ''recordsCreated'', outcome_field ''indexesCreated'' (Value v)) of
        (Inl e, _) \<Rightarrow> Inl e
      | (Inr n, Value (JsonValue j)) \<Rightarrow>
          (if j = JNull then Inl type_error
           else Inr (MOk (''Created '' @ n @ '' record(s) in '' @ place @
             (case js_length (Some j) of
                Some (Suc k) \<Rightarrow> '' + '' @ nat_str (Suc k) @ '' index(es)''
              | _ \<Rightarrow> []) @ ''.'') None))
      | _ \<Rightarrow> Inl type_error)"

definition generate_sample_data :: "(rat \<Rightarrow> string) \<Rightarrow> form \<Rightarrow> plan" where
  "generate_sample_data fs args =
     (let connection = arg_text fs args ''connection'' [];
          namespace = arg_text fs args ''namespace'' [];
          setName = str_or (arg_text fs args ''setName'' ''sample'') ''sample'';
          createIndexes = opt_truthy (obj_get args ''createIndexes'')
      in \<lparr>pl_title = ''Generate sample data?'',
          pl_rows = [(''connection'', connection), (''ns / set'', namespace @ ''/'' @ setName),
            (''records'', num_str fs (sample_count args)), (''indexes'', if createIndexes then ''yes'' else ''no'')],
          pl_note = None,
          pl_destructive = False, pl_approveLabel = ''Approve & generate'',
          pl_run = with_connection connection
            (\<lambda>c. createSampleData c (JObj [(''namespace'', JStr namespace), (''setName'', JStr setName),
               (''recordCount'', JNum (sample_count args)), (''createIndexes'', JBool createIndexes)]))
            (sample_result fs (namespace @ ''/'' @ setName))\<rparr>)"

section \<open>The confirmation card (ConfirmCard, hitlRender)\<close>

datatype tool_status = InProgress | Executing | Complete

record hitl =
  ht_status :: tool_status
  ht_args :: form
  ht_submitting :: bool
  ht_responses :: "mutation_result list"

definition fresh_hitl :: hitl where
  "fresh_hitl = \<lparr>ht_status = InProgress, ht_args = [], ht_submitting = False, ht_responses = []\<rparr>"

definition card_shown :: "hitl \<Rightarrow> bool" where
  "card_shown h \<longleftrightarrow> ht_status h = Executing"

definition onApprove :: "hitl \<Rightarrow> hitl" where
  \<comment> \<open>up to the \<open>await\<close>\<close>
  "onApprove h = h\<lparr>ht_submitting := True\<rparr>"

definition run_settled :: "(rat \<Rightarrow> string) \<Rightarrow> js_error + mutation_result \<Rightarrow> hitl \<Rightarrow> hitl" where
  "run_settled fs res h =
     (case res of
        Inr m \<Rightarrow> h\<lparr>ht_responses := ht_responses h @ [m]\<rparr>
      | Inl e \<Rightarrow> h\<lparr>ht_responses := ht_responses h @ [errResult fs e], ht_submitting := False\<rparr>)"

definition onCancel :: "hitl \<Rightarrow> hitl" where
  "onCancel h = h\<lparr>ht_responses := ht_responses h @ [MCancelled]\<rparr>"

datatype hitl_input =
    ArgsStreamed form \<comment> \<open>the runtime passes arguments, as far as they have arrived\<close>
  | Ready form \<comment> \<open>the runtime starts to execute the call with its final arguments\<close>
  | ClickApprove
  | RunSettles
  | ClickCancel
  | Completed \<comment> \<open>the runtime completes the call after a response\<close>

fun hitl_step ::
  "(rat \<Rightarrow> string) \<Rightarrow> client \<Rightarrow> (form \<Rightarrow> plan) \<Rightarrow> hitl_input \<Rightarrow> hitl \<times> nat \<times> world \<Rightarrow> (hitl \<times> nat \<times> world) option" where
  \<comment> \<open>the number counts the runs that were started and have not settled\<close>
  "hitl_step fs send build (ArgsStreamed a) (h, n, w) = (if ht_status h = InProgress then Some (h\<lparr>ht_args := a\<rparr>, n, w) else None)"
| "hitl_step fs send build (Ready a) (h, n, w) =
     (if ht_status h = InProgress then Some (h\<lparr>ht_args := a, ht_status := Executing\<rparr>, n, w) else None)"
| "hitl_step fs send build ClickApprove (h, n, w) =
     (if card_shown h \<and> \<not> ht_submitting h then Some (onApprove h, Suc n, w) else None)"
| "hitl_step fs send build RunSettles (h, n, w) =
     (case n of
        0 \<Rightarrow> None
      | Suc m \<Rightarrow> (let (res, w') = pl_run (build (ht_args h)) send w in Some (run_settled fs res h, m, w')))"
| "hitl_step fs send build ClickCancel (h, n, w) =
     (if card_shown h \<and> \<not> ht_submitting h then Some (onCancel h, n, w) else None)"
| "hitl_step fs send build Completed (h, n, w) =
     (if ht_responses h \<noteq> [] then Some (h\<lparr>ht_status := Complete\<rparr>, n, w) else None)"

fun hitl_run ::
  "(rat \<Rightarrow> string) \<Rightarrow> client \<Rightarrow> (form \<Rightarrow> plan) \<Rightarrow> hitl_input list \<Rightarrow> hitl \<times> nat \<times> world \<Rightarrow> (hitl \<times> nat \<times> world) option" where
  "hitl_run fs send build [] c = Some c"
| "hitl_run fs send build (e # es) c =
     (case hitl_step fs send build e c of None \<Rightarrow> None | Some c' \<Rightarrow> hitl_run fs send build es c')"

section \<open>Properties\<close>

subsection \<open>Nothing runs without approval\<close>

definition effect :: "client \<Rightarrow> plan \<Rightarrow> world \<Rightarrow> world" where
  \<comment> \<open>what one run of a plan does to the world\<close>
  "effect send pl w = snd (pl_run pl send w)"

definition hitl_inv :: "hitl \<times> nat \<times> world \<Rightarrow> bool" where
  "hitl_inv c = (case c of (h, n, w) \<Rightarrow> n \<le> 1 \<and> (n = 1 \<longrightarrow> ht_submitting h) \<and> (ht_status h = InProgress \<longrightarrow> n = 0))"

lemma run_settled_simps [simp]:
  "ht_args (run_settled fs res h) = ht_args h" "ht_status (run_settled fs res h) = ht_status h"
  by (cases res; simp add: run_settled_def)+

lemma hitl_step_inv: "hitl_inv c \<Longrightarrow> hitl_step fs send build e c = Some c' \<Longrightarrow> hitl_inv c'"
proof (cases c)
  case (fields h n w)
  assume "hitl_inv c" "hitl_step fs send build e c = Some c'"
  with fields show ?thesis
    by (cases e) (auto simp: hitl_inv_def onApprove_def onCancel_def card_shown_def split: if_splits nat.splits prod.splits)
qed

text \<open>
  From a state whose arguments are final, a run applies the effect of the plan on the card once for
  each settled run; the settled runs and those in flight are the approvals.
\<close>

lemma hitl_run_executing:
  assumes "hitl_run fs send build es (h, n, w) = Some (h', n', w')" "ht_status h \<noteq> InProgress"
  shows "w' = (effect send (build (ht_args h)) ^^ count_list es RunSettles) w \<and>
    count_list es RunSettles + n' = count_list es ClickApprove + n"
  using assms
proof (induction es arbitrary: h n w)
  case (Cons e es)
  then obtain h1 n1 w1 where s: "hitl_step fs send build e (h, n, w) = Some (h1, n1, w1)"
    and r: "hitl_run fs send build es (h1, n1, w1) = Some (h', n', w')"
    by (auto split: option.splits)
  have st: "ht_status h1 \<noteq> InProgress" "ht_args h1 = ht_args h"
    using s Cons.prems(2) by (cases e; auto simp: onApprove_def onCancel_def split: if_splits nat.splits prod.splits)+
  have w1: "w1 = (if e = RunSettles then effect send (build (ht_args h)) w else w)"
    and n1: "n1 + (if e = RunSettles then 1 else 0) = n + (if e = ClickApprove then 1 else 0)"
    using s Cons.prems(2) by (cases e; auto simp: effect_def split: if_splits nat.splits prod.splits)+
  from Cons.IH [OF r st(1)] w1 n1 show ?case
    by (cases "e = RunSettles"; cases "e = ClickApprove") (simp_all add: st(2) funpow_swap1)
qed simp

lemma hitl_run_from_start:
  assumes "hitl_run fs send build es (h, 0, w) = Some (h', n', w')" "ht_status h = InProgress" "ht_responses h = []"
  shows "\<exists>a. (Ready a \<in> set es \<or> count_list es RunSettles = 0) \<and>
    w' = (effect send (build a) ^^ count_list es RunSettles) w \<and>
    count_list es RunSettles + n' = count_list es ClickApprove"
  using assms
proof (induction es arbitrary: h)
  case (Cons e es)
  show ?case
  proof (cases e)
    case (ArgsStreamed a)
    with Cons.prems have "hitl_run fs send build es (h\<lparr>ht_args := a\<rparr>, 0, w) = Some (h', n', w')" by simp
    from Cons.IH [OF this] Cons.prems(2,3) show ?thesis by (auto simp: ArgsStreamed)
  next
    case (Ready a)
    with Cons.prems have "hitl_run fs send build es (h\<lparr>ht_args := a, ht_status := Executing\<rparr>, 0, w) = Some (h', n', w')" by simp
    from hitl_run_executing [OF this] show ?thesis by (intro exI [of _ a]) (simp add: Ready)
  qed (use Cons.prems in \<open>auto simp: card_shown_def\<close>)
qed auto

lemma hitl_run_inv:
  "hitl_run fs send build es c = Some c' \<Longrightarrow> hitl_inv c \<Longrightarrow> hitl_inv c'"
  by (induction es arbitrary: c) (auto split: option.splits dest: hitl_step_inv)

text \<open>
  C7: no write tool acts without approval, and what runs is what the card showed. Whatever the runtime
  and the user do, the world is changed only by runs of the plan built from the arguments the card was
  shown with, there are at most as many runs as clicks on Approve, at most one is in flight at a
  time, and without a click nothing is sent at all.
\<close>

theorem writes_only_on_approval:
  assumes "hitl_run fs send build es (fresh_hitl, 0, w) = Some (h, n, w')"
  shows "\<exists>a. (Ready a \<in> set es \<or> w' = w) \<and> w' = (effect send (build a) ^^ count_list es RunSettles) w \<and>
    count_list es RunSettles + n = count_list es ClickApprove \<and> n \<le> 1 \<and>
    (ClickApprove \<notin> set es \<longrightarrow> w' = w)"
proof -
  have "hitl_inv (fresh_hitl, 0, w)" by (simp add: hitl_inv_def)
  from hitl_run_inv [OF assms this] have n: "n \<le> 1" by (simp add: hitl_inv_def)
  from hitl_run_from_start [OF assms] obtain a where
    a: "Ready a \<in> set es \<or> count_list es RunSettles = 0" "w' = (effect send (build a) ^^ count_list es RunSettles) w"
      "count_list es RunSettles + n = count_list es ClickApprove"
    by (auto simp: fresh_hitl_def)
  moreover have "w' = w" if "ClickApprove \<notin> set es" using a that by (simp add: count_list_0_iff)
  ultimately show ?thesis using n by auto
qed

theorem writes_only_on_approval_witness:
  "\<exists>h n w'. hitl_run (\<lambda>x. []) (\<lambda>c w. (Throws type_error, w\<lparr>logins := Suc (logins w)\<rparr>)) (delete_acko_cluster (\<lambda>x. []))
      [Ready [], ClickApprove, RunSettles] (fresh_hitl, 0, demo_world) = Some (h, n, w') \<and> n \<le> 1"
proof -
  let ?c = "the (hitl_run (\<lambda>x. []) (\<lambda>c w. (Throws type_error, w\<lparr>logins := Suc (logins w)\<rparr>)) (delete_acko_cluster (\<lambda>x. []))
      [Ready [], ClickApprove, RunSettles] (fresh_hitl, 0, demo_world))"
  have "hitl_run (\<lambda>x. []) (\<lambda>c w. (Throws type_error, w\<lparr>logins := Suc (logins w)\<rparr>)) (delete_acko_cluster (\<lambda>x. []))
      [Ready [], ClickApprove, RunSettles] (fresh_hitl, 0, demo_world) = Some (fst ?c, fst (snd ?c), snd (snd ?c))"
    by (simp add: fresh_hitl_def card_shown_def onApprove_def delete_acko_cluster_def Let_def after_call_def split: prod.splits)
  from writes_only_on_approval [OF this] this show ?thesis by blast
qed

subsection \<open>Limits of the community edition\<close>

lemma Math_round_int: "\<exists>i. Math_round (Num x) = inum i"
  by (simp; metis)

lemma clampSize_range: "\<exists>i. clampSize x = inum i \<and> 1 \<le> i \<and> i \<le> CE_MAX_NODES"
proof (cases "Math_round (nullish x (inum 1))")
  case NaN
  then show ?thesis by (auto simp: clampSize_def CE_MAX_NODES_def intro: exI [of _ 1])
next
  case (Infinite s)
  then show ?thesis
    by (cases s) (auto simp: clampSize_def CE_MAX_NODES_def Let_def intro: exI [of _ 1] exI [of _ 8])
next
  case (Num y)
  then obtain i where "Math_round (nullish x (inum 1)) = inum i"
    by (cases "nullish x (inum 1)") (auto simp: Math_round_int)
  then have "clampSize x = inum (min 8 (max 1 i))" by (auto simp: clampSize_def CE_MAX_NODES_def Let_def min_def max_def)
  then show ?thesis by (intro exI [of _ "min 8 (max 1 i)"]) (auto simp: CE_MAX_NODES_def)
qed

lemma proposed_payload_typed: "wt_CreateK8sClusterRequest (create_payload_of (name, inum i, nsName, k8sNs))"
  by (simp add: create_payload_of_def wt_CreateK8sClusterRequest_def create_spec_def field_ok_def either_def
      wt_ResourceConfig_def wt_ResourceSpec_def wt_AerospikeNamespaceConfig_def wt_AerospikeNamespaceStorage_def
      wt_StorageVolumeConfig_def)

lemma proposed_namespace_named: "create_args fs args = (name, sz, nsName, k8sNs) \<Longrightarrow> trim nsName \<noteq> []"
proof -
  have "trim (str_or (trim s) ''test'') \<noteq> []" for s
    by (cases "trim s = []") (simp_all add: str_or_def trim_fixed is_ws_def)
  then show "create_args fs args = (name, sz, nsName, k8sNs) \<Longrightarrow> trim nsName \<noteq> []"
    by (auto simp: create_args_def arg_text_def)
qed

text \<open>
  C32: the assistant can only propose clusters within the limits of the community edition. For all
  arguments whatever, the payload that an approval sends is a well-typed creation request with an
  integral size between 1 and 8 and a single namespace, whose replication factor is at most the size
  and at most 2, and which passes the namespace check of the wizard; and the card shows that size.
\<close>

theorem proposed_cluster_within_limits:
  "\<exists>i. 1 \<le> i \<and> i \<le> CE_MAX_NODES \<and>
     json_field (create_payload_of (create_args fs args)) ''size'' = Some (JNum (inum i)) \<and>
     wt_CreateK8sClusterRequest (create_payload_of (create_args fs args)) \<and>
     (\<exists>ns. json_field (create_payload_of (create_args fs args)) ''namespaces'' = Some (JArr [ns]) \<and>
        json_field ns ''replicationFactor'' = Some (JNum (inum (min 2 i))) \<and>
        validateNamespaces fs [ns] (inum i) = None) \<and>
     map_of (pl_rows (create_acko_cluster fs args)) ''size (nodes)'' = Some (int_str i)"
proof -
  obtain name sz nsName k8sNs where a: "create_args fs args = (name, sz, nsName, k8sNs)" by (cases "create_args fs args") auto
  then obtain i where i: "sz = inum i" "1 \<le> i" "i \<le> CE_MAX_NODES"
    using clampSize_range by (auto simp: create_args_def)
  have rf: "Math_min (inum 2) (inum i) = inum (min 2 i)" by (simp add: min_def)
  have le: "i \<le> 8" using i(3) by (simp add: CE_MAX_NODES_def)
  let ?p = "create_payload_of (name, inum i, nsName, k8sNs)"
  let ?ns = "JObj [(''name'', JStr nsName), (''replicationFactor'', JNum (inum (min 2 i))),
    (''storageEngine'', JObj [(''type'', JStr ''memory''), (''dataSize'', JNum (inum DEFAULT_NS_DATA_SIZE))])]"
  have "json_field ?p ''size'' = Some (JNum (inum i))" by (simp add: create_payload_of_def json_field_def)
  moreover have "json_field ?p ''namespaces'' = Some (JArr [?ns])"
    by (simp only: create_payload_of_def prod.case rf) (simp add: json_field_def)
  moreover have "json_field ?ns ''replicationFactor'' = Some (JNum (inum (min 2 i)))" by (simp add: json_field_def)
  moreover have "validateNamespaces fs [?ns] (inum i) = None"
    using proposed_namespace_named [OF a] by (simp add: validateNamespaces_def MAX_CE_NAMESPACES_def ns_name_def rf_error_def ns_rf_def json_field_def)
  moreover have "map_of (pl_rows (create_acko_cluster fs args)) ''size (nodes)'' = Some (int_str i)"
    using num_str_inum [of i fs] i(2) le by (simp add: create_acko_cluster_def a i(1) del: num_str.simps)
  ultimately show ?thesis using i(2,3) proposed_payload_typed unfolding a i(1) by blast
qed

subsection \<open>What leaves for the language model\<close>

definition bin_chars :: "(rat \<Rightarrow> string) \<Rightarrow> json \<Rightarrow> nat" where
  \<comment> \<open>the size of a bin value that \<open>clampBin\<close> looks at\<close>
  "bin_chars fs v = (case v of JStr s \<Rightarrow> length s | _ \<Rightarrow> if js_typeof_object v then length (stringify fs v) else 0)"

lemma clampBin_bound: "bin_chars fs (fst (clampBin fs v)) \<le> MAX_BIN_CHARS + 13"
  by (cases v) (simp_all add: clampBin_def bin_chars_def truncation_def)

lemma clamp_bins_values:
  "(k, v) \<in> set (fold (\<lambda>(name, v). obj_set name (fst (clampBin fs v))) bins acc) \<Longrightarrow>
     \<forall>(k, v) \<in> set acc. bin_chars fs v \<le> MAX_BIN_CHARS + 13 \<Longrightarrow> bin_chars fs v \<le> MAX_BIN_CHARS + 13"
proof (induction bins arbitrary: acc)
  case (Cons b bins)
  obtain n x where b: "b = (n, x)" by (cases b)
  have "\<forall>(k, v) \<in> set (obj_set n (fst (clampBin fs x)) acc). bin_chars fs v \<le> MAX_BIN_CHARS + 13"
    using Cons.prems(2) clampBin_bound [of fs x] by (induction acc) (auto split: if_splits)
  with Cons b show ?case by simp
qed auto

lemma clamp_all_length: "clamp_all fs rs = Some (rs', b) \<Longrightarrow> length rs' = length rs"
  by (induction rs arbitrary: rs' b) (auto split: option.splits prod.splits)

lemma clamp_all_mem: "clamp_all fs rs = Some (rs', b) \<Longrightarrow> r' \<in> set rs' \<Longrightarrow> \<exists>r c. clamp_record fs r = Some (r', c)"
  by (induction rs arbitrary: rs' b) (fastforce split: option.splits prod.splits)+

lemma clamp_record_bins:
  assumes "clamp_record fs r = Some (r', c)"
  shows "\<exists>bins. json_field r' ''bins'' = Some (JObj bins) \<and> (\<forall>(k, v) \<in> set bins. bin_chars fs v \<le> MAX_BIN_CHARS + 13)"
  using assms clamp_bins_values [where acc = "[]"]
  by (auto simp: clamp_record_def json_field_def clamp_bins_def split: json.splits option.splits)



lemma clampLimit_range: "\<exists>i. clampLimit n = inum i \<and> 1 \<le> i \<and> i \<le> int MAX_RESULT_ROWS"
proof (cases "n = None \<or> num_falsy (the n) \<or> \<not> isFinite (the n)")
  case True
  then show ?thesis by (auto simp: clampLimit_def MAX_RESULT_ROWS_def split: option.splits intro: exI [of _ 20])
next
  case False
  then obtain x where x: "n = Some (Num x)" "\<not> num_falsy (Num x)" by (cases n; cases "the n") auto
  then have "clampLimit n = inum (min (max 1 \<lfloor>x\<rfloor>) 20)"
    by (auto simp: clampLimit_def MAX_RESULT_ROWS_def min_def max_def)
  then show ?thesis by (intro exI [of _ "min (max 1 \<lfloor>x\<rfloor>) 20"]) (auto simp: MAX_RESULT_ROWS_def)
qed

text \<open>
  Read tools only read. The one request a read tool makes is a GET, or the POST of a query, whose
  path is the query route of its connection; and a tool that returns records never asks for more
  than twenty.
\<close>

theorem read_tools_only_read:
  "case read_call t of
     None \<Rightarrow> t = GetCeConstraints
   | Some c \<Rightarrow> ri_method (snd c) = Some ''GET'' \<and> ri_json (snd c) = None \<or>
       ri_method (snd c) = Some ''POST'' \<and>
         (\<exists>conn kvs i. fst c = ''/query/'' @ encodeURIComponent conn \<and> ri_json (snd c) = Some (JObj kvs) \<and>
            obj_get kvs ''maxRecords'' = Some (JNum (inum i)) \<and> 1 \<le> i \<and> i \<le> 20)"
proof (cases t)
  case (RunQuery c ns st pk pr n)
  obtain i where "clampLimit n = inum i" "1 \<le> i" "i \<le> 20" using clampLimit_range [of n] by (auto simp: MAX_RESULT_ROWS_def)
  moreover define kvs where "kvs = [(''namespace'', JStr ns), (''set'', opt_str_json st), (''primaryKey'', opt_str_json pk),
    (''predicate'', nullish pr JNull), (''maxRecords'', JNum (clampLimit n))]"
  moreover from this have "read_call t = Some (runQuery c (JObj kvs))" by (simp add: RunQuery)
  moreover have "obj_get kvs ''maxRecords'' = Some (JNum (clampLimit n))" by (simp add: kvs_def)
  ultimately show ?thesis by (simp add: runQuery_def apiPost_def)
qed (simp_all add: apiGet_def empty_init_def with_query_def listConnections_def getConnectionHealth_def getCluster_def
    getClusterMetrics_def listIndexes_def listRecords_def listK8sClusters_def getK8sCluster_def)

subsection \<open>What the card does not show\<close>

text \<open>
  The card of a record write is the same for every time to live, although the write carries it; and a
  fragment of a name stands for the first connection that contains it, which the card does not name.
\<close>

lemma put_card_hides_ttl:
  "pl_rows (put_record fs (obj_set ''ttl'' t args)) = pl_rows (put_record fs args) \<and>
   json_field (put_body ns st pk bins (Some (JNum n))) ''ttl'' = Some (JNum n)"
  by (simp add: put_record_def put_body_def arg_text_def json_field_def Let_def)

lemma fragment_takes_first:
  fixes eu us
  defines "eu \<equiv> JObj [(''id'', JStr ''1''), (''name'', JStr ''prod-eu'')]"
    and "us \<equiv> JObj [(''id'', JStr ''2''), (''name'', JStr ''prod-us'')]"
  shows "resolve_among ''prod'' [eu, us] = Inr (Some eu) \<and> resolve_among ''prod'' [us, eu] = Inr (Some us)"
  unfolding eu_def us_def
  by (simp add: resolve_among_def json_field_def toLowerCase_def lower_char_def is_upper_def startsWith_def)

text \<open>An identifier always wins over names, and an exact name over a fragment.\<close>

lemma find_named_Some:
  "find_named test cs = Inr (Some c) \<Longrightarrow> c \<in> set cs \<and> (\<exists>n. json_field c ''name'' = Some (JStr n) \<and> test (toLowerCase n))"
  by (induction cs) (auto split: option.splits json.splits if_splits)

lemma resolve_among_sound:
  assumes "resolve_among v conns = Inr (Some c)"
  shows "c \<in> set conns \<and>
    (json_field c ''id'' = Some (JStr v) \<or> (\<exists>n. json_field c ''name'' = Some (JStr n) \<and> str_includes (toLowerCase n) (toLowerCase v)))"
proof -
  have inc: "str_includes s s" for s by (metis append_Nil append_Nil2 str_includes_iff)
  from assms consider "find (\<lambda>c. json_field c ''id'' = Some (JStr v)) conns = Some c"
    | "find_named (\<lambda>n. n = toLowerCase v) conns = Inr (Some c)"
    | "find_named (\<lambda>n. str_includes n (toLowerCase v)) conns = Inr (Some c)"
    by (auto simp: resolve_among_def split: option.splits sum.splits)
  then show ?thesis
  proof cases
    case 1
    then show ?thesis by (auto simp: find_Some_iff)
  next
    case 2
    from find_named_Some [OF this] inc show ?thesis by metis
  next
    case 3
    from find_named_Some [OF this] show ?thesis by blast
  qed
qed

end
