(* ===== verification/Json_Text.thy ===== *)
theory Json_Text
  imports Js_Json
begin

text \<open>
  JSON text: \<open>JSON.parse\<close> as an executable recursive-descent parser, \<open>JSON.stringify(v, null, 2)\<close>,
  and \<open>Number(s)\<close>. The main facts are that parsing undoes printing, with or without indentation,
  and that the fuel of the parser, the length of the text, is always enough.

  \<open>JSON.parse\<close> throws a \<open>SyntaxError\<close> where the model returns \<open>None\<close>. Escapes of code units above
  U+00FF give the substitute character, as in the rest of the development.
\<close>

section \<open>Number(s)\<close>

definition number_body :: "string \<Rightarrow> (string \<times> string \<times> string) option" where
  \<comment> \<open>integer digits, fraction digits and the rest of an unsigned decimal literal\<close>
  "number_body s =
     (let ip = takeWhile is_digit s;
          r1 = dropWhile is_digit s;
          fp = (if startsWith r1 ''.'' then takeWhile is_digit (tl r1) else []);
          r2 = (if startsWith r1 ''.'' then dropWhile is_digit (tl r1) else r1)
      in if ip = [] \<and> fp = [] then None else Some (ip, fp, r2))"

definition exponent_body :: "string \<Rightarrow> (int \<times> string) option" where
  \<comment> \<open>the exponent part at the start of the text, \<open>0\<close> when there is none; \<open>None\<close>: an \<open>e\<close> without digits\<close>
  "exponent_body r =
     (if startsWith r ''e'' \<or> startsWith r ''E'' then
        (let t = tl r;
             neg = startsWith t ''-'';
             u = (if neg \<or> startsWith t ''+'' then tl t else t);
             ds = takeWhile is_digit u
         in if ds = [] then None
            else Some (if neg then - int (digits_val ds) else int (digits_val ds), dropWhile is_digit u))
      else Some (0, r))"

definition unsigned_number :: "string \<Rightarrow> (rat \<times> string) option" where
  "unsigned_number s =
     (case number_body s of
        None \<Rightarrow> None
      | Some (ip, fp, r) \<Rightarrow>
          (case exponent_body r of
             None \<Rightarrow> None
           | Some (e, r') \<Rightarrow> Some (decimal_val ip fp * pow10 e, r')))"

definition radix_digit :: "nat \<Rightarrow> char \<Rightarrow> bool" where
  "radix_digit b c =
     ((is_digit c \<and> digit_val c < b) \<or> (b = 16 \<and> (97 \<le> code c \<and> code c \<le> 102 \<or> 65 \<le> code c \<and> code c \<le> 70)))"

definition radix_val :: "nat \<Rightarrow> string \<Rightarrow> jsnum" where
  "radix_val b ds =
     (if ds = [] \<or> \<not> list_all (radix_digit b) ds then NaN
      else num_of_rat (of_nat (foldl (\<lambda>n c. b * n + unhex c) 0 ds)))"

definition js_Number :: "string \<Rightarrow> jsnum" where
  \<comment> \<open>\<open>Number(s)\<close>\<close>
  "js_Number s =
     (let t = trim s in
      if t = [] then Num 0
      else if startsWith (toLowerCase t) ''0x'' then radix_val 16 (drop 2 t)
      else if startsWith (toLowerCase t) ''0o'' then radix_val 8 (drop 2 t)
      else if startsWith (toLowerCase t) ''0b'' then radix_val 2 (drop 2 t)
      else (let neg = startsWith t ''-'';
                body = (if neg \<or> startsWith t ''+'' then tl t else t)
            in if body = ''Infinity'' then Infinite neg
               else (case unsigned_number body of
                       Some (v, []) \<Rightarrow> num_of_rat (if neg then - v else v)
                     | _ \<Rightarrow> NaN)))"

section \<open>JSON.parse\<close>

definition json_ws :: "char \<Rightarrow> bool" where
  "json_ws c = (code c \<in> {9, 10, 13, 32})"

definition skip_ws :: "string \<Rightarrow> string" where
  "skip_ws s = dropWhile json_ws s"

definition is_hex :: "char \<Rightarrow> bool" where
  "is_hex c = radix_digit 16 c"

definition unescape :: "char \<Rightarrow> char option" where
  "unescape e =
     (if e = CHR 0x22 then Some (CHR 0x22) else if e = CHR 0x5C then Some (CHR 0x5C)
      else if e = CHR ''/'' then Some (CHR ''/'') else if e = CHR ''b'' then Some (CHR 0x08)
      else if e = CHR ''f'' then Some (CHR 0x0C) else if e = CHR ''n'' then Some (CHR 0x0A)
      else if e = CHR ''r'' then Some (CHR 0x0D) else if e = CHR ''t'' then Some (CHR 0x09) else None)"

definition unit_char :: "nat \<Rightarrow> char" where
  "unit_char n = (if n < 256 then char_of n else u_sub)"

fun parse_chars :: "string \<Rightarrow> (string \<times> string) option" where
  \<comment> \<open>the characters of a string literal after the opening quote, and the text after the closing one\<close>
  "parse_chars [] = None"
| "parse_chars (c # r) =
     (if c = CHR 0x22 then Some ([], r)
      else if c = CHR 0x5C then
        (case r of
           [] \<Rightarrow> None
         | e # r' \<Rightarrow>
             (if e = CHR ''u'' then
                (case r' of
                   h1 # h2 # h3 # h4 # r'' \<Rightarrow>
                     (if is_hex h1 \<and> is_hex h2 \<and> is_hex h3 \<and> is_hex h4 then
                        map_option (\<lambda>(s, q). (unit_char (((unhex h1 * 16 + unhex h2) * 16 + unhex h3) * 16 + unhex h4) # s, q))
                          (parse_chars r'')
                      else None)
                 | _ \<Rightarrow> None)
              else (case unescape e of
                      None \<Rightarrow> None
                    | Some d \<Rightarrow> map_option (\<lambda>(s, q). (d # s, q)) (parse_chars r'))))
      else if code c < 32 then None
      else map_option (\<lambda>(s, q). (c # s, q)) (parse_chars r))"

definition parse_number :: "string \<Rightarrow> (json \<times> string) option" where
  \<comment> \<open>a JSON number: no plus sign, no leading zeros, digits on both sides of a point\<close>
  "parse_number s =
     (let neg = startsWith s ''-'';
          body = (if neg then tl s else s);
          ip = takeWhile is_digit body;
          r1 = dropWhile is_digit body
      in if ip = [] \<or> (length ip > 1 \<and> hd ip = CHR ''0'') then None
         else if startsWith r1 ''.'' \<and> takeWhile is_digit (tl r1) = [] then None
         else (case unsigned_number body of
                 None \<Rightarrow> None
               | Some (v, r) \<Rightarrow> Some (JNum (num_of_rat (if neg then - v else v)), r)))"

definition keyword :: "string \<Rightarrow> json \<Rightarrow> string \<Rightarrow> (json \<times> string) option" where
  "keyword w v s = (if startsWith s w then Some (v, drop (length w) s) else None)"

fun parse_value :: "nat \<Rightarrow> string \<Rightarrow> (json \<times> string) option"
and parse_elements :: "nat \<Rightarrow> string \<Rightarrow> (json list \<times> string) option"
and parse_members :: "nat \<Rightarrow> string \<Rightarrow> (string, json) jsmap \<Rightarrow> ((string, json) jsmap \<times> string) option" where
  "parse_value 0 s = None"
| "parse_value (Suc n) s =
     (case skip_ws s of
        [] \<Rightarrow> None
      | c # r \<Rightarrow>
          (if c = CHR 0x22 then map_option (\<lambda>(t, q). (JStr t, q)) (parse_chars r)
           else if c = CHR ''['' then
             (if startsWith (skip_ws r) '']'' then Some (JArr [], tl (skip_ws r))
              else map_option (\<lambda>(xs, q). (JArr xs, q)) (parse_elements n r))
           else if c = CHR ''{'' then
             (if startsWith (skip_ws r) ''}'' then Some (JObj [], tl (skip_ws r))
              else map_option (\<lambda>(kvs, q). (JObj kvs, q)) (parse_members n r []))
           else if c = CHR ''n'' then keyword ''null'' JNull (c # r)
           else if c = CHR ''t'' then keyword ''true'' (JBool True) (c # r)
           else if c = CHR ''f'' then keyword ''false'' (JBool False) (c # r)
           else parse_number (c # r)))"
| "parse_elements 0 s = None"
| "parse_elements (Suc n) s =
     (case parse_value n s of
        None \<Rightarrow> None
      | Some (v, r) \<Rightarrow>
          (case skip_ws r of
             [] \<Rightarrow> None
           | c # q \<Rightarrow>
               (if c = CHR '']'' then Some ([v], q)
                else if c = CHR '','' then map_option (\<lambda>(vs, p). (v # vs, p)) (parse_elements n q)
                else None)))"
| "parse_members 0 s acc = None"
| "parse_members (Suc n) s acc =
     (case skip_ws s of
        [] \<Rightarrow> None
      | c # r \<Rightarrow>
          (if c \<noteq> CHR 0x22 then None
           else (case parse_chars r of
                   None \<Rightarrow> None
                 | Some (k, r1) \<Rightarrow>
                     (if \<not> startsWith (skip_ws r1) '':'' then None
                      else (case parse_value n (tl (skip_ws r1)) of
                              None \<Rightarrow> None
                            | Some (v, r2) \<Rightarrow>
                                (case skip_ws r2 of
                                   [] \<Rightarrow> None
                                 | d # q \<Rightarrow>
                                     (if d = CHR ''}'' then Some (obj_set k v acc, q)
                                      else if d = CHR '','' then parse_members n q (obj_set k v acc)
                                      else None)))))))"

definition JSON_parse :: "string \<Rightarrow> json option" where
  "JSON_parse s =
     (case parse_value (Suc (length s)) s of
        None \<Rightarrow> None
      | Some (v, r) \<Rightarrow> (if skip_ws r = [] then Some v else None))"

section \<open>JSON.stringify with indentation\<close>

fun print_with :: "(nat \<Rightarrow> string) \<Rightarrow> string \<Rightarrow> (rat \<Rightarrow> string) \<Rightarrow> nat \<Rightarrow> json \<Rightarrow> string" where
  \<comment> \<open>\<open>gap d\<close>: what goes between the parts of a bracket at depth \<open>d\<close>; \<open>colon\<close>: the separator after a key\<close>
  "print_with gap colon fs d JNull = ''null''"
| "print_with gap colon fs d (JBool b) = (if b then ''true'' else ''false'')"
| "print_with gap colon fs d (JNum x) = (if isFinite x then num_str fs x else ''null'')"
| "print_with gap colon fs d (JStr s) = quote_str s"
| "print_with gap colon fs d (JArr js) =
     (if js = [] then ''[]''
      else ''['' @ gap (Suc d) @ joinWith ('','' @ gap (Suc d)) (map (print_with gap colon fs (Suc d)) js) @ gap d @ '']'')"
| "print_with gap colon fs d (JObj kvs) =
     (if kvs = [] then ''{}''
      else ''{'' @ gap (Suc d) @
        joinWith ('','' @ gap (Suc d)) (map (\<lambda>(k, v). quote_str k @ colon @ print_with gap colon fs (Suc d) v) kvs) @
        gap d @ ''}'')"

definition indent2 :: "nat \<Rightarrow> string" where
  "indent2 d = CHR 0x0A # replicate (2 * d) (CHR '' '')"

definition stringify2 :: "(rat \<Rightarrow> string) \<Rightarrow> json \<Rightarrow> string" where
  \<comment> \<open>\<open>JSON.stringify(v, null, 2)\<close>\<close>
  "stringify2 fs j = print_with indent2 '': '' fs 0 j"

lemma stringify_print: "stringify fs j = print_with (\<lambda>d. []) '':'' fs d j"
proof (induction j arbitrary: d)
  case (JArr js)
  then have eq: "map (stringify fs) js = map (print_with (\<lambda>d. []) '':'' fs (Suc d)) js" by simp
  show ?case unfolding stringify.simps print_with.simps eq by simp
next
  case (JObj kvs)
  then have eq: "map (\<lambda>(k, v). quote_str k @ '':'' @ stringify fs v) kvs =
      map (\<lambda>(k, v). quote_str k @ '':'' @ print_with (\<lambda>d. []) '':'' fs (Suc d) v) kvs"
    by (auto simp: snds.simps)
  show ?case unfolding stringify.simps print_with.simps eq by simp
qed simp_all

section \<open>Parsing undoes printing\<close>

lemma skip_ws_gap: "\<forall>c \<in> set g. json_ws c \<Longrightarrow> skip_ws (g @ s) = skip_ws s"
  by (simp add: skip_ws_def dropWhile_append3)

lemma skip_ws_Cons [simp]: "skip_ws (c # s) = (if json_ws c then skip_ws s else c # s)"
  by (simp add: skip_ws_def)

lemma json_ws_literals [simp]:
  "\<not> json_ws (CHR 0x22)" "\<not> json_ws (CHR ''['')" "\<not> json_ws (CHR '']'')" "\<not> json_ws (CHR ''{'')"
  "\<not> json_ws (CHR ''}'')" "\<not> json_ws (CHR '','')" "\<not> json_ws (CHR '':'')" "\<not> json_ws (CHR ''-'')"
  "\<not> json_ws (CHR ''n'')" "\<not> json_ws (CHR ''t'')" "\<not> json_ws (CHR ''f'')"
  by (simp_all add: json_ws_def)

lemma startsWith_Cons1 [simp]: "startsWith (c # s) [d] \<longleftrightarrow> c = d" "\<not> startsWith [] [d]"
  by (simp_all add: startsWith_def)

lemma hex_digit_props:
  assumes "d < 16"
  shows "is_hex (hex_digit d)" "unhex (hex_digit d) = d"
proof -
  have "d \<in> {0, 1, 2, 3, 4, 5, 6, 7, 8, 9, 10, 11, 12, 13, 14, 15}"
    using assms unfolding insert_iff empty_iff by presburger
  then show "is_hex (hex_digit d)" "unhex (hex_digit d) = d"
    by (auto simp: hex_digit_def is_hex_def radix_digit_def is_digit_def digit_val_def unhex_def is_lower_az_def)
qed

lemma unhex_zero [simp]: "unhex (CHR ''0'') = 0" "is_hex (CHR ''0'')"
  by (simp_all add: unhex_def is_hex_def radix_digit_def is_digit_def digit_val_def)

lemma code_eqI: "code c = code d \<Longrightarrow> c = d"
  by simp

lemma escape_cases:
  obtains (esc) "c \<in> {CHR 0x22, CHR 0x5C, CHR 0x08, CHR 0x0C, CHR 0x0A, CHR 0x0D, CHR 0x09}"
    | (ctl) "code c \<notin> {34, 92, 8, 12, 10, 13, 9}" "code c < 32"
    | (plain) "code c \<notin> {34, 92, 8, 12, 10, 13, 9}" "\<not> code c < 32"
proof -
  have "c = CHR 0x22" if "code c = 34" by (rule code_eqI) (simp add: that)
  moreover have "c = CHR 0x5C" if "code c = 92" by (rule code_eqI) (simp add: that)
  moreover have "c = CHR 0x08" if "code c = 8" by (rule code_eqI) (simp add: that)
  moreover have "c = CHR 0x0C" if "code c = 12" by (rule code_eqI) (simp add: that)
  moreover have "c = CHR 0x0A" if "code c = 10" by (rule code_eqI) (simp add: that)
  moreover have "c = CHR 0x0D" if "code c = 13" by (rule code_eqI) (simp add: that)
  moreover have "c = CHR 0x09" if "code c = 9" by (rule code_eqI) (simp add: that)
  ultimately show ?thesis using esc ctl plain unfolding insert_iff empty_iff by blast
qed

lemma parse_chars_escape:
  "parse_chars (escape_char c @ r) = map_option (\<lambda>(s, q). (c # s, q)) (parse_chars r)"
proof (cases c rule: escape_cases)
  case esc
  then show ?thesis unfolding insert_iff empty_iff
    by (elim disjE) (simp_all add: escape_char_def unescape_def)
next
  case ctl
  have d: "code c div 16 < 16" "code c mod 16 < 16" using ctl(2) by simp_all
  have u: "unit_char (code c div 16 * 16 + code c mod 16) = c" using ctl(2) by (simp add: unit_char_def)
  from ctl have "escape_char c =
      [CHR 0x5C, CHR ''u'', CHR ''0'', CHR ''0'', hex_digit (code c div 16), hex_digit (code c mod 16)]"
    by (simp add: escape_char_def Let_def)
  then show ?thesis using hex_digit_props [OF d(1)] hex_digit_props [OF d(2)] u by simp
next
  case plain
  then have "c \<noteq> CHR 0x22" "c \<noteq> CHR 0x5C" by auto
  moreover from plain have "escape_char c = [c]" by (simp add: escape_char_def)
  ultimately show ?thesis using plain by simp
qed

lemma parse_chars_quote: "parse_chars (concat (map escape_char s) @ CHR 0x22 # r) = Some (s, r)"
  by (induction s) (simp_all add: parse_chars_escape)

subsection \<open>Numbers\<close>

definition number_end :: "string \<Rightarrow> bool" where
  \<comment> \<open>the text does not continue a number literal\<close>
  "number_end r \<longleftrightarrow> r = [] \<or> (\<not> is_digit (hd r) \<and> hd r \<notin> {CHR ''.'', CHR ''e'', CHR ''E''})"

lemma number_end_digits:
  assumes "\<forall>c \<in> set ds. is_digit c" "number_end r"
  shows "takeWhile is_digit (ds @ r) = ds" "dropWhile is_digit (ds @ r) = r"
  using assms by (cases r; auto simp: number_end_def takeWhile_append dropWhile_append takeWhile_eq_all_conv)+

lemma number_end_marks:
  assumes "number_end r"
  shows "\<not> startsWith r ''.''" "exponent_body r = Some (0, r)"
  using assms by (cases r; auto simp: number_end_def exponent_body_def)+

lemma unsigned_number_digits:
  assumes "\<forall>c \<in> set ds. is_digit c" "ds \<noteq> []" "number_end r"
  shows "unsigned_number (ds @ r) = Some (of_nat (digits_val ds), r)"
  using assms number_end_digits [OF assms(1,3)] number_end_marks [OF assms(3)]
  by (simp add: unsigned_number_def number_body_def decimal_val_def pow10_def)

lemma nat_str_leading: "length (nat_str n) > 1 \<Longrightarrow> hd (nat_str n) \<noteq> CHR ''0''"
proof (induction n rule: nat_str.induct)
  case (1 n)
  then have n: "\<not> n < 10" by (auto simp: nat_str.simps [of n] split: if_splits)
  then have eq: "nat_str n = nat_str (n div 10) @ [digit_char (n mod 10)]" by (simp add: nat_str.simps [of n])
  show ?case
  proof (cases "n div 10 < 10")
    case True
    then have "nat_str (n div 10) = [digit_char (n div 10)]" by (simp add: nat_str.simps [of "n div 10"])
    moreover have "code (digit_char (n div 10)) = 48 + n div 10" using True by simp
    then have "code (digit_char (n div 10)) \<noteq> code (CHR ''0'')" using n by simp
    then have "digit_char (n div 10) \<noteq> CHR ''0''" by metis
    ultimately show ?thesis by (simp add: eq)
  next
    case False
    then have "length (nat_str (n div 10)) > 1"
      using nat_str_digits [of "n div 10 div 10"] by (auto simp: nat_str.simps [of "n div 10"])
    with 1 n show ?thesis using nat_str_digits [of "n div 10"] by (simp add: eq)
  qed
qed

lemma parse_number_nat:
  assumes "number_end r" "int n < 2 ^ 53"
  shows "parse_number (nat_str n @ r) = Some (JNum (inum (int n)), r)"
    and "parse_number (CHR ''-'' # nat_str n @ r) = Some (JNum (inum (- int n)), r)"
proof -
  have ds: "\<forall>c \<in> set (nat_str n). is_digit c" "nat_str n \<noteq> []" using nat_str_digits by blast+
  then obtain c t where ct: "nat_str n = c # t" by (cases "nat_str n") auto
  with ds(1) have "c \<noteq> CHR ''-''" using is_digit_not_sign by auto
  then have nm: "\<not> startsWith (nat_str n @ r) ''-''" by (simp add: ct)
  note u = unsigned_number_digits [OF ds assms(1)] number_end_digits [OF ds(1) assms(1)] number_end_marks [OF assms(1)]
  have "num_of_rat (of_int (int n)) = inum (int n)" "num_of_rat (of_int (- int n)) = inum (- int n)"
    using assms(2) by (simp_all only: num_of_int abs_minus_cancel abs_of_nat)
  then have v: "num_of_rat (of_nat n) = Num (of_nat n)" "num_of_rat (- of_nat n) = Num (- of_nat n)" by simp_all
  show "parse_number (nat_str n @ r) = Some (JNum (inum (int n)), r)"
    using ds(2) nat_str_leading [of n] nm by (auto simp: parse_number_def Let_def u v)
  show "parse_number (CHR ''-'' # nat_str n @ r) = Some (JNum (inum (- int n)), r)"
    using ds(2) nat_str_leading [of n] by (auto simp: parse_number_def Let_def u v)
qed

lemma parse_number_int:
  assumes "number_end r" "\<bar>i\<bar> < 2 ^ 53"
  shows "parse_number (int_str i @ r) = Some (JNum (inum i), r)"
proof (cases "i < 0")
  case True
  then show ?thesis using parse_number_nat(2) [OF assms(1), of "nat (- i)"] assms(2) by (simp add: int_str_def)
next
  case False
  then show ?thesis using parse_number_nat(1) [OF assms(1), of "nat i"] assms(2) by (simp add: int_str_def)
qed

subsection \<open>Values\<close>

definition reads :: "(rat \<Rightarrow> string) \<Rightarrow> jsnum \<Rightarrow> bool" where
  \<comment> \<open>the printed number is a JSON number literal of that number\<close>
  "reads fs x \<longleftrightarrow> isFinite x \<and> (\<forall>r. number_end r \<longrightarrow> parse_number (num_str fs x @ r) = Some (JNum x, r))"

lemma reads_int: "\<bar>i\<bar> < 2 ^ 53 \<Longrightarrow> reads fs (inum i)"
  using num_str_inum [of i fs] by (simp only: reads_def isFinite.simps) (simp add: parse_number_int)

fun json_ok :: "(rat \<Rightarrow> string) \<Rightarrow> json \<Rightarrow> bool" where
  "json_ok fs (JNum x) = reads fs x"
| "json_ok fs (JArr js) = (\<forall>j \<in> set js. json_ok fs j)"
| "json_ok fs (JObj kvs) = (distinct (map fst kvs) \<and> (\<forall>kv \<in> set kvs. json_ok fs (snd kv)))"
| "json_ok fs _ = True"

lemma parse_number_head:
  assumes "parse_number s = Some v"
  obtains c r where "s = c # r" "c = CHR ''-'' \<or> is_digit c"
proof (cases s)
  case Nil
  with assms show ?thesis by (simp add: parse_number_def)
next
  case (Cons c r)
  have "c = CHR ''-'' \<or> is_digit c"
    using assms unfolding Cons by (auto simp: parse_number_def Let_def split: if_splits)
  with Cons that show ?thesis by blast
qed

definition value_head :: "char \<Rightarrow> bool" where
  "value_head c \<longleftrightarrow> c \<in> {CHR 0x22, CHR ''['', CHR ''{'', CHR ''n'', CHR ''t'', CHR ''f'', CHR ''-''} \<or> is_digit c"

lemma value_head_props:
  assumes "value_head c"
  shows "\<not> json_ws c" "c \<noteq> CHR '']''" "c \<noteq> CHR ''}''"
  using assms by (auto simp: value_head_def json_ws_def is_digit_def)

lemma print_head:
  assumes "json_ok fs j"
  obtains c s where "print_with gap colon fs d j = c # s" "value_head c"
proof (cases j)
  case (JNum x)
  with assms have "reads fs x" by simp
  then have fin: "isFinite x" and "parse_number (num_str fs x @ []) = Some (JNum x, [])"
    by (simp_all add: reads_def number_end_def)
  then obtain c s where "num_str fs x = c # s" "c = CHR ''-'' \<or> is_digit c"
    using parse_number_head by (metis append_Nil2)
  with that JNum fin show ?thesis by (auto simp: value_head_def)
next
  case JNull
  then have "print_with gap colon fs d j = CHR ''n'' # ''ull''" by simp
  with that show ?thesis by (simp add: value_head_def)
next
  case (JBool b)
  then have "print_with gap colon fs d j = (if b then CHR ''t'' else CHR ''f'') # (if b then ''rue'' else ''alse'')"
    by simp
  with that show ?thesis by (cases b) (simp_all add: value_head_def)
next
  case (JStr t)
  then have "print_with gap colon fs d j = CHR 0x22 # concat (map escape_char t) @ [CHR 0x22]"
    by (simp add: quote_str_def)
  with that show ?thesis by (simp add: value_head_def)
next
  case (JArr js)
  then have "print_with gap colon fs d j = CHR ''['' # tl (print_with gap colon fs d j)" by simp
  with that show ?thesis by (simp add: value_head_def)
next
  case (JObj kvs)
  then have "print_with gap colon fs d j = CHR ''{'' # tl (print_with gap colon fs d j)" by simp
  with that show ?thesis by (simp add: value_head_def)
qed

lemma number_end_ws: "\<forall>c \<in> set g. json_ws c \<Longrightarrow> number_end r \<Longrightarrow> number_end (g @ r)"
  by (cases g) (auto simp: number_end_def json_ws_def is_digit_def)

lemma number_end_delims [simp]:
  "number_end (CHR '','' # r)" "number_end (CHR '']'' # r)" "number_end (CHR ''}'' # r)" "number_end []"
  by (simp_all add: number_end_def is_digit_def)

lemma joinWith_Cons2: "joinWith sep (x # y # ys) = x @ sep @ joinWith sep (y # ys)"
  by simp

lemma parse_elements_print:
  assumes val: "\<And>x m g r. x \<in> set xs \<Longrightarrow> \<forall>c \<in> set g. json_ws c \<Longrightarrow> number_end r \<Longrightarrow> length (pr x) \<le> m \<Longrightarrow>
      parse_value m (g @ pr x @ r) = Some (x, r)"
    and "xs \<noteq> []" "\<forall>c \<in> set g0. json_ws c" "\<forall>c \<in> set g. json_ws c" "\<forall>c \<in> set g1. json_ws c"
    and "Suc (length (joinWith ('','' @ g) (map pr xs))) \<le> m"
  shows "parse_elements m (g0 @ joinWith ('','' @ g) (map pr xs) @ g1 @ CHR '']'' # r) = Some (xs, r)"
  using assms
proof (induction xs arbitrary: m g0)
  case (Cons x xs)
  then obtain m' where m: "m = Suc m'" by (cases m) auto
  show ?case
  proof (cases xs)
    case Nil
    have "parse_value m' (g0 @ pr x @ g1 @ CHR '']'' # r) = Some (x, g1 @ CHR '']'' # r)"
      using Cons.prems m Nil by (intro Cons.prems(1)) (simp_all add: number_end_ws)
    with Nil show ?thesis using Cons.prems(5) by (simp add: m skip_ws_gap)
  next
    case (Cons y ys)
    let ?rest = "CHR '','' # g @ joinWith ('','' @ g) (map pr xs) @ g1 @ CHR '']'' # r"
    have "parse_value m' (g0 @ pr x @ ?rest) = Some (x, ?rest)"
      using Cons.prems m Cons by (intro Cons.prems(1)) simp_all
    moreover have "parse_elements m' (g @ joinWith ('','' @ g) (map pr xs) @ g1 @ CHR '']'' # r) = Some (xs, r)"
      using Cons.prems m Cons by (intro Cons.IH) simp_all
    ultimately show ?thesis by (simp add: m Cons)
  qed
qed simp

lemma parse_members_print:
  assumes val: "\<And>k v m g r. (k, v) \<in> set kvs \<Longrightarrow> \<forall>c \<in> set g. json_ws c \<Longrightarrow> number_end r \<Longrightarrow> length (pr v) \<le> m \<Longrightarrow>
      parse_value m (g @ pr v @ r) = Some (v, r)"
    and "kvs \<noteq> []" "\<forall>c \<in> set g0. json_ws c" "\<forall>c \<in> set g. json_ws c" "\<forall>c \<in> set g1. json_ws c" "\<forall>c \<in> set gc. json_ws c"
    and "Suc (length (joinWith ('','' @ g) (map pm kvs))) \<le> m"
    and "distinct (map fst (acc @ kvs))"
    and pm: "\<And>k v. pm (k, v) = CHR 0x22 # concat (map escape_char k) @ CHR 0x22 # CHR '':'' # gc @ pr v"
  shows "parse_members m (g0 @ joinWith ('','' @ g) (map pm kvs) @ g1 @ CHR ''}'' # r) acc = Some (acc @ kvs, r)"
  using assms(1-8)
proof (induction kvs arbitrary: m g0 acc)
  case (Cons kv kvs)
  obtain k v where kv: "kv = (k, v)" by (cases kv)
  obtain m' where m: "m = Suc m'" using Cons.prems(7) by (cases m) auto
  have set: "obj_set k v acc = acc @ [(k, v)]" using Cons.prems(8) by (intro obj_set_fresh) (simp add: kv)
  show ?case
  proof (cases kvs)
    case Nil
    have "parse_value m' (gc @ pr v @ g1 @ CHR ''}'' # r) = Some (v, g1 @ CHR ''}'' # r)"
      using Cons.prems m Nil kv by (intro Cons.prems(1) [of k]) (simp_all add: number_end_ws pm)
    with Nil Cons.prems(3,5) show ?thesis by (simp add: m kv pm skip_ws_gap parse_chars_quote set)
  next
    case (Cons y ys)
    let ?rest = "CHR '','' # g @ joinWith ('','' @ g) (map pm kvs) @ g1 @ CHR ''}'' # r"
    have join: "joinWith ('','' @ g) (map pm (kv # kvs)) = pm (k, v) @ ('','' @ g) @ joinWith ('','' @ g) (map pm kvs)"
      by (simp add: Cons kv)
    note len = Cons.prems(7) [unfolded join m]
    have "parse_value m' (gc @ pr v @ ?rest) = Some (v, ?rest)"
      using len Cons.prems(6) by (intro Cons.prems(1) [of k]) (simp_all add: kv pm)
    moreover have "parse_members m' (g @ joinWith ('','' @ g) (map pm kvs) @ g1 @ CHR ''}'' # r) (acc @ [(k, v)]) =
        Some ((acc @ [(k, v)]) @ kvs, r)"
    proof (rule Cons.IH)
      fix k' v' m g r
      assume "(k', v') \<in> set kvs" "\<forall>c \<in> set g. json_ws c" "number_end r" "length (pr v') \<le> m"
      then show "parse_value m (g @ pr v' @ r) = Some (v', r)" by (intro Cons.prems(1) [of k']) simp_all
    qed (use Cons.prems(4-6,8) len in \<open>simp_all add: Cons kv pm\<close>)
    ultimately show ?thesis using Cons.prems(3)
      unfolding join by (simp add: m kv pm skip_ws_gap parse_chars_quote set)
  qed
qed simp

lemma parse_print:
  assumes gap: "\<And>n. \<forall>c \<in> set (gap n). json_ws c" and colon: "colon = CHR '':'' # gc" "\<forall>c \<in> set gc. json_ws c"
    and "json_ok fs j" "number_end r" "\<forall>c \<in> set g. json_ws c" "length (print_with gap colon fs d j) \<le> n"
  shows "parse_value n (g @ print_with gap colon fs d j @ r) = Some (j, r)"
  using assms(4-7)
proof (induction j arbitrary: d n g r)
  case (JArr js)
  obtain m where n: "n = Suc m" using JArr.prems(4) by (cases n) (auto split: if_splits)
  show ?case
  proof (cases js)
    case (Cons x xs)
    obtain c s where hd: "print_with gap colon fs (Suc d) x = c # s" "value_head c"
      using JArr.prems(1) Cons by (auto elim: print_head [of fs x gap colon "Suc d"])
    have opn: "joinWith ('','' @ gap (Suc d)) (map (print_with gap colon fs (Suc d)) js) \<noteq> [] \<and>
        hd (joinWith ('','' @ gap (Suc d)) (map (print_with gap colon fs (Suc d)) js)) = c"
      using hd by (cases xs) (simp_all add: Cons)
    have "parse_elements m (gap (Suc d) @ joinWith ('','' @ gap (Suc d)) (map (print_with gap colon fs (Suc d)) js) @
        gap d @ CHR '']'' # r) = Some (js, r)"
    proof (rule parse_elements_print)
      fix y m' g' r'
      assume y: "y \<in> set js" and *: "\<forall>c \<in> set g'. json_ws c" "number_end r'"
        "length (print_with gap colon fs (Suc d) y) \<le> m'"
      show "parse_value m' (g' @ print_with gap colon fs (Suc d) y @ r') = Some (y, r')"
        by (rule JArr.IH [OF y _ *(2,1,3)]) (use JArr.prems(1) y in simp)
    qed (use JArr.prems gap Cons n in simp_all)
    with opn value_head_props [OF hd(2)] show ?thesis
      by (cases "joinWith ('','' @ gap (Suc d)) (map (print_with gap colon fs (Suc d)) js)")
        (simp_all add: n Cons skip_ws_gap JArr.prems(3) gap)
  qed (simp add: n skip_ws_gap JArr.prems(3))
next
  case (JObj kvs)
  obtain m where n: "n = Suc m" using JObj.prems(4) by (cases n) (auto split: if_splits)
  define pm where "pm = (\<lambda>(k, v). quote_str k @ colon @ print_with gap colon fs (Suc d) v)"
  have pm: "pm (k, v) = CHR 0x22 # concat (map escape_char k) @ CHR 0x22 # CHR '':'' # gc @ print_with gap colon fs (Suc d) v" for k v
    by (simp add: pm_def quote_str_def colon)
  have print: "print_with gap colon fs d (JObj kvs) = (if kvs = [] then ''{}''
      else ''{'' @ gap (Suc d) @ joinWith ('','' @ gap (Suc d)) (map pm kvs) @ gap d @ ''}'')"
    by (simp add: pm_def)
  show ?case
  proof (cases kvs)
    case (Cons kv rest)
    obtain k v where kv: "kv = (k, v)" by (cases kv)
    obtain t where hd: "joinWith ('','' @ gap (Suc d)) (map pm kvs) = CHR 0x22 # t"
      by (cases rest) (auto simp: Cons kv pm)
    have "parse_members m (gap (Suc d) @ joinWith ('','' @ gap (Suc d)) (map pm kvs) @ gap d @ CHR ''}'' # r) [] =
        Some ([] @ kvs, r)"
    proof (rule parse_members_print [where pr = "print_with gap colon fs (Suc d)" and gc = gc, OF _ _ _ _ _ _ _ _ pm])
      fix k v m' g' r'
      assume kv: "(k, v) \<in> set kvs" and *: "\<forall>c \<in> set g'. json_ws c" "number_end r'"
        "length (print_with gap colon fs (Suc d) v) \<le> m'"
      show "parse_value m' (g' @ print_with gap colon fs (Suc d) v @ r') = Some (v, r')"
        by (rule JObj.IH [OF kv _ _ *(2,1,3)]) (use JObj.prems(1) kv in \<open>auto simp: snds.simps\<close>)
    qed (use JObj.prems gap colon Cons n print in \<open>simp_all\<close>)
    with hd show ?thesis unfolding print by (simp add: n Cons skip_ws_gap JObj.prems(3) gap)
  qed (simp add: n skip_ws_gap JObj.prems(3))
next
  case (JNum x)
  then obtain c s where hd: "num_str fs x = c # s" "value_head c" and fin: "isFinite x"
    by (metis json_ok.simps(1) print_head print_with.simps(3) reads_def)
  then have "parse_number (c # s @ r) = Some (JNum x, r)"
    using JNum by (metis append_Cons json_ok.simps(1) reads_def)
  moreover from this have "code c = 45 \<or> 48 \<le> code c \<and> code c \<le> 57"
    by (rule parse_number_head) (auto simp: is_digit_def)
  then have "c \<noteq> CHR 0x22" "c \<noteq> CHR ''[''" "c \<noteq> CHR ''{''" "c \<noteq> CHR ''n''" "c \<noteq> CHR ''t''" "c \<noteq> CHR ''f''"
    by auto
  ultimately show ?case using JNum.prems hd(1) fin value_head_props(1) [OF hd(2)]
    by (cases n) (simp_all add: skip_ws_gap)
next
  case (JStr s)
  then show ?case by (cases n) (simp_all add: skip_ws_gap quote_str_def parse_chars_quote)
next
  case (JBool b)
  then show ?case by (cases n; cases b) (simp_all add: skip_ws_gap keyword_def startsWith_def)
next
  case JNull
  then show ?case by (cases n) (simp_all add: skip_ws_gap keyword_def startsWith_def)
qed

text \<open>
  The JSON text the program writes, compact or indented by two, reads back as the value it was
  written from: every value whose objects have distinct keys and whose numbers the engine prints as
  JSON numbers (every integer below \<open>2 ^ 53\<close> is one). The parser's fuel is the length of the text,
  so it always ends with a result here.
\<close>

lemma JSON_parse_stringify:
  assumes "json_ok fs j"
  shows "JSON_parse (stringify fs j) = Some j" "JSON_parse (stringify2 fs j) = Some j"
proof -
  have "JSON_parse (print_with gap (CHR '':'' # gc) fs 0 j) = Some j"
    if "\<And>n. \<forall>c \<in> set (gap n). json_ws c" "\<forall>c \<in> set gc. json_ws c" for gap gc
    using parse_print [where g = "[]" and r = "[]" and gc = gc and gap = gap and d = 0
        and n = "Suc (length (print_with gap (CHR '':'' # gc) fs 0 j))", OF that(1) refl that(2) assms]
    by (simp add: JSON_parse_def skip_ws_def del: parse_value.simps)
  from this [of "\<lambda>d. []" "[]"] this [of indent2 "'' ''"] show "JSON_parse (stringify fs j) = Some j" "JSON_parse (stringify2 fs j) = Some j"
    by (simp_all add: stringify2_def stringify_print [of fs j 0] indent2_def json_ws_def)
qed

section \<open>Number(s) on printed numbers\<close>

definition number_char :: "char \<Rightarrow> bool" where
  "number_char c \<longleftrightarrow> is_digit c \<or> c \<in> set ''.eE+-''"

lemma number_char_props:
  assumes "number_char c"
  shows "\<not> is_ws c" "lower_char c \<notin> {CHR ''x'', CHR ''o'', CHR ''b''}" "c \<noteq> CHR ''I''"
proof -
  have c: "code c \<in> {43, 45, 46, 69, 101} \<union> {48..57}"
    using assms by (auto simp: number_char_def is_digit_def)
  then show "\<not> is_ws c" by (auto simp: is_ws_def)
  from c have "code (lower_char c) \<notin> {120, 111, 98}" by (auto simp: code_lower_char is_upper_def)
  then show "lower_char c \<notin> {CHR ''x'', CHR ''o'', CHR ''b''}" by auto
  from c show "c \<noteq> CHR ''I''" by auto
qed

lemma takeWhile_number_chars: "c \<in> set (takeWhile is_digit s) \<Longrightarrow> number_char c"
  by (auto simp: number_char_def dest: set_takeWhileD)

lemma exponent_chars:
  assumes "exponent_body r = Some (e, [])" "c \<in> set r"
  shows "number_char c"
proof (cases r)
  case (Cons d t)
  have d: "d = CHR ''e'' \<or> d = CHR ''E''" using assms(1) by (auto simp: exponent_body_def Cons split: if_splits)
  define u where "u = (if startsWith t ''-'' \<or> startsWith t ''+'' then tl t else t)"
  have u: "dropWhile is_digit u = []" using assms(1) d by (auto simp: exponent_body_def Cons Let_def u_def split: if_splits)
  then have "set u \<subseteq> {c. number_char c}" by (auto simp: dropWhile_eq_Nil_conv number_char_def)
  moreover have "set t \<subseteq> set u \<union> {CHR ''-'', CHR ''+''}" by (cases t) (auto simp: u_def)
  ultimately show ?thesis using assms(2) d by (auto simp: Cons number_char_def)
qed (use assms in simp)

lemma unsigned_number_chars:
  assumes "unsigned_number s = Some (v, [])" "c \<in> set s"
  shows "number_char c"
proof -
  define r1 where "r1 = dropWhile is_digit s"
  define r2 where "r2 = (if startsWith r1 ''.'' then dropWhile is_digit (tl r1) else r1)"
  from assms(1) obtain e where e: "exponent_body r2 = Some (e, [])"
    by (auto simp: unsigned_number_def number_body_def Let_def r1_def r2_def split: option.splits if_splits)
  have "set s = set (takeWhile is_digit s) \<union> set r1" unfolding r1_def by (metis set_append takeWhile_dropWhile_id)
  moreover have "set r1 \<subseteq> {CHR ''.''} \<union> (set (takeWhile is_digit (tl r1)) \<union> set r2)"
  proof (cases r1)
    case (Cons d t)
    have "set t = set (takeWhile is_digit t) \<union> set (dropWhile is_digit t)" by (metis set_append takeWhile_dropWhile_id)
    then show ?thesis by (auto simp: Cons r2_def)
  qed simp
  ultimately have "c \<in> set (takeWhile is_digit s) \<or> c = CHR ''.'' \<or> c \<in> set (takeWhile is_digit (tl r1)) \<or> c \<in> set r2"
    using assms(2) by blast
  then show ?thesis using takeWhile_number_chars exponent_chars [OF e] by (auto simp: number_char_def)
qed

text \<open>\<open>Number\<close> reads every JSON number as \<open>JSON.parse\<close> does.\<close>

lemma js_Number_parse_number:
  assumes "parse_number s = Some (JNum x, [])"
  shows "js_Number s = x" "trim s = s"
proof -
  define neg where "neg = startsWith s ''-''"
  define body where "body = (if neg then tl s else s)"
  from assms obtain v where v: "unsigned_number body = Some (v, [])" "x = num_of_rat (if neg then - v else v)"
    and ip: "takeWhile is_digit body \<noteq> []"
    by (auto simp: parse_number_def Let_def neg_def body_def split: if_splits option.splits)
  obtain d t where body: "body = d # t" "is_digit d" using ip by (cases body) (auto split: if_splits)
  have bc: "number_char c" if "c \<in> set body" for c by (rule unsigned_number_chars [OF v(1) that])
  have s: "s = (if neg then CHR ''-'' # body else body)" using body(1) by (cases s) (auto simp: neg_def body_def)
  then have sc: "number_char c" if "c \<in> set s" for c using bc that by (auto simp: number_char_def split: if_splits)
  have ne: "s \<noteq> []" using s body(1) by auto
  show t: "trim s = s" by (rule trim_fixed) (use number_char_props(1) [OF sc] ne in \<open>simp add: hd_in_set\<close>)
  have pre: "\<not> startsWith (toLowerCase s) [CHR ''0'', c]" if "c \<in> {CHR ''x'', CHR ''o'', CHR ''b''}" for c
  proof
    assume "startsWith (toLowerCase s) [CHR ''0'', c]"
    then have "take 2 (toLowerCase s) = [CHR ''0'', c]" by (simp add: startsWith_def numeral_2_eq_2)
    then have "c \<in> set (toLowerCase s)" by (metis in_set_takeD list.set_intros)
    then obtain d where "d \<in> set s" "c = lower_char d" by (auto simp: toLowerCase_def)
    then show False using number_char_props(2) [OF sc] that by blast
  qed
  have inf: "body \<noteq> ''Infinity''" using bc number_char_props(3) by (metis list.set_intros(1))
  have plus: "\<not> startsWith s ''+''" using s body is_digit_not_sign by auto
  show "js_Number s = x"
  proof (cases neg)
    case True
    then have "startsWith s ''-''" "tl s = body" by (simp_all add: neg_def body_def)
    with True show ?thesis unfolding js_Number_def Let_def t using ne pre plus inf v by simp
  next
    case False
    then have "\<not> startsWith s ''-''" "s = body" by (simp_all add: neg_def body_def)
    with False show ?thesis unfolding js_Number_def Let_def t using ne pre plus inf v by simp
  qed
qed

lemma js_Number_print:
  assumes "reads fs x"
  shows "js_Number (num_str fs x) = x" "trim (num_str fs x) = num_str fs x"
  using js_Number_parse_number [of "num_str fs x" x] assms
  by (simp_all add: reads_def) (metis append_Nil2 number_end_delims(4))+

end
