(* ===== verification/Record_Filters.thy ===== *)
theory Record_Filters
  imports Json_Text Api_Endpoints
begin

text \<open>
  The filter toolbar of the record browser: the operator tables of
  \<^verbatim>\<open>ui/src/lib/filter-operators.ts\<close>, the enumerations of \<^verbatim>\<open>ui/src/lib/types/query.ts\<close>, and the
  draft, its updates and the condition editor of \<^verbatim>\<open>ui/src/components/browser/RecordFilters.tsx\<close>.

  The only values the toolbar writes into a condition are the strings and numbers of
  \<open>parseInputValue\<close> and \<open>null\<close>, so a condition holds an \<open>input_value\<close>; a field that is absent
  (\<open>undefined\<close>) is \<open>None\<close>. Compiling a regular expression (\<open>new RegExp\<close>) is the argument
  \<open>compile\<close>: \<open>None\<close> when the pattern compiles, else the message of the exception. Labels outside
  Latin-1 use the substitute character.
\<close>

section \<open>Operators (filter-operators.ts, types/query.ts)\<close>

datatype filter_operator =
    OpEq | OpNe | OpGt | OpGe | OpLt | OpLe | OpBetween | OpContains | OpNotContains | OpRegex
  | OpExists | OpNotExists | OpIsTrue | OpIsFalse | OpGeoWithin | OpGeoContains | OpPkPrefix | OpPkRegex

datatype pk_match_mode = PkExact | PkPrefix | PkRegex

datatype bin_data_type = BinInteger | BinFloat | BinString | BinBool | BinList | BinMap | BinGeo

fun operator_str :: "filter_operator \<Rightarrow> string" where
  "operator_str OpEq = ''eq''"
| "operator_str OpNe = ''ne''"
| "operator_str OpGt = ''gt''"
| "operator_str OpGe = ''ge''"
| "operator_str OpLt = ''lt''"
| "operator_str OpLe = ''le''"
| "operator_str OpBetween = ''between''"
| "operator_str OpContains = ''contains''"
| "operator_str OpNotContains = ''not_contains''"
| "operator_str OpRegex = ''regex''"
| "operator_str OpExists = ''exists''"
| "operator_str OpNotExists = ''not_exists''"
| "operator_str OpIsTrue = ''is_true''"
| "operator_str OpIsFalse = ''is_false''"
| "operator_str OpGeoWithin = ''geo_within''"
| "operator_str OpGeoContains = ''geo_contains''"
| "operator_str OpPkPrefix = ''pk_prefix''"
| "operator_str OpPkRegex = ''pk_regex''"

fun match_mode_str :: "pk_match_mode \<Rightarrow> string" where
  "match_mode_str PkExact = ''exact''"
| "match_mode_str PkPrefix = ''prefix''"
| "match_mode_str PkRegex = ''regex''"

fun bin_type_str :: "bin_data_type \<Rightarrow> string" where
  "bin_type_str BinInteger = ''integer''"
| "bin_type_str BinFloat = ''float''"
| "bin_type_str BinString = ''string''"
| "bin_type_str BinBool = ''bool''"
| "bin_type_str BinList = ''list''"
| "bin_type_str BinMap = ''map''"
| "bin_type_str BinGeo = ''geo''"

definition numeric_operators :: "(filter_operator \<times> string) list" where
  "numeric_operators =
     [(OpEq, ''=''), (OpNe, [u_sub]), (OpGt, ''>''), (OpGe, [u_sub]), (OpLt, ''<''), (OpLe, [u_sub]),
      (OpBetween, ''Between''), (OpExists, ''Exists''), (OpNotExists, ''Not Exists'')]"

fun FILTER_OPERATORS_BY_TYPE :: "bin_data_type \<Rightarrow> (filter_operator \<times> string) list" where
  "FILTER_OPERATORS_BY_TYPE BinInteger = numeric_operators"
| "FILTER_OPERATORS_BY_TYPE BinFloat = numeric_operators"
| "FILTER_OPERATORS_BY_TYPE BinString =
     [(OpEq, ''Equals''), (OpNe, ''Not Equals''), (OpContains, ''Contains''), (OpNotContains, ''Not Contains''),
      (OpRegex, ''Regex''), (OpExists, ''Exists''), (OpNotExists, ''Not Exists'')]"
| "FILTER_OPERATORS_BY_TYPE BinBool = [(OpIsTrue, ''Is True''), (OpIsFalse, ''Is False''), (OpExists, ''Exists'')]"
| "FILTER_OPERATORS_BY_TYPE BinGeo =
     [(OpGeoWithin, ''Within Region''), (OpGeoContains, ''Contains Point''), (OpExists, ''Exists'')]"
| "FILTER_OPERATORS_BY_TYPE BinList = [(OpExists, ''Exists''), (OpNotExists, ''Not Exists'')]"
| "FILTER_OPERATORS_BY_TYPE BinMap = [(OpExists, ''Exists''), (OpNotExists, ''Not Exists'')]"

definition NO_VALUE_OPERATORS :: "filter_operator list" where
  "NO_VALUE_OPERATORS = [OpExists, OpNotExists, OpIsTrue, OpIsFalse]"

definition DUAL_VALUE_OPERATORS :: "filter_operator list" where
  "DUAL_VALUE_OPERATORS = [OpBetween]"

definition operatorLabel :: "filter_operator \<Rightarrow> bin_data_type \<Rightarrow> string" where
  "operatorLabel op bt = nullish (map_of (FILTER_OPERATORS_BY_TYPE bt) op) (operator_str op)"

section \<open>The draft (RecordFilters.tsx)\<close>

datatype input_value = INull | IStr string | INum jsnum

datatype logic = LAnd | LOr

record draft_condition =
  dc_id :: string
  dc_bin :: string
  dc_operator :: filter_operator
  dc_binType :: bin_data_type
  dc_value :: "input_value option"
  dc_value2 :: "input_value option"

record filter_draft =
  d_pk :: string
  d_pkMatchMode :: pk_match_mode
  d_logic :: logic
  d_conditions :: "draft_condition list"

definition emptyFilterDraft :: filter_draft where
  "emptyFilterDraft = \<lparr>d_pk = [], d_pkMatchMode = PkExact, d_logic = LAnd, d_conditions = []\<rparr>"

definition draftHasFilters :: "filter_draft \<Rightarrow> bool" where
  "draftHasFilters d \<longleftrightarrow> length (d_conditions d) > 0 \<or> length (trim (d_pk d)) > 0"

fun input_json :: "input_value \<Rightarrow> json" where
  "input_json INull = JNull"
| "input_json (IStr s) = JStr s"
| "input_json (INum x) = JNum x"

fun logic_str :: "logic \<Rightarrow> string" where
  "logic_str LAnd = ''and''"
| "logic_str LOr = ''or''"

definition opt_member :: "string \<Rightarrow> input_value option \<Rightarrow> (string \<times> json) list" where
  \<comment> \<open>a member that is absent when the field is \<open>undefined\<close>\<close>
  "opt_member k v = (case v of None \<Rightarrow> [] | Some x \<Rightarrow> [(k, input_json x)])"

definition condition_json :: "draft_condition \<Rightarrow> json" where
  \<comment> \<open>\<open>({ id: _id, ...rest }) => rest\<close>\<close>
  "condition_json c =
     JObj ([(''bin'', JStr (dc_bin c)), (''operator'', JStr (operator_str (dc_operator c))),
            (''binType'', JStr (bin_type_str (dc_binType c)))] @
           opt_member ''value'' (dc_value c) @ opt_member ''value2'' (dc_value2 c))"

definition draftToFilterConditions :: "filter_draft \<Rightarrow> json option" where
  "draftToFilterConditions d =
     (if d_conditions d = [] then None
      else Some (JObj [(''logic'', JStr (logic_str (d_logic d))),
                       (''conditions'', JArr (map condition_json (d_conditions d)))]))"

definition validatePkDraft :: "(string \<Rightarrow> string option) \<Rightarrow> string \<Rightarrow> pk_match_mode \<Rightarrow> string option" where
  "validatePkDraft compile pk mode =
     (if mode = PkExact then None
      else if trim pk = [] then
        Some (if mode = PkPrefix then ''Enter a prefix to search.'' else ''Enter a regex pattern.'')
      else if mode = PkRegex then compile pk
      else None)"

section \<open>Toolbar operations (RecordFilters.tsx)\<close>

record filters_ui =
  pickerOpen :: bool
  editingId :: "string option"

record condition_update =
  cu_operator :: "filter_operator option"
  cu_value :: "input_value option"
  cu_value2 :: "input_value option"

definition updatePk :: "string \<Rightarrow> filter_draft \<Rightarrow> filter_draft" where
  "updatePk pk d = d\<lparr>d_pk := pk\<rparr>"

definition updatePkMatchMode :: "pk_match_mode \<Rightarrow> filter_draft \<Rightarrow> filter_draft" where
  "updatePkMatchMode m d = d\<lparr>d_pkMatchMode := m\<rparr>"

definition addCondition ::
  "string \<Rightarrow> string \<Rightarrow> bin_data_type \<Rightarrow> filter_draft \<times> filters_ui \<Rightarrow> filter_draft \<times> filters_ui" where
  \<comment> \<open>\<open>uuid\<close> is the fresh identifier\<close>
  "addCondition uuid binName binType s =
     (let operators = FILTER_OPERATORS_BY_TYPE binType;
          defaultOp = (case operators of [] \<Rightarrow> OpEq | o1 # _ \<Rightarrow> fst o1);
          cond = \<lparr>dc_id = uuid, dc_bin = binName, dc_operator = defaultOp, dc_binType = binType,
                   dc_value = None, dc_value2 = None\<rparr>
      in ((fst s)\<lparr>d_conditions := d_conditions (fst s) @ [cond]\<rparr>,
          (snd s)\<lparr>editingId := Some uuid, pickerOpen := False\<rparr>))"

definition apply_update :: "condition_update \<Rightarrow> draft_condition \<Rightarrow> draft_condition" where
  \<comment> \<open>\<open>{ ...c, ...updates }\<close>\<close>
  "apply_update u c =
     c\<lparr>dc_operator := nullish (cu_operator u) (dc_operator c),
       dc_value := (if cu_value u = None then dc_value c else cu_value u),
       dc_value2 := (if cu_value2 u = None then dc_value2 c else cu_value2 u)\<rparr>"

definition updateCondition :: "string \<Rightarrow> condition_update \<Rightarrow> filter_draft \<Rightarrow> filter_draft" where
  "updateCondition i u d =
     d\<lparr>d_conditions := map (\<lambda>c. if dc_id c = i then apply_update u c else c) (d_conditions d)\<rparr>"

definition removeCondition :: "string \<Rightarrow> filter_draft \<times> filters_ui \<Rightarrow> filter_draft \<times> filters_ui" where
  "removeCondition i s =
     ((fst s)\<lparr>d_conditions := filter (\<lambda>c. dc_id c \<noteq> i) (d_conditions (fst s))\<rparr>,
      if editingId (snd s) = Some i then (snd s)\<lparr>editingId := None\<rparr> else snd s)"

definition toggleLogic :: "filter_draft \<Rightarrow> filter_draft" where
  "toggleLogic d = d\<lparr>d_logic := (if d_logic d = LAnd then LOr else LAnd)\<rparr>"

definition enter_applies :: "(string \<Rightarrow> string option) \<Rightarrow> filter_draft \<Rightarrow> string \<Rightarrow> bool" where
  \<comment> \<open>\<open>handleApplyKey\<close>\<close>
  "enter_applies compile d key \<longleftrightarrow> key = ''Enter'' \<and> validatePkDraft compile (d_pk d) (d_pkMatchMode d) = None"

definition canApply :: "(string \<Rightarrow> string option) \<Rightarrow> bool \<Rightarrow> bool \<Rightarrow> filter_draft \<Rightarrow> bool" where
  "canApply compile loading dirty d \<longleftrightarrow>
     \<not> loading \<and> dirty \<and> validatePkDraft compile (d_pk d) (d_pkMatchMode d) = None"

definition picker_filtered :: "string \<Rightarrow> (string \<times> bin_data_type) list \<Rightarrow> (string \<times> bin_data_type) list" where
  \<comment> \<open>\<open>BinPicker\<close>\<close>
  "picker_filtered query bins =
     (if trim query = [] then bins
      else filter (\<lambda>b. str_includes (toLowerCase (fst b)) (toLowerCase query)) bins)"

section \<open>The condition editor (RecordFilters.tsx)\<close>

fun input_str :: "(rat \<Rightarrow> string) \<Rightarrow> input_value \<Rightarrow> string" where
  \<comment> \<open>\<open>String(v)\<close>\<close>
  "input_str fs INull = ''null''"
| "input_str fs (IStr s) = s"
| "input_str fs (INum x) = num_str fs x"

definition present :: "input_value option \<Rightarrow> bool" where
  \<comment> \<open>\<open>v != null\<close>\<close>
  "present v \<longleftrightarrow> v \<noteq> None \<and> v \<noteq> Some INull"

definition formatChipValue :: "(rat \<Rightarrow> string) \<Rightarrow> draft_condition \<Rightarrow> string" where
  "formatChipValue fs c =
     (if dc_operator c \<in> set NO_VALUE_OPERATORS then []
      else if dc_operator c = OpBetween \<and> present (dc_value c) \<and> present (dc_value2 c) then
        input_str fs (the (dc_value c)) @ '' ~ '' @ input_str fs (the (dc_value2 c))
      else if \<not> present (dc_value c) then [u_sub]
      else (let s = input_str fs (the (dc_value c))
            in if length s > 20 then take 20 s @ [u_sub] else s))"

definition parseInputValue :: "string \<Rightarrow> bin_data_type \<Rightarrow> input_value" where
  "parseInputValue raw bt =
     (if bt = BinInteger then (let n = parseInt10 raw in if isNaN n then IStr raw else INum n)
      else if bt = BinFloat then (let n = parseFloat raw in if isNaN n then IStr raw else INum n)
      else IStr raw)"

record condition_editor =
  ed_val :: string
  ed_val2 :: string

definition needsValue :: "draft_condition \<Rightarrow> bool" where
  "needsValue c \<longleftrightarrow> dc_operator c \<notin> set NO_VALUE_OPERATORS"

definition needsValue2 :: "draft_condition \<Rightarrow> bool" where
  "needsValue2 c \<longleftrightarrow> dc_operator c \<in> set DUAL_VALUE_OPERATORS"

definition isGeo :: "draft_condition \<Rightarrow> bool" where
  "isGeo c \<longleftrightarrow> dc_operator c = OpGeoWithin \<or> dc_operator c = OpGeoContains"

definition resync :: "(rat \<Rightarrow> string) \<Rightarrow> draft_condition \<Rightarrow> condition_editor" where
  \<comment> \<open>the local inputs after the effect that follows a change of the condition\<close>
  "resync fs c =
     \<lparr>ed_val = (if needsValue c \<and> present (dc_value c) then input_str fs (the (dc_value c)) else []),
      ed_val2 = (if needsValue2 c \<and> present (dc_value2 c) then input_str fs (the (dc_value2 c)) else [])\<rparr>"

definition selectOperator :: "filter_operator \<Rightarrow> condition_update" where
  "selectOperator op = \<lparr>cu_operator = Some op, cu_value = None, cu_value2 = None\<rparr>"

definition commit :: "draft_condition \<Rightarrow> condition_editor \<Rightarrow> condition_update" where
  "commit c e =
     \<lparr>cu_operator = None,
      cu_value = Some (if needsValue c then (if isGeo c then IStr (ed_val e) else parseInputValue (ed_val e) (dc_binType c))
                       else INull),
      cu_value2 = Some (if needsValue2 c then parseInputValue (ed_val2 e) (dc_binType c) else INull)\<rparr>"

section \<open>Properties\<close>

lemma operators_offered:
  "dc_operator c \<in> fst ` set (FILTER_OPERATORS_BY_TYPE bt) \<Longrightarrow>
     dc_operator c \<noteq> OpPkPrefix \<and> dc_operator c \<noteq> OpPkRegex \<and>
     (needsValue2 c \<longrightarrow> bt = BinInteger \<or> bt = BinFloat) \<and> (isGeo c \<longleftrightarrow> bt = BinGeo \<and> needsValue c)"
  by (cases bt)
    (auto simp: numeric_operators_def needsValue2_def DUAL_VALUE_OPERATORS_def needsValue_def NO_VALUE_OPERATORS_def isGeo_def)

lemma operators_distinct: "distinct (map fst (FILTER_OPERATORS_BY_TYPE bt))"
  by (cases bt) (simp_all add: numeric_operators_def)

text \<open>A draft is well formed when its identifiers are distinct and each operator is one its bin type offers.\<close>

definition offered :: "draft_condition \<Rightarrow> bool" where
  "offered c \<longleftrightarrow> dc_operator c \<in> fst ` set (FILTER_OPERATORS_BY_TYPE (dc_binType c))"

definition wf_draft :: "filter_draft \<Rightarrow> bool" where
  "wf_draft d \<longleftrightarrow> distinct (map dc_id (d_conditions d)) \<and> list_all offered (d_conditions d)"

lemma wf_draft_simple [simp]:
  "wf_draft emptyFilterDraft" "wf_draft (updatePk pk d) = wf_draft d"
  "wf_draft (updatePkMatchMode m d) = wf_draft d" "wf_draft (toggleLogic d) = wf_draft d"
  by (simp_all add: wf_draft_def emptyFilterDraft_def updatePk_def updatePkMatchMode_def toggleLogic_def)

lemma wf_draft_add:
  "wf_draft (fst s) \<Longrightarrow> uuid \<notin> dc_id ` set (d_conditions (fst s)) \<Longrightarrow> wf_draft (fst (addCondition uuid b bt s))"
  by (cases bt) (auto simp: wf_draft_def addCondition_def Let_def offered_def numeric_operators_def)

lemma wf_draft_remove: "wf_draft (fst s) \<Longrightarrow> wf_draft (fst (removeCondition i s))"
  by (auto simp: wf_draft_def removeCondition_def distinct_map list_all_iff inj_on_def)

lemma apply_update_keeps [simp]: "dc_id (apply_update u c) = dc_id c" "dc_binType (apply_update u c) = dc_binType c"
  by (simp_all add: apply_update_def)

lemma update_ids [simp]:
  "map dc_id (map (\<lambda>c. if dc_id c = i then apply_update u c else c) cs) = map dc_id cs"
  by (induction cs) simp_all

definition update_allowed :: "string \<Rightarrow> condition_update \<Rightarrow> filter_draft \<Rightarrow> bool" where
  \<comment> \<open>the operator select offers only the operators of the condition's bin type\<close>
  "update_allowed i u d \<longleftrightarrow>
     (\<forall>c \<in> set (d_conditions d). dc_id c = i \<longrightarrow>
        (\<forall>op. cu_operator u = Some op \<longrightarrow> op \<in> fst ` set (FILTER_OPERATORS_BY_TYPE (dc_binType c))))"

lemma wf_draft_update:
  assumes "wf_draft d" "update_allowed i u d"
  shows "wf_draft (updateCondition i u d)"
proof -
  have "offered (apply_update u c)" if "c \<in> set (d_conditions d)" "dc_id c = i" for c
    using assms that
    by (cases "cu_operator u") (auto simp: wf_draft_def list_all_iff offered_def apply_update_def update_allowed_def)
  then have "list_all offered (d_conditions (updateCondition i u d))"
    using assms(1) by (auto simp: updateCondition_def wf_draft_def list_all_iff)
  moreover have "map dc_id (d_conditions (updateCondition i u d)) = map dc_id (d_conditions d)"
    using update_ids [of i u "d_conditions d"] by (simp add: updateCondition_def del: update_ids)
  ultimately show ?thesis using assms(1) by (simp only: wf_draft_def)
qed

lemma parseInputValue_not_null [simp]: "parseInputValue raw bt \<noteq> INull"
  by (simp add: parseInputValue_def Let_def)

definition committed :: "draft_condition \<Rightarrow> condition_editor \<Rightarrow> draft_condition" where
  "committed c e = apply_update (commit c e) c"

lemma committed_simps [simp]:
  "dc_operator (committed c e) = dc_operator c" "dc_binType (committed c e) = dc_binType c"
  "needsValue (committed c e) = needsValue c" "needsValue2 (committed c e) = needsValue2 c"
  "isGeo (committed c e) = isGeo c"
  by (simp_all add: committed_def apply_update_def commit_def nullish_def needsValue_def needsValue2_def isGeo_def)

lemma committed_values:
  "dc_value (committed c e) = cu_value (commit c e)" "dc_value2 (committed c e) = cu_value2 (commit c e)"
  by (simp_all add: committed_def apply_update_def commit_def)

text \<open>
  What the condition editor's Apply writes fits the operator: the condition keeps its identity, bin
  and operator, it has a first value exactly when the operator takes one, and a second value exactly
  when the operator takes two; the values of a hidden input are cleared.
\<close>

theorem commit_fits_operator:
  "present (dc_value (committed c e)) = needsValue c \<and> present (dc_value2 (committed c e)) = needsValue2 c \<and>
   dc_id (committed c e) = dc_id c \<and> dc_bin (committed c e) = dc_bin c \<and> dc_operator (committed c e) = dc_operator c"
  by (simp add: committed_values commit_def present_def)
    (simp add: committed_def apply_update_def)

text \<open>Switching the operator alone does not clear the values: they stay in the condition that is sent.\<close>

lemma selectOperator_keeps_values:
  "dc_value (apply_update (selectOperator op) c) = dc_value c \<and> dc_value2 (apply_update (selectOperator op) c) = dc_value2 c"
  by (simp add: apply_update_def selectOperator_def)

lemma num_small_int: "x = of_int i \<Longrightarrow> \<bar>x :: rat\<bar> < 2 ^ 53 \<Longrightarrow> \<bar>i\<bar> < 2 ^ 53"
proof -
  assume "x = of_int i" "\<bar>x :: rat\<bar> < 2 ^ 53"
  then have "(of_int \<bar>i\<bar> :: rat) < of_int (2 ^ 53)" by simp
  then show "\<bar>i\<bar> < 2 ^ 53" by (simp only: of_int_less_iff)
qed

definition exact_input :: "input_value \<Rightarrow> bool" where
  \<comment> \<open>not a number of absolute value \<open>2 ^ 53\<close> or more\<close>
  "exact_input v = (case v of INum (Num x) \<Rightarrow> \<bar>x\<bar> < 2 ^ 53 | INum y \<Rightarrow> False | _ \<Rightarrow> True)"

lemma parseInt10_Num: "parseInt10 s = Num x \<Longrightarrow> \<bar>x\<bar> < 2 ^ 53 \<Longrightarrow> \<exists>i. x = of_int i \<and> \<bar>i\<bar> < 2 ^ 53"
  using parseInt10_integral [of s x] num_small_int by blast

lemma parseInputValue_again:
  assumes "bt \<noteq> BinFloat" "exact_input (parseInputValue raw bt)"
  shows "parseInputValue (input_str fs (parseInputValue raw bt)) bt = parseInputValue raw bt"
proof (cases "bt = BinInteger")
  case True
  show ?thesis
  proof (cases "parseInt10 raw")
    case NaN
    with True show ?thesis by (simp add: parseInputValue_def Let_def)
  next
    case (Infinite s)
    with True assms show ?thesis by (simp add: parseInputValue_def exact_input_def)
  next
    case (Num x)
    with True assms have "\<bar>x\<bar> < 2 ^ 53" by (simp add: parseInputValue_def exact_input_def)
    then obtain i where "x = of_int i" "\<bar>i\<bar> < 2 ^ 53" using parseInt10_Num Num by blast
    then have "num_str fs (Num x) = int_str i" "parseInt10 (int_str i) = Num x"
      using num_str_inum [of i fs] by (simp_all del: num_str.simps)
    with True Num show ?thesis by (simp add: parseInputValue_def Let_def del: num_str.simps)
  qed
next
  case False
  with assms show ?thesis by (simp add: parseInputValue_def)
qed

lemma present_value:
  "needsValue c \<Longrightarrow> ed_val (resync fs (committed c e)) = input_str fs (the (cu_value (commit c e)))"
  "needsValue2 c \<Longrightarrow> ed_val2 (resync fs (committed c e)) = input_str fs (the (cu_value2 (commit c e)))"
  by (simp_all add: resync_def committed_values present_def commit_def)

text \<open>
  opening a condition again and applying it without a change keeps it. The editor shows the values
  as text and reads the text back; for every bin type but floats, whose printing is the engine's, and
  for integers below \<open>2 ^ 53\<close>, what is read back is what was stored, whatever was typed the first
  time (text that is no number included).
\<close>

theorem reapply_keeps_condition:
  assumes "dc_binType c \<noteq> BinFloat"
    and "list_all exact_input [the (dc_value (committed c e)), the (dc_value2 (committed c e))]"
  shows "committed (committed c e) (resync fs (committed c e)) = committed c e"
proof -
  have again: "parseInputValue (input_str fs v) (dc_binType c) = v" if "v = parseInputValue raw (dc_binType c)" "exact_input v" for v raw
    using parseInputValue_again assms(1) that by simp
  have v: "cu_value (commit (committed c e) (resync fs (committed c e))) = cu_value (commit c e)"
    using assms(2) present_value(1) [of c fs e] again [OF refl]
    by (auto simp: commit_def committed_values)
  have v2: "cu_value2 (commit (committed c e) (resync fs (committed c e))) = cu_value2 (commit c e)"
    using assms(2) present_value(2) [of c fs e] again [OF refl]
    by (auto simp: commit_def committed_values)
  show ?thesis
    by (rule draft_condition.equality)
      (simp_all only: committed_values committed_simps v v2, simp_all add: committed_def apply_update_def)
qed

definition demo_condition :: draft_condition where
  "demo_condition = \<lparr>dc_id = ''1'', dc_bin = ''age'', dc_operator = OpBetween, dc_binType = BinInteger,
     dc_value = None, dc_value2 = None\<rparr>"

theorem reapply_keeps_condition_witness:
  "committed (committed demo_condition \<lparr>ed_val = ''12abc'', ed_val2 = ''x''\<rparr>)
      (resync (\<lambda>x. []) (committed demo_condition \<lparr>ed_val = ''12abc'', ed_val2 = ''x''\<rparr>)) =
    committed demo_condition \<lparr>ed_val = ''12abc'', ed_val2 = ''x''\<rparr>"
  by (rule reapply_keeps_condition)
    (use num_of_int [of 12] in \<open>simp_all add: demo_condition_def committed_values commit_def needsValue_def needsValue2_def isGeo_def
      NO_VALUE_OPERATORS_def DUAL_VALUE_OPERATORS_def parseInputValue_def parseInt10_def parse_decimal_def
      exact_input_def trimStart_def is_ws_def is_digit_def startsWith_def digits_val_def digit_val_def\<close>)

end
