(* ===== verification/Latest_Load.thy ===== *)
theory Latest_Load
  imports Prelude
begin

text \<open>
  The contract of a guarded load. Several pages and hooks number their requests and let an answer
  change the state only when it belongs to the newest request (\<^verbatim>\<open>loadSeqRef\<close>,
  \<^verbatim>\<open>fetchSeqRef\<close>, \<^verbatim>\<open>cancelled\<close> flags). The locale states what such a component promises and
  derives, once, that the newest request decides what is shown whatever order the answers take.
\<close>

datatype ('a, 'r) load_event =
    Load 'a \<comment> \<open>a request is sent\<close>
  | Settled nat 'r \<comment> \<open>the answer to the request of that number arrives\<close>

fun load_run :: "('a \<Rightarrow> 's \<Rightarrow> 's) \<Rightarrow> (nat \<Rightarrow> 'r \<Rightarrow> 's \<Rightarrow> 's) \<Rightarrow> ('a, 'r) load_event list \<Rightarrow> 's \<Rightarrow> 's" where
  "load_run start settle [] s = s"
| "load_run start settle (Load a # es) s = load_run start settle es (start a s)"
| "load_run start settle (Settled n r # es) s = load_run start settle es (settle n r s)"

fun loads :: "('a, 'r) load_event list \<Rightarrow> 'a list" where
  "loads [] = []"
| "loads (Load a # es) = a # loads es"
| "loads (Settled n r # es) = loads es"

fun answers :: "nat \<Rightarrow> ('a, 'r) load_event list \<Rightarrow> 'r list" where
  "answers n [] = []"
| "answers n (Load a # es) = answers n es"
| "answers n (Settled m r # es) = (if m = n then r # answers n es else answers n es)"

lemma load_run_append [simp]:
  "load_run start settle (es @ fs) s = load_run start settle fs (load_run start settle es s)"
  by (induction es arbitrary: s rule: loads.induct) simp_all

locale latest_load =
  fixes seqno :: "'s \<Rightarrow> nat"
    and start :: "'a \<Rightarrow> 's \<Rightarrow> 's"
    and settle :: "nat \<Rightarrow> 'r \<Rightarrow> 's \<Rightarrow> 's"
  assumes seq_start: "seqno (start a s) = Suc (seqno s)"
    and seq_settle: "seqno (settle n r s) = seqno s"
    and stale: "n \<noteq> seqno s \<Longrightarrow> settle n r s = s"
begin

lemma seqno_run: "seqno (load_run start settle es s) = seqno s + length (loads es)"
  by (induction es arbitrary: s rule: loads.induct) (simp_all add: seq_start seq_settle)

lemma stale_answers:
  "loads es = [] \<Longrightarrow> load_run start settle es s = fold (settle (seqno s)) (answers (seqno s) es) s"
  by (induction es arbitrary: s rule: loads.induct) (auto simp: stale seq_settle)

lemma newest_decides:
  assumes "loads es = []" and "n = Suc (seqno s + length (loads before))" and "answers n es = [r]"
  shows "load_run start settle (before @ Load a # es) s = settle n r (start a (load_run start settle before s))"
  using assms by (simp add: stale_answers seq_start seqno_run)

lemma newest_pending:
  assumes "loads es = []" and "answers (Suc (seqno s + length (loads before))) es = []"
  shows "load_run start settle (before @ Load a # es) s = start a (load_run start settle before s)"
  using assms by (simp add: stale_answers seq_start seqno_run)

end

end
