(* ===== verification/Record_Browser.thy ===== *)
theory Record_Browser
  imports Record_Filters Latest_Load
begin

text \<open>
  The record browser page, \<^verbatim>\<open>ui/src/app/(main)/clusters/[clusterId]/sets/[namespace]/[set]/page.tsx\<close>:
  its formatting helpers, the state of the page, and its handlers.

  The page is a record of its React state and its \<open>fetchSeqRef\<close>. An asynchronous call is split at its
  \<open>await\<close>: the calls that are still unanswered are kept in the lists \<open>fetches\<close> and \<open>note_loads\<close>,
  so that answers may arrive in any order, late, or never. \<open>localeCompare\<close> is the argument \<open>cmp\<close>.
\<close>

section \<open>Formatting\<close>

definition TTL_NO_EXPIRY :: int where
  "TTL_NO_EXPIRY = 4294967295"

definition PAGE_SIZE_OPTIONS :: "nat list" where
  "PAGE_SIZE_OPTIONS = [25, 50, 100]"

definition DEFAULT_PAGE_SIZE :: nat where
  "DEFAULT_PAGE_SIZE = 50"

fun num_div :: "jsnum \<Rightarrow> rat \<Rightarrow> jsnum" where
  \<comment> \<open>division by a positive constant\<close>
  "num_div (Num x) d = num_of_rat (x / d)"
| "num_div y d = y"

fun toFixed1 :: "(rat \<Rightarrow> string) \<Rightarrow> jsnum \<Rightarrow> string" where
  \<comment> \<open>\<open>x.toFixed(1)\<close>: the larger of two equally close tenths\<close>
  "toFixed1 fs (Num x) =
     (if \<bar>x\<bar> \<ge> 10 ^ 21 then num_str fs (Num x)
      else (let n = nat \<lfloor>10 * \<bar>x\<bar> + 1 / 2\<rfloor>
            in (if x < 0 then ''-'' else []) @ nat_str (n div 10) @ ''.'' @ nat_str (n mod 10)))"
| "toFixed1 fs y = num_str fs y"

definition formatRowCount :: "(rat \<Rightarrow> string) \<Rightarrow> jsnum \<Rightarrow> string" where
  "formatRowCount fs n =
     (if num_le (inum 1000000) n then toFixed1 fs (num_div n 1000000) @ ''M''
      else if num_le (inum 1000) n then toFixed1 fs (num_div n 1000) @ ''K''
      else num_str fs n)"

definition formatTotal :: "(rat \<Rightarrow> string) \<Rightarrow> jsnum option \<Rightarrow> bool \<Rightarrow> jsnum \<Rightarrow> string" where
  "formatTotal fs tot estimated loaded =
     (case tot of
        None \<Rightarrow> formatRowCount fs loaded @ ''+''
      | Some t \<Rightarrow> (if estimated then ''~'' else []) @ formatRowCount fs t)"

definition formatTtl :: "(rat \<Rightarrow> string) \<Rightarrow> jsnum \<Rightarrow> string" where
  "formatTtl fs ttl =
     (if \<not> isFinite ttl \<or> ttl = inum TTL_NO_EXPIRY \<or> num_le ttl (inum 0) then ''never''
      else if num_le (inum 86400) ttl then num_str fs (Math_round (num_div ttl 86400)) @ ''d''
      else if num_le (inum 3600) ttl then num_str fs (Math_round (num_div ttl 3600)) @ ''h''
      else if num_le (inum 60) ttl then num_str fs (Math_round (num_div ttl 60)) @ ''m''
      else num_str fs ttl @ ''s'')"

datatype bin_kind = KString | KInteger | KDouble | KBool | KList | KMap | KGeojson | KNull

definition detectBinKind :: "json option \<Rightarrow> string \<Rightarrow> bin_kind" where
  "detectBinKind v name =
     (if js_nullish v then KNull
      else if str_includes (toLowerCase name) ''geojson'' \<and> (case the v of JStr _ \<Rightarrow> True | _ \<Rightarrow> False) then KGeojson
      else (case the v of
              JArr _ \<Rightarrow> KList
            | JObj _ \<Rightarrow> KMap
            | JBool _ \<Rightarrow> KBool
            | JNum n \<Rightarrow> (if isInteger n then KInteger else KDouble)
            | JStr s \<Rightarrow> (if startsWith s (''{'' @ [CHR 0x22] @ ''type'' @ [CHR 0x22]) \<and> str_includes s ''coordinates''
                         then KGeojson else KString)
            | JNull \<Rightarrow> KNull))"

datatype rendered = RNull | RBool string | RNumber string | RGeo string | RColl bin_kind string | RText string

definition ellipsis :: "nat \<Rightarrow> string \<Rightarrow> string" where
  "ellipsis n s = (if length s > n then take n s @ [u_sub] else s)"

definition renderBin :: "(rat \<Rightarrow> string) \<Rightarrow> json option \<Rightarrow> string \<Rightarrow> rendered" where
  \<comment> \<open>the text of the cell; the markup is left out\<close>
  "renderBin fs v name =
     (case (detectBinKind v name, v) of
        (KBool, Some (JBool b)) \<Rightarrow> RBool (if b then ''true'' else ''false'')
      | (KInteger, Some (JNum n)) \<Rightarrow> RNumber (num_str fs n)
      | (KDouble, Some (JNum n)) \<Rightarrow> RNumber (num_str fs n)
      | (KGeojson, Some (JStr s)) \<Rightarrow> RGeo (ellipsis 32 s)
      | (KList, Some j) \<Rightarrow> RColl KList (ellipsis 36 (stringify fs j))
      | (KMap, Some j) \<Rightarrow> RColl KMap (ellipsis 36 (stringify fs j))
      | (KString, Some (JStr s)) \<Rightarrow> RText s
      | _ \<Rightarrow> RNull)"

section \<open>Filterable bins and columns\<close>

datatype index_type = IxNumeric | IxString | IxGeo

datatype index_state = IxReady | IxBuilding | IxError

record secondary_index =
  ix_name :: string
  ix_namespace :: string
  ix_set :: string
  ix_bin :: string
  ix_type :: index_type
  ix_state :: index_state

definition indexTypeToBinDataType :: "secondary_index \<Rightarrow> bin_data_type" where
  "indexTypeToBinDataType ix =
     (if ix_type ix = IxNumeric then BinInteger else if ix_type ix = IxGeo then BinGeo else BinString)"

definition usable_index :: "string \<Rightarrow> string \<Rightarrow> secondary_index \<Rightarrow> bool" where
  "usable_index namespace st ix \<longleftrightarrow> ix_namespace ix = namespace \<and> ix_set ix = st \<and> ix_state ix = IxReady"

definition availableBins ::
  "(string \<Rightarrow> string \<Rightarrow> int) \<Rightarrow> string \<Rightarrow> string \<Rightarrow> secondary_index list \<Rightarrow> (string \<times> bin_data_type) list" where
  "availableBins cmp namespace st indexes =
     (let byBin = fold (\<lambda>ix m. if usable_index namespace st ix then obj_set (ix_bin ix) ix m else m) indexes []
      in map (\<lambda>(name, ix). (name, indexTypeToBinDataType ix)) (sort_by (\<lambda>a b. cmp (fst a) (fst b)) byBin))"

fun code_unit_cmp :: "string \<Rightarrow> string \<Rightarrow> int" where
  \<comment> \<open>the default order of \<open>Array.prototype.sort\<close>\<close>
  "code_unit_cmp [] [] = 0"
| "code_unit_cmp [] (c # s) = -1"
| "code_unit_cmp (c # s) [] = 1"
| "code_unit_cmp (c # s) (d # t) = (if code c < code d then -1 else if code d < code c then 1 else code_unit_cmp s t)"

definition add_name :: "string \<Rightarrow> string list \<Rightarrow> string list" where
  "add_name k names = (if k \<in> set names then names else names @ [k])"

definition binColumns :: "(string, json) jsmap list option \<Rightarrow> string list" where
  \<comment> \<open>of the \<open>bins\<close> of the records\<close>
  "binColumns rs = sort_by code_unit_cmp (fold (\<lambda>bins. fold add_name (obj_keys bins)) (nullish rs []) [])"

section \<open>Drafts\<close>

definition strict_eq :: "input_value option \<Rightarrow> input_value option \<Rightarrow> bool" where
  \<comment> \<open>\<open>x === y\<close>\<close>
  "strict_eq x y \<longleftrightarrow> x = y \<and> x \<noteq> Some (INum NaN)"

definition condition_differs :: "draft_condition \<Rightarrow> draft_condition \<Rightarrow> bool" where
  "condition_differs x y \<longleftrightarrow>
     dc_bin x \<noteq> dc_bin y \<or> dc_operator x \<noteq> dc_operator y \<or> dc_binType x \<noteq> dc_binType y \<or>
     \<not> strict_eq (dc_value x) (dc_value y) \<or> \<not> strict_eq (dc_value2 x) (dc_value2 y)"

fun no_difference :: "draft_condition list \<Rightarrow> draft_condition list \<Rightarrow> bool" where
  \<comment> \<open>the loop over the indices of \<open>a.conditions\<close>\<close>
  "no_difference (x # xs) (y # ys) = (if condition_differs x y then False else no_difference xs ys)"
| "no_difference _ _ = True"

definition draftEquals :: "filter_draft \<Rightarrow> filter_draft \<Rightarrow> bool" where
  "draftEquals a b =
     (if d_pk a \<noteq> d_pk b then False
      else if d_pkMatchMode a \<noteq> d_pkMatchMode b then False
      else if d_logic a \<noteq> d_logic b then False
      else if length (d_conditions a) \<noteq> length (d_conditions b) then False
      else no_difference (d_conditions a) (d_conditions b))"

section \<open>The page\<close>

record route =
  r_cluster :: string
  r_namespace :: string
  r_set :: string

record query_meta =
  qm_total :: "jsnum option" \<comment> \<open>\<open>None\<close>: unknown\<close>
  qm_totalEstimated :: bool
  qm_hasMore :: bool
  qm_executionTimeMs :: jsnum

definition EMPTY_META :: query_meta where
  "EMPTY_META = \<lparr>qm_total = None, qm_totalEstimated = False, qm_hasMore = False, qm_executionTimeMs = inum 0\<rparr>"

record filtered_response =
  fr_records :: "json list"
  fr_meta :: query_meta

record set_note =
  sn_setName :: string
  sn_note :: string

record browser =
  b_route :: route
  b_records :: "json list option"
  b_loading :: bool
  b_error :: "string option"
  b_pageSize :: nat
  b_meta :: query_meta
  b_draft :: filter_draft
  b_applied :: filter_draft
  b_setNote :: "string option"
  fetchSeq :: nat
  fetches :: "(nat \<times> string \<times> json) list" \<comment> \<open>unanswered: number, cluster and body\<close>
  note_loads :: "route list" \<comment> \<open>unanswered reloads of the set note\<close>

definition filter_body :: "route \<Rightarrow> filter_draft \<Rightarrow> nat \<Rightarrow> json" where
  "filter_body r target n =
     (let pk = trim (d_pk target) in
      JObj [(''namespace'', JStr (r_namespace r)), (''set'', JStr (r_set r)), (''pageSize'', JNum (inum (int n))),
            (''pkPattern'', if pk = [] then JNull else JStr pk),
            (''pkMatchMode'', JStr (match_mode_str (d_pkMatchMode target))),
            (''filters'', nullish (draftToFilterConditions target) JNull)])"

definition runFetch :: "filter_draft \<Rightarrow> nat \<Rightarrow> browser \<Rightarrow> browser" where
  \<comment> \<open>up to the \<open>await\<close>\<close>
  "runFetch target n b =
     b\<lparr>fetchSeq := Suc (fetchSeq b), b_loading := True, b_error := None,
       fetches := fetches b @ [(Suc (fetchSeq b), r_cluster (b_route b), filter_body (b_route b) target n)]\<rparr>"

definition error_text :: "(rat \<Rightarrow> string) \<Rightarrow> js_error \<Rightarrow> string" where
  \<comment> \<open>\<open>mapApiError(err).message\<close>\<close>
  "error_text fs e =
     (case mapApiError fs e of
        SecurityDisabled m \<Rightarrow> m | PermissionDenied m \<Rightarrow> m | NotFound m \<Rightarrow> m | Conflict m \<Rightarrow> m
      | Validation m \<Rightarrow> m | Unreachable m \<Rightarrow> m | Timeout m \<Rightarrow> m | Generic m \<Rightarrow> m)"

definition fetch_answer :: "(rat \<Rightarrow> string) \<Rightarrow> nat \<Rightarrow> js_error + filtered_response \<Rightarrow> browser \<Rightarrow> browser" where
  \<comment> \<open>after the \<open>await\<close>; \<open>seq\<close> is the number of the call\<close>
  "fetch_answer fs seq r b =
     (if seq \<noteq> fetchSeq b then b
      else (case r of
              Inr resp \<Rightarrow> b\<lparr>b_records := Some (fr_records resp), b_meta := fr_meta resp, b_loading := False\<rparr>
            | Inl e \<Rightarrow> b\<lparr>b_error := Some (error_text fs e), b_loading := False\<rparr>))"

definition reloadSetNote :: "route \<Rightarrow> browser \<Rightarrow> browser" where
  \<comment> \<open>up to the \<open>await\<close>; the callback is the one of the render for the given route\<close>
  "reloadSetNote r b = b\<lparr>note_loads := note_loads b @ [r]\<rparr>"

definition note_answer :: "route \<Rightarrow> js_error + set_note list \<Rightarrow> browser \<Rightarrow> browser" where
  \<comment> \<open>after the \<open>await\<close> of a reload that was started for the given route\<close>
  "note_answer r res b =
     (case res of
        Inl e \<Rightarrow> b
      | Inr notes \<Rightarrow> b\<lparr>b_setNote := map_option sn_note (find (\<lambda>n. sn_setName n = r_set r) notes)\<rparr>)"

definition resetForRoute :: "route \<Rightarrow> browser \<Rightarrow> browser" where
  \<comment> \<open>the effect that runs on mount and when the route changes\<close>
  "resetForRoute r b =
     (let blank = emptyFilterDraft;
          b1 = b\<lparr>b_route := r, b_draft := blank, b_applied := blank, b_records := None, b_meta := EMPTY_META, b_setNote := None\<rparr>
      in reloadSetNote r (runFetch blank (b_pageSize b) b1))"

definition openBrowser :: "route \<Rightarrow> browser" where
  "openBrowser r =
     resetForRoute r
       \<lparr>b_route = r, b_records = None, b_loading = True, b_error = None, b_pageSize = DEFAULT_PAGE_SIZE,
        b_meta = EMPTY_META, b_draft = emptyFilterDraft, b_applied = emptyFilterDraft, b_setNote = None,
        fetchSeq = 0, fetches = [], note_loads = []\<rparr>"

definition dirty :: "browser \<Rightarrow> bool" where
  "dirty b \<longleftrightarrow> \<not> draftEquals (b_draft b) (b_applied b)"

definition handleApply :: "browser \<Rightarrow> browser" where
  "handleApply b = runFetch (b_draft b) (b_pageSize b) (b\<lparr>b_applied := b_draft b\<rparr>)"

definition handleClear :: "browser \<Rightarrow> browser" where
  "handleClear b =
     runFetch emptyFilterDraft (b_pageSize b) (b\<lparr>b_draft := emptyFilterDraft, b_applied := emptyFilterDraft\<rparr>)"

definition handleRefresh :: "browser \<Rightarrow> browser" where
  "handleRefresh b = runFetch (b_applied b) (b_pageSize b) b"

definition handlePageSize :: "nat \<Rightarrow> browser \<Rightarrow> browser" where
  "handlePageSize n b = runFetch (b_applied b) n (b\<lparr>b_pageSize := n\<rparr>)"

text \<open>What can happen to the page, with the conditions its buttons put on it.\<close>

datatype browser_input =
    Navigate route
  | EditDraft filter_draft
  | PressEnter
  | ClickSearch
  | ClickClear
  | ClickRefresh
  | PickPageSize nat
  | SavedNote route \<comment> \<open>the note of that route was saved or deleted, and its \<open>reloadSetNote\<close> is called\<close>
  | FetchAnswer nat "js_error + filtered_response" \<comment> \<open>of the unanswered call at this index\<close>
  | NoteAnswer nat "js_error + set_note list"

definition remove_nth :: "nat \<Rightarrow> 'a list \<Rightarrow> 'a list" where
  "remove_nth i xs = take i xs @ drop (Suc i) xs"

fun browser_step ::
  "(rat \<Rightarrow> string) \<Rightarrow> (string \<Rightarrow> string option) \<Rightarrow> browser_input \<Rightarrow> browser \<Rightarrow> browser option" where
  \<comment> \<open>\<open>None\<close>: the input is not possible in this state\<close>
  "browser_step fs compile (Navigate r) b = Some (resetForRoute r b)"
| "browser_step fs compile (EditDraft d) b = Some (b\<lparr>b_draft := d\<rparr>)"
| "browser_step fs compile PressEnter b =
     Some (if enter_applies compile (b_draft b) ''Enter'' then handleApply b else b)"
| "browser_step fs compile ClickSearch b =
     (if canApply compile (b_loading b) (dirty b) (b_draft b) then Some (handleApply b) else None)"
| "browser_step fs compile ClickClear b = (if draftHasFilters (b_draft b) then Some (handleClear b) else None)"
| "browser_step fs compile ClickRefresh b = (if b_loading b then None else Some (handleRefresh b))"
| "browser_step fs compile (PickPageSize n) b =
     (if b_loading b \<or> n \<notin> set PAGE_SIZE_OPTIONS then None else Some (handlePageSize n b))"
| "browser_step fs compile (SavedNote r) b = Some (reloadSetNote r b)"
| "browser_step fs compile (FetchAnswer i r) b =
     (if i < length (fetches b)
      then Some (fetch_answer fs (fst (fetches b ! i)) r (b\<lparr>fetches := remove_nth i (fetches b)\<rparr>)) else None)"
| "browser_step fs compile (NoteAnswer i r) b =
     (if i < length (note_loads b)
      then Some (note_answer (note_loads b ! i) r (b\<lparr>note_loads := remove_nth i (note_loads b)\<rparr>)) else None)"

fun browser_run ::
  "(rat \<Rightarrow> string) \<Rightarrow> (string \<Rightarrow> string option) \<Rightarrow> browser_input list \<Rightarrow> browser \<Rightarrow> browser option" where
  "browser_run fs compile [] b = Some b"
| "browser_run fs compile (e # es) b =
     (case browser_step fs compile e b of None \<Rightarrow> None | Some b' \<Rightarrow> browser_run fs compile es b')"

section \<open>Properties\<close>

subsection \<open>Drafts\<close>

definition sent_part :: "draft_condition \<Rightarrow> string \<times> filter_operator \<times> bin_data_type \<times> input_value option \<times> input_value option" where
  \<comment> \<open>a condition without its identifier\<close>
  "sent_part c = (dc_bin c, dc_operator c, dc_binType c, dc_value c, dc_value2 c)"

definition nan_free :: "filter_draft \<Rightarrow> bool" where
  "nan_free d \<longleftrightarrow> (\<forall>c \<in> set (d_conditions d). dc_value c \<noteq> Some (INum NaN) \<and> dc_value2 c \<noteq> Some (INum NaN))"

lemma parseInputValue_not_NaN: "parseInputValue raw bt \<noteq> INum NaN"
  by (auto simp: parseInputValue_def Let_def)

lemma differs_iff:
  "dc_value x \<noteq> Some (INum NaN) \<Longrightarrow> dc_value2 x \<noteq> Some (INum NaN) \<Longrightarrow>
     condition_differs x y \<longleftrightarrow> sent_part x \<noteq> sent_part y"
  by (auto simp: condition_differs_def strict_eq_def sent_part_def)

lemma no_difference_iff:
  assumes "length xs = length ys"
    and "\<forall>c \<in> set xs. dc_value c \<noteq> Some (INum NaN) \<and> dc_value2 c \<noteq> Some (INum NaN)"
  shows "no_difference xs ys \<longleftrightarrow> map sent_part xs = map sent_part ys"
  using assms
proof (induction xs ys rule: list_induct2)
  case (Cons x xs y ys)
  then show ?case using differs_iff [of x y] by auto
qed simp

text \<open>
  The comparison behind the Search button is the equality it stands for. On drafts without
  \<open>NaN\<close>, which the toolbar never produces, \<open>draftEquals\<close> holds exactly when the two drafts
  agree in everything but the identifiers of their conditions.
\<close>

theorem draftEquals_is_equality:
  assumes "nan_free a"
  shows "draftEquals a b \<longleftrightarrow>
    d_pk a = d_pk b \<and> d_pkMatchMode a = d_pkMatchMode b \<and> d_logic a = d_logic b \<and>
    map sent_part (d_conditions a) = map sent_part (d_conditions b)"
proof (cases "length (d_conditions a) = length (d_conditions b)")
  case True
  then show ?thesis using no_difference_iff [OF True] assms by (simp add: draftEquals_def nan_free_def)
next
  case False
  then have "map sent_part (d_conditions a) \<noteq> map sent_part (d_conditions b)" by (metis length_map)
  with False show ?thesis by (simp add: draftEquals_def)
qed

definition demo_draft :: filter_draft where
  "demo_draft = emptyFilterDraft\<lparr>d_pk := ''u'', d_pkMatchMode := PkPrefix, d_conditions := [demo_condition]\<rparr>"

theorem draftEquals_is_equality_witness:
  "draftEquals demo_draft emptyFilterDraft \<longleftrightarrow>
    d_pk demo_draft = d_pk emptyFilterDraft \<and> d_pkMatchMode demo_draft = d_pkMatchMode emptyFilterDraft \<and>
    d_logic demo_draft = d_logic emptyFilterDraft \<and>
    map sent_part (d_conditions demo_draft) = map sent_part (d_conditions emptyFilterDraft)"
  by (rule draftEquals_is_equality) (simp add: nan_free_def demo_draft_def emptyFilterDraft_def demo_condition_def)

lemma condition_json_sent: "sent_part x = sent_part y \<Longrightarrow> condition_json x = condition_json y"
  by (simp add: sent_part_def condition_json_def)

lemma sent_conditions: "map sent_part xs = map sent_part ys \<Longrightarrow> map condition_json xs = map condition_json ys"
proof (induction xs ys rule: list_induct2')
  case (4 x xs y ys)
  then show ?case using condition_json_sent [of x y] by simp
qed simp_all

lemma no_difference_sent: "length xs = length ys \<Longrightarrow> no_difference xs ys \<Longrightarrow> map sent_part xs = map sent_part ys"
proof (induction xs ys rule: list_induct2)
  case (Cons x xs y ys)
  then show ?case by (auto simp: condition_differs_def strict_eq_def sent_part_def split: if_splits)
qed simp

text \<open>When the Search button is disabled for want of a change, applying would send the same request.\<close>

lemma clean_draft_same_body:
  assumes "draftEquals a b"
  shows "filter_body r a n = filter_body r b n"
proof -
  from assms have d: "d_pk a = d_pk b" "d_pkMatchMode a = d_pkMatchMode b" "d_logic a = d_logic b"
    and l: "length (d_conditions a) = length (d_conditions b)" and nd: "no_difference (d_conditions a) (d_conditions b)"
    by (simp_all add: draftEquals_def split: if_splits)
  have "map condition_json (d_conditions a) = map condition_json (d_conditions b)"
    by (rule sent_conditions [OF no_difference_sent [OF l nd]])
  moreover have "d_conditions a = [] \<longleftrightarrow> d_conditions b = []" using l by auto
  ultimately show ?thesis by (simp add: filter_body_def draftToFilterConditions_def d)
qed

subsection \<open>Rows, requests and notes\<close>

text \<open>Record queries are guarded loads: only the answer to the newest query changes the page.\<close>

interpretation record_query: latest_load fetchSeq "\<lambda>(target, n). runFetch target n" "fetch_answer fs" for fs
  by unfold_locales (auto simp: runFetch_def fetch_answer_def split: sum.splits)

lemma newest_query_shown:
  assumes "loads es = []" "answers (Suc (fetchSeq b + length (loads before))) es = [Inr resp]"
  shows "b_records (load_run (\<lambda>(target, n). runFetch target n) (fetch_answer fs) (before @ Load (target, n) # es) b) =
    Some (fr_records resp)"
proof -
  let ?run = "load_run (\<lambda>(target, n). runFetch target n) (fetch_answer fs)"
  have "fetchSeq (runFetch target n (?run before b)) = Suc (fetchSeq b + length (loads before))"
    using record_query.seqno_run [of fs before b] by (simp add: runFetch_def)
  with record_query.newest_decides [OF assms(1) refl assms(2), of fs "(target, n)"] show ?thesis
    by (simp add: fetch_answer_def)
qed

definition valid_pk :: "(string \<Rightarrow> string option) \<Rightarrow> filter_draft \<Rightarrow> bool" where
  "valid_pk compile d \<longleftrightarrow> validatePkDraft compile (d_pk d) (d_pkMatchMode d) = None"

lemma valid_pk_blank [simp]: "valid_pk compile emptyFilterDraft"
  by (simp add: valid_pk_def validatePkDraft_def emptyFilterDraft_def)

text \<open>
  In what follows \<open>P c q rs\<close> says that \<open>rs\<close> are rows that the server of connection \<open>c\<close> gives for the
  request body \<open>q\<close>; a run is honest when every answer in it is one.
\<close>

definition numbered :: "browser \<Rightarrow> bool" where
  "numbered b \<longleftrightarrow> (\<forall>(n, c, q) \<in> set (fetches b). n \<le> fetchSeq b)"

definition current_ok :: "browser \<Rightarrow> bool" where
  \<comment> \<open>a call with the current number asks for what is applied\<close>
  "current_ok b \<longleftrightarrow>
     (\<forall>(n, c, q) \<in> set (fetches b). n = fetchSeq b \<longrightarrow>
        c = r_cluster (b_route b) \<and> q = filter_body (b_route b) (b_applied b) (b_pageSize b))"

definition rows_of_set :: "(string \<Rightarrow> json \<Rightarrow> json list \<Rightarrow> bool) \<Rightarrow> browser \<Rightarrow> bool" where
  \<comment> \<open>the rows, if any, are those of some query of the set of the route\<close>
  "rows_of_set P b \<longleftrightarrow>
     (\<forall>rs. b_records b = Some rs \<longrightarrow> (\<exists>d n. P (r_cluster (b_route b)) (filter_body (b_route b) d n) rs))"

definition rows_of_query :: "(string \<Rightarrow> json \<Rightarrow> json list \<Rightarrow> bool) \<Rightarrow> browser \<Rightarrow> bool" where
  "rows_of_query P b \<longleftrightarrow>
     (\<not> b_loading b \<longrightarrow> b_error b = None \<longrightarrow>
        (\<exists>rs. b_records b = Some rs \<and> P (r_cluster (b_route b)) (filter_body (b_route b) (b_applied b) (b_pageSize b)) rs))"

definition browser_ok :: "(string \<Rightarrow> json \<Rightarrow> json list \<Rightarrow> bool) \<Rightarrow> (string \<Rightarrow> string option) \<Rightarrow> browser \<Rightarrow> bool" where
  "browser_ok P compile b \<longleftrightarrow>
     numbered b \<and> current_ok b \<and> rows_of_set P b \<and> rows_of_query P b \<and> valid_pk compile (b_applied b)"

fun honest_fetches ::
  "(string \<Rightarrow> json \<Rightarrow> json list \<Rightarrow> bool) \<Rightarrow> (rat \<Rightarrow> string) \<Rightarrow> (string \<Rightarrow> string option) \<Rightarrow> browser_input list \<Rightarrow> browser \<Rightarrow> bool" where
  "honest_fetches P fs compile [] b = True"
| "honest_fetches P fs compile (e # es) b =
     ((case e of
         FetchAnswer i (Inr resp) \<Rightarrow>
           i < length (fetches b) \<longrightarrow> P (fst (snd (fetches b ! i))) (snd (snd (fetches b ! i))) (fr_records resp)
       | _ \<Rightarrow> True) \<and>
      (case browser_step fs compile e b of None \<Rightarrow> True | Some b' \<Rightarrow> honest_fetches P fs compile es b'))"

lemma runFetch_ok:
  assumes "numbered b" "rows_of_set P b" "valid_pk compile (b_applied b)" "t = b_applied b" "n = b_pageSize b"
  shows "browser_ok P compile (runFetch t n b)"
  using assms
  by (auto simp: browser_ok_def numbered_def current_ok_def rows_of_set_def rows_of_query_def runFetch_def)

lemma browser_ok_parts:
  assumes "browser_ok P compile b"
  shows "numbered b" "rows_of_set P b" "valid_pk compile (b_applied b)"
  using assms by (simp_all add: browser_ok_def)

lemma reloadSetNote_ok [simp]: "browser_ok P compile (reloadSetNote r b) = browser_ok P compile b"
  by (simp add: browser_ok_def reloadSetNote_def numbered_def current_ok_def rows_of_set_def rows_of_query_def)

lemma resetForRoute_ok: "numbered b \<Longrightarrow> browser_ok P compile (resetForRoute r b)"
  unfolding resetForRoute_def Let_def reloadSetNote_ok
  by (rule runFetch_ok) (simp_all add: numbered_def rows_of_set_def)

lemma handlers_ok:
  assumes "browser_ok P compile b"
  shows "valid_pk compile (b_draft b) \<Longrightarrow> browser_ok P compile (handleApply b)"
    and "browser_ok P compile (handleClear b)" "browser_ok P compile (handleRefresh b)"
    and "browser_ok P compile (handlePageSize n b)"
proof -
  note parts = browser_ok_parts [OF assms]
  show "valid_pk compile (b_draft b) \<Longrightarrow> browser_ok P compile (handleApply b)"
    unfolding handleApply_def by (rule runFetch_ok) (use parts in \<open>simp_all add: numbered_def rows_of_set_def\<close>)
  show "browser_ok P compile (handleClear b)"
    unfolding handleClear_def by (rule runFetch_ok) (use parts in \<open>simp_all add: numbered_def rows_of_set_def\<close>)
  show "browser_ok P compile (handleRefresh b)"
    unfolding handleRefresh_def by (rule runFetch_ok) (use parts in simp_all)
  show "browser_ok P compile (handlePageSize n b)"
    unfolding handlePageSize_def by (rule runFetch_ok) (use parts in \<open>simp_all add: numbered_def rows_of_set_def\<close>)
qed

lemma set_remove_nth: "x \<in> set (remove_nth i xs) \<Longrightarrow> x \<in> set xs"
  by (auto simp: remove_nth_def dest: in_set_takeD in_set_dropD)

lemma remove_fetch_ok:
  assumes "browser_ok P compile b"
  shows "browser_ok P compile (b\<lparr>fetches := remove_nth i (fetches b)\<rparr>)"
proof -
  have "numbered (b\<lparr>fetches := remove_nth i (fetches b)\<rparr>)" "current_ok (b\<lparr>fetches := remove_nth i (fetches b)\<rparr>)"
    using assms set_remove_nth by (fastforce simp: browser_ok_def numbered_def current_ok_def)+
  with assms show ?thesis by (simp add: browser_ok_def rows_of_set_def rows_of_query_def)
qed

lemma fetch_answer_ok:
  assumes "browser_ok P compile b"
    and "\<And>resp. seq = fetchSeq b \<Longrightarrow> res = Inr resp \<Longrightarrow>
      P (r_cluster (b_route b)) (filter_body (b_route b) (b_applied b) (b_pageSize b)) (fr_records resp)"
  shows "browser_ok P compile (fetch_answer fs seq res b)"
  using assms
  by (auto simp: browser_ok_def fetch_answer_def numbered_def current_ok_def rows_of_set_def rows_of_query_def split: sum.splits)

lemma browser_step_ok:
  assumes "browser_ok P compile b" "browser_step fs compile e b = Some b'" "honest_fetches P fs compile [e] b"
  shows "browser_ok P compile b'"
proof (cases e)
  case (FetchAnswer i r)
  from assms(2) FetchAnswer have i: "i < length (fetches b)"
    and b': "b' = fetch_answer fs (fst (fetches b ! i)) r (b\<lparr>fetches := remove_nth i (fetches b)\<rparr>)"
    by (simp_all split: if_splits)
  obtain n c q where f: "fetches b ! i = (n, c, q)" by (cases "fetches b ! i") auto
  have "(n, c, q) \<in> set (fetches b)" using i f nth_mem by metis
  with assms(1) have "n = fetchSeq b \<Longrightarrow> c = r_cluster (b_route b) \<and> q = filter_body (b_route b) (b_applied b) (b_pageSize b)"
    by (auto simp: browser_ok_def current_ok_def)
  with assms(3) FetchAnswer i f show ?thesis
    unfolding b' by (intro fetch_answer_ok remove_fetch_ok assms(1)) auto
next
  case (NoteAnswer i r)
  with assms show ?thesis
    by (auto simp: note_answer_def browser_ok_def numbered_def current_ok_def rows_of_set_def rows_of_query_def
        split: if_splits sum.splits)
next
  case (EditDraft d)
  with assms show ?thesis
    by (auto simp: browser_ok_def numbered_def current_ok_def rows_of_set_def rows_of_query_def)
next
  case PressEnter
  with assms show ?thesis by (auto simp: enter_applies_def valid_pk_def intro: handlers_ok(1) split: if_splits)
next
  case ClickSearch
  with assms show ?thesis by (auto simp: canApply_def valid_pk_def intro: handlers_ok(1) split: if_splits)
qed (use assms in \<open>auto intro: handlers_ok resetForRoute_ok browser_ok_parts split: if_splits\<close>)

lemma browser_run_ok:
  assumes "browser_ok P compile b" "browser_run fs compile es b = Some b'" "honest_fetches P fs compile es b"
  shows "browser_ok P compile b'"
  using assms
proof (induction es arbitrary: b)
  case (Cons e es)
  then obtain b1 where b1: "browser_step fs compile e b = Some b1" by (auto split: option.splits)
  moreover have "browser_ok P compile b1"
    by (rule browser_step_ok [OF Cons.prems(1) b1]) (use Cons.prems(3) b1 in simp)
  ultimately show ?case using Cons by simp
qed simp

lemma openBrowser_ok: "browser_ok P compile (openBrowser r)"
  unfolding openBrowser_def by (rule resetForRoute_ok) (simp add: numbered_def)

text \<open>
  C10: the record browser shows the rows of the query it says it shows. Whatever the user does and in
  whatever order the answers come (late, failing, after a switch to another set), rows on the page are
  always rows of the set in the address; and once the page is neither loading nor in error, they are
  the server's answer to the applied filters and the chosen limit. The applied key pattern always
  passes the pattern check, so a prefix or regex scan is never sent with a blank pattern.
\<close>

theorem browser_shows_applied_query:
  assumes "browser_run fs compile es (openBrowser r) = Some b" "honest_fetches P fs compile es (openBrowser r)"
  shows "(\<forall>rs. b_records b = Some rs \<longrightarrow> (\<exists>d n. P (r_cluster (b_route b)) (filter_body (b_route b) d n) rs)) \<and>
    (\<not> b_loading b \<and> b_error b = None \<longrightarrow>
      (\<exists>rs. b_records b = Some rs \<and> P (r_cluster (b_route b)) (filter_body (b_route b) (b_applied b) (b_pageSize b)) rs)) \<and>
    validatePkDraft compile (d_pk (b_applied b)) (d_pkMatchMode (b_applied b)) = None"
  using browser_run_ok [OF openBrowser_ok assms]
  by (simp add: browser_ok_def rows_of_set_def rows_of_query_def valid_pk_def)

definition demo_route :: "string \<Rightarrow> route" where
  "demo_route st = \<lparr>r_cluster = ''c'', r_namespace = ''n'', r_set = st\<rparr>"

definition demo_response :: "json list \<Rightarrow> js_error + filtered_response" where
  "demo_response rs = Inr \<lparr>fr_records = rs, fr_meta = EMPTY_META\<rparr>"

definition demo_browsing :: "browser_input list" where
  \<comment> \<open>another set is opened while the first answer is out; the old answer comes last\<close>
  "demo_browsing = [Navigate (demo_route ''b''), FetchAnswer 1 (demo_response []), FetchAnswer 0 (demo_response [JNull])]"

definition rows_by_set :: "string \<Rightarrow> json \<Rightarrow> json list \<Rightarrow> bool" where
  "rows_by_set c q rs \<longleftrightarrow> rs = (if json_field q ''set'' = Some (JStr ''a'') then [JNull] else [])"

lemmas browser_run_simps = demo_browsing_def demo_route_def demo_response_def openBrowser_def resetForRoute_def
  runFetch_def reloadSetNote_def fetch_answer_def note_answer_def remove_nth_def Let_def filter_body_def json_field_def
  rows_by_set_def emptyFilterDraft_def

theorem browser_shows_applied_query_witness:
  "\<exists>b. browser_run (\<lambda>x. []) (\<lambda>s. None) demo_browsing (openBrowser (demo_route ''a'')) = Some b \<and>
    b_records b = Some [] \<and>
    (\<exists>d n. rows_by_set (r_cluster (b_route b)) (filter_body (b_route b) d n) [])"
proof -
  obtain b where b: "browser_run (\<lambda>x. []) (\<lambda>s. None) demo_browsing (openBrowser (demo_route ''a'')) = Some b"
      "b_records b = Some []"
    by (simp add: browser_run_simps)
  have h: "honest_fetches rows_by_set (\<lambda>x. []) (\<lambda>s. None) demo_browsing (openBrowser (demo_route ''a''))"
    by (simp add: browser_run_simps)
  from conjunct1 [OF browser_shows_applied_query [OF b(1) h]] b show ?thesis by auto
qed

definition notes_from :: "set_note list \<Rightarrow> browser_input list \<Rightarrow> bool" where
  \<comment> \<open>every reload of notes is answered with the notes the server holds\<close>
  "notes_from notes es = list_all (\<lambda>e. case e of NoteAnswer i res \<Rightarrow> res = Inr notes | _ \<Rightarrow> True) es"

text \<open>
  the note under the title has no such guard. There is a run in which every answer is that of the
  set it was asked for and in which the page ends on set \<open>b\<close>, with nothing unanswered, showing the
  note of set \<open>a\<close>: the reload started for \<open>a\<close> was answered after the one for \<open>b\<close>.
\<close>

theorem late_note_shown_under_other_set:
  "\<exists>es b. browser_run (\<lambda>x. []) (\<lambda>s. None) es (openBrowser (demo_route ''a'')) = Some b \<and>
     notes_from [\<lparr>sn_setName = ''a'', sn_note = ''of a''\<rparr>] es \<and>
     r_set (b_route b) = ''b'' \<and> b_setNote b = Some ''of a'' \<and> fetches b = [] \<and> note_loads b = []"
proof -
  let ?notes = "Inr [\<lparr>sn_setName = ''a'', sn_note = ''of a''\<rparr>]"
  let ?es = "[Navigate (demo_route ''b''), NoteAnswer 1 ?notes, FetchAnswer 0 (demo_response []),
    FetchAnswer 0 (demo_response []), NoteAnswer 0 ?notes]"
  show ?thesis by (rule exI [of _ ?es]) (simp add: browser_run_simps notes_from_def)
qed

subsection \<open>Columns and filterable bins\<close>

lemma comparator_code_unit: "comparator code_unit_cmp"
proof -
  have "(code_unit_cmp a b < 0) = (code_unit_cmp b a > 0)" for a b
    by (induction a b rule: code_unit_cmp.induct) auto
  moreover have "code_unit_cmp a b \<le> 0 \<Longrightarrow> code_unit_cmp b c \<le> 0 \<Longrightarrow> code_unit_cmp a c \<le> 0" for a b c
  proof (induction a b arbitrary: c rule: code_unit_cmp.induct)
    case (4 x s y t)
    obtain z u where c: "c = z # u" using 4(3) by (cases c) simp_all
    have le: "\<not> code y < code x" "\<not> code z < code y" using 4(2,3) by (auto simp: c split: if_splits)
    show ?case
    proof (cases "code x < code z")
      case False
      with le have eq: "\<not> code x < code y" "\<not> code y < code z" "\<not> code z < code x" by linarith+
      with 4 le have "code_unit_cmp s u \<le> 0" by (simp add: c)
      with False eq(3) show ?thesis by (simp add: c)
    qed (simp add: c)
  next
    case (1)
    then show ?case by (cases c) auto
  next
    case (2 d t)
    then show ?case by (cases c) auto
  next
    case (3 d t)
    then show ?case by simp
  qed
  ultimately show ?thesis unfolding comparator_def by blast
qed

lemma add_name_set: "set (add_name k names) = insert k (set names)" "distinct names \<Longrightarrow> distinct (add_name k names)"
  by (auto simp: add_name_def)

lemma fold_add_name:
  "set (fold add_name ks names) = set ks \<union> set names" "distinct names \<Longrightarrow> distinct (fold add_name ks names)"
  by (induction ks arbitrary: names) (auto simp: add_name_set)

lemma fold_columns:
  "set (fold (\<lambda>bins. fold add_name (obj_keys bins)) rs names) = (\<Union>bins \<in> set rs. set (obj_keys bins)) \<union> set names"
  "distinct names \<Longrightarrow> distinct (fold (\<lambda>bins. fold add_name (obj_keys bins)) rs names)"
  by (induction rs arbitrary: names) (auto simp: fold_add_name)

lemma binColumns_correct:
  "set (binColumns (Some rs)) = (\<Union>bins \<in> set rs. set (obj_keys bins)) \<and> distinct (binColumns (Some rs)) \<and>
   sorted_by code_unit_cmp (binColumns (Some rs))"
proof -
  have "mset (binColumns (Some rs)) = mset (fold (\<lambda>bins. fold add_name (obj_keys bins)) rs [])"
    by (simp add: binColumns_def)
  then have "distinct (binColumns (Some rs))" using fold_columns(2) [of "[]" rs] by (metis distinct.simps(1) mset_eq_imp_distinct_iff)
  then show ?thesis
    using fold_columns(1) [of rs "[]"] by (simp add: binColumns_def sorted_sort_by [OF comparator_code_unit])
qed

end
