(* ===== verification/Tool_Cards.thy ===== *)
theory Tool_Cards
  imports Copilot_Tools Record_Browser Json_Text
begin

text \<open>
  What the assistant shows and sends besides its tools: the cards for tool results
  (\<^verbatim>\<open>ui/src/components/copilot/tools/render-tools.tsx\<close>), the feature gate (\<^verbatim>\<open>CopilotProvider.tsx\<close>), the
  headers of its requests (\<^verbatim>\<open>CopilotShell.tsx\<close>, \<^verbatim>\<open>AuthTokenSync.tsx\<close>), the shared context
  (\<^verbatim>\<open>CopilotAppContext.tsx\<close>) and the suggestions (\<^verbatim>\<open>CopilotSuggestions.tsx\<close>).

  The chat runtime hands a result to its card as the JSON text of what the handler returned. A card
  that throws while rendering is \<open>None\<close>.
\<close>

section \<open>Feature gate and headers\<close>

definition copilot_enabled_after :: "(string \<Rightarrow> json option) \<Rightarrow> fetch_outcome \<Rightarrow> bool" where
  \<comment> \<open>the probe of \<open>/copilot-config\<close>; any failure disables. \<open>parse\<close> reads the body as JSON.\<close>
  "copilot_enabled_after parse out =
     (case out of
        Fetched r \<Rightarrow>
          if 200 \<le> status r \<and> status r \<le> 299
          then (case Option.bind (bodyText r) parse of
                  None \<Rightarrow> False
                | Some c \<Rightarrow> opt_truthy (json_field c ''enabled''))
          else False
      | _ \<Rightarrow> False)"

definition copilot_headers :: "string option \<Rightarrow> dict" where
  \<comment> \<open>\<open>accessToken ? { Authorization: `Bearer ${accessToken}` } : {}\<close>\<close>
  "copilot_headers token = (if truthy token then [(''Authorization'', ''Bearer '' @ the token)] else [])"

definition shell_headers :: "string option \<Rightarrow> dict" where
  \<comment> \<open>the snapshot taken when the shell is mounted\<close>
  "shell_headers initialToken =
     (let initial = [] in
      if truthy initialToken then obj_set ''Authorization'' (''Bearer '' @ the initialToken) initial else initial)"

definition set_headers :: "string option \<Rightarrow> dict \<Rightarrow> dict" where
  \<comment> \<open>the effect of \<open>AuthTokenSync\<close>: \<open>setHeaders\<close> replaces the whole set\<close>
  "set_headers token headers = copilot_headers token"

section \<open>Cards\<close>

definition parseResult :: "string \<Rightarrow> json option" where
  "parseResult result = JSON_parse result"

record mini_table =
  mt_bins :: "string list"
  mt_rows :: "(string \<times> string list) list"
  mt_footer :: "string option"

datatype tool_card =
    Pending string
  | Blank
  | ErrorCard string
  | ClusterHealthCard json
  | ClusterInfoCard json string
  | NoRecords
  | RecordsMiniTable mini_table
  | StatusLine bool string

definition record_bins :: "json \<Rightarrow> (string, json) jsmap option" where
  \<comment> \<open>\<open>None\<close>: \<open>Object.keys(record.bins)\<close> throws\<close>
  "record_bins r = own_entries (json_field r ''bins'')"

definition record_label :: "json \<Rightarrow> (rat \<Rightarrow> string) \<Rightarrow> string option" where
  \<comment> \<open>\<open>String(record.key.pk ?? record.key.digest ?? "-")\<close>; \<open>None\<close>: there is no key\<close>
  "record_label r fs =
     (case json_field r ''key'' of
        None \<Rightarrow> None
      | Some JNull \<Rightarrow> None
      | Some k \<Rightarrow>
          Some (if \<not> js_nullish (json_field k ''pk'') then js_String fs (the (json_field k ''pk''))
                else if \<not> js_nullish (json_field k ''digest'') then js_String fs (the (json_field k ''digest''))
                else [u_sub]))"

definition bin_cell :: "(rat \<Rightarrow> string) \<Rightarrow> json option \<Rightarrow> string" where
  "bin_cell fs v =
     (case v of
        None \<Rightarrow> [u_sub]
      | Some j \<Rightarrow> if js_typeof_object j then stringify fs j else js_String fs j)"

fun all_some :: "'a option list \<Rightarrow> 'a list option" where
  \<comment> \<open>a list of values, unless one of them throws\<close>
  "all_some [] = Some []"
| "all_some (None # xs) = None"
| "all_some (Some x # xs) = map_option (Cons x) (all_some xs)"

definition record_row :: "(rat \<Rightarrow> string) \<Rightarrow> string list \<Rightarrow> json \<Rightarrow> (string \<times> string list) option" where
  "record_row fs binNames r =
     (case (record_label r fs, record_bins r) of
        (Some l, Some bins) \<Rightarrow> Some (l, map (\<lambda>b. bin_cell fs (obj_get bins b)) binNames)
      | _ \<Rightarrow> None)"

definition mini_table_card :: "(rat \<Rightarrow> string) \<Rightarrow> json list \<Rightarrow> string option \<Rightarrow> tool_card option" where
  \<comment> \<open>\<open>RecordsMiniTable\<close>\<close>
  "mini_table_card fs records footer =
     (if records = [] then Some NoRecords
      else case all_some (map record_bins records) of
        None \<Rightarrow> None
      | Some bs \<Rightarrow>
          (let binNames = take 5 (fold add_name (concat (map obj_keys bs)) [])
           in map_option (\<lambda>rows. RecordsMiniTable \<lparr>mt_bins = binNames, mt_rows = rows, mt_footer = footer\<rparr>)
                (all_some (map (record_row fs binNames) records))))"

definition records_card :: "(rat \<Rightarrow> string) \<Rightarrow> (json \<Rightarrow> string option) \<Rightarrow> json \<Rightarrow> tool_card option" where
  "records_card fs footer parsed =
     (case json_field parsed ''records'' of
        Some (JArr rs) \<Rightarrow> mini_table_card fs rs (footer parsed)
      | Some (JStr []) \<Rightarrow> Some NoRecords
      | _ \<Rightarrow> None)"

definition template :: "(rat \<Rightarrow> string) \<Rightarrow> json option \<Rightarrow> string" where
  \<comment> \<open>\<open>${v}\<close>\<close>
  "template fs v = (case v of None \<Rightarrow> ''undefined'' | Some j \<Rightarrow> js_String fs j)"

definition browse_footer :: "string \<Rightarrow> string option \<Rightarrow> json \<Rightarrow> string option" where
  "browse_footer namespace st parsed =
     (if opt_truthy (json_field parsed ''hasMore'')
      then Some (''truncated '' @ [u_sub] @ '' open the Record Browser for '' @ namespace @
             (if truthy st then ''/'' @ the st else []))
      else None)"

definition query_footer :: "(rat \<Rightarrow> string) \<Rightarrow> json \<Rightarrow> string option" where
  \<comment> \<open>\<open>truncatedRows\<close> is a number, as the tool returns it\<close>
  "query_footer fs parsed =
     Some (template fs (json_field parsed ''returnedRecords'') @ '' records in '' @
           template fs (json_field parsed ''executionTimeMs'') @ ''ms'' @
           (case json_field parsed ''truncatedRows'' of
              Some (JNum n) \<Rightarrow> if num_less (inum 0) n then '' ('' @ num_str fs n @ '' more truncated)'' else []
            | _ \<Rightarrow> []))"

definition settled_card :: "(json \<Rightarrow> tool_card option) \<Rightarrow> string \<Rightarrow> tool_card option" where
  \<comment> \<open>the common part of the cards, once the call is complete\<close>
  "settled_card body result =
     (case parseResult result of
        None \<Rightarrow> Some Blank
      | Some parsed \<Rightarrow>
          if \<not> json_truthy parsed then Some Blank
          else if isToolError parsed then
            Some (ErrorCard (case json_field parsed ''error'' of Some (JStr e) \<Rightarrow> e | _ \<Rightarrow> []))
          else body parsed)"

fun tool_name :: "read_tool \<Rightarrow> string" where
  "tool_name ListConnections = ''list_connections''"
| "tool_name (GetConnectionHealth c) = ''get_connection_health''"
| "tool_name (GetClusterInfo c) = ''get_cluster_info''"
| "tool_name (GetClusterMetrics c) = ''get_cluster_metrics''"
| "tool_name (ListIndexes c) = ''list_indexes''"
| "tool_name (BrowseRecords c ns st n) = ''browse_records''"
| "tool_name (RunQuery c ns st pk pr n) = ''run_query''"
| "tool_name GetCeConstraints = ''get_ce_constraints''"
| "tool_name (ListAckoClusters ns) = ''list_acko_clusters''"
| "tool_name (GetAckoCluster ns name) = ''get_acko_cluster''"

fun render_tool :: "(rat \<Rightarrow> string) \<Rightarrow> read_tool \<Rightarrow> string option \<Rightarrow> tool_card option" where
  \<comment> \<open>\<open>CopilotRenderTools\<close>; the result is there once the call is complete\<close>
  "render_tool fs (GetConnectionHealth c) result =
     (case result of
        None \<Rightarrow> Some (Pending ''checking health'')
      | Some s \<Rightarrow> settled_card (\<lambda>p. Some (ClusterHealthCard p)) s)"
| "render_tool fs (GetClusterInfo c) result =
     (case result of
        None \<Rightarrow> Some (Pending ''loading cluster topology'')
      | Some s \<Rightarrow> settled_card (\<lambda>p. Some (ClusterInfoCard p (''/clusters/'' @ encodeURIComponent c))) s)"
| "render_tool fs (BrowseRecords c ns st n) result =
     (case result of
        None \<Rightarrow> Some (Pending ''browsing records'')
      | Some s \<Rightarrow> settled_card (records_card fs (browse_footer ns st)) s)"
| "render_tool fs (RunQuery c ns st pk pr n) result =
     (case result of
        None \<Rightarrow> Some (Pending ''running query'')
      | Some s \<Rightarrow> settled_card (records_card fs (query_footer fs)) s)"
| "render_tool fs t result = Some (StatusLine (result \<noteq> None) (tool_name t))"

definition health_lines :: "json \<Rightarrow> string list \<times> json option \<times> json option \<times> json option" where
  \<comment> \<open>\<open>ClusterHealthCard\<close>: the badges, the two counts and the error that is shown, if any\<close>
  "health_lines hs =
     ((if opt_truthy (json_field hs ''connected'') then ''connected'' else ''disconnected'') #
        concat (map (\<lambda>k. case json_field hs k of Some (JStr s) \<Rightarrow> if s = [] then [] else [s] | _ \<Rightarrow> []) [''edition'', ''build'']),
      json_field hs ''nodeCount'', json_field hs ''namespaceCount'',
      if opt_truthy (json_field hs ''error'') then json_field hs ''error'' else None)"

definition set_badges :: "string list \<Rightarrow> string list \<times> nat option" where
  \<comment> \<open>\<open>ClusterInfoCard\<close>: the sets of a namespace that are shown, and how many are not\<close>
  "set_badges names = (take 6 names, if length names > 6 then Some (length names - 6) else None)"

section \<open>Context and suggestions\<close>

definition suggestionsFor :: "string \<Rightarrow> string list" where
  \<comment> \<open>the titles\<close>
  "suggestionsFor pathname =
     (if startsWith pathname ''/acko'' then [''K8s cluster health'', ''Create an ACKO cluster'', ''CE limits'']
      else if startsWith pathname ''/clusters/'' \<and> drop 10 pathname \<noteq> [] \<and> hd (drop 10 pathname) \<noteq> CHR ''/'' \<and>
              pathname \<noteq> ''/clusters/new''
      then [''Cluster health'', ''Explain sample_set'', ''Browse a set'', ''Build a query'']
      else [''Check my clusters'', ''Create an ACKO cluster'', ''Explain sample_set'', ''CE limits''])"

section \<open>Properties\<close>

text \<open>
  Whatever token the shell was mounted with, after each change of the token the requests of the
  assistant carry the current one, and after signing out none.
\<close>

lemma headers_follow_token:
  "obj_get (fold set_headers (ts @ [t]) (shell_headers t0)) ''Authorization'' =
     (if truthy t then Some (''Bearer '' @ the t) else None)"
  by (simp add: set_headers_def copilot_headers_def)

lemma all_some_map:
  "(\<forall>x \<in> set xs. \<exists>y. f x = Some y) \<Longrightarrow> all_some (map f xs) = Some (map (\<lambda>x. the (f x)) xs)"
  by (induction xs) auto

lemma clamped_bins:
  assumes "clampRecords fs rs = Some cl" "r \<in> set (cl_records cl)"
  shows "\<exists>bins. record_bins r = Some bins"
proof -
  obtain r0 c where "clamp_record fs r0 = Some (r, c)"
    using assms clamp_all_mem by (fastforce simp: clampRecords_def)
  from clamp_record_bins [OF this] show ?thesis by (auto simp: record_bins_def own_entries_def)
qed

lemma clamped_length: "clampRecords fs rs = Some cl \<Longrightarrow> length (cl_records cl) \<le> MAX_RESULT_ROWS"
  using clamp_all_length by (fastforce simp: clampRecords_def)

definition keyed :: "json \<Rightarrow> bool" where
  \<comment> \<open>a record as the API types it: it has a key\<close>
  "keyed r \<longleftrightarrow> (\<exists>k. json_field r ''key'' = Some k \<and> k \<noteq> JNull)"

lemma keyed_label: "keyed r \<Longrightarrow> \<exists>l. record_label r fs = Some l"
  by (auto simp: keyed_def record_label_def split: json.splits)

lemma mini_table_card_total:
  assumes "\<forall>r \<in> set rs. keyed r \<and> (\<exists>bins. record_bins r = Some bins)" "rs \<noteq> []"
  shows "\<exists>t. mini_table_card fs rs f = Some (RecordsMiniTable t) \<and> length (mt_rows t) = length rs \<and>
    length (mt_bins t) \<le> 5 \<and> mt_footer t = f \<and>
    map fst (mt_rows t) = map (\<lambda>r. the (record_label r fs)) rs"
proof -
  let ?bs = "map (\<lambda>r. the (record_bins r)) rs"
  let ?names = "take 5 (fold add_name (concat (map obj_keys ?bs)) [])"
  have bins: "all_some (map record_bins rs) = Some ?bs" using assms(1) by (intro all_some_map) blast
  have row: "\<exists>y. record_row fs ?names r = Some y" if "r \<in> set rs" for r
    using assms(1) that keyed_label [of r fs] by (fastforce simp: record_row_def)
  have rows: "all_some (map (record_row fs ?names) rs) = Some (map (\<lambda>r. the (record_row fs ?names r)) rs)"
    using row by (intro all_some_map) blast
  have "fst (the (record_row fs ?names r)) = the (record_label r fs)" if "r \<in> set rs" for r
    using assms(1) that keyed_label [of r fs] by (fastforce simp: record_row_def)
  then have labels: "map (\<lambda>r. fst (the (record_row fs ?names r))) rs = map (\<lambda>r. the (record_label r fs)) rs" by simp
  have "mini_table_card fs rs f =
      Some (RecordsMiniTable \<lparr>mt_bins = ?names, mt_rows = map (\<lambda>r. the (record_row fs ?names r)) rs, mt_footer = f\<rparr>)"
    unfolding mini_table_card_def Let_def bins option.case rows using assms(2) by simp
  with labels show ?thesis by (simp add: comp_def)
qed

lemma browse_json_fields:
  "json_field (browse_json v cl) ''records'' = Some (JArr (cl_records cl))"
  "json_truthy (browse_json v cl)"
  by (simp_all add: browse_json_def json_field_def)

text \<open>
  C15: The card of a browse call shows what the tool returned. When the handler of \<open>browse_records\<close>
  returns a value that survives as JSON text, its card, given that text, is the error card with the
  message of the failure, or the notice that there are no records, or, when the records have keys as
  the API types them, a table with one row for each record, at most twenty, labelled by their keys in
  order, and at most five bins; it is never blank and never throws.
\<close>

theorem browse_card_shows_result:
  assumes "read_handler fs send (BrowseRecords c ns st n) w = (Inr (Some j), w')" "json_ok fs j"
    and "\<forall>rs. json_field j ''records'' = Some (JArr rs) \<longrightarrow> (\<forall>r \<in> set rs. keyed r)"
  shows "(\<exists>e. isToolError j \<and> json_field j ''error'' = Some (JStr e) \<and>
       render_tool fs (BrowseRecords c ns st n) (Some (stringify fs j)) = Some (ErrorCard e)) \<or>
    (\<exists>rs. json_field j ''records'' = Some (JArr rs) \<and> length rs \<le> MAX_RESULT_ROWS \<and>
       (if rs = [] then render_tool fs (BrowseRecords c ns st n) (Some (stringify fs j)) = Some NoRecords
        else \<exists>t. render_tool fs (BrowseRecords c ns st n) (Some (stringify fs j)) = Some (RecordsMiniTable t) \<and>
          map fst (mt_rows t) = map (\<lambda>r. the (record_label r fs)) rs \<and> length (mt_bins t) \<le> 5))"
proof -
  have parse: "parseResult (stringify fs j) = Some j"
    unfolding parseResult_def using assms(2) by (rule JSON_parse_stringify(1))
  obtain v where v: "read_result fs (BrowseRecords c ns st n) v = Inr j"
    using assms(1) by (auto simp: read_handler_def Let_def simp del: read_result.simps split: option.splits sum.splits prod.splits)
  show ?thesis
  proof (cases "isToolError j")
    case True
    then obtain kvs e where "j = JObj kvs" "obj_get kvs ''error'' = Some (JStr e)"
      by (auto simp: isToolError_def split: json.splits option.splits)
    with True parse show ?thesis by (simp add: settled_card_def json_field_def)
  next
    case False
    with v have "\<not> isToolError v" by auto
    with v obtain cl where "records_of fs v = Some cl" and j: "j = browse_json v cl" by (auto split: option.splits)
    then obtain rs0 where cl: "clampRecords fs rs0 = Some cl" by (auto simp: records_of_def split: option.splits json.splits)
    let ?rs = "cl_records cl"
    have rs: "json_field j ''records'' = Some (JArr ?rs)" "json_truthy j" unfolding j by (rule browse_json_fields)+
    have card: "render_tool fs (BrowseRecords c ns st n) (Some (stringify fs j)) = mini_table_card fs ?rs (browse_footer ns st j)"
      using False parse rs by (simp add: settled_card_def records_card_def)
    have "\<forall>r \<in> set ?rs. keyed r \<and> (\<exists>bins. record_bins r = Some bins)" using assms(3) rs(1) clamped_bins [OF cl] by blast
    from mini_table_card_total [OF this, of fs "browse_footer ns st j"] card rs(1) clamped_length [OF cl]
    show ?thesis by (cases "?rs = []") (auto simp: mini_table_card_def)
  qed
qed

definition demo_result :: json where
  "demo_result = JObj [(''records'', JArr []), (''hasMore'', JBool False), (''truncatedBins'', JBool False)]"

definition demo_send :: client where
  "demo_send call w = (Value (JsonValue (JObj [(''records'', JArr [])])), w)"

theorem browse_card_shows_result_witness:
  "render_tool (\<lambda>_. []) (BrowseRecords ''c'' ''test'' None None) (Some (stringify (\<lambda>_. []) demo_result)) = Some NoRecords"
proof -
  have run: "read_handler (\<lambda>_. []) demo_send (BrowseRecords ''c'' ''test'' None None) w = (Inr (Some demo_result), w)" for w
    by (simp add: read_handler_def demo_send_def safeCall_def isToolError_def records_of_def json_field_def clampRecords_def
        browse_json_def present_fields_def demo_result_def)
  have "json_ok (\<lambda>_. []) demo_result" "json_field demo_result ''records'' = Some (JArr [])" "\<not> isToolError demo_result"
    by (simp_all add: demo_result_def json_field_def isToolError_def)
  with browse_card_shows_result [OF run] show ?thesis by auto
qed

end
