(* ===== verification/Wizard_Steps.thy ===== *)
theory Wizard_Steps
  imports K8s_Types Validation
begin

text \<open>
  The editors of the cluster wizard: the shared list and key-value editors
  (\<^verbatim>\<open>create-cluster-wizard/shared.tsx\<close>), and the event handlers of \<^verbatim>\<open>StepBasic.tsx\<close>,
  \<^verbatim>\<open>StepNamespaceStorage.tsx\<close> and \<^verbatim>\<open>StepAdvanced.tsx\<close>. Each control of a step is a constructor of
  an event type; its handler maps the current form to the partial update that the code passes to
  \<open>updateForm\<close>. In an update, \<open>None\<close> stands for the value \<open>undefined\<close>, which removes the field.
\<close>

type_synonym updates = "(string \<times> json option) list"

section \<open>Object spread\<close>

definition put :: "form \<Rightarrow> string \<times> json option \<Rightarrow> form" where
  "put f u = (case snd u of None \<Rightarrow> obj_del (fst u) f | Some v \<Rightarrow> obj_set (fst u) v f)"

definition updateForm :: "form \<Rightarrow> updates \<Rightarrow> form" where
  \<comment> \<open>\<open>{ ...prev, ...updates }\<close>\<close>
  "updateForm f us = foldl put f us"

fun fields_of :: "json \<Rightarrow> form" where
  "fields_of (JObj kvs) = kvs"
| "fields_of _ = []"

definition spread :: "json \<Rightarrow> updates \<Rightarrow> json" where
  \<comment> \<open>\<open>{ ...o, ...patch }\<close>\<close>
  "spread o' us = JObj (updateForm (fields_of o') us)"

definition field_or :: "form \<Rightarrow> string \<Rightarrow> json \<Rightarrow> json" where
  \<comment> \<open>\<open>form.k ?? d\<close>\<close>
  "field_or f k d = (if js_nullish (obj_get f k) then d else the (obj_get f k))"

definition update_at :: "nat \<Rightarrow> updates \<Rightarrow> json list \<Rightarrow> json list" where
  \<comment> \<open>\<open>xs.map((x, idx) => idx === i ? { ...x, ...patch } : x)\<close>\<close>
  "update_at i us xs = map (\<lambda>(idx, x). if idx = i then spread x us else x) (List.enumerate 0 xs)"

definition remove_at :: "nat \<Rightarrow> 'a list \<Rightarrow> 'a list" where
  \<comment> \<open>\<open>xs.filter((_, idx) => idx !== i)\<close>\<close>
  "remove_at i xs = map snd (filter (\<lambda>(idx, x). idx \<noteq> i) (List.enumerate 0 xs))"

definition int_or :: "int \<Rightarrow> string \<Rightarrow> jsnum" where
  \<comment> \<open>\<open>Number.parseInt(v, 10) || d\<close>\<close>
  "int_or d v = (let n = parseInt10 v in if num_falsy n then inum d else n)"

definition str_or_null :: "string \<Rightarrow> json" where
  \<comment> \<open>\<open>v || null\<close>\<close>
  "str_or_null v = (if v = [] then JNull else JStr v)"

definition dict_json :: "dict \<Rightarrow> json" where
  "dict_json m = JObj (map (\<lambda>(k, v). (k, JStr v)) m)"

definition opt_json :: "('a \<Rightarrow> json) \<Rightarrow> 'a option \<Rightarrow> json" where
  "opt_json f v = (case v of None \<Rightarrow> JNull | Some x \<Rightarrow> f x)"

definition strs_json :: "string list \<Rightarrow> json" where
  "strs_json xs = JArr (map JStr xs)"

section \<open>Shared editors (shared.tsx)\<close>

definition dict_or_null :: "dict \<Rightarrow> dict option" where
  "dict_or_null m = (if obj_keys m \<noteq> [] then Some m else None)"

definition setEntry :: "dict \<Rightarrow> nat \<Rightarrow> string \<Rightarrow> string \<Rightarrow> dict option" where
  "setEntry entries i k v =
     dict_or_null (foldl (\<lambda>next (idx, ek, ev). if idx = i then obj_set k v next else obj_set ek ev next) []
       (List.enumerate 0 entries))"

definition removeEntry :: "dict \<Rightarrow> nat \<Rightarrow> dict option" where
  "removeEntry entries i =
     dict_or_null (foldl (\<lambda>next (idx, ek, ev). if idx \<noteq> i then obj_set ek ev next else next) []
       (List.enumerate 0 entries))"

fun fresh_key :: "nat \<Rightarrow> string list \<Rightarrow> string \<Rightarrow> nat \<Rightarrow> string" where
  \<comment> \<open>the loop \<open>while (k in next) k = `key${i++}`\<close>, with fuel\<close>
  "fresh_key 0 ks k i = k"
| "fresh_key (Suc fuel) ks k i =
     (if k \<in> set ks then fresh_key fuel ks (''key'' @ nat_str i) (Suc i) else k)"

definition addEntry :: "dict \<Rightarrow> dict" where
  "addEntry m = obj_set (fresh_key (Suc (Suc (length m))) (obj_keys m) ''key'' 1) [] m"

definition list_or_null :: "string list \<Rightarrow> string list option" where
  "list_or_null xs = (if xs \<noteq> [] then Some xs else None)"

definition setAt :: "string list \<Rightarrow> nat \<Rightarrow> string \<Rightarrow> string list option" where
  "setAt xs i s = list_or_null (map (\<lambda>(idx, v). if idx = i then s else v) (List.enumerate 0 xs))"

definition removeAt :: "string list \<Rightarrow> nat \<Rightarrow> string list option" where
  "removeAt xs i = list_or_null (remove_at i xs)"

definition addChip :: "string list \<Rightarrow> string list" where
  "addChip xs = xs @ [[]]"

section \<open>Basic and resources (StepBasic.tsx)\<close>

datatype basic_edit =
    SetName string | SetNamespace string | SetWorkspace string | SetSize string | SetImage string
  | SetCpuRequest string | SetCpuLimit string | SetMemRequest string | SetMemLimit string
  | SetAutoConnect bool

definition default_requests :: json where
  "default_requests = JObj [(''cpu'', JStr ''500m''), (''memory'', JStr ''1Gi'')]"

definition default_limits :: json where
  "default_limits = JObj [(''cpu'', JStr ''2''), (''memory'', JStr ''4Gi'')]"

definition sub_or :: "json option \<Rightarrow> string \<Rightarrow> json \<Rightarrow> json" where
  \<comment> \<open>\<open>o?.k ?? d\<close>\<close>
  "sub_or o' k d = (if js_nullish (opt_field o' k) then d else the (opt_field o' k))"

definition requests_of :: "form \<Rightarrow> json" where
  "requests_of f = sub_or (obj_get f ''resources'') ''requests'' default_requests"

definition limits_of :: "form \<Rightarrow> json" where
  "limits_of f = sub_or (obj_get f ''resources'') ''limits'' default_limits"

definition resources_update :: "json \<Rightarrow> json \<Rightarrow> updates" where
  "resources_update req limit = [(''resources'', Some (JObj [(''requests'', req), (''limits'', limit)]))]"

fun basic_update :: "form \<Rightarrow> basic_edit \<Rightarrow> updates" where
  "basic_update f (SetName v) = [(''name'', Some (JStr v))]"
| "basic_update f (SetNamespace v) = [(''namespace'', Some (JStr v))]"
| "basic_update f (SetWorkspace v) = [(''workspaceId'', Some (JStr v))]"
| "basic_update f (SetSize v) = [(''size'', Some (JNum (int_or 1 v)))]"
| "basic_update f (SetImage v) = [(''image'', Some (JStr v))]"
| "basic_update f (SetCpuRequest v) =
     resources_update (spread (requests_of f) [(''cpu'', Some (JStr v))]) (limits_of f)"
| "basic_update f (SetCpuLimit v) =
     resources_update (requests_of f) (spread (limits_of f) [(''cpu'', Some (JStr v))])"
| "basic_update f (SetMemRequest v) =
     resources_update (spread (requests_of f) [(''memory'', Some (JStr v))]) (limits_of f)"
| "basic_update f (SetMemLimit v) =
     resources_update (requests_of f) (spread (limits_of f) [(''memory'', Some (JStr v))])"
| "basic_update f (SetAutoConnect b) = [(''autoConnect'', Some (JBool b))]"

section \<open>Namespaces and storage (StepNamespaceStorage.tsx)\<close>

definition defaultMemoryNamespace :: "jsnum \<Rightarrow> nat \<Rightarrow> json" where
  "defaultMemoryNamespace clusterSize index =
     JObj [(''name'', JStr (if index = 0 then ''test'' else ''ns-'' @ nat_str (index + 1))),
       (''replicationFactor'', JNum (Math_min (Num 2) (Math_max (Num 1) clusterSize))),
       (''storageEngine'', JObj [(''type'', JStr ''memory''), (''dataSize'', JNum (inum 1073741824))])]"

definition form_size :: "form \<Rightarrow> jsnum" where
  "form_size f = num_or (Num 1) (obj_get f ''size'')"

definition form_namespaces :: "form \<Rightarrow> json list" where
  "form_namespaces f =
     (let nss = arr_or_empty (obj_get f ''namespaces'')
      in if nss \<noteq> [] then nss else [defaultMemoryNamespace (form_size f) 0])"

definition legacyStorage :: "form \<Rightarrow> json" where
  "legacyStorage f =
     (case obj_get f ''storage'' of
        Some (JObj kvs) \<Rightarrow>
          (if obj_get kvs ''volumes'' = None then JObj kvs
           else JObj [(''storageClass'', JStr ''standard''), (''size'', JStr ''10Gi''),
                      (''mountPath'', JStr ''/opt/aerospike/data'')])
      | _ \<Rightarrow> JObj [(''storageClass'', JStr ''standard''), (''size'', JStr ''10Gi''),
                 (''mountPath'', JStr ''/opt/aerospike/data'')])"

datatype ns_edit =
    SyncDefault \<comment> \<open>the effect that runs when the form has no namespace\<close>
  | NsName nat string | NsReplication nat string
  | NsMemory nat | NsDevice nat | NsDataSize nat string | NsFile nat string | NsFileSize nat string
  | AddNamespace | RemoveNamespace nat
  | StorageClass string | StorageSize string | StorageMount string

definition updateNamespace :: "form \<Rightarrow> nat \<Rightarrow> updates \<Rightarrow> updates" where
  "updateNamespace f i patch = [(''namespaces'', Some (JArr (update_at i patch (form_namespaces f))))]"

definition engine_of :: "form \<Rightarrow> nat \<Rightarrow> json" where
  "engine_of f i =
     (let nss = form_namespaces f in
      if i < length nss then sub_or (Some (nss ! i)) ''storageEngine'' (JObj []) else JObj [])"

fun ns_update :: "form \<Rightarrow> ns_edit \<Rightarrow> updates" where
  "ns_update f SyncDefault =
     (if arr_or_empty (obj_get f ''namespaces'') = []
      then [(''namespaces'', Some (JArr [defaultMemoryNamespace (form_size f) 0]))] else [])"
| "ns_update f (NsName i v) = updateNamespace f i [(''name'', Some (JStr v))]"
| "ns_update f (NsReplication i v) = updateNamespace f i [(''replicationFactor'', Some (JNum (int_or 1 v)))]"
| "ns_update f (NsMemory i) =
     updateNamespace f i
       [(''storageEngine'', Some (JObj [(''type'', JStr ''memory''), (''dataSize'', JNum (inum 1073741824))]))]"
| "ns_update f (NsDevice i) =
     updateNamespace f i
       [(''storageEngine'', Some (JObj [(''type'', JStr ''device''), (''file'', JStr ''/opt/aerospike/data/ns.dat''),
           (''filesize'', JNum (inum 4294967296))]))]"
| "ns_update f (NsDataSize i v) =
     updateNamespace f i
       [(''storageEngine'', Some (spread (engine_of f i)
           [(''type'', Some (JStr ''memory'')), (''dataSize'', Some (JNum (parseInt10 v)))]))]"
| "ns_update f (NsFile i v) =
     updateNamespace f i
       [(''storageEngine'', Some (spread (engine_of f i)
           [(''type'', Some (JStr ''device'')), (''file'', Some (JStr v))]))]"
| "ns_update f (NsFileSize i v) =
     updateNamespace f i
       [(''storageEngine'', Some (spread (engine_of f i)
           [(''type'', Some (JStr ''device'')), (''filesize'', Some (JNum (int_or 0 v)))]))]"
| "ns_update f AddNamespace =
     (let nss = form_namespaces f in
      if length nss \<ge> MAX_CE_NAMESPACES then []
      else [(''namespaces'', Some (JArr (nss @ [defaultMemoryNamespace (form_size f) (length nss)])))])"
| "ns_update f (RemoveNamespace i) =
     (let nss = form_namespaces f in
      if length nss \<le> 1 then [] else [(''namespaces'', Some (JArr (remove_at i nss)))])"
| "ns_update f (StorageClass v) = [(''storage'', Some (spread (legacyStorage f) [(''storageClass'', Some (JStr v))]))]"
| "ns_update f (StorageSize v) = [(''storage'', Some (spread (legacyStorage f) [(''size'', Some (JStr v))]))]"
| "ns_update f (StorageMount v) = [(''storage'', Some (spread (legacyStorage f) [(''mountPath'', Some (JStr v))]))]"

section \<open>Advanced settings (StepAdvanced.tsx)\<close>

definition set_in :: "form \<Rightarrow> string \<Rightarrow> json \<Rightarrow> updates \<Rightarrow> updates" where
  \<comment> \<open>\<open>updateForm({ k: { ...(form.k ?? d), ...patch } })\<close>\<close>
  "set_in f k d patch = [(k, Some (spread (field_or f k d) patch))]"

datatype monitoring_edit = MonEnabled bool | MonPort string | MonImage string

definition default_monitoring :: json where
  "default_monitoring = JObj [(''enabled'', JBool False), (''port'', JNum (inum 9145))]"

fun monitoring_update :: "form \<Rightarrow> monitoring_edit \<Rightarrow> updates" where
  "monitoring_update f (MonEnabled b) =
     set_in f ''monitoring'' default_monitoring [(''enabled'', Some (JBool b))]"
| "monitoring_update f (MonPort v) =
     set_in f ''monitoring'' default_monitoring [(''port'', Some (JNum (int_or 9145 v)))]"
| "monitoring_update f (MonImage v) =
     set_in f ''monitoring'' default_monitoring [(''exporterImage'', Some (JStr v))]"

datatype acl_edit =
    AclEnabled bool | AclTimeout string
  | AddRole | RoleName nat string | RolePrivileges nat "string list option"
  | RoleWhitelist nat "string list option" | RemoveRole nat
  | AddUser | UserName nat string | UserSecret nat string | UserRoles nat "string list option"
  | RemoveUser nat

definition default_acl :: json where
  "default_acl = JObj [(''enabled'', JBool False), (''roles'', JArr []), (''users'', JArr [])]"

definition acl_list :: "form \<Rightarrow> string \<Rightarrow> json list" where
  \<comment> \<open>\<open>acl.roles ?? []\<close> and \<open>acl.users ?? []\<close>\<close>
  "acl_list f k = arr_or_empty (json_field (field_or f ''acl'' default_acl) k)"

definition set_acl :: "form \<Rightarrow> updates \<Rightarrow> updates" where
  "set_acl f patch = set_in f ''acl'' default_acl patch"

fun acl_update :: "form \<Rightarrow> acl_edit \<Rightarrow> updates" where
  "acl_update f (AclEnabled b) = set_acl f [(''enabled'', Some (JBool b))]"
| "acl_update f (AclTimeout v) = set_acl f [(''adminPolicyTimeout'', Some (JNum (int_or 30 v)))]"
| "acl_update f AddRole =
     set_acl f [(''roles'', Some (JArr (acl_list f ''roles'' @
       [JObj [(''name'', JStr []), (''privileges'', JArr []), (''whitelist'', JNull)]])))]"
| "acl_update f (RoleName i v) =
     set_acl f [(''roles'', Some (JArr (update_at i [(''name'', Some (JStr v))] (acl_list f ''roles''))))]"
| "acl_update f (RolePrivileges i ps) =
     set_acl f [(''roles'', Some (JArr (update_at i [(''privileges'', Some (strs_json (nullish ps [])))]
       (acl_list f ''roles''))))]"
| "acl_update f (RoleWhitelist i ws) =
     set_acl f [(''roles'', Some (JArr (update_at i [(''whitelist'', Some (opt_json strs_json ws))]
       (acl_list f ''roles''))))]"
| "acl_update f (RemoveRole i) = set_acl f [(''roles'', Some (JArr (remove_at i (acl_list f ''roles''))))]"
| "acl_update f AddUser =
     set_acl f [(''users'', Some (JArr (acl_list f ''users'' @
       [JObj [(''name'', JStr []), (''secretName'', JStr []), (''roles'', JArr [])]])))]"
| "acl_update f (UserName i v) =
     set_acl f [(''users'', Some (JArr (update_at i [(''name'', Some (JStr v))] (acl_list f ''users''))))]"
| "acl_update f (UserSecret i v) =
     set_acl f [(''users'', Some (JArr (update_at i [(''secretName'', Some (JStr v))] (acl_list f ''users''))))]"
| "acl_update f (UserRoles i rs) =
     set_acl f [(''users'', Some (JArr (update_at i [(''roles'', Some (strs_json (nullish rs [])))]
       (acl_list f ''users''))))]"
| "acl_update f (RemoveUser i) = set_acl f [(''users'', Some (JArr (remove_at i (acl_list f ''users''))))]"

datatype rolling_edit = RuBatch string | RuMaxUnavailable string | RuDisablePDB bool

fun rolling_update :: "form \<Rightarrow> rolling_edit \<Rightarrow> updates" where
  "rolling_update f (RuBatch v) =
     (let n = parseInt10 v
      in set_in f ''rollingUpdate'' (JObj []) [(''batchSize'', if isFinite n then Some (JNum n) else None)])"
| "rolling_update f (RuMaxUnavailable v) =
     set_in f ''rollingUpdate'' (JObj []) [(''maxUnavailable'', if v = [] then None else Some (JStr v))]"
| "rolling_update f (RuDisablePDB b) =
     set_in f ''rollingUpdate'' (JObj []) [(''disablePDB'', Some (JBool b))]"

datatype rack_edit =
    RcScaleDown string | RcMaxIgnorable string | RcRollingBatch string
  | RcNamespaces "string list option"
  | AddRack | RackId nat string | RackZone nat string | RackRegion nat string | RackLabel nat string
  | RemoveRack nat

definition default_rack_config :: json where
  "default_rack_config = JObj [(''racks'', JArr [])]"

definition racks_of :: "form \<Rightarrow> json list" where
  "racks_of f = arr_or_empty (json_field (field_or f ''rackConfig'' default_rack_config) ''racks'')"

definition rack_max :: "json list \<Rightarrow> jsnum" where
  "rack_max rs = foldl (\<lambda>m r. Math_max m (num_or (Num 0) (json_field r ''id''))) (Num 0) rs"

definition next_rack_id :: "json list \<Rightarrow> jsnum" where
  \<comment> \<open>\<open>(racks.reduce(...) || 0) + 1\<close>\<close>
  "next_rack_id rs =
     (case (let m = rack_max rs in if num_falsy m then Num 0 else m) of
        Num x \<Rightarrow> num_of_rat (x + 1) | y \<Rightarrow> y)"

definition set_rack :: "form \<Rightarrow> updates \<Rightarrow> updates" where
  "set_rack f patch = set_in f ''rackConfig'' default_rack_config patch"

definition update_rack :: "form \<Rightarrow> nat \<Rightarrow> updates \<Rightarrow> updates" where
  "update_rack f i patch = set_rack f [(''racks'', Some (JArr (update_at i patch (racks_of f))))]"

fun rack_update :: "form \<Rightarrow> rack_edit \<Rightarrow> updates" where
  "rack_update f (RcScaleDown v) = set_rack f [(''scaleDownBatchSize'', Some (str_or_null v))]"
| "rack_update f (RcMaxIgnorable v) = set_rack f [(''maxIgnorablePods'', Some (str_or_null v))]"
| "rack_update f (RcRollingBatch v) = set_rack f [(''rollingUpdateBatchSize'', Some (str_or_null v))]"
| "rack_update f (RcNamespaces ns) = set_rack f [(''namespaces'', Some (opt_json strs_json ns))]"
| "rack_update f AddRack =
     set_rack f [(''racks'', Some (JArr (racks_of f @ [JObj [(''id'', JNum (next_rack_id (racks_of f)))]])))]"
| "rack_update f (RackId i v) = update_rack f i [(''id'', Some (JNum (int_or 1 v)))]"
| "rack_update f (RackZone i v) = update_rack f i [(''zone'', Some (str_or_null v))]"
| "rack_update f (RackRegion i v) = update_rack f i [(''region'', Some (str_or_null v))]"
| "rack_update f (RackLabel i v) = update_rack f i [(''rackLabel'', Some (str_or_null v))]"
| "rack_update f (RemoveRack i) = set_rack f [(''racks'', Some (JArr (remove_at i (racks_of f))))]"

datatype pod_edit =
    PsServiceAccount string | PsPolicy string | PsMultiPod bool | PsHostNetwork bool | PsReadiness bool
  | PsNodeSelector "dict option" | PsLabels "dict option" | PsAnnotations "dict option"
  | AddToleration | TolKey nat string | TolOperator nat string | TolValue nat string
  | TolEffect nat string | RemoveToleration nat

definition pod_of :: "form \<Rightarrow> json" where
  "pod_of f = field_or f ''podScheduling'' (JObj [])"

definition tolerations_of :: "form \<Rightarrow> json list" where
  "tolerations_of f = arr_or_empty (json_field (pod_of f) ''tolerations'')"

definition set_pod :: "form \<Rightarrow> updates \<Rightarrow> updates" where
  "set_pod f patch = set_in f ''podScheduling'' (JObj []) patch"

definition update_toleration :: "form \<Rightarrow> nat \<Rightarrow> updates \<Rightarrow> updates" where
  "update_toleration f i patch =
     set_pod f [(''tolerations'', Some (JArr (update_at i patch (tolerations_of f))))]"

definition pod_meta :: "form \<Rightarrow> json" where
  "pod_meta f =
     sub_or (Some (pod_of f)) ''metadata'' (JObj [(''labels'', JNull), (''annotations'', JNull)])"

fun pod_update :: "form \<Rightarrow> pod_edit \<Rightarrow> updates" where
  "pod_update f (PsServiceAccount v) = set_pod f [(''serviceAccountName'', Some (str_or_null v))]"
| "pod_update f (PsPolicy v) = set_pod f [(''podManagementPolicy'', Some (str_or_null v))]"
| "pod_update f (PsMultiPod b) = set_pod f [(''multiPodPerHost'', Some (JBool b))]"
| "pod_update f (PsHostNetwork b) = set_pod f [(''hostNetwork'', Some (JBool b))]"
| "pod_update f (PsReadiness b) = set_pod f [(''readinessGateEnabled'', Some (JBool b))]"
| "pod_update f (PsNodeSelector m) = set_pod f [(''nodeSelector'', Some (opt_json dict_json m))]"
| "pod_update f (PsLabels m) =
     set_pod f [(''metadata'', Some (spread (pod_meta f) [(''labels'', Some (opt_json dict_json m))]))]"
| "pod_update f (PsAnnotations m) =
     set_pod f [(''metadata'', Some (spread (pod_meta f) [(''annotations'', Some (opt_json dict_json m))]))]"
| "pod_update f AddToleration =
     set_pod f [(''tolerations'', Some (JArr (tolerations_of f @
       [JObj [(''key'', JStr []), (''operator'', JStr ''Equal''), (''value'', JStr []),
              (''effect'', JStr ''NoSchedule'')]])))]"
| "pod_update f (TolKey i v) = update_toleration f i [(''key'', Some (str_or_null v))]"
| "pod_update f (TolOperator i v) = update_toleration f i [(''operator'', Some (JStr v))]"
| "pod_update f (TolValue i v) = update_toleration f i [(''value'', Some (str_or_null v))]"
| "pod_update f (TolEffect i v) = update_toleration f i [(''effect'', Some (JStr v))]"
| "pod_update f (RemoveToleration i) =
     set_pod f [(''tolerations'', Some (JArr (remove_at i (tolerations_of f))))]"

datatype container_edit =
    AddContainer | ContainerName nat string | ContainerImage nat string | ContainerCommand nat string
  | ContainerArgs nat string | RemoveContainer nat

definition comma_list :: "string \<Rightarrow> json" where
  \<comment> \<open>\<open>v ? v.split(",").map(s => s.trim()) : null\<close>\<close>
  "comma_list v = (if v = [] then JNull else strs_json (map trim (splitOn (CHR '','') v)))"

fun container_list :: "json list \<Rightarrow> container_edit \<Rightarrow> json list" where
  "container_list cs AddContainer = cs @ [JObj [(''name'', JStr []), (''image'', JStr [])]]"
| "container_list cs (ContainerName i v) = update_at i [(''name'', Some (JStr v))] cs"
| "container_list cs (ContainerImage i v) = update_at i [(''image'', Some (JStr v))] cs"
| "container_list cs (ContainerCommand i v) = update_at i [(''command'', Some (comma_list v))] cs"
| "container_list cs (ContainerArgs i v) = update_at i [(''args'', Some (comma_list v))] cs"
| "container_list cs (RemoveContainer i) = remove_at i cs"

definition sidecars_update :: "form \<Rightarrow> string \<Rightarrow> container_edit \<Rightarrow> updates" where
  \<comment> \<open>\<open>k\<close> is \<open>sidecars\<close> or \<open>initContainers\<close>\<close>
  "sidecars_update f k ed =
     (let next = container_list (arr_or_empty (obj_get f k)) ed
      in [(k, if next \<noteq> [] then Some (JArr next) else None)])"

datatype misc_edit =
    NpAccess string | NpAlternate string | NpFabric string
  | BlockList "string list option"
  | BwIngress string | BwEgress string
  | VpSkip bool
  | HsLabels "dict option" | HsAnnotations "dict option" | PodSvcLabels "dict option" | PodSvcAnnotations "dict option"
  | RackIdOverride bool | DynamicConfig bool

definition default_access :: json where
  "default_access = JObj [(''accessType'', JStr ''pod'')]"

fun misc_update :: "form \<Rightarrow> misc_edit \<Rightarrow> updates" where
  "misc_update f (NpAccess v) = set_in f ''networkPolicy'' default_access [(''accessType'', Some (JStr v))]"
| "misc_update f (NpAlternate v) =
     set_in f ''networkPolicy'' default_access [(''alternateAccessType'', Some (str_or_null v))]"
| "misc_update f (NpFabric v) =
     set_in f ''networkPolicy'' default_access [(''fabricType'', Some (str_or_null v))]"
| "misc_update f (BlockList xs) = [(''k8sNodeBlockList'', Some (opt_json strs_json xs))]"
| "misc_update f (BwIngress v) = set_in f ''bandwidthConfig'' (JObj []) [(''ingress'', Some (str_or_null v))]"
| "misc_update f (BwEgress v) = set_in f ''bandwidthConfig'' (JObj []) [(''egress'', Some (str_or_null v))]"
| "misc_update f (VpSkip b) = set_in f ''validationPolicy'' (JObj []) [(''skipWorkDirValidate'', Some (JBool b))]"
| "misc_update f (HsLabels m) =
     set_in f ''headlessService'' (JObj []) [(''labels'', Some (opt_json dict_json m))]"
| "misc_update f (HsAnnotations m) =
     set_in f ''headlessService'' (JObj []) [(''annotations'', Some (opt_json dict_json m))]"
| "misc_update f (PodSvcLabels m) =
     set_in f ''podService'' (JObj []) [(''labels'', Some (opt_json dict_json m))]"
| "misc_update f (PodSvcAnnotations m) =
     set_in f ''podService'' (JObj []) [(''annotations'', Some (opt_json dict_json m))]"
| "misc_update f (RackIdOverride b) = [(''enableRackIDOverride'', Some (JBool b))]"
| "misc_update f (DynamicConfig b) = [(''enableDynamicConfig'', Some (JBool b))]"

datatype adv_edit =
    Monitoring monitoring_edit | Acl acl_edit | Rolling rolling_edit | Rack rack_edit | Pod pod_edit
  | Sidecars container_edit | InitContainers container_edit | Misc misc_edit

fun adv_update :: "form \<Rightarrow> adv_edit \<Rightarrow> updates" where
  "adv_update f (Monitoring e) = monitoring_update f e"
| "adv_update f (Acl e) = acl_update f e"
| "adv_update f (Rolling e) = rolling_update f e"
| "adv_update f (Rack e) = rack_update f e"
| "adv_update f (Pod e) = pod_update f e"
| "adv_update f (Sidecars e) = sidecars_update f ''sidecars'' e"
| "adv_update f (InitContainers e) = sidecars_update f ''initContainers'' e"
| "adv_update f (Misc e) = misc_update f e"

section \<open>Edits keep the form well typed\<close>

definition update_ok :: "(string \<times> bool \<times> (json \<Rightarrow> bool)) list \<Rightarrow> string \<times> json option \<Rightarrow> bool" where
  "update_ok spec u =
     list_all (\<lambda>(f, opt, c). f = fst u \<longrightarrow> (case snd u of None \<Rightarrow> opt | Some v \<Rightarrow> c v)) spec"

lemma obj_of_put:
  assumes "obj_of spec (JObj f)" "update_ok spec u"
  shows "obj_of spec (JObj (put f u))"
proof (cases "snd u")
  case None
  with assms obj_of_del [of spec f "fst u"] show ?thesis by (simp add: put_def update_ok_def)
next
  case (Some v)
  with assms obj_of_set [of spec f "fst u" v] show ?thesis by (simp add: put_def update_ok_def)
qed

lemma obj_of_updateForm:
  "obj_of spec (JObj f) \<Longrightarrow> list_all (update_ok spec) us \<Longrightarrow> obj_of spec (JObj (updateForm f us))"
  unfolding updateForm_def by (induction us arbitrary: f) (auto intro: obj_of_put simp del: obj_of.simps)

lemma obj_of_is_obj: "obj_of spec j \<Longrightarrow> \<exists>f. j = JObj f"
  by (cases j) auto

lemma obj_of_spread:
  "obj_of spec j \<Longrightarrow> list_all (update_ok spec) us \<Longrightarrow> obj_of spec (spread j us)"
  using obj_of_is_obj [of spec j] obj_of_updateForm
  by (auto simp: spread_def simp del: obj_of.simps)

lemma obj_of_field:
  assumes "obj_of spec (JObj f)" "(k, opt, c) \<in> set spec" "obj_get f k = Some v"
  shows "c v"
  using assms by (auto simp: list_all_iff field_ok_def dest!: bspec [of _ _ "(k, opt, c)"])

lemma nullable_not_null: "nullable c v \<Longrightarrow> v \<noteq> JNull \<Longrightarrow> c v"
  by (cases v) auto

lemma js_nullish_iff: "js_nullish v \<longleftrightarrow> v = None \<or> v = Some JNull"
  by (cases v rule: js_nullish.cases) auto

lemma field_or_typed:
  assumes "obj_of spec (JObj f)" "(k, opt, nullable c) \<in> set spec" "c d"
  shows "c (field_or f k d)"
  using assms(3) obj_of_field [OF assms(1,2)]
  by (auto simp: field_or_def js_nullish_iff intro: nullable_not_null)

lemma sub_or_typed:
  assumes "obj_of spec j" "(k, opt, c) \<in> set spec \<or> (k, opt, nullable c) \<in> set spec" "c d"
  shows "c (sub_or (Some j) k d)"
proof -
  obtain f where f: "j = JObj f" using obj_of_is_obj [OF assms(1)] by blast
  show ?thesis
  proof (cases "js_nullish (obj_get f k)")
    case True
    with assms(3) f show ?thesis by (simp add: sub_or_def json_field_def)
  next
    case False
    then obtain v where v: "obj_get f k = Some v" "v \<noteq> JNull" by (auto simp: js_nullish_iff)
    then have "c v"
      using obj_of_field [OF assms(1) [unfolded f]] assms(2) nullable_not_null by metis
    with False v f show ?thesis by (simp add: sub_or_def json_field_def)
  qed
qed

lemma arr_typed:
  assumes "obj_of spec j" "(k, opt, array_of c) \<in> set spec \<or> (k, opt, nullable (array_of c)) \<in> set spec"
  shows "list_all c (arr_or_empty (json_field j k))"
proof (cases "json_field j k")
  case (Some v)
  obtain f where f: "j = JObj f" using obj_of_is_obj [OF assms(1)] by blast
  with Some have "array_of c v \<or> nullable (array_of c) v"
    using obj_of_field [OF assms(1) [unfolded f]] assms(2) by (fastforce simp: json_field_def)
  with Some show ?thesis by (cases v) auto
qed simp

lemma list_all_update_at:
  "list_all c xs \<Longrightarrow> (\<And>x. c x \<Longrightarrow> c (spread x us)) \<Longrightarrow> list_all c (update_at i us xs)"
  by (auto simp: update_at_def list_all_iff in_set_enumerate_eq)

lemma list_all_remove_at: "list_all c xs \<Longrightarrow> list_all c (remove_at i xs)"
  by (auto simp: remove_at_def list_all_iff in_set_enumerate_eq)

lemma array_strs [simp]: "array_of is_str (strs_json xs)"
  by (simp add: strs_json_def list_all_iff)

lemma nullable_strs [simp]: "nullable (array_of is_str) (opt_json strs_json xs)"
  by (cases xs) (simp_all add: opt_json_def strs_json_def list_all_iff)

lemma nullable_str_or_null [simp]: "nullable is_str (str_or_null v)"
  by (simp add: str_or_null_def)

lemma nullable_dict: "nullable (record_of is_str) (opt_json dict_json m) \<longleftrightarrow> (\<forall>d. m = Some d \<longrightarrow> wf_obj d)"
  by (cases m) (auto simp: opt_json_def dict_json_def list_all_iff comp_def case_prod_beta)

lemma nullable_comma [simp]: "nullable (array_of is_str) (comma_list v)"
  by (simp add: comma_list_def strs_json_def list_all_iff)

lemma nullable_obj: "nullable c v \<longleftrightarrow> v = JNull \<or> c v"
  by (cases v) auto

text \<open>
  Reading and writing the fields of a well-typed form that the editors touch.
\<close>

lemma create_get:
  assumes "wt_CreateK8sClusterRequest (JObj f)"
  shows "wt_MonitoringConfig (field_or f ''monitoring'' default_monitoring)"
    "wt_ACLConfig (field_or f ''acl'' default_acl)"
    "wt_RollingUpdateConfig (field_or f ''rollingUpdate'' (JObj []))"
    "wt_RackAwareConfig (field_or f ''rackConfig'' default_rack_config)"
    "wt_PodSchedulingConfig (field_or f ''podScheduling'' (JObj []))"
    "wt_NetworkAccessConfig (field_or f ''networkPolicy'' default_access)"
    "wt_BandwidthConfig (field_or f ''bandwidthConfig'' (JObj []))"
    "wt_ValidationPolicyConfig (field_or f ''validationPolicy'' (JObj []))"
    "wt_ServiceMetadataConfig (field_or f ''headlessService'' (JObj []))"
    "wt_ServiceMetadataConfig (field_or f ''podService'' (JObj []))"
  by (rule field_or_typed [OF assms [unfolded wt_CreateK8sClusterRequest_def], where opt = True],
      (simp add: create_spec_def; fail), code_simp)+

lemma create_update:
  "wt_CreateK8sClusterRequest (JObj f) \<Longrightarrow> update_ok create_spec u \<Longrightarrow>
   wt_CreateK8sClusterRequest (JObj (updateForm f [u]))"
  unfolding wt_CreateK8sClusterRequest_def by (rule obj_of_updateForm) simp_all

lemma create_put:
  assumes "wt_CreateK8sClusterRequest (JObj f)"
  shows "wt_MonitoringConfig v \<Longrightarrow> wt_CreateK8sClusterRequest (JObj (updateForm f [(''monitoring'', Some v)]))"
    "wt_ACLConfig v \<Longrightarrow> wt_CreateK8sClusterRequest (JObj (updateForm f [(''acl'', Some v)]))"
    "wt_RollingUpdateConfig v \<Longrightarrow> wt_CreateK8sClusterRequest (JObj (updateForm f [(''rollingUpdate'', Some v)]))"
    "wt_RackAwareConfig v \<Longrightarrow> wt_CreateK8sClusterRequest (JObj (updateForm f [(''rackConfig'', Some v)]))"
    "wt_PodSchedulingConfig v \<Longrightarrow> wt_CreateK8sClusterRequest (JObj (updateForm f [(''podScheduling'', Some v)]))"
    "wt_NetworkAccessConfig v \<Longrightarrow> wt_CreateK8sClusterRequest (JObj (updateForm f [(''networkPolicy'', Some v)]))"
    "wt_BandwidthConfig v \<Longrightarrow> wt_CreateK8sClusterRequest (JObj (updateForm f [(''bandwidthConfig'', Some v)]))"
    "wt_ValidationPolicyConfig v \<Longrightarrow> wt_CreateK8sClusterRequest (JObj (updateForm f [(''validationPolicy'', Some v)]))"
    "wt_ServiceMetadataConfig v \<Longrightarrow> wt_CreateK8sClusterRequest (JObj (updateForm f [(''headlessService'', Some v)]))"
    "wt_ServiceMetadataConfig v \<Longrightarrow> wt_CreateK8sClusterRequest (JObj (updateForm f [(''podService'', Some v)]))"
    "nullable (array_of is_str) v \<Longrightarrow> wt_CreateK8sClusterRequest (JObj (updateForm f [(''k8sNodeBlockList'', Some v)]))"
    "wt_CreateK8sClusterRequest (JObj (updateForm f [(''enableRackIDOverride'', Some (JBool b))]))"
    "wt_CreateK8sClusterRequest (JObj (updateForm f [(''enableDynamicConfig'', Some (JBool b))]))"
    "(\<And>xs. u = Some xs \<Longrightarrow> array_of wt_SidecarConfig xs) \<Longrightarrow>
       wt_CreateK8sClusterRequest (JObj (updateForm f [(''sidecars'', u)]))"
    "(\<And>xs. u = Some xs \<Longrightarrow> array_of wt_SidecarConfig xs) \<Longrightarrow>
       wt_CreateK8sClusterRequest (JObj (updateForm f [(''initContainers'', u)]))"
    "array_of wt_AerospikeNamespaceConfig v \<Longrightarrow>
       wt_CreateK8sClusterRequest (JObj (updateForm f [(''namespaces'', Some v)]))"
    "wt_StorageVolumeConfig v \<Longrightarrow> wt_CreateK8sClusterRequest (JObj (updateForm f [(''storage'', Some v)]))"
    "wt_ResourceConfig v \<Longrightarrow> wt_CreateK8sClusterRequest (JObj (updateForm f [(''resources'', Some v)]))"
  by (rule create_update [OF assms], (auto simp: update_ok_def create_spec_def nullable_obj either_def split: option.split)[1])+

definition edit_ok :: "adv_edit \<Rightarrow> bool" where
  \<comment> \<open>what the DOM guarantees of an event: a select yields one of its options, and a key-value
     editor yields an object\<close>
  "edit_ok e =
     (case e of
        Misc (NpAccess v) \<Rightarrow> v \<in> set [''pod'', ''hostInternal'', ''hostExternal'', ''configuredIP'']
      | Misc (NpAlternate v) \<Rightarrow> v \<in> set [[], ''pod'', ''hostInternal'', ''hostExternal'', ''configuredIP'']
      | Misc (NpFabric v) \<Rightarrow> v \<in> set [[], ''pod'', ''hostInternal'', ''hostExternal'', ''configuredIP'']
      | Pod (PsPolicy v) \<Rightarrow> v \<in> set [[], ''OrderedReady'', ''Parallel'']
      | Pod (TolOperator i v) \<Rightarrow> v \<in> set [''Equal'', ''Exists'']
      | Pod (TolEffect i v) \<Rightarrow> v \<in> set [[], ''NoSchedule'', ''PreferNoSchedule'', ''NoExecute'']
      | Pod (PsNodeSelector m) \<Rightarrow> wf_obj (nullish m [])
      | Pod (PsLabels m) \<Rightarrow> wf_obj (nullish m [])
      | Pod (PsAnnotations m) \<Rightarrow> wf_obj (nullish m [])
      | Misc (HsLabels m) \<Rightarrow> wf_obj (nullish m [])
      | Misc (HsAnnotations m) \<Rightarrow> wf_obj (nullish m [])
      | Misc (PodSvcLabels m) \<Rightarrow> wf_obj (nullish m [])
      | Misc (PodSvcAnnotations m) \<Rightarrow> wf_obj (nullish m [])
      | _ \<Rightarrow> True)"

lemma nullable_dict_ok: "wf_obj (nullish m []) \<Longrightarrow> nullable (record_of is_str) (opt_json dict_json m)"
  by (simp add: nullable_dict) force

lemma monitoring_typed:
  assumes "wt_CreateK8sClusterRequest (JObj f)"
  shows "wt_CreateK8sClusterRequest (JObj (updateForm f (monitoring_update f e)))"
proof -
  note m = create_get(1) [OF assms, unfolded wt_MonitoringConfig_def]
  show ?thesis
    by (cases e) (auto simp: set_in_def wt_MonitoringConfig_def update_ok_def
        intro!: create_put(1) [OF assms] obj_of_spread [OF m])
qed

lemma role_typed:
  "wt_ACLRoleSpec x \<Longrightarrow> wt_ACLRoleSpec (spread x [(''name'', Some (JStr v))])"
  "wt_ACLRoleSpec x \<Longrightarrow> wt_ACLRoleSpec (spread x [(''privileges'', Some (strs_json ps))])"
  "wt_ACLRoleSpec x \<Longrightarrow> wt_ACLRoleSpec (spread x [(''whitelist'', Some (opt_json strs_json ws))])"
  unfolding wt_ACLRoleSpec_def by (erule obj_of_spread; simp add: update_ok_def)+

lemma user_typed:
  "wt_ACLUserSpec x \<Longrightarrow> wt_ACLUserSpec (spread x [(''name'', Some (JStr v))])"
  "wt_ACLUserSpec x \<Longrightarrow> wt_ACLUserSpec (spread x [(''secretName'', Some (JStr v))])"
  "wt_ACLUserSpec x \<Longrightarrow> wt_ACLUserSpec (spread x [(''roles'', Some (strs_json ps))])"
  unfolding wt_ACLUserSpec_def by (erule obj_of_spread; simp add: update_ok_def)+

lemma acl_typed:
  assumes "wt_CreateK8sClusterRequest (JObj f)"
  shows "wt_CreateK8sClusterRequest (JObj (updateForm f (acl_update f e)))"
proof -
  note a = create_get(2) [OF assms, unfolded wt_ACLConfig_def]
  have roles: "list_all wt_ACLRoleSpec (acl_list f ''roles'')"
    and users: "list_all wt_ACLUserSpec (acl_list f ''users'')"
    unfolding acl_list_def by (rule arr_typed [OF a, where opt = True]; simp)+
  have new: "wt_ACLRoleSpec (JObj [(''name'', JStr []), (''privileges'', JArr []), (''whitelist'', JNull)])"
    "wt_ACLUserSpec (JObj [(''name'', JStr []), (''secretName'', JStr []), (''roles'', JArr [])])"
    by code_simp+
  have s: "wt_CreateK8sClusterRequest (JObj (updateForm f (set_acl f [u])))"
    if "update_ok [(''enabled'', True, is_bool), (''roles'', True, array_of wt_ACLRoleSpec),
      (''users'', True, array_of wt_ACLUserSpec), (''adminPolicyTimeout'', True, is_num)] u" for u
    using that unfolding set_acl_def set_in_def
    by (intro create_put(2) [OF assms], unfold wt_ACLConfig_def) (rule obj_of_spread [OF a]; simp)
  show ?thesis
    using roles users new
    by (cases e) (auto simp: update_ok_def
        intro!: s list_all_update_at list_all_remove_at role_typed user_typed)
qed

lemma rolling_typed:
  assumes "wt_CreateK8sClusterRequest (JObj f)"
  shows "wt_CreateK8sClusterRequest (JObj (updateForm f (rolling_update f e)))"
proof -
  note m = create_get(3) [OF assms, unfolded wt_RollingUpdateConfig_def]
  show ?thesis
    by (cases e) (auto simp: set_in_def wt_RollingUpdateConfig_def update_ok_def Let_def
        intro!: create_put(3) [OF assms] obj_of_spread [OF m])
qed

lemma rack_item_typed:
  "wt_RackConfig x \<Longrightarrow> wt_RackConfig (spread x [(''id'', Some (JNum n))])"
  "wt_RackConfig x \<Longrightarrow> wt_RackConfig (spread x [(''zone'', Some (str_or_null v))])"
  "wt_RackConfig x \<Longrightarrow> wt_RackConfig (spread x [(''region'', Some (str_or_null v))])"
  "wt_RackConfig x \<Longrightarrow> wt_RackConfig (spread x [(''rackLabel'', Some (str_or_null v))])"
  unfolding wt_RackConfig_def by (erule obj_of_spread; simp add: update_ok_def)+

lemma new_rack_typed: "wt_RackConfig (JObj [(''id'', JNum n)])"
  by (simp add: wt_RackConfig_def field_ok_def)

lemma rack_typed:
  assumes "wt_CreateK8sClusterRequest (JObj f)"
  shows "wt_CreateK8sClusterRequest (JObj (updateForm f (rack_update f e)))"
proof -
  note a = create_get(4) [OF assms, unfolded wt_RackAwareConfig_def]
  have racks: "list_all wt_RackConfig (racks_of f)"
    unfolding racks_of_def by (rule arr_typed [OF a, where opt = True]) simp
  have s: "wt_CreateK8sClusterRequest (JObj (updateForm f (set_rack f [u])))"
    if "update_ok [(''racks'', True, array_of wt_RackConfig), (''namespaces'', True, nullable (array_of is_str)),
      (''scaleDownBatchSize'', True, nullable is_str), (''maxIgnorablePods'', True, nullable is_str),
      (''rollingUpdateBatchSize'', True, nullable is_str)] u" for u
    using that unfolding set_rack_def set_in_def
    by (intro create_put(4) [OF assms], unfold wt_RackAwareConfig_def) (rule obj_of_spread [OF a]; simp)
  show ?thesis
    using racks
    by (cases e) (auto simp: update_ok_def update_rack_def new_rack_typed
        intro!: s list_all_update_at list_all_remove_at rack_item_typed)
qed

lemma toleration_typed:
  "wt_TolerationConfig x \<Longrightarrow> wt_TolerationConfig (spread x [(''key'', Some (str_or_null v))])"
  "wt_TolerationConfig x \<Longrightarrow> wt_TolerationConfig (spread x [(''value'', Some (str_or_null v))])"
  "wt_TolerationConfig x \<Longrightarrow> v = ''Equal'' \<or> v = ''Exists'' \<Longrightarrow>
     wt_TolerationConfig (spread x [(''operator'', Some (JStr v))])"
  "wt_TolerationConfig x \<Longrightarrow> v \<in> set [[], ''NoSchedule'', ''PreferNoSchedule'', ''NoExecute''] \<Longrightarrow>
     wt_TolerationConfig (spread x [(''effect'', Some (JStr v))])"
  unfolding wt_TolerationConfig_def by (erule obj_of_spread; fastforce simp add: update_ok_def)+

lemma new_toleration_typed:
  "wt_TolerationConfig (JObj [(''key'', JStr []), (''operator'', JStr ''Equal''), (''value'', JStr []),
     (''effect'', JStr ''NoSchedule'')])"
  by code_simp

lemma pod_meta_typed:
  assumes "wt_CreateK8sClusterRequest (JObj f)" "wf_obj (nullish m [])"
  shows "wt_PodMetadataConfig (spread (pod_meta f) [(''labels'', Some (opt_json dict_json m))])"
    "wt_PodMetadataConfig (spread (pod_meta f) [(''annotations'', Some (opt_json dict_json m))])"
proof -
  have "wt_PodMetadataConfig (JObj [(''labels'', JNull), (''annotations'', JNull)])" by code_simp
  then have p: "wt_PodMetadataConfig (pod_meta f)"
    unfolding pod_meta_def pod_of_def
    by (rule sub_or_typed [OF create_get(5) [OF assms(1), unfolded wt_PodSchedulingConfig_def],
        where opt = True, rotated]) simp
  show "wt_PodMetadataConfig (spread (pod_meta f) [(''labels'', Some (opt_json dict_json m))])"
    "wt_PodMetadataConfig (spread (pod_meta f) [(''annotations'', Some (opt_json dict_json m))])"
    using p nullable_dict_ok [OF assms(2)] unfolding wt_PodMetadataConfig_def
    by (auto simp: update_ok_def simp del: obj_of.simps intro!: obj_of_spread)
qed

lemma pod_typed:
  assumes "wt_CreateK8sClusterRequest (JObj f)" "edit_ok (Pod e)"
  shows "wt_CreateK8sClusterRequest (JObj (updateForm f (pod_update f e)))"
proof -
  note a = create_get(5) [OF assms(1), unfolded wt_PodSchedulingConfig_def]
  have tols: "list_all wt_TolerationConfig (tolerations_of f)"
    unfolding tolerations_of_def pod_of_def by (rule arr_typed [OF a, where opt = True]) simp
  have set_pod: "wt_CreateK8sClusterRequest (JObj (updateForm f (set_pod f us)))"
    if "wt_PodSchedulingConfig (spread (field_or f ''podScheduling'' (JObj [])) us)" for us
    using that unfolding set_pod_def set_in_def by (rule create_put(5) [OF assms(1)])
  have tol: "wt_PodSchedulingConfig (spread (field_or f ''podScheduling'' (JObj [])) [(''tolerations'', Some (JArr ts))])"
    if "list_all wt_TolerationConfig ts" for ts
    unfolding wt_PodSchedulingConfig_def
    by (rule obj_of_spread [OF a]) (use that in \<open>simp add: update_ok_def\<close>)
  have meta: "wt_PodSchedulingConfig (spread (field_or f ''podScheduling'' (JObj [])) [(''metadata'', Some m)])"
    if "wt_PodMetadataConfig m" for m
    unfolding wt_PodSchedulingConfig_def
    by (rule obj_of_spread [OF a]) (use that in \<open>simp add: update_ok_def nullable_obj\<close>)
  have sel: "wt_PodSchedulingConfig (spread (field_or f ''podScheduling'' (JObj []))
      [(''nodeSelector'', Some (opt_json dict_json m))])" if "wf_obj (nullish m [])" for m
    unfolding wt_PodSchedulingConfig_def
    by (rule obj_of_spread [OF a]) (simp add: update_ok_def nullable_dict_ok [OF that])
  have pol: "wt_PodSchedulingConfig (spread (field_or f ''podScheduling'' (JObj []))
      [(''podManagementPolicy'', Some (str_or_null v))])" if "v \<in> set [[], ''OrderedReady'', ''Parallel'']" for v
    unfolding wt_PodSchedulingConfig_def
    by (rule obj_of_spread [OF a]) (use that in \<open>auto simp: update_ok_def str_or_null_def\<close>)
  have flag: "wt_PodSchedulingConfig (spread (field_or f ''podScheduling'' (JObj [])) [(k, Some (JBool b))])"
    if "k \<in> set [''multiPodPerHost'', ''hostNetwork'', ''readinessGateEnabled'']" for k b
    unfolding wt_PodSchedulingConfig_def
    by (rule obj_of_spread [OF a]) (use that in \<open>auto simp: update_ok_def\<close>)
  have sa: "wt_PodSchedulingConfig (spread (field_or f ''podScheduling'' (JObj []))
      [(''serviceAccountName'', Some (str_or_null v))])" for v
    unfolding wt_PodSchedulingConfig_def by (rule obj_of_spread [OF a]) (simp add: update_ok_def)
  have up: "wt_CreateK8sClusterRequest (JObj (updateForm f (update_toleration f i us)))"
    if "\<And>x. wt_TolerationConfig x \<Longrightarrow> wt_TolerationConfig (spread x us)" for i us
    unfolding update_toleration_def by (intro set_pod tol list_all_update_at tols that)
  show ?thesis
    using assms(2) tols new_toleration_typed
    by (cases e)
      (auto simp: edit_ok_def
        intro!: set_pod tol meta sel pol flag sa up list_all_remove_at toleration_typed pod_meta_typed [OF assms(1)])
qed

lemma container_item_typed:
  "wt_SidecarConfig x \<Longrightarrow> wt_SidecarConfig (spread x [(''name'', Some (JStr v))])"
  "wt_SidecarConfig x \<Longrightarrow> wt_SidecarConfig (spread x [(''image'', Some (JStr v))])"
  "wt_SidecarConfig x \<Longrightarrow> wt_SidecarConfig (spread x [(''command'', Some (comma_list v))])"
  "wt_SidecarConfig x \<Longrightarrow> wt_SidecarConfig (spread x [(''args'', Some (comma_list v))])"
  unfolding wt_SidecarConfig_def by (erule obj_of_spread; simp add: update_ok_def)+

lemma container_list_typed:
  assumes "list_all wt_SidecarConfig cs"
  shows "list_all wt_SidecarConfig (container_list cs e)"
proof -
  have "wt_SidecarConfig (JObj [(''name'', JStr []), (''image'', JStr [])])" by code_simp
  with assms show ?thesis
    by (cases e) (auto intro!: list_all_update_at list_all_remove_at container_item_typed)
qed

lemma sidecars_typed:
  assumes "wt_CreateK8sClusterRequest (JObj f)"
  shows "wt_CreateK8sClusterRequest (JObj (updateForm f (sidecars_update f ''sidecars'' e)))"
    "wt_CreateK8sClusterRequest (JObj (updateForm f (sidecars_update f ''initContainers'' e)))"
proof -
  have "list_all wt_SidecarConfig (arr_or_empty (json_field (JObj f) k))"
    if "k = ''sidecars'' \<or> k = ''initContainers''" for k
    by (rule arr_typed [OF assms [unfolded wt_CreateK8sClusterRequest_def], where opt = True])
      (use that in \<open>auto simp: create_spec_def\<close>)
  then have "list_all wt_SidecarConfig (container_list (arr_or_empty (obj_get f k)) e)"
    if "k = ''sidecars'' \<or> k = ''initContainers''" for k
    using that by (intro container_list_typed) (simp add: json_field_def)
  then show "wt_CreateK8sClusterRequest (JObj (updateForm f (sidecars_update f ''sidecars'' e)))"
    "wt_CreateK8sClusterRequest (JObj (updateForm f (sidecars_update f ''initContainers'' e)))"
    unfolding sidecars_update_def Let_def
    by (auto intro!: create_put(14,15) [OF assms] split: if_splits)
qed

lemma misc_typed:
  assumes "wt_CreateK8sClusterRequest (JObj f)" "edit_ok (Misc e)"
  shows "wt_CreateK8sClusterRequest (JObj (updateForm f (misc_update f e)))"
proof -
  note g = create_get(6-10) [OF assms(1), unfolded wt_NetworkAccessConfig_def wt_BandwidthConfig_def
      wt_ValidationPolicyConfig_def wt_ServiceMetadataConfig_def]
  show ?thesis
    using assms(2)
    by (cases e)
      (auto simp: set_in_def edit_ok_def update_ok_def wt_NetworkAccessConfig_def wt_BandwidthConfig_def
        wt_ValidationPolicyConfig_def wt_ServiceMetadataConfig_def nullable_dict_ok str_or_null_def
        intro!: create_put(6-13) [OF assms(1)] g [THEN obj_of_spread])
qed



section \<open>Basic and namespace edits keep the form well typed\<close>

lemma resource_spec_typed:
  assumes "wt_CreateK8sClusterRequest (JObj f)"
  shows "wt_ResourceSpec (requests_of f)" "wt_ResourceSpec (limits_of f)"
proof -
  have d: "wt_ResourceSpec default_requests" "wt_ResourceSpec default_limits" by code_simp+
  have r: "wt_ResourceConfig r" if "obj_get f ''resources'' = Some r" "r \<noteq> JNull" for r
    using obj_of_field [OF assms [unfolded wt_CreateK8sClusterRequest_def], of "''resources''" True "nullable wt_ResourceConfig"]
      that by (auto simp: create_spec_def intro: nullable_not_null)
  have "wt_ResourceSpec (sub_or (obj_get f ''resources'') k d)"
    if "k = ''requests'' \<or> k = ''limits''" "wt_ResourceSpec d" for k d
  proof (cases "obj_get f ''resources'' = None \<or> obj_get f ''resources'' = Some JNull")
    case True
    with that show ?thesis by (auto simp: sub_or_def json_field_def)
  next
    case False
    then obtain v where v: "obj_get f ''resources'' = Some v" "v \<noteq> JNull" by auto
    show ?thesis unfolding v(1)
      by (rule sub_or_typed [OF r [OF v, unfolded wt_ResourceConfig_def], where opt = True])
        (use that in auto)
  qed
  with d show "wt_ResourceSpec (requests_of f)" "wt_ResourceSpec (limits_of f)"
    by (simp_all add: requests_of_def limits_of_def)
qed

lemma resource_spread_typed:
  "wt_ResourceSpec x \<Longrightarrow> wt_ResourceSpec (spread x [(''cpu'', Some (JStr v))])"
  "wt_ResourceSpec x \<Longrightarrow> wt_ResourceSpec (spread x [(''memory'', Some (JStr v))])"
  unfolding wt_ResourceSpec_def by (erule obj_of_spread; simp add: update_ok_def)+

lemma resources_typed:
  assumes "wt_CreateK8sClusterRequest (JObj f)" "wt_ResourceSpec req" "wt_ResourceSpec limit"
  shows "wt_CreateK8sClusterRequest (JObj (updateForm f (resources_update req limit)))"
proof -
  have "wt_ResourceConfig (JObj [(''requests'', req), (''limits'', limit)])"
    using assms(2,3) by (simp add: wt_ResourceConfig_def field_ok_def)
  then show ?thesis unfolding resources_update_def by (rule create_put(18) [OF assms(1)])
qed

lemma create_scalar:
  assumes "wt_CreateK8sClusterRequest (JObj f)"
  shows "wt_CreateK8sClusterRequest (JObj (updateForm f [(''name'', Some (JStr v))]))"
    "wt_CreateK8sClusterRequest (JObj (updateForm f [(''namespace'', Some (JStr v))]))"
    "wt_CreateK8sClusterRequest (JObj (updateForm f [(''workspaceId'', Some (JStr v))]))"
    "wt_CreateK8sClusterRequest (JObj (updateForm f [(''image'', Some (JStr v))]))"
    "wt_CreateK8sClusterRequest (JObj (updateForm f [(''size'', Some (JNum n))]))"
    "wt_CreateK8sClusterRequest (JObj (updateForm f [(''autoConnect'', Some (JBool b))]))"
  by (rule create_update [OF assms], simp add: update_ok_def create_spec_def)+

lemma basic_typed:
  assumes "wt_CreateK8sClusterRequest (JObj f)"
  shows "wt_CreateK8sClusterRequest (JObj (updateForm f (basic_update f e)))"
  using resource_spec_typed [OF assms]
  by (cases e) (simp_all add: create_scalar [OF assms] resources_typed [OF assms] resource_spread_typed)

lemma default_namespace_typed: "wt_AerospikeNamespaceConfig (defaultMemoryNamespace n i)"
  by (simp add: defaultMemoryNamespace_def wt_AerospikeNamespaceConfig_def wt_AerospikeNamespaceStorage_def
      field_ok_def)

lemma form_namespaces_typed:
  assumes "wt_CreateK8sClusterRequest (JObj f)"
  shows "list_all wt_AerospikeNamespaceConfig (form_namespaces f)"
proof -
  have "list_all wt_AerospikeNamespaceConfig (arr_or_empty (json_field (JObj f) ''namespaces''))"
    by (rule arr_typed [OF assms [unfolded wt_CreateK8sClusterRequest_def], where opt = True])
      (simp add: create_spec_def)
  then show ?thesis
    by (simp add: form_namespaces_def Let_def json_field_def default_namespace_typed)
qed

lemma namespace_item_typed:
  "wt_AerospikeNamespaceConfig x \<Longrightarrow> wt_AerospikeNamespaceConfig (spread x [(''name'', Some (JStr v))])"
  "wt_AerospikeNamespaceConfig x \<Longrightarrow> wt_AerospikeNamespaceConfig (spread x [(''replicationFactor'', Some (JNum n))])"
  "wt_AerospikeNamespaceConfig x \<Longrightarrow> wt_AerospikeNamespaceStorage e \<Longrightarrow>
     wt_AerospikeNamespaceConfig (spread x [(''storageEngine'', Some e)])"
  unfolding wt_AerospikeNamespaceConfig_def by (erule obj_of_spread; simp add: update_ok_def)+

lemma engine_typed:
  assumes "wt_CreateK8sClusterRequest (JObj f)"
  shows "wt_AerospikeNamespaceStorage (engine_of f i)"
proof -
  have empty: "wt_AerospikeNamespaceStorage (JObj [])" by code_simp
  show ?thesis
  proof (cases "i < length (form_namespaces f)")
    case True
    then have "wt_AerospikeNamespaceConfig (form_namespaces f ! i)"
      using form_namespaces_typed [OF assms] by (simp add: list_all_length)
    then have "wt_AerospikeNamespaceStorage (sub_or (Some (form_namespaces f ! i)) ''storageEngine'' (JObj []))"
      unfolding wt_AerospikeNamespaceConfig_def
      by (rule sub_or_typed [where opt = True]) (simp_all add: empty)
    with True show ?thesis by (simp add: engine_of_def Let_def)
  next
    case False
    with empty show ?thesis by (simp add: engine_of_def Let_def)
  qed
qed

lemma engine_spread_typed:
  "wt_AerospikeNamespaceStorage x \<Longrightarrow> wt_AerospikeNamespaceStorage
     (spread x [(''type'', Some (JStr ''memory'')), (''dataSize'', Some (JNum n))])"
  "wt_AerospikeNamespaceStorage x \<Longrightarrow> wt_AerospikeNamespaceStorage
     (spread x [(''type'', Some (JStr ''device'')), (''file'', Some (JStr v))])"
  "wt_AerospikeNamespaceStorage x \<Longrightarrow> wt_AerospikeNamespaceStorage
     (spread x [(''type'', Some (JStr ''device'')), (''filesize'', Some (JNum n))])"
  unfolding wt_AerospikeNamespaceStorage_def by (erule obj_of_spread; simp add: update_ok_def)+

lemma engine_literals:
  "wt_AerospikeNamespaceStorage (JObj [(''type'', JStr ''memory''), (''dataSize'', JNum n)])"
  "wt_AerospikeNamespaceStorage (JObj [(''type'', JStr ''device''), (''file'', JStr v), (''filesize'', JNum n)])"
  by (simp_all add: wt_AerospikeNamespaceStorage_def field_ok_def)

text \<open>
  No control of the basic and namespace steps can make the request ill typed: every edit maps a
  form of type \<open>CreateK8sClusterRequest\<close> to one, whatever is typed into the fields; the storage
  controls are covered when the form carries the legacy single-volume storage, as it does unless a
  template brought a volume list.
\<close>

theorem basic_and_namespace_edits_typed:
  assumes "wt_CreateK8sClusterRequest (JObj f)" "wt_StorageVolumeConfig (legacyStorage f)"
  shows "wt_CreateK8sClusterRequest (JObj (updateForm f (basic_update f be))) \<and>
    wt_CreateK8sClusterRequest (JObj (updateForm f (ns_update f ne)))"
proof -
  have nss: "wt_CreateK8sClusterRequest (JObj (updateForm f [(''namespaces'', Some (JArr xs))]))"
    if "list_all wt_AerospikeNamespaceConfig xs" for xs
    by (rule create_put(16) [OF assms(1)]) (simp add: that)
  have up: "wt_CreateK8sClusterRequest (JObj (updateForm f (updateNamespace f i us)))"
    if "\<And>x. wt_AerospikeNamespaceConfig x \<Longrightarrow> wt_AerospikeNamespaceConfig (spread x us)" for i us
    unfolding updateNamespace_def
    by (intro nss list_all_update_at form_namespaces_typed [OF assms(1)] that)
  have st: "wt_CreateK8sClusterRequest (JObj (updateForm f [(''storage'', Some (spread (legacyStorage f) [(k, Some (JStr v))]))]))"
    if "k = ''storageClass'' \<or> k = ''size'' \<or> k = ''mountPath''" for k v
    by (rule create_put(17) [OF assms(1)], unfold wt_StorageVolumeConfig_def,
        rule obj_of_spread [OF assms(2) [unfolded wt_StorageVolumeConfig_def]])
      (use that in \<open>auto simp: update_ok_def\<close>)
  have same: "updateForm f [] = f" by (simp add: updateForm_def)
  have "wt_CreateK8sClusterRequest (JObj (updateForm f (ns_update f ne)))"
    using form_namespaces_typed [OF assms(1)] assms(1)
    by (cases ne)
      (auto simp: same Let_def default_namespace_typed
        intro!: nss up st namespace_item_typed engine_literals engine_spread_typed engine_typed list_all_remove_at)
  with basic_typed [OF assms(1)] show ?thesis by blast
qed

theorem basic_and_namespace_edits_typed_witness:
  "wt_CreateK8sClusterRequest (JObj (updateForm [(''name'', JStr ''c''), (''size'', JNum (inum 3))]
     (ns_update [(''name'', JStr ''c''), (''size'', JNum (inum 3))] AddNamespace)))"
proof -
  let ?f = "[(''name'', JStr ''c''), (''size'', JNum (inum 3))]"
  have "wt_CreateK8sClusterRequest (JObj ?f)" "wt_StorageVolumeConfig (legacyStorage ?f)" by code_simp+
  from basic_and_namespace_edits_typed [OF this, of _ AddNamespace] show ?thesis by blast
qed

section \<open>The key-value editor\<close>

definition key_candidate :: "nat \<Rightarrow> string" where
  "key_candidate j = (if j = 0 then ''key'' else ''key'' @ nat_str j)"

lemma key_candidate_inj: "inj key_candidate"
proof (rule injI)
  fix a b
  assume "key_candidate a = key_candidate b"
  moreover have "nat_str n \<noteq> []" "[] \<noteq> nat_str n" for n using nat_str_digits [of n] by auto
  ultimately show "a = b" by (auto simp: key_candidate_def split: if_splits)
qed

lemma fresh_key_free:
  assumes "\<exists>j' \<in> {j ..< j + fuel}. key_candidate j' \<notin> set ks"
  shows "fresh_key fuel ks (key_candidate j) (Suc j) \<notin> set ks"
  using assms
proof (induction fuel arbitrary: j)
  case (Suc fuel)
  show ?case
  proof (cases "key_candidate j \<in> set ks")
    case True
    with Suc.prems obtain j' where "j' \<in> {j ..< j + Suc fuel}" "key_candidate j' \<notin> set ks" "j' \<noteq> j" by blast
    then have "\<exists>j' \<in> {Suc j ..< Suc j + fuel}. key_candidate j' \<notin> set ks" by (intro bexI [of _ j']) auto
    from Suc.IH [OF this] True show ?thesis by (simp add: key_candidate_def)
  qed simp
qed simp

text \<open>
  The Add button of the key-value editor always finds a free key: the search loop ends within
  one more attempt than there are entries, the new entry is appended with an empty value, and no
  existing entry is overwritten.
\<close>

theorem addEntry_appends_fresh_key:
  "\<exists>k. k \<notin> set (obj_keys m) \<and> addEntry m = m @ [(k, [])]"
proof -
  let ?n = "length m"
  have "\<exists>j' \<in> {0 ..< 0 + Suc (Suc ?n)}. key_candidate j' \<notin> set (obj_keys m)"
  proof (rule ccontr)
    assume "\<not> ?thesis"
    then have "key_candidate ` {0 ..< Suc (Suc ?n)} \<subseteq> set (obj_keys m)" by auto
    then have "card (key_candidate ` {0 ..< Suc (Suc ?n)}) \<le> card (set (obj_keys m))"
      by (rule card_mono [rotated]) simp
    moreover have "card (key_candidate ` {0 ..< Suc (Suc ?n)}) = Suc (Suc ?n)"
      by (subst card_image) (auto intro: inj_on_subset [OF key_candidate_inj])
    moreover have "card (set (obj_keys m)) \<le> ?n" using card_length [of "obj_keys m"] by simp
    ultimately show False by simp
  qed
  from fresh_key_free [OF this]
  have free: "fresh_key (Suc (Suc ?n)) (obj_keys m) ''key'' 1 \<notin> set (obj_keys m)"
    by (simp only: key_candidate_def simp_thms if_True One_nat_def)
  have "obj_set k v m = m @ [(k, v)]" if "k \<notin> set (obj_keys m)" for k v
    using that by (induction m) auto
  with free show ?thesis unfolding addEntry_def by blast
qed

end
