(* ===== verification/Wizard.thy ===== *)
theory Wizard
  imports Wizard_Steps Api_Endpoints
begin

text \<open>
  The cluster creation wizard (\<^verbatim>\<open>create-cluster-wizard/CreateClusterWizard.tsx\<close>): the initial form, the
  clean-up of the payload, the per-step validation, navigation, template selection and submission.
  The component's state hooks are the fields of \<open>wizard\<close>; an asynchronous handler is split at its
  \<open>await\<close> into a part that runs at the click and a part that runs when the call settles, so that
  every interleaving is a sequence of steps of \<open>wizard_step\<close>.
\<close>

section \<open>The form\<close>

definition INITIAL_FORM :: form where
  "INITIAL_FORM =
     [(''name'', JStr []), (''namespace'', JStr []), (''size'', JNum (inum 1)),
      (''image'', JStr ''aerospike:ce-8.1.1.1''), (''autoConnect'', JBool True),
      (''resources'', JObj
         [(''requests'', JObj [(''cpu'', JStr ''500m''), (''memory'', JStr ''1Gi'')]),
          (''limits'', JObj [(''cpu'', JStr ''2''), (''memory'', JStr ''4Gi'')])]),
      (''namespaces'', JArr
         [JObj [(''name'', JStr ''test''), (''replicationFactor'', JNum (inum 1)),
                (''storageEngine'', JObj [(''type'', JStr ''memory''), (''dataSize'', JNum (inum 1073741824))])]]),
      (''storage'', JObj [(''storageClass'', JStr ''standard''), (''size'', JStr ''10Gi''),
                        (''mountPath'', JStr ''/opt/aerospike/data'')])]"

definition object_update :: "form \<Rightarrow> string \<Rightarrow> updates" where
  \<comment> \<open>\<open>if (spec.k \&\& typeof spec.k === "object") updates.k = spec.k\<close>\<close>
  "object_update spec k =
     (case obj_get spec k of
        Some v \<Rightarrow> (if js_typeof_object v then [(k, Some v)] else []) | None \<Rightarrow> [])"

definition buildFormUpdatesFromTemplate :: "form \<Rightarrow> string \<Rightarrow> updates" where
  "buildFormUpdatesFromTemplate spec name =
     [(''templateRef'', Some (JObj [(''name'', JStr name)]))] @
     (case obj_get spec ''image'' of Some (JStr s) \<Rightarrow> [(''image'', Some (JStr s))] | _ \<Rightarrow> []) @
     (case obj_get spec ''size'' of
        Some (JNum n) \<Rightarrow>
          (if num_le (Num 1) n \<and> num_le n (inum MAX_NODES) then [(''size'', Some (JNum n))] else [])
      | _ \<Rightarrow> []) @
     object_update spec ''resources'' @ object_update spec ''monitoring'' @ object_update spec ''storage''"

section \<open>Cleaning the payload\<close>

definition isEmptyRecord :: "json option \<Rightarrow> bool" where
  "isEmptyRecord r =
     (\<not> opt_truthy r \<or>
      (case r of Some (JObj kvs) \<Rightarrow> kvs = [] | Some (JArr xs) \<Rightarrow> xs = [] | Some (JStr s) \<Rightarrow> s = [] | _ \<Rightarrow> True))"

definition prune :: "string \<Rightarrow> (json \<Rightarrow> bool) \<Rightarrow> form \<Rightarrow> form" where
  \<comment> \<open>\<open>if (p.k \&\& test(p.k)) delete p.k\<close>\<close>
  "prune k test p =
     (case obj_get p k of
        Some v \<Rightarrow> (if json_truthy v \<and> test v then obj_del k p else p) | None \<Rightarrow> p)"

definition no_rolling :: "json \<Rightarrow> bool" where
  "no_rolling r =
     (json_field r ''batchSize'' = None \<and> json_field r ''maxUnavailable'' = None \<and>
      \<not> opt_truthy (json_field r ''disablePDB''))"

definition not_enabled :: "json \<Rightarrow> bool" where
  "not_enabled v = (\<not> opt_truthy (json_field v ''enabled''))"

definition falsy_length :: "json option \<Rightarrow> bool" where
  \<comment> \<open>\<open>!v?.length\<close>\<close>
  "falsy_length v = (js_length v = None \<or> js_length v = Some 0)"

definition no_racks :: "json \<Rightarrow> bool" where
  "no_racks rc =
     ((\<not> opt_truthy (json_field rc ''racks'') \<or> js_length (json_field rc ''racks'') = Some 0) \<and>
      falsy_length (json_field rc ''namespaces'') \<and>
      \<not> opt_truthy (json_field rc ''scaleDownBatchSize'') \<and>
      \<not> opt_truthy (json_field rc ''maxIgnorablePods'') \<and>
      \<not> opt_truthy (json_field rc ''rollingUpdateBatchSize''))"

definition zero_length :: "json \<Rightarrow> bool" where
  "zero_length v = (js_length (Some v) = Some 0)"

definition no_bandwidth :: "json \<Rightarrow> bool" where
  "no_bandwidth b = (\<not> opt_truthy (json_field b ''ingress'') \<and> \<not> opt_truthy (json_field b ''egress''))"

definition no_validation_policy :: "json \<Rightarrow> bool" where
  "no_validation_policy v = (json_field v ''skipWorkDirValidate'' \<noteq> Some (JBool True))"

definition no_service_meta :: "json \<Rightarrow> bool" where
  "no_service_meta v =
     (isEmptyRecord (json_field v ''labels'') \<and> isEmptyRecord (json_field v ''annotations''))"

definition no_pod_scheduling :: "json \<Rightarrow> bool" where
  "no_pod_scheduling ps =
     (\<not> (\<not> isEmptyRecord (json_field ps ''nodeSelector'') \<or>
         (opt_truthy (json_field ps ''tolerations'') \<and> \<not> falsy_length (json_field ps ''tolerations'')) \<or>
         opt_truthy (json_field ps ''multiPodPerHost'') \<or>
         opt_truthy (json_field ps ''hostNetwork'') \<or>
         opt_truthy (json_field ps ''serviceAccountName'') \<or>
         json_field ps ''readinessGateEnabled'' \<noteq> None \<or>
         json_field ps ''podManagementPolicy'' \<noteq> None \<or>
         (opt_truthy (json_field ps ''metadata'') \<and>
          (\<not> isEmptyRecord (opt_field (json_field ps ''metadata'') ''labels'') \<or>
           \<not> isEmptyRecord (opt_field (json_field ps ''metadata'') ''annotations'')))))"

definition default_network :: "json \<Rightarrow> bool" where
  "default_network np =
     (json_field np ''accessType'' = Some (JStr ''pod'') \<and>
      \<not> opt_truthy (json_field np ''alternateAccessType'') \<and> \<not> opt_truthy (json_field np ''fabricType''))"

definition cleanup_rules :: "(string \<times> (json \<Rightarrow> bool)) list" where
  \<comment> \<open>the conditional deletions, in the order of the code\<close>
  "cleanup_rules =
     [(''rollingUpdate'', no_rolling), (''monitoring'', not_enabled), (''acl'', not_enabled),
      (''rackConfig'', no_racks), (''sidecars'', zero_length), (''initContainers'', zero_length),
      (''k8sNodeBlockList'', zero_length), (''bandwidthConfig'', no_bandwidth),
      (''validationPolicy'', no_validation_policy), (''headlessService'', no_service_meta),
      (''podService'', no_service_meta), (''podScheduling'', no_pod_scheduling),
      (''networkPolicy'', default_network)]"

definition cleanupPayload :: "form \<Rightarrow> form" where
  "cleanupPayload form = foldl (\<lambda>p (k, test). prune k test p) form cleanup_rules"

section \<open>State\<close>

datatype creation_mode = Scratch | FromTemplate

definition STEP_LABELS_SCRATCH :: "string list" where
  "STEP_LABELS_SCRATCH =
     [''Creation Mode'', ''Basic & Resources'', ''Namespace & Storage'', ''Advanced'', ''Review'']"

definition STEP_LABELS_TEMPLATE :: "string list" where
  "STEP_LABELS_TEMPLATE = [''Creation Mode'', ''Name & Namespace'', ''Namespace & Storage'', ''Review'']"

record wizard =
  mode :: creation_mode
  step :: nat
  maxReachedStep :: nat
  wform :: form
  templates :: "json list"
  selectedTemplateName :: "string option"
  templateLoading :: bool
  templateError :: "string option"
  namespacesList :: "string list"
  storageClassesList :: "string list"
  submitting :: bool
  submitError :: "string option"
  pushed :: "string list" \<comment> \<open>the routes given to \<open>router.push\<close>\<close>
  connectionsRev :: nat \<comment> \<open>the calls of \<open>bumpConnectionsRev\<close>\<close>

definition initial_wizard :: "string \<Rightarrow> wizard" where
  "initial_wizard currentWorkspaceId =
     \<lparr>mode = Scratch, step = 0, maxReachedStep = 0,
      wform = obj_set ''workspaceId'' (JStr currentWorkspaceId) INITIAL_FORM,
      templates = [], selectedTemplateName = None, templateLoading = False, templateError = None,
      namespacesList = [], storageClassesList = [], submitting = False, submitError = None,
      pushed = [], connectionsRev = 0\<rparr>"

definition labels :: "creation_mode \<Rightarrow> string list" where
  "labels m = (case m of Scratch \<Rightarrow> STEP_LABELS_SCRATCH | FromTemplate \<Rightarrow> STEP_LABELS_TEMPLATE)"

definition isLastStep :: "wizard \<Rightarrow> bool" where
  "isLastStep w = (step w = length (labels (mode w)) - 1)"

section \<open>Effects\<close>

definition syncWorkspace :: "string \<Rightarrow> wizard \<Rightarrow> wizard" where
  \<comment> \<open>the effect on \<open>currentWorkspaceId\<close>\<close>
  "syncWorkspace ws w =
     (if obj_get (wform w) ''workspaceId'' = Some (JStr ws) then w
      else w\<lparr>wform := obj_set ''workspaceId'' (JStr ws) (wform w)\<rparr>)"

definition namespacesLoaded :: "string list \<Rightarrow> wizard \<Rightarrow> wizard" where
  "namespacesLoaded xs w =
     w\<lparr>namespacesList := xs,
       wform := (if opt_truthy (obj_get (wform w) ''namespace'') then wform w
                 else obj_set ''namespace''
                   (JStr (if ''default'' \<in> set xs then ''default''
                          else (case xs of [] \<Rightarrow> [] | x # _ \<Rightarrow> x))) (wform w))\<rparr>"

definition templatesLoaded :: "json list option \<Rightarrow> wizard \<Rightarrow> wizard" where
  \<comment> \<open>\<open>None\<close>: the call rejected\<close>
  "templatesLoaded ts w = w\<lparr>templates := nullish ts []\<rparr>"

definition storageClassesLoaded :: "string list \<Rightarrow> wizard \<Rightarrow> wizard" where
  "storageClassesLoaded xs w = w\<lparr>storageClassesList := xs\<rparr>"

section \<open>Handlers\<close>

definition handleModeChange :: "creation_mode \<Rightarrow> wizard \<Rightarrow> wizard" where
  "handleModeChange next w =
     (let w1 = w\<lparr>mode := next\<rparr>;
          w2 = (if next = Scratch
                then w1\<lparr>selectedTemplateName := None,
                        wform := obj_del ''templateOverrides'' (obj_del ''templateRef'' (wform w1))\<rparr>
                else w1)
      in w2\<lparr>step := 0, maxReachedStep := 0\<rparr>)"

definition selectTemplate_begin :: "string \<Rightarrow> wizard \<Rightarrow> wizard" where
  \<comment> \<open>\<open>handleSelectTemplate\<close> up to the call\<close>
  "selectTemplate_begin name w =
     w\<lparr>selectedTemplateName := Some name, templateLoading := True, templateError := None\<rparr>"

fun error_message :: "js_error \<Rightarrow> string option" where
  \<comment> \<open>\<open>err instanceof Error ? err.message : undefined\<close>\<close>
  "error_message (ApiErr e) = Some (err_message e)"
| "error_message (ErrorObj m) = Some m"
| "error_message (NonError v) = None"

definition selectTemplate_end :: "string \<Rightarrow> js_error + form \<Rightarrow> wizard \<Rightarrow> wizard" where
  \<comment> \<open>the rest, with the template's spec (\<open>detail.spec ?? {}\<close>) or the error\<close>
  "selectTemplate_end name r w =
     (case r of
        Inr spec \<Rightarrow> w\<lparr>wform := updateForm (wform w) (buildFormUpdatesFromTemplate spec name),
                     templateLoading := False\<rparr>
      | Inl e \<Rightarrow>
          w\<lparr>templateError := Some (''Failed to load template '' @ [CHR 0x22] @ name @ [CHR 0x22] @ '': '' @
                nullish (error_message e) ''Failed to load template''),
            templateLoading := False\<rparr>)"

definition basicError :: "form \<Rightarrow> string option" where
  \<comment> \<open>the checks on name and Kubernetes namespace\<close>
  "basicError f =
     (case validateK8sName (str_or_empty (obj_get f ''name'')) of
        Some e \<Rightarrow> Some (''Name: '' @ e)
      | None \<Rightarrow> (if \<not> opt_truthy (obj_get f ''namespace'') then Some ''Kubernetes namespace is required'' else None))"

definition resource_value :: "form \<Rightarrow> string \<Rightarrow> string \<Rightarrow> json option" where
  \<comment> \<open>\<open>form.resources?.requests?.cpu\<close> and the like\<close>
  "resource_value f which k = opt_field (opt_field (obj_get f ''resources'') which) k"

definition resourceError :: "form \<Rightarrow> string option" where
  "resourceError f =
     (case first_error (\<lambda>(label, value). map_option (\<lambda>e. label @ '': '' @ e) (validateK8sCpu (str_or_empty value)))
             [(''CPU request'', resource_value f ''requests'' ''cpu''),
              (''CPU limit'', resource_value f ''limits'' ''cpu'')] of
        Some e \<Rightarrow> Some e
      | None \<Rightarrow>
        (case first_error (\<lambda>(label, value). map_option (\<lambda>e. label @ '': '' @ e) (validateK8sMemory (str_or_empty value)))
               [(''Memory request'', resource_value f ''requests'' ''memory''),
                (''Memory limit'', resource_value f ''limits'' ''memory'')] of
           Some e \<Rightarrow> Some e
         | None \<Rightarrow>
             (if num_less (parseCpuMillis (str_or_default ''0'' (resource_value f ''limits'' ''cpu'')))
                          (parseCpuMillis (str_or_default ''0'' (resource_value f ''requests'' ''cpu'')))
              then Some ''CPU limit must be >= CPU request''
              else if num_less (parseMemoryBytes (str_or_default ''0'' (resource_value f ''limits'' ''memory'')))
                               (parseMemoryBytes (str_or_default ''0'' (resource_value f ''requests'' ''memory'')))
              then Some ''Memory limit must be >= Memory request''
              else None)))"

definition sizeError :: "form \<Rightarrow> string option" where
  "sizeError f =
     (let size = num_or NaN (obj_get f ''size'') in
      if num_falsy size \<or> num_less size (Num 1) \<or> num_less (inum MAX_NODES) size
      then Some (''Size must be between 1 and '' @ int_str MAX_NODES) else None)"

definition stepError_at ::
  "(rat \<Rightarrow> string) \<Rightarrow> creation_mode \<Rightarrow> nat \<Rightarrow> form \<Rightarrow> string option \<Rightarrow> string option" where
  "stepError_at fs m i f selected =
     (case m of
        Scratch \<Rightarrow>
          (if i = 1 then
             (case basicError f of
                Some e \<Rightarrow> Some e
              | None \<Rightarrow>
                (case sizeError f of
                   Some e \<Rightarrow> Some e
                 | None \<Rightarrow>
                   (case validateImageNotEnterprise (str_or_empty (obj_get f ''image'')) of
                      Some e \<Rightarrow> Some e
                    | None \<Rightarrow> resourceError f)))
           else if i = 2 then validateNamespaces fs (arr_or_empty (obj_get f ''namespaces'')) (form_size f)
           else None)
      | FromTemplate \<Rightarrow>
          (if i = 0 then (if \<not> truthy selected then Some ''Select a template to continue'' else None)
           else if i = 1 then basicError f
           else if i = 2 then validateNamespaces fs (arr_or_empty (obj_get f ''namespaces'')) (form_size f)
           else None))"

definition stepError :: "(rat \<Rightarrow> string) \<Rightarrow> wizard \<Rightarrow> string option" where
  "stepError fs w = stepError_at fs (mode w) (step w) (wform w) (selectedTemplateName w)"

definition goNext :: "(rat \<Rightarrow> string) \<Rightarrow> wizard \<Rightarrow> wizard" where
  "goNext fs w =
     (if truthy (stepError fs w) then w
      else w\<lparr>step := step w + 1, maxReachedStep := max (maxReachedStep w) (step w + 1)\<rparr>)"

definition goBack :: "wizard \<Rightarrow> wizard" where
  "goBack w =
     (if step w = 0 then w\<lparr>pushed := pushed w @ [''/clusters'']\<rparr> else w\<lparr>step := step w - 1\<rparr>)"

definition goTo :: "nat \<Rightarrow> wizard \<Rightarrow> wizard" where
  "goTo i w = (if i \<le> maxReachedStep w then w\<lparr>step := i\<rparr> else w)"

definition create_payload :: "string \<Rightarrow> wizard \<Rightarrow> form" where
  \<comment> \<open>\<open>cleanupPayload({ ...form, workspaceId: liveWorkspaceId })\<close>\<close>
  "create_payload liveWorkspaceId w =
     cleanupPayload (obj_set ''workspaceId'' (JStr liveWorkspaceId) (wform w))"

definition handleCreate_begin :: "string \<Rightarrow> wizard \<Rightarrow> api_call \<times> wizard" where
  "handleCreate_begin liveWorkspaceId w =
     (createK8sCluster (JObj (create_payload liveWorkspaceId w)),
      w\<lparr>submitError := None, submitting := True\<rparr>)"

definition handleCreate_end :: "(rat \<Rightarrow> string) \<Rightarrow> api_outcome \<Rightarrow> wizard \<Rightarrow> wizard" where
  "handleCreate_end fs out w =
     (case out of
        Value v \<Rightarrow> w\<lparr>connectionsRev := connectionsRev w + 1, pushed := pushed w @ [''/clusters''],
                   submitting := False\<rparr>
      | Throws (ApiErr e) \<Rightarrow> w\<lparr>submitError := Some (str_or (detail fs e) (err_message e)), submitting := False\<rparr>
      | Throws (ErrorObj m) \<Rightarrow> w\<lparr>submitError := Some m, submitting := False\<rparr>
      | Throws (NonError v) \<Rightarrow> w\<lparr>submitError := Some ''Failed to create cluster.'', submitting := False\<rparr>)"

section \<open>What cleaning does\<close>

lemma obj_get_prune:
  "obj_get (prune k test p) k' =
     (if k' = k \<and> (\<exists>v. obj_get p k = Some v \<and> json_truthy v \<and> test v) then None else obj_get p k')"
  by (auto simp: prune_def split: option.splits)

lemma obj_get_prunes:
  assumes "distinct (map fst rs)"
  shows "obj_get (foldl (\<lambda>p (k, test). prune k test p) p rs) k =
    (case map_of rs k of
       None \<Rightarrow> obj_get p k
     | Some test \<Rightarrow> (case obj_get p k of Some v \<Rightarrow> (if json_truthy v \<and> test v then None else Some v) | None \<Rightarrow> None))"
  using assms
proof (induction rs arbitrary: p)
  case (Cons r rs)
  obtain j test where r: "r = (j, test)" by (cases r)
  have "map_of rs j = None" using Cons.prems r by (simp add: map_of_eq_None_iff)
  with Cons r show ?case by (auto simp: obj_get_prune split: option.splits)
qed simp

lemma wf_prune: "wf_obj p \<Longrightarrow> wf_obj (prune k test p)"
  by (auto simp: prune_def split: option.splits)

lemma cleanup_rules_distinct: "distinct (map fst cleanup_rules)"
  by (simp add: cleanup_rules_def)

lemma prune_settled: "(\<And>v. obj_get p k = Some v \<Longrightarrow> \<not> (json_truthy v \<and> test v)) \<Longrightarrow> prune k test p = p"
  by (auto simp: prune_def split: option.splits)

lemma prunes_settled:
  assumes "\<And>k test v. (k, test) \<in> set rs \<Longrightarrow> obj_get p k = Some v \<Longrightarrow> \<not> (json_truthy v \<and> test v)"
  shows "foldl (\<lambda>p (k, test). prune k test p) p rs = p"
  using assms
proof (induction rs)
  case (Cons r rs)
  obtain j test where r: "r = (j, test)" by (cases r)
  have "prune j test p = p" by (rule prune_settled) (use Cons.prems r in auto)
  moreover have "foldl (\<lambda>p (k, test). prune k test p) p rs = p" by (rule Cons.IH) (use Cons.prems in auto)
  ultimately show ?case by (simp add: r)
qed simp

lemma obj_get_cleanup:
  "obj_get (cleanupPayload p) k =
    (case map_of cleanup_rules k of
       None \<Rightarrow> obj_get p k
     | Some test \<Rightarrow> (case obj_get p k of Some v \<Rightarrow> (if json_truthy v \<and> test v then None else Some v) | None \<Rightarrow> None))"
  unfolding cleanupPayload_def by (rule obj_get_prunes [OF cleanup_rules_distinct])

lemma cleanup_idem: "cleanupPayload (cleanupPayload p) = cleanupPayload p"
proof -
  have "\<not> (json_truthy v \<and> test v)" if "(k, test) \<in> set cleanup_rules" "obj_get (cleanupPayload p) k = Some v"
    for k test v
  proof -
    have "map_of cleanup_rules k = Some test" using that(1) cleanup_rules_distinct by simp
    with that(2) show ?thesis by (auto simp: obj_get_cleanup split: option.splits if_splits)
  qed
  then show ?thesis unfolding cleanupPayload_def [of "cleanupPayload p"] by (rule prunes_settled)
qed

lemma prune_typed:
  assumes "wt_CreateK8sClusterRequest (JObj p)" "k \<notin> set [''name'', ''size'']"
  shows "wt_CreateK8sClusterRequest (JObj (prune k test p))"
proof -
  have "list_all (\<lambda>(f, opt, c). f = k \<longrightarrow> opt) create_spec"
    using assms(2) by (simp add: create_spec_def eq_commute [of _ k])
  with assms(1) have "wt_CreateK8sClusterRequest (JObj (obj_del k p))"
    unfolding wt_CreateK8sClusterRequest_def by (rule obj_of_del)
  with assms(1) show ?thesis by (auto simp: prune_def split: option.split)
qed

lemma cleanup_typed:
  assumes "wt_CreateK8sClusterRequest (JObj p)"
  shows "wt_CreateK8sClusterRequest (JObj (cleanupPayload p))"
proof -
  have "wt_CreateK8sClusterRequest (JObj (foldl (\<lambda>p (k, test). prune k test p) p rs))"
    if "wt_CreateK8sClusterRequest (JObj p)" "list_all (\<lambda>(k, t). k \<notin> set [''name'', ''size'']) rs" for p rs
    using that
  proof (induction rs arbitrary: p)
    case (Cons r rs)
    obtain k test where r: "r = (k, test)" by (cases r)
    from Cons.prems r have "wt_CreateK8sClusterRequest (JObj (prune k test p))" by (intro prune_typed) auto
    from Cons.IH [OF this] Cons.prems(2) r show ?case by simp
  qed simp
  moreover have "list_all (\<lambda>(k, t). k \<notin> set [''name'', ''size'']) cleanup_rules" by (simp add: cleanup_rules_def)
  ultimately show ?thesis unfolding cleanupPayload_def using assms by blast
qed

lemma kept_section_enabled:
  assumes typed: "wt_CreateK8sClusterRequest (JObj (cleanupPayload p))"
    and kept: "obj_get (cleanupPayload p) ''monitoring'' = Some v \<or> obj_get (cleanupPayload p) ''acl'' = Some v"
  shows "v = JNull \<or> json_field v ''enabled'' = Some (JBool True)"
proof -
  from kept have "\<not> (json_truthy v \<and> not_enabled v)"
    by (auto simp: obj_get_cleanup cleanup_rules_def split: option.splits if_splits)
  moreover have "v = JNull \<or> wt_MonitoringConfig v \<or> wt_ACLConfig v"
  proof -
    have "nullable wt_MonitoringConfig v" if "obj_get (cleanupPayload p) ''monitoring'' = Some v"
      by (rule obj_of_field [OF typed [unfolded wt_CreateK8sClusterRequest_def] _ that, of True])
        (simp add: create_spec_def)
    moreover have "nullable wt_ACLConfig v" if "obj_get (cleanupPayload p) ''acl'' = Some v"
      by (rule obj_of_field [OF typed [unfolded wt_CreateK8sClusterRequest_def] _ that, of True])
        (simp add: create_spec_def)
    ultimately show ?thesis using kept by (auto simp: nullable_obj)
  qed
  moreover have "json_truthy v \<and> (\<forall>b. json_field v ''enabled'' = Some b \<longrightarrow> is_bool b)"
    if w: "wt_MonitoringConfig v \<or> wt_ACLConfig v"
  proof -
    obtain kvs where kvs: "v = JObj kvs"
      using w by (auto simp: wt_MonitoringConfig_def wt_ACLConfig_def dest!: obj_of_is_obj simp del: obj_of.simps)
    have "is_bool b" if b: "obj_get kvs ''enabled'' = Some b" for b
      using w
    proof
      assume "wt_MonitoringConfig v"
      then show ?thesis
        using obj_of_field [OF _ _ b, of _ True is_bool] unfolding wt_MonitoringConfig_def kvs by fastforce
    next
      assume "wt_ACLConfig v"
      then show ?thesis
        using obj_of_field [OF _ _ b, of _ True is_bool] unfolding wt_ACLConfig_def kvs by fastforce
    qed
    then show ?thesis by (simp add: kvs json_field_def)
  qed
  ultimately show ?thesis
    by (cases "json_field v ''enabled''") (fastforce simp: not_enabled_def elim: is_bool.elims(2))+
qed


lemma initial_form_typed: "wt_CreateK8sClusterRequest (JObj INITIAL_FORM)"
  by code_simp


section \<open>Runs of the wizard\<close>

text \<open>
  A configuration is the component's state and the name of the template being loaded, if any. The
  guards are the conditions under which the page renders or enables the control.
\<close>

inductive wizard_step :: "(rat \<Rightarrow> string) \<Rightarrow> wizard \<times> string option \<Rightarrow> wizard \<times> string option \<Rightarrow> bool"
  for fs where
  sync: "wizard_step fs (w, pnd) (syncWorkspace ws w, pnd)"
| loadNamespaces: "wizard_step fs (w, pnd) (namespacesLoaded xs w, pnd)"
| loadTemplates: "wizard_step fs (w, pnd) (templatesLoaded ts w, pnd)"
| loadStorageClasses: "wizard_step fs (w, pnd) (storageClassesLoaded xs w, pnd)"
| changeMode: "step w = 0 \<Longrightarrow> wizard_step fs (w, pnd) (handleModeChange m w, pnd)"
| select: "mode w = FromTemplate \<Longrightarrow> step w = 0 \<Longrightarrow> \<not> templateLoading w \<Longrightarrow>
    wizard_step fs (w, None) (selectTemplate_begin name w, Some name)"
| selected: "wizard_step fs (w, Some name) (selectTemplate_end name r w, None)"
| editBasic: "step w = 1 \<Longrightarrow>
    wizard_step fs (w, pnd) (w\<lparr>wform := updateForm (wform w) (basic_update (wform w) be)\<rparr>, pnd)"
| editNamespaces: "step w = 2 \<Longrightarrow>
    wizard_step fs (w, pnd) (w\<lparr>wform := updateForm (wform w) (ns_update (wform w) ne)\<rparr>, pnd)"
| editAdvanced: "mode w = Scratch \<Longrightarrow> step w = 3 \<Longrightarrow>
    wizard_step fs (w, pnd) (w\<lparr>wform := updateForm (wform w) (adv_update (wform w) ae)\<rparr>, pnd)"
| goingNext: "\<not> isLastStep w \<Longrightarrow> stepError fs w = None \<Longrightarrow> wizard_step fs (w, pnd) (goNext fs w, pnd)"
| goingBack: "\<not> submitting w \<Longrightarrow> wizard_step fs (w, pnd) (goBack w, pnd)"
| jump: "i \<le> maxReachedStep w \<Longrightarrow> wizard_step fs (w, pnd) (goTo i w, pnd)"
| create: "isLastStep w \<Longrightarrow> \<not> submitting w \<Longrightarrow>
    wizard_step fs (w, pnd) (snd (handleCreate_begin ws w), pnd)"
| created: "submitting w \<Longrightarrow> wizard_step fs (w, pnd) (handleCreate_end fs out w, pnd)"

text \<open>
  An orderly run uses the stepper only to go back, and moves on from the first step only when no
  template is being loaded.
\<close>

inductive orderly_step :: "(rat \<Rightarrow> string) \<Rightarrow> wizard \<times> string option \<Rightarrow> wizard \<times> string option \<Rightarrow> bool"
  for fs where
  stay: "wizard_step fs (w, pnd) (w', pnd') \<Longrightarrow> step w' \<le> step w \<Longrightarrow> (pnd \<noteq> None \<longrightarrow> step w = 0) \<Longrightarrow>
    orderly_step fs (w, pnd) (w', pnd')"
| advance: "\<not> isLastStep w \<Longrightarrow> stepError fs w = None \<Longrightarrow> orderly_step fs (w, None) (goNext fs w, None)"

lemma orderly_is_step: "orderly_step fs c c' \<Longrightarrow> wizard_step fs c c'"
  by (cases rule: orderly_step.cases) (auto intro: wizard_step.intros)

definition validated_before :: "(rat \<Rightarrow> string) \<Rightarrow> wizard \<Rightarrow> bool" where
  "validated_before fs w = (\<forall>i < step w. stepError_at fs (mode w) i (wform w) (selectedTemplateName w) = None)"

text \<open>The fields that the checks of a step read.\<close>

definition basic_keys :: "string list" where
  "basic_keys = [''name'', ''namespace'', ''size'', ''image'', ''resources'']"

lemma stepError_at_cong:
  assumes "\<And>k. k \<in> set basic_keys \<Longrightarrow> obj_get f k = obj_get f' k"
    and "i = 2 \<Longrightarrow> obj_get f ''namespaces'' = obj_get f' ''namespaces''"
  shows "stepError_at fs m i f tmpl = stepError_at fs m i f' tmpl"
proof -
  have k: "obj_get f ''name'' = obj_get f' ''name''" "obj_get f ''namespace'' = obj_get f' ''namespace''"
      "obj_get f ''size'' = obj_get f' ''size''" "obj_get f ''image'' = obj_get f' ''image''"
      "obj_get f ''resources'' = obj_get f' ''resources''"
    by (rule assms(1), simp add: basic_keys_def)+
  have e: "basicError f = basicError f'" "sizeError f = sizeError f'" "resourceError f = resourceError f'"
      "form_size f = form_size f'" "obj_get f ''image'' = obj_get f' ''image''"
    by (simp_all only: basicError_def sizeError_def resourceError_def resource_value_def form_size_def k)
  show ?thesis unfolding stepError_at_def e using assms(2) by (cases m) simp_all
qed

lemma obj_get_put: "k \<noteq> fst u \<Longrightarrow> obj_get (put f u) k = obj_get f k"
  by (auto simp: put_def split: option.split)

lemma obj_get_updateForm:
  "k \<notin> set (map fst us) \<Longrightarrow> obj_get (updateForm f us) k = obj_get f k"
  unfolding updateForm_def by (induction us arbitrary: f) (auto simp: obj_get_put)

lemma ns_update_keys: "set (map fst (ns_update f e)) \<subseteq> {''namespaces'', ''storage''}"
  by (cases e) (auto simp: updateNamespace_def Let_def)

lemma adv_update_keys: "set (map fst (adv_update f e)) \<inter> set (''namespaces'' # basic_keys) = {}"
proof (cases e)
  case (Monitoring x)
  then show ?thesis by (cases x) (simp_all add: set_in_def basic_keys_def)
next
  case (Acl x)
  then show ?thesis by (cases x) (simp_all add: set_acl_def set_in_def basic_keys_def)
next
  case (Rolling x)
  then show ?thesis by (cases x) (simp_all add: set_in_def basic_keys_def Let_def)
next
  case (Rack x)
  then show ?thesis by (cases x) (simp_all add: set_rack_def update_rack_def set_in_def basic_keys_def)
next
  case (Pod x)
  then show ?thesis by (cases x) (simp_all add: set_pod_def update_toleration_def set_in_def basic_keys_def)
next
  case (Misc x)
  then show ?thesis by (cases x) (simp_all add: set_in_def basic_keys_def)
qed (simp_all add: sidecars_update_def Let_def basic_keys_def)

lemma stepError_at_0: "stepError_at fs m 0 f t = stepError_at fs m 0 f' t"
  by (simp add: stepError_at_def split: creation_mode.split)

lemma stepError_1_namespace:
  assumes "stepError_at fs m 1 f t = None"
  shows "opt_truthy (obj_get f ''namespace'')"
proof -
  have "basicError f = None"
    using assms by (cases m) (auto simp: stepError_at_def split: option.splits)
  then show ?thesis by (auto simp: basicError_def split: option.splits if_splits)
qed

lemma validated_form:
  assumes "validated_before fs w" "step w' \<le> step w" "mode w' = mode w"
    "selectedTemplateName w' = selectedTemplateName w"
    "\<And>i. i < step w \<Longrightarrow> stepError_at fs (mode w) i (wform w') (selectedTemplateName w) =
        stepError_at fs (mode w) i (wform w) (selectedTemplateName w)"
  shows "validated_before fs w'"
  using assms unfolding validated_before_def by auto

lemma validated_keys:
  assumes "validated_before fs w" "set (map fst us) \<inter> set basic_keys = {}"
    and "2 < step w \<Longrightarrow> ''namespaces'' \<notin> set (map fst us)"
  shows "validated_before fs (w\<lparr>wform := updateForm (wform w) us\<rparr>)"
proof (rule validated_form [OF assms(1)])
  fix i assume "i < step w"
  then show "stepError_at fs (mode w) i (wform (w\<lparr>wform := updateForm (wform w) us\<rparr>)) (selectedTemplateName w) =
      stepError_at fs (mode w) i (wform w) (selectedTemplateName w)"
    using assms(2,3) by (intro stepError_at_cong) (auto intro!: obj_get_updateForm)
qed simp_all

lemma validated_namespacesLoaded:
  assumes "validated_before fs w"
  shows "validated_before fs (namespacesLoaded xs w)"
proof (cases "opt_truthy (obj_get (wform w) ''namespace'')")
  case True
  with assms show ?thesis by (simp add: namespacesLoaded_def validated_before_def)
next
  case False
  then have "\<not> 1 < step w" using assms stepError_1_namespace unfolding validated_before_def by blast
  then have "i < step w \<Longrightarrow> i = 0" for i by simp
  then show ?thesis
    by (intro validated_form [OF assms]) (auto simp: namespacesLoaded_def intro: stepError_at_0)
qed

lemma validated_step:
  assumes "orderly_step fs (w, pnd) (w', pnd')" "validated_before fs w"
  shows "validated_before fs w'"
  using assms(1)
proof (cases rule: orderly_step.cases)
  case advance
  then show ?thesis
    using assms(2) by (auto simp: goNext_def validated_before_def stepError_def less_Suc_eq)
next
  case stay
  from stay(1) show ?thesis
  proof (cases rule: wizard_step.cases)
    case (sync ws)
    have "validated_before fs (w\<lparr>wform := updateForm (wform w) [(''workspaceId'', Some (JStr ws))]\<rparr>)"
      by (rule validated_keys [OF assms(2)]) (simp_all add: basic_keys_def)
    with sync assms(2) show ?thesis by (simp add: syncWorkspace_def updateForm_def put_def)
  next
    case (loadNamespaces xs)
    with assms(2) show ?thesis by (simp add: validated_namespacesLoaded)
  next
    case (editNamespaces ne)
    have "set (map fst (ns_update (wform w) ne)) \<inter> set basic_keys = {}"
      using ns_update_keys [of "wform w" ne] by (auto simp: basic_keys_def)
    from validated_keys [OF assms(2) this] editNamespaces show ?thesis by simp
  next
    case (editAdvanced ae)
    have "set (map fst (adv_update (wform w) ae)) \<inter> set basic_keys = {}"
        "''namespaces'' \<notin> set (map fst (adv_update (wform w) ae))"
      using adv_update_keys [of "wform w" ae] by auto
    with validated_keys [OF assms(2)] editAdvanced show ?thesis by simp
  next
    case (editBasic be)
    then show ?thesis by (intro validated_form [OF assms(2)]) (auto intro: stepError_at_0)
  next
    case goingNext
    with stay(2) show ?thesis by (simp add: goNext_def)
  next
    case (selected name r)
    with stay(3) stay(2) show ?thesis by (simp add: validated_before_def)
  next
    case (created out)
    then show ?thesis
      by (intro validated_form [OF assms(2)])
        (auto simp: handleCreate_end_def split: api_outcome.split js_error.split)
  qed (use assms(2) stay(2) in \<open>auto simp: validated_before_def templatesLoaded_def storageClassesLoaded_def
      handleModeChange_def Let_def selectTemplate_begin_def goBack_def goTo_def handleCreate_begin_def\<close>)
qed

definition orderly_run :: "(rat \<Rightarrow> string) \<Rightarrow> wizard \<times> string option \<Rightarrow> wizard \<times> string option \<Rightarrow> bool" where
  "orderly_run fs = (orderly_step fs)\<^sup>*\<^sup>*"

lemma orderly_run_validated:
  assumes "orderly_run fs c c'" "validated_before fs (fst c)"
  shows "validated_before fs (fst c')"
  using assms unfolding orderly_run_def
  by (induction rule: rtranclp_induct) (metis prod.collapse validated_step, metis prod.collapse validated_step)

lemma create_payload_get:
  "k \<noteq> ''workspaceId'' \<Longrightarrow> map_of cleanup_rules k = None \<Longrightarrow>
   obj_get (create_payload ws w) k = obj_get (wform w) k"
  by (simp add: create_payload_def obj_get_cleanup)

lemma payload_stepError:
  "stepError_at fs m i (create_payload ws w) t = stepError_at fs m i (wform w) t"
  by (rule stepError_at_cong) (auto simp: basic_keys_def cleanup_rules_def intro!: create_payload_get)

text \<open>
  C3: what an orderly run submits has passed every check. In a run that uses the stepper only to go
  back and waits for a selected template before moving on, whatever is edited on the way and however
  often the user goes back, a cluster that is created has a payload for which no step of the wizard
  reports an error: the name is a DNS label, a Kubernetes namespace is chosen, there are one or two
  valid Aerospike namespaces, and in scratch mode the size is within the CE limit and the image is
  not an enterprise image.
\<close>

theorem orderly_submission_is_valid:
  assumes "orderly_run fs (initial_wizard ws, None) (w, pnd)" "isLastStep w"
  shows "(\<forall>i. stepError_at fs (mode w) i (create_payload live w) (selectedTemplateName w) = None) \<and>
    validateK8sName (str_or_empty (obj_get (create_payload live w) ''name'')) = None \<and>
    (mode w = Scratch \<longrightarrow> sizeError (create_payload live w) = None \<and>
       validateImageNotEnterprise (str_or_empty (obj_get (create_payload live w) ''image'')) = None)"
proof -
  have "validated_before fs w"
    using orderly_run_validated [OF assms(1)] by (simp add: validated_before_def initial_wizard_def)
  moreover have "step w > 2" using assms(2)
    by (cases "mode w") (simp_all add: isLastStep_def labels_def STEP_LABELS_SCRATCH_def STEP_LABELS_TEMPLATE_def)
  moreover have "stepError_at fs (mode w) i f t = None" if "2 < i" for i f t
    using that by (cases "mode w") (simp_all add: stepError_at_def)
  ultimately have all: "stepError_at fs (mode w) i (wform w) (selectedTemplateName w) = None" for i
    unfolding validated_before_def by (metis not_less order_trans less_trans linorder_neqE_nat)
  have "stepError_at fs (mode w) 1 (create_payload live w) (selectedTemplateName w) = None"
    using all by (simp only: payload_stepError)
  then have "basicError (create_payload live w) = None \<and>
      (mode w = Scratch \<longrightarrow> sizeError (create_payload live w) = None \<and>
       validateImageNotEnterprise (str_or_empty (obj_get (create_payload live w) ''image'')) = None)"
    by (cases "mode w") (auto simp: stepError_at_def split: option.splits)
  moreover from this have "validateK8sName (str_or_empty (obj_get (create_payload live w) ''name'')) = None"
    by (auto simp: basicError_def split: option.splits)
  ultimately show ?thesis using all by (simp add: payload_stepError)
qed

text \<open>A complete scratch run: the namespaces load, the user names the cluster and clicks through.\<close>

definition demo_named :: wizard where
  "demo_named =
     (let w = (namespacesLoaded [''default''] (initial_wizard ''ws-default''))\<lparr>step := 1, maxReachedStep := 1\<rparr>
      in w\<lparr>wform := updateForm (wform w) (basic_update (wform w) (SetName ''c1''))\<rparr>)"

definition demo_at :: "nat \<Rightarrow> wizard" where
  "demo_at i = demo_named\<lparr>step := i, maxReachedStep := i\<rparr>"

lemma demo_fields:
  "obj_get (wform (demo_at i)) ''name'' = Some (JStr ''c1'')"
  "obj_get (wform (demo_at i)) ''namespace'' = Some (JStr ''default'')"
  "obj_get (wform (demo_at i)) ''size'' = Some (JNum (inum 1))"
  "obj_get (wform (demo_at i)) ''image'' = Some (JStr ''aerospike:ce-8.1.1.1'')"
  "obj_get (wform (demo_at i)) ''resources'' = Some (JObj
     [(''requests'', JObj [(''cpu'', JStr ''500m''), (''memory'', JStr ''1Gi'')]),
      (''limits'', JObj [(''cpu'', JStr ''2''), (''memory'', JStr ''4Gi'')])])"
  "obj_get (wform (demo_at i)) ''namespaces'' = Some (JArr
     [JObj [(''name'', JStr ''test''), (''replicationFactor'', JNum (inum 1)),
            (''storageEngine'', JObj [(''type'', JStr ''memory''), (''dataSize'', JNum (inum 1073741824))])]])"
  by (simp_all add: demo_at_def demo_named_def Let_def namespacesLoaded_def initial_wizard_def INITIAL_FORM_def
      updateForm_def put_def)

lemma demo_quantities:
  "parseCpuMillis ''500m'' = inum 500" "parseCpuMillis ''2'' = inum 2000"
  "parseMemoryBytes ''1Gi'' = inum (2 ^ 30)" "parseMemoryBytes ''4Gi'' = inum (4 * 2 ^ 30)"
  "validateK8sCpu ''500m'' = None" "validateK8sCpu ''2'' = None"
  "validateK8sMemory ''1Gi'' = None" "validateK8sMemory ''4Gi'' = None"
proof -
  have s: "nat_str 500 = ''500''" "nat_str 2 = ''2''" "nat_str (Suc 0) = ''1''" "nat_str 4 = ''4''" by code_simp+
  show "parseCpuMillis ''500m'' = inum 500" "validateK8sCpu ''500m'' = None"
    using quantities_parse [of 500] by (simp_all add: s)
  show "parseCpuMillis ''2'' = inum 2000" "validateK8sCpu ''2'' = None"
    using quantities_parse [of 2] by (simp_all add: s)
  show "parseMemoryBytes ''1Gi'' = inum (2 ^ 30)" "validateK8sMemory ''1Gi'' = None"
    using quantities_parse [of 1] by (simp_all add: s)
  show "parseMemoryBytes ''4Gi'' = inum (4 * 2 ^ 30)" "validateK8sMemory ''4Gi'' = None"
    using quantities_parse [of 4] by (simp_all add: s)
qed

lemma demo_no_error: "stepError fs (demo_at i) = None"
proof -
  have n: "validateK8sName ''c1'' = None" "validateImageNotEnterprise ''aerospike:ce-8.1.1.1'' = None"
    by code_simp+
  have "trim ''test'' = ''test''" by code_simp
  then have "validateNamespaces fs (arr_or_empty (obj_get (wform (demo_at i)) ''namespaces'')) (form_size (wform (demo_at i))) = None"
    by (simp add: validateNamespaces_def demo_fields MAX_CE_NAMESPACES_def ns_name_def ns_rf_def rf_error_def
        form_size_def json_field_def)
  moreover have "mode (demo_at i) = Scratch"
    by (simp add: demo_at_def demo_named_def Let_def namespacesLoaded_def initial_wizard_def)
  ultimately show ?thesis
    by (simp add: stepError_def stepError_at_def basicError_def demo_fields n sizeError_def resourceError_def
        resource_value_def json_field_def demo_quantities MAX_NODES_def Let_def)
qed

lemma demo_mode: "mode (demo_at i) = Scratch" "step (demo_at i) = i" "maxReachedStep (demo_at i) = i"
  by (simp_all add: demo_at_def demo_named_def Let_def namespacesLoaded_def initial_wizard_def)

lemma demo_next: "i < 4 \<Longrightarrow> orderly_step fs (demo_at i, None) (demo_at (Suc i), None)"
proof -
  assume i: "i < 4"
  have "goNext fs (demo_at i) = demo_at (Suc i)"
    using demo_no_error [of fs i] by (simp add: goNext_def demo_mode) (simp add: demo_at_def)
  moreover have "\<not> isLastStep (demo_at i)"
    using i by (simp add: isLastStep_def demo_mode labels_def STEP_LABELS_SCRATCH_def)
  ultimately show ?thesis using orderly_step.advance [of "demo_at i" fs] demo_no_error by simp
qed

lemma demo_run: "orderly_run fs (initial_wizard ''ws-default'', None) (demo_at 4, None)"
proof -
  let ?w0 = "initial_wizard ''ws-default''"
  let ?w1 = "namespacesLoaded [''default''] ?w0"
  let ?w2 = "?w1\<lparr>step := 1, maxReachedStep := 1\<rparr>"
  have 1: "orderly_step fs (?w0, None) (?w1, None)"
    by (rule orderly_step.stay [OF wizard_step.loadNamespaces]) (simp_all add: namespacesLoaded_def)
  have "goNext fs ?w1 = ?w2" "\<not> isLastStep ?w1" "stepError fs ?w1 = None"
    by (simp_all add: goNext_def stepError_def stepError_at_def namespacesLoaded_def initial_wizard_def isLastStep_def
        labels_def STEP_LABELS_SCRATCH_def)
  then have 2: "orderly_step fs (?w1, None) (?w2, None)" by (metis orderly_step.advance)
  have "demo_at 1 = ?w2\<lparr>wform := updateForm (wform ?w2) (basic_update (wform ?w2) (SetName ''c1''))\<rparr>"
    by (simp add: demo_at_def demo_named_def Let_def)
  moreover have "orderly_step fs (?w2, None)
      (?w2\<lparr>wform := updateForm (wform ?w2) (basic_update (wform ?w2) (SetName ''c1''))\<rparr>, None)"
    by (intro orderly_step.stay wizard_step.editBasic) simp_all
  ultimately have 3: "orderly_step fs (?w2, None) (demo_at 1, None)" by simp
  have "(orderly_step fs)\<^sup>*\<^sup>* (demo_at 1, None) (demo_at 4, None)"
    using demo_next [of 1] demo_next [of 2] demo_next [of 3]
    by (simp add: numeral_eq_Suc) (meson converse_rtranclp_into_rtranclp rtranclp.rtrancl_refl)
  with 1 2 3 show ?thesis unfolding orderly_run_def by (meson converse_rtranclp_into_rtranclp)
qed

theorem orderly_submission_is_valid_witness:
  "validateK8sName (str_or_empty (obj_get (create_payload ''ws-default'' (demo_at 4)) ''name'')) = None"
proof -
  have "isLastStep (demo_at 4)" by (simp add: isLastStep_def demo_mode labels_def STEP_LABELS_SCRATCH_def)
  from orderly_submission_is_valid [OF demo_run this] show ?thesis by blast
qed

text \<open>
  The stepper bypasses validation. A step that was reached once can be jumped to whatever the
  form has become: there is a run of the wizard that ends on the review step, where the create
  button is enabled, with an empty cluster name, although the basic step reports an error for it.
\<close>

theorem stepper_bypasses_validation:
  "\<exists>w. (wizard_step fs)\<^sup>*\<^sup>* (initial_wizard ''ws-default'', None) (w, None) \<and> isLastStep w \<and>
     \<not> submitting w \<and> stepError fs w = None \<and>
     obj_get (create_payload ''ws-default'' w) ''name'' = Some (JStr []) \<and>
     stepError_at fs (mode w) 1 (wform w) (selectedTemplateName w) \<noteq> None"
proof -
  let ?w1 = "(demo_at 4)\<lparr>step := 1\<rparr>"
  let ?w2 = "?w1\<lparr>wform := updateForm (wform ?w1) (basic_update (wform ?w1) (SetName []))\<rparr>"
  let ?w3 = "?w2\<lparr>step := 4\<rparr>"
  have run: "(wizard_step fs)\<^sup>*\<^sup>* (initial_wizard ''ws-default'', None) (demo_at 4, None)"
    using demo_run [of fs] unfolding orderly_run_def
    by (rule rtranclp_mono [THEN predicate2D, rotated]) (auto intro: orderly_is_step)
  have "wizard_step fs (demo_at 4, None) (?w1, None)"
    using wizard_step.jump [of 1 "demo_at 4" fs None] by (simp add: goTo_def demo_mode)
  moreover have "wizard_step fs (?w1, None) (?w2, None)"
    by (rule wizard_step.editBasic) simp
  moreover have "wizard_step fs (?w2, None) (?w3, None)"
    using wizard_step.jump [of 4 ?w2 fs None] by (simp add: goTo_def demo_mode)
  ultimately have "(wizard_step fs)\<^sup>*\<^sup>* (initial_wizard ''ws-default'', None) (?w3, None)"
    using run by (meson rtranclp.rtrancl_into_rtrancl)
  moreover have name: "obj_get (wform ?w3) ''name'' = Some (JStr [])"
    by (simp add: updateForm_def put_def)
  moreover have "obj_get (create_payload ''ws-default'' ?w3) ''name'' = Some (JStr [])"
    using name by (subst create_payload_get) (simp_all add: cleanup_rules_def)
  moreover have "stepError_at fs (mode ?w3) 1 (wform ?w3) (selectedTemplateName ?w3) \<noteq> None"
    using name by (simp add: stepError_at_def demo_mode basicError_def validateK8sName_def)
  moreover have "isLastStep ?w3" "\<not> submitting ?w3" "stepError fs ?w3 = None"
    by (simp_all add: isLastStep_def demo_mode labels_def STEP_LABELS_SCRATCH_def stepError_def stepError_at_def)
      (simp add: demo_at_def demo_named_def Let_def namespacesLoaded_def initial_wizard_def)
  ultimately show ?thesis by blast
qed

text \<open>
  a template that finishes loading late is applied to a scratch form. There is a run in which the
  user selects a template, switches back to scratch mode before it is loaded, and then has a
  scratch form with a reference to that template although no template is selected.
\<close>

theorem late_template_reaches_scratch:
  "\<exists>w. (wizard_step fs)\<^sup>*\<^sup>* (initial_wizard ws, None) (w, None) \<and> mode w = Scratch \<and>
     selectedTemplateName w = None \<and>
     obj_get (create_payload live w) ''templateRef'' = Some (JObj [(''name'', JStr ''prod'')])"
proof -
  let ?w0 = "initial_wizard ws"
  let ?w1 = "handleModeChange FromTemplate ?w0"
  let ?w2 = "selectTemplate_begin ''prod'' ?w1"
  let ?w3 = "handleModeChange Scratch ?w2"
  let ?w4 = "selectTemplate_end ''prod'' (Inr []) ?w3"
  have st: "step ?w0 = 0" "step ?w1 = 0" "mode ?w1 = FromTemplate" "\<not> templateLoading ?w1" "step ?w2 = 0"
    by (simp_all add: initial_wizard_def handleModeChange_def Let_def selectTemplate_begin_def)
  have "wizard_step fs (?w0, None) (?w1, None)" by (rule wizard_step.changeMode [OF st(1)])
  moreover have "wizard_step fs (?w1, None) (?w2, Some ''prod'')" by (rule wizard_step.select [OF st(3,2,4)])
  moreover have "wizard_step fs (?w2, Some ''prod'') (?w3, Some ''prod'')" by (rule wizard_step.changeMode [OF st(5)])
  moreover have "wizard_step fs (?w3, Some ''prod'') (?w4, None)" by (rule wizard_step.selected)
  ultimately have "(wizard_step fs)\<^sup>*\<^sup>* (?w0, None) (?w4, None)"
    by (meson rtranclp.rtrancl_into_rtrancl rtranclp.rtrancl_refl)
  moreover have ref: "obj_get (wform ?w4) ''templateRef'' = Some (JObj [(''name'', JStr ''prod'')])"
    by (simp add: selectTemplate_end_def buildFormUpdatesFromTemplate_def object_update_def updateForm_def put_def)
  moreover have "obj_get (create_payload live ?w4) ''templateRef'' = Some (JObj [(''name'', JStr ''prod'')])"
    using ref by (subst create_payload_get) (simp_all add: cleanup_rules_def)
  moreover have "mode ?w4 = Scratch" "selectedTemplateName ?w4 = None"
    by (simp_all add: selectTemplate_end_def handleModeChange_def Let_def)
  ultimately show ?thesis by blast
qed

lemma obj_set_twice: "obj_set k a (obj_set k b m) = obj_set k a m"
  by (induction m) auto

text \<open>
  the workspace control of the basic step has no effect on what is submitted: the payload always
  names the workspace that is current in the UI store at submit time, and it is the same payload
  whatever workspace the user picked in the wizard.
\<close>

theorem workspace_choice_is_ignored:
  "obj_get (create_payload live w) ''workspaceId'' = Some (JStr live) \<and>
   create_payload live (w\<lparr>wform := updateForm (wform w) (basic_update (wform w) (SetWorkspace picked))\<rparr>) =
     create_payload live w"
  by (simp add: create_payload_def obj_get_cleanup cleanup_rules_def updateForm_def put_def obj_set_twice)

lemma object_update_keys: "set (map fst (object_update spec k)) \<subseteq> {k}"
  by (auto simp: object_update_def split: option.splits if_splits)

lemma template_update_keys:
  "set (map fst (buildFormUpdatesFromTemplate spec name)) \<subseteq>
     {''templateRef'', ''image'', ''size'', ''resources'', ''monitoring'', ''storage''}"
proof -
  have "set (map fst (case obj_get spec ''image'' of Some (JStr s) \<Rightarrow> [(''image'', Some (JStr s))] | _ \<Rightarrow> [])) \<subseteq> {''image''}"
    by (auto split: option.splits json.splits)
  moreover have "set (map fst (case obj_get spec ''size'' of
        Some (JNum n) \<Rightarrow>
          (if num_le (Num 1) n \<and> num_le n (inum MAX_NODES) then [(''size'', Some (JNum n))] else [])
      | _ \<Rightarrow> [])) \<subseteq> {''size''}"
    by (auto split: option.splits json.splits)
  ultimately show ?thesis
    unfolding buildFormUpdatesFromTemplate_def
    using object_update_keys [of spec "''resources''"] object_update_keys [of spec "''monitoring''"]
      object_update_keys [of spec "''storage''"]
    by (simp only: map_append set_append Un_subset_iff) auto
qed

text \<open>
  Loading a template can only set the fields it names: the reference to the template, and the image,
  size, resources, monitoring and storage of its spec; a size outside the CE range is ignored, so a
  template never moves the form's size out of 1 to 8.
\<close>

theorem template_updates_bounded:
  assumes "obj_get f ''size'' = Some (JNum s)" "num_le (Num 1) s \<and> num_le s (Num 8)"
  shows "(\<exists>t. obj_get (updateForm f (buildFormUpdatesFromTemplate spec name)) ''size'' = Some (JNum t) \<and>
       num_le (Num 1) t \<and> num_le t (Num 8)) \<and>
    (\<forall>k. k \<notin> set [''templateRef'', ''image'', ''size'', ''resources'', ''monitoring'', ''storage''] \<longrightarrow>
       obj_get (updateForm f (buildFormUpdatesFromTemplate spec name)) k = obj_get f k)"
proof
  have others: "obj_get (updateForm g (object_update spec ''resources'')) ''size'' = obj_get g ''size''"
      "obj_get (updateForm g (object_update spec ''monitoring'')) ''size'' = obj_get g ''size''"
      "obj_get (updateForm g (object_update spec ''storage'')) ''size'' = obj_get g ''size''" for g
    using object_update_keys by (intro obj_get_updateForm; fastforce)+
  have app: "updateForm f (us @ vs) = updateForm (updateForm f us) vs" for us vs f
    by (simp add: updateForm_def)
  let ?img = "case obj_get spec ''image'' of Some (JStr s) \<Rightarrow> [(''image'', Some (JStr s))] | _ \<Rightarrow> []"
  have img: "obj_get (updateForm g ?img) ''size'' = obj_get g ''size''" for g
    by (rule obj_get_updateForm) (auto split: option.splits json.splits)
  have ref: "obj_get (updateForm f [(''templateRef'', v)]) ''size'' = obj_get f ''size''" for v
    by (rule obj_get_updateForm) simp
  have set: "obj_get (updateForm g [(''size'', Some (JNum n))]) ''size'' = Some (JNum n)" "updateForm g [] = g" for g n
    by (simp_all add: updateForm_def put_def)
  show "\<exists>t. obj_get (updateForm f (buildFormUpdatesFromTemplate spec name)) ''size'' = Some (JNum t) \<and>
       num_le (Num 1) t \<and> num_le t (Num 8)"
  proof -
    let ?sz = "case obj_get spec ''size'' of
        Some (JNum n) \<Rightarrow>
          (if num_le (Num 1) n \<and> num_le n (inum MAX_NODES) then [(''size'', Some (JNum n))] else [])
      | _ \<Rightarrow> []"
    consider "?sz = []" | n where "?sz = [(''size'', Some (JNum n))]" "num_le (Num 1) n" "num_le n (Num 8)"
      by (fastforce simp: MAX_NODES_def split: option.splits json.splits if_splits)
    then show ?thesis
    proof cases
      case 1
      show ?thesis unfolding buildFormUpdatesFromTemplate_def app others 1 using assms
        by (simp only: set img ref) blast
    next
      case 2
      show ?thesis unfolding buildFormUpdatesFromTemplate_def app others 2 set using 2 by blast
    qed
  qed
  show "\<forall>k. k \<notin> set [''templateRef'', ''image'', ''size'', ''resources'', ''monitoring'', ''storage''] \<longrightarrow>
       obj_get (updateForm f (buildFormUpdatesFromTemplate spec name)) k = obj_get f k"
  proof (intro allI impI)
    fix k
    assume "k \<notin> set [''templateRef'', ''image'', ''size'', ''resources'', ''monitoring'', ''storage'']"
    then have "k \<notin> {''templateRef'', ''image'', ''size'', ''resources'', ''monitoring'', ''storage''}"
      by (simp only: list.set not_False_eq_True)
    then show "obj_get (updateForm f (buildFormUpdatesFromTemplate spec name)) k = obj_get f k"
      using template_update_keys [of spec name] by (intro obj_get_updateForm) (rule contra_subsetD)
  qed
qed

theorem template_updates_bounded_witness:
  "\<exists>t. obj_get (updateForm INITIAL_FORM (buildFormUpdatesFromTemplate [(''size'', JNum (inum 9))] ''prod'')) ''size'' =
     Some (JNum t) \<and> num_le t (Num 8)"
  using template_updates_bounded [of INITIAL_FORM "inum 1" "[(''size'', JNum (inum 9))]" "''prod''"]
  by (auto simp: INITIAL_FORM_def)

end
