(* ===== verification/Stores.thy ===== *)
theory Stores
  imports Api_Endpoints
begin

text \<open>
  The Zustand stores that the pages share (\<^verbatim>\<open>ui/src/stores/\<close>: \<^verbatim>\<open>ui-store.ts\<close>,
  \<^verbatim>\<open>data-revision-store.ts\<close>, \<^verbatim>\<open>cluster-store.ts\<close>, \<^verbatim>\<open>k8s-cluster-store.ts\<close>). An asynchronous action is
  split at its \<open>await\<close> into a \<open>begin\<close> and an \<open>end\<close> part, so that actions can interleave.
\<close>

section \<open>UI preferences (ui-store.ts)\<close>

definition DEFAULT_WORKSPACE_ID :: string where
  "DEFAULT_WORKSPACE_ID = ''ws-default''"

datatype sidebar_mode = Expanded | Collapsed
datatype clusters_view = CardView | TableView

record ui_store =
  sidebarMode :: sidebar_mode
  activeSection :: "string option"
  clustersView :: clusters_view
  currentWorkspaceId :: string

definition initial_ui :: ui_store where
  "initial_ui = \<lparr>sidebarMode = Expanded, activeSection = None, clustersView = CardView,
     currentWorkspaceId = DEFAULT_WORKSPACE_ID\<rparr>"

definition toggleSidebar :: "ui_store \<Rightarrow> ui_store" where
  "toggleSidebar s = s\<lparr>sidebarMode := (if sidebarMode s = Expanded then Collapsed else Expanded)\<rparr>"

definition setSidebarMode :: "sidebar_mode \<Rightarrow> ui_store \<Rightarrow> ui_store" where
  "setSidebarMode m s = s\<lparr>sidebarMode := m\<rparr>"

definition setActiveSection :: "string option \<Rightarrow> ui_store \<Rightarrow> ui_store" where
  "setActiveSection a s = s\<lparr>activeSection := a\<rparr>"

definition setClustersView :: "clusters_view \<Rightarrow> ui_store \<Rightarrow> ui_store" where
  "setClustersView v s = s\<lparr>clustersView := v\<rparr>"

definition setCurrentWorkspaceId :: "string \<Rightarrow> ui_store \<Rightarrow> ui_store" where
  "setCurrentWorkspaceId i s = s\<lparr>currentWorkspaceId := i\<rparr>"

fun own_fields :: "json \<Rightarrow> (string, json) jsmap" where
  \<comment> \<open>what spreading a value copies\<close>
  "own_fields (JObj kvs) = kvs"
| "own_fields (JArr xs) = map (\<lambda>(i, x). (nat_str i, x)) (enumerate 0 xs)"
| "own_fields _ = []"

definition migrate :: "json \<Rightarrow> nat \<Rightarrow> json" where
  \<comment> \<open>the persisted state as it was parsed from local storage\<close>
  "migrate persisted version =
     (if \<not> json_truthy persisted \<or> \<not> js_typeof_object persisted then persisted
      else if version < 2
        then JObj (obj_set ''currentWorkspaceId'' (JStr DEFAULT_WORKSPACE_ID) (own_fields persisted))
      else persisted)"

lemma toggle_twice: "toggleSidebar (toggleSidebar s) = s"
  by (cases "sidebarMode s") (simp_all add: toggleSidebar_def)

lemma migrate_old_workspace:
  assumes "version < 2" "json_truthy persisted" "js_typeof_object persisted"
  shows "json_field (migrate persisted version) ''currentWorkspaceId'' = Some (JStr DEFAULT_WORKSPACE_ID) \<and>
    (\<forall>k. k \<noteq> ''currentWorkspaceId'' \<longrightarrow>
       json_field (migrate persisted version) k = obj_get (own_fields persisted) k)"
  using assms by (simp add: migrate_def json_field_def)

section \<open>Revision counters (data-revision-store.ts)\<close>

record data_revision =
  connections_rev :: nat
  workspaces_rev :: nat

definition initial_revision :: data_revision where
  "initial_revision = \<lparr>connections_rev = 0, workspaces_rev = 0\<rparr>"

definition bumpConnectionsRev :: "data_revision \<Rightarrow> data_revision" where
  "bumpConnectionsRev s = s\<lparr>connections_rev := connections_rev s + 1\<rparr>"

definition bumpWorkspacesRev :: "data_revision \<Rightarrow> data_revision" where
  "bumpWorkspacesRev s = s\<lparr>workspaces_rev := workspaces_rev s + 1\<rparr>"

section \<open>Cluster information per connection (cluster-store.ts)\<close>

record cluster_store =
  infos :: "(string, json) jsmap"
  loadingIds :: "(string, bool) jsmap"
  fetchErrors :: "(string, string option) jsmap"

definition empty_clusters :: cluster_store where
  \<comment> \<open>the initial state and the result of \<open>reset\<close>\<close>
  "empty_clusters = \<lparr>infos = [], loadingIds = [], fetchErrors = []\<rparr>"

fun message_of :: "js_error \<Rightarrow> string \<Rightarrow> string" where
  \<comment> \<open>\<open>err instanceof Error ? err.message : fallback\<close>\<close>
  "message_of (ApiErr e) d = err_message e"
| "message_of (ErrorObj m) d = m"
| "message_of (NonError v) d = d"

definition fetchCluster_begin :: "string \<Rightarrow> cluster_store \<Rightarrow> api_call \<times> cluster_store" where
  "fetchCluster_begin connId s =
     (getCluster connId,
      s\<lparr>loadingIds := obj_set connId True (loadingIds s), fetchErrors := obj_set connId None (fetchErrors s)\<rparr>)"

definition fetchCluster_end :: "string \<Rightarrow> js_error + json \<Rightarrow> cluster_store \<Rightarrow> json option \<times> cluster_store" where
  "fetchCluster_end connId r s =
     (case r of
        Inr info \<Rightarrow>
          (Some info, s\<lparr>infos := obj_set connId info (infos s), loadingIds := obj_set connId False (loadingIds s)\<rparr>)
      | Inl e \<Rightarrow>
          (None, s\<lparr>loadingIds := obj_set connId False (loadingIds s),
                   fetchErrors := obj_set connId (Some (message_of e ''Failed to load cluster'')) (fetchErrors s)\<rparr>))"

definition invalidate :: "string \<Rightarrow> cluster_store \<Rightarrow> cluster_store" where
  "invalidate connId s =
     s\<lparr>infos := obj_del connId (infos s), loadingIds := obj_del connId (loadingIds s),
       fetchErrors := obj_del connId (fetchErrors s)\<rparr>"

lemma fetchCluster_end_local:
  assumes "fetchCluster_end c r s = (v, s')" "k \<noteq> c"
  shows "obj_get (infos s') k = obj_get (infos s) k \<and> obj_get (loadingIds s') k = obj_get (loadingIds s) k \<and>
    obj_get (fetchErrors s') k = obj_get (fetchErrors s) k"
  using assms by (auto simp: fetchCluster_end_def split: sum.splits)

lemma fetchCluster_end_settles:
  assumes "fetchCluster_end c r s = (v, s')"
  shows "obj_get (loadingIds s') c = Some False \<and>
    (case r of Inr info \<Rightarrow> v = Some info \<and> obj_get (infos s') c = Some info
     | Inl e \<Rightarrow> v = None \<and> obj_get (infos s') c = obj_get (infos s) c \<and>
         (\<exists>m. obj_get (fetchErrors s') c = Some (Some m)))"
  using assms by (auto simp: fetchCluster_end_def split: sum.splits)

text \<open>An answer that arrives after the entry was invalidated puts it back.\<close>

lemma late_answer_revives:
  "obj_get (infos (snd (fetchCluster_end c (Inr info) (invalidate c s)))) c = Some info"
  by (simp add: fetchCluster_end_def)

section \<open>Kubernetes clusters (k8s-cluster-store.ts)\<close>

record k8s_cluster_store =
  k8s_clusters :: "json list"
  continueToken :: "string option"
  hasMore :: bool
  selectedKey :: "(string \<times> string) option" \<comment> \<open>namespace and name\<close>
  k8s_isLoading :: bool
  k8s_error :: "string option"

definition empty_k8s_clusters :: k8s_cluster_store where
  "empty_k8s_clusters =
     \<lparr>k8s_clusters = [], continueToken = None, hasMore = False, selectedKey = None, k8s_isLoading = False,
      k8s_error = None\<rparr>"

record k8s_cluster_page =
  page_items :: "json list"
  page_token :: "string option"
  page_hasMore :: bool

definition fetchClusters_begin :: "k8s_cluster_store \<Rightarrow> k8s_cluster_store" where
  "fetchClusters_begin s = s\<lparr>k8s_isLoading := True, k8s_error := None\<rparr>"

definition fetchClusters_end :: "js_error + k8s_cluster_page \<Rightarrow> k8s_cluster_store \<Rightarrow> k8s_cluster_store" where
  "fetchClusters_end r s =
     (case r of
        Inr p \<Rightarrow> s\<lparr>k8s_clusters := page_items p, continueToken := page_token p, hasMore := page_hasMore p,
                  k8s_isLoading := False\<rparr>
      | Inl e \<Rightarrow> s\<lparr>k8s_isLoading := False,
                  k8s_error := Some (message_of e ''Failed to load Kubernetes clusters'')\<rparr>)"

definition selectCluster :: "(string \<times> string) option \<Rightarrow> k8s_cluster_store \<Rightarrow> k8s_cluster_store" where
  "selectCluster k s = s\<lparr>selectedKey := k\<rparr>"

lemma fetchClusters_settles:
  "\<not> k8s_isLoading (fetchClusters_end r s) \<and> selectedKey (fetchClusters_end r s) = selectedKey s \<and>
   (\<forall>e. r = Inl e \<longrightarrow> k8s_clusters (fetchClusters_end r s) = k8s_clusters s)"
  by (auto simp: fetchClusters_end_def split: sum.splits)

end
