(* ===== verification/Step_Review.thy ===== *)
theory Step_Review
  imports Wizard Stores
begin

text \<open>
  The review step of the wizard, \<^verbatim>\<open>ui/src/components/k8s/create-cluster-wizard/StepReview.tsx\<close>: one line for
  each section of the form. Every line is a function of the value of its section, so that the review of
  the form can be compared with the review of the payload that is sent.
\<close>

section \<open>Values\<close>

definition js_text :: "(rat \<Rightarrow> string) \<Rightarrow> json \<Rightarrow> string" where
  \<comment> \<open>a string or a number, as the request type has it, in a template or as text\<close>
  "js_text fs v = (case v of JStr s \<Rightarrow> s | JNum n \<Rightarrow> num_str fs n | JBool b \<Rightarrow> (if b then ''true'' else ''false'') | _ \<Rightarrow> [])"

definition text_or :: "(rat \<Rightarrow> string) \<Rightarrow> json option \<Rightarrow> string \<Rightarrow> string" where
  \<comment> \<open>\<open>v ?? d\<close>\<close>
  "text_or fs v d = (if js_nullish v then d else js_text fs (the v))"

definition dash :: string where
  "dash = [u_sub]"

definition count_of :: "json option \<Rightarrow> nat" where
  \<comment> \<open>\<open>v?.length ?? 0\<close>\<close>
  "count_of v = nullish (js_length v) 0"

definition review_bytes :: "(rat \<Rightarrow> string) \<Rightarrow> json option \<Rightarrow> string" where
  \<comment> \<open>\<open>formatBytes\<close>\<close>
  "review_bytes fs bytes =
     (case bytes of
        Some (JNum (Num x)) \<Rightarrow>
          if x = 0 then dash
          else (case num_of_rat (x / 1073741824) of
                  Num gi \<Rightarrow>
                    if 1 \<le> gi then num_str fs (Num gi) @ '' GiB''
                    else num_str fs (Math_round (num_of_rat (x / 1048576))) @ '' MiB''
                | gi \<Rightarrow> num_str fs gi @ '' GiB'')
      | Some (JNum (Infinite neg)) \<Rightarrow> if neg then ''-Infinity MiB'' else ''Infinity GiB''
      | _ \<Rightarrow> dash)"

section \<open>Lines\<close>

definition line_size :: "(rat \<Rightarrow> string) \<Rightarrow> json option \<Rightarrow> string" where
  "line_size fs v =
     text_or fs v ''1'' @ '' node'' @ (case v of Some (JNum n) \<Rightarrow> if num_less (inum 1) n then ''s'' else [] | _ \<Rightarrow> [])"

definition line_resources :: "(rat \<Rightarrow> string) \<Rightarrow> json option \<Rightarrow> string" where
  "line_resources fs res =
     (let requests = opt_field res ''requests''; limits = opt_field res ''limits'' in
      if opt_truthy requests \<or> opt_truthy limits
      then ''CPU: '' @ text_or fs (opt_field requests ''cpu'') dash @ '' / '' @ text_or fs (opt_field limits ''cpu'') dash @
           ''  '' @ [CHR 0xB7] @ ''  Mem: '' @ text_or fs (opt_field requests ''memory'') dash @ '' / '' @
           text_or fs (opt_field limits ''memory'') dash
      else ''defaults'')"

definition line_monitoring :: "(rat \<Rightarrow> string) \<Rightarrow> json option \<Rightarrow> string" where
  "line_monitoring fs m =
     (if opt_truthy (opt_field m ''enabled'') then ''Enabled (port '' @ text_or fs (opt_field m ''port'') ''9145'' @ '')''
      else ''Disabled'')"

definition line_rolling :: "(rat \<Rightarrow> string) \<Rightarrow> json option \<Rightarrow> string" where
  "line_rolling fs r =
     (if opt_truthy r \<and>
         (opt_field r ''batchSize'' \<noteq> None \<or> opt_field r ''maxUnavailable'' \<noteq> None \<or> opt_truthy (opt_field r ''disablePDB''))
      then ''batchSize='' @ text_or fs (opt_field r ''batchSize'') dash @ '', maxUnavailable='' @
           text_or fs (opt_field r ''maxUnavailable'') dash @
           (if opt_truthy (opt_field r ''disablePDB'') then '', PDB disabled'' else [])
      else ''Default'')"

definition line_acl :: "json option \<Rightarrow> string" where
  "line_acl a =
     (if opt_truthy (opt_field a ''enabled'')
      then nat_str (count_of (opt_field a ''users'')) @ '' user(s), '' @ nat_str (count_of (opt_field a ''roles'')) @ '' role(s)''
      else ''Disabled'')"

definition line_racks :: "json option \<Rightarrow> string" where
  "line_racks rc =
     (let racks = opt_field rc ''racks'' in
      if opt_truthy racks \<and> count_of racks > 0 then nat_str (count_of racks) @ '' rack(s)'' else ''Single rack'')"

definition line_containers :: "json option \<Rightarrow> json option \<Rightarrow> string" where
  "line_containers sidecars init =
     (if count_of sidecars + count_of init > 0
      then nat_str (count_of sidecars) @ '' sidecar(s), '' @ nat_str (count_of init) @ '' init'' else ''None'')"

definition line_network :: "(rat \<Rightarrow> string) \<Rightarrow> json option \<Rightarrow> string" where
  "line_network fs np = text_or fs (opt_field np ''accessType'') ''pod''"

definition line_bandwidth :: "(rat \<Rightarrow> string) \<Rightarrow> json option \<Rightarrow> string" where
  "line_bandwidth fs b =
     (if opt_truthy (opt_field b ''ingress'') \<or> opt_truthy (opt_field b ''egress'')
      then ''in='' @ text_or fs (opt_field b ''ingress'') dash @ '', out='' @ text_or fs (opt_field b ''egress'') dash
      else ''No limits'')"

definition flag :: "string \<Rightarrow> string \<Rightarrow> json option \<Rightarrow> string" where
  "flag yes no v = (if opt_truthy v then yes else no)"

definition review_workspace :: "(string \<times> string) list option \<Rightarrow> json option \<Rightarrow> string" where
  \<comment> \<open>the workspaces are given by identifier and name\<close>
  "review_workspace workspaces v =
     (let workspaceId = (case v of Some (JStr s) \<Rightarrow> s | _ \<Rightarrow> DEFAULT_WORKSPACE_ID)
      in nullish (Option.bind workspaces (\<lambda>ws. map_of ws workspaceId)) workspaceId)"

definition review_namespace :: "(rat \<Rightarrow> string) \<Rightarrow> json \<Rightarrow> string \<times> string \<times> string" where
  "review_namespace fs ns =
     (let se = json_field ns ''storageEngine'';
          type = text_or fs (opt_field se ''type'') ''memory''
      in (text_or fs (json_field ns ''name'') dash,
          if type = ''memory'' then ''In-Memory ('' @ review_bytes fs (opt_field se ''dataSize'') @ '')''
          else ''Device ('' @ text_or fs (opt_field se ''file'') dash @ '', '' @ review_bytes fs (opt_field se ''filesize'') @ '')'',
          text_or fs (json_field ns ''replicationFactor'') ''1''))"

definition review_namespaces :: "(rat \<Rightarrow> string) \<Rightarrow> json option \<Rightarrow> (string \<times> string \<times> string) list" where
  "review_namespaces fs v = (case v of Some (JArr ns) \<Rightarrow> map (review_namespace fs) ns | _ \<Rightarrow> [])"

definition review_lines :: "(rat \<Rightarrow> string) \<Rightarrow> form \<Rightarrow> (string \<times> string) list" where
  \<comment> \<open>the fields that are always shown, apart from the workspace\<close>
  "review_lines fs form =
     [(''Name'', text_or fs (obj_get form ''name'') dash),
      (''Namespace'', text_or fs (obj_get form ''namespace'') dash),
      (''Size'', line_size fs (obj_get form ''size'')),
      (''Image'', text_or fs (obj_get form ''image'') dash),
      (''Resources'', line_resources fs (obj_get form ''resources'')),
      (''Auto-connect'', flag ''Yes'' ''No'' (obj_get form ''autoConnect'')),
      (''Monitoring'', line_monitoring fs (obj_get form ''monitoring'')),
      (''Dynamic Config'', flag ''Enabled'' ''Disabled'' (obj_get form ''enableDynamicConfig'')),
      (''Rolling Update'', line_rolling fs (obj_get form ''rollingUpdate'')),
      (''ACL'', line_acl (obj_get form ''acl'')),
      (''Racks'', line_racks (obj_get form ''rackConfig'')),
      (''Sidecars / Init'', line_containers (obj_get form ''sidecars'') (obj_get form ''initContainers'')),
      (''Network Access'', line_network fs (obj_get form ''networkPolicy'')),
      (''Nodes blocked'', nat_str (count_of (obj_get form ''k8sNodeBlockList''))),
      (''Bandwidth'', line_bandwidth fs (obj_get form ''bandwidthConfig''))]"

section \<open>Properties\<close>

lemma kept_or_inactive:
  assumes "map_of cleanup_rules k = Some test" "k \<noteq> ''workspaceId''" "\<And>v. json_truthy v \<Longrightarrow> test v \<Longrightarrow> L (Some v) = L None"
  shows "L (obj_get (create_payload ws w) k) = L (obj_get (wform w) k)"
  using assms by (auto simp: create_payload_def obj_get_cleanup split: option.splits)

lemma inactive_lines:
  "not_enabled v \<Longrightarrow> line_monitoring fs (Some v) = line_monitoring fs None"
  "not_enabled v \<Longrightarrow> line_acl (Some v) = line_acl None"
  "no_rolling v \<Longrightarrow> line_rolling fs (Some v) = line_rolling fs None"
  "no_racks v \<Longrightarrow> line_racks (Some v) = line_racks None"
  "zero_length v \<Longrightarrow> count_of (Some v) = count_of None"
  "default_network v \<Longrightarrow> line_network fs (Some v) = line_network fs None"
  "no_bandwidth v \<Longrightarrow> line_bandwidth fs (Some v) = line_bandwidth fs None"
  by (auto simp: not_enabled_def line_monitoring_def line_acl_def no_rolling_def line_rolling_def no_racks_def line_racks_def
      zero_length_def count_of_def default_network_def line_network_def text_or_def js_text_def no_bandwidth_def line_bandwidth_def Let_def)

lemma line_containers_counts:
  "count_of a = count_of a' \<Longrightarrow> count_of b = count_of b' \<Longrightarrow> line_containers a b = line_containers a' b'"
  by (simp add: line_containers_def)


text \<open>
  The one line that does not follow the payload is the workspace: the review shows the one of the form,
  and the payload carries the one selected in the application.
\<close>

theorem review_shows_other_workspace:
  assumes "obj_get (wform w) ''workspaceId'' = Some (JStr a)" "a \<noteq> ws"
  shows "review_workspace None (obj_get (wform w) ''workspaceId'') = a \<and>
    review_workspace None (obj_get (create_payload ws w) ''workspaceId'') = ws"
  using assms by (simp add: review_workspace_def create_payload_def obj_get_cleanup cleanup_rules_def)

end
