(* ===== verification/Wizard_View.thy ===== *)
theory Wizard_View
  imports Wizard
begin

text \<open>
  What the create-cluster wizard shows: the page of a step, the messages and the buttons
  (\<^verbatim>\<open>CreateClusterWizard.tsx\<close>), the stepper (\<^verbatim>\<open>Stepper.tsx\<close>) and the choice of mode and template
  (\<^verbatim>\<open>StepCreationMode.tsx\<close>), over the state of theory \<open>Wizard\<close>. Characters outside Latin-1 use the
  substitute.
\<close>

section \<open>The pages (CreateClusterWizard.tsx)\<close>

datatype wizard_page = CreationModePage | BasicPage bool | StoragePage | AdvancedPage | ReviewPage

definition step_page :: "wizard \<Rightarrow> wizard_page" where
  \<comment> \<open>the flag of the basic page: \<open>templateMode\<close>\<close>
  "step_page w =
     (if mode w = Scratch
      then (if step w = 0 then CreationModePage
            else if step w = 1 then BasicPage False
            else if step w = 2 then StoragePage
            else if step w = 3 then AdvancedPage else ReviewPage)
      else (if step w = 0 then CreationModePage
            else if step w = 1 then BasicPage True
            else if step w = 2 then StoragePage else ReviewPage))"

definition wizard_messages :: "(rat \<Rightarrow> string) \<Rightarrow> wizard \<Rightarrow> string list" where
  "wizard_messages fs w =
     concat (map (\<lambda>m. if truthy m then [the m] else []) [stepError fs w, templateError w, submitError w])"

datatype primary_button = CreateButton bool | NextButton bool

definition wizard_footer :: "(rat \<Rightarrow> string) \<Rightarrow> wizard \<Rightarrow> (string \<times> bool) \<times> primary_button" where
  \<comment> \<open>label and \<open>disabled\<close> of the left button; the right one with \<open>isLoading\<close> or \<open>disabled\<close>\<close>
  "wizard_footer fs w =
     ((if step w = 0 then ''Cancel'' else ''Back'', submitting w),
      if isLastStep w then CreateButton (submitting w) else NextButton (truthy (stepError fs w)))"

definition ActiveClusterHint :: "bool \<Rightarrow> selector_store \<Rightarrow> string option" where
  "ActiveClusterHint visible s =
     (if \<not> visible \<or> registry s = None then None
      else (let cs = clusters (the (registry s)) in
        map_option displayName
          (case find (\<lambda>c. Some (ce_id c) = currentClusterId s) cs of
             Some c \<Rightarrow> Some c
           | None \<Rightarrow>
               (case find (\<lambda>c. ce_id c = defaultClusterId (the (registry s))) cs of
                  Some c \<Rightarrow> Some c
                | None \<Rightarrow> (case cs of [] \<Rightarrow> None | c # _ \<Rightarrow> Some c)))))"

section \<open>The stepper (Stepper.tsx)\<close>

record step_item =
  si_label :: string
  si_aria :: string
  si_current :: bool
  si_done :: bool
  si_disabled :: bool

definition Stepper :: "string list \<Rightarrow> nat \<Rightarrow> nat \<Rightarrow> step_item list" where
  "Stepper ls currentIndex maxReachedIndex =
     map (\<lambda>(i, l). \<lparr>si_label = l, si_aria = ''Step '' @ nat_str (i + 1) @ '': '' @ l, si_current = (i = currentIndex),
                     si_done = (i < currentIndex), si_disabled = (\<not> i \<le> maxReachedIndex)\<rparr>) (enumerate 0 ls)"

definition stepper_title :: "string list \<Rightarrow> nat \<Rightarrow> string" where
  "stepper_title ls currentIndex =
     ''Step '' @ nat_str (currentIndex + 1) @ '' of '' @ nat_str (length ls) @ '' '' @ [u_sub] @
     (if currentIndex < length ls then ls ! currentIndex else [])"

section \<open>Mode and template (StepCreationMode.tsx)\<close>

record mode_card =
  mc_mode :: creation_mode
  mc_title :: string
  mc_subtitle :: string
  mc_selected :: bool

definition mode_cards :: "wizard \<Rightarrow> mode_card list" where
  "mode_cards w =
     [\<lparr>mc_mode = Scratch, mc_title = ''Start from Scratch'', mc_subtitle = ''Configure every setting manually'',
       mc_selected = (mode w = Scratch)\<rparr>,
      \<lparr>mc_mode = FromTemplate, mc_title = ''Start from Template'', mc_subtitle = ''Pre-fill settings from a template'',
       mc_selected = (mode w = FromTemplate)\<rparr>]"

datatype choice_view =
    TemplatesHidden | TemplatesLoading | NoTemplates | TemplateButtons "(string \<times> string option \<times> bool) list"

definition template_choice :: "wizard \<Rightarrow> choice_view" where
  \<comment> \<open>a button has its name, its description and whether it is selected\<close>
  "template_choice w =
     (if mode w \<noteq> FromTemplate then TemplatesHidden
      else if templateLoading w then TemplatesLoading
      else if length (templates w) = 0 then NoTemplates
      else TemplateButtons (map (\<lambda>t.
        (str_or_empty (json_field t ''name''),
         (case json_field t ''description'' of Some (JStr d) \<Rightarrow> if d \<noteq> [] then Some d else None | _ \<Rightarrow> None),
         selectedTemplateName w = Some (str_or_empty (json_field t ''name'')))) (templates w)))"

section \<open>Properties\<close>

definition position :: "wizard \<Rightarrow> creation_mode \<times> nat \<times> nat" where
  "position w = (mode w, step w, maxReachedStep w)"

lemma position_form [simp]: "position (w\<lparr>wform := f\<rparr>) = position w"
  by (simp add: position_def)

lemma position_kept [simp]:
  "position (syncWorkspace ws w) = position w" "position (namespacesLoaded xs w) = position w"
  "position (templatesLoaded ts w) = position w" "position (storageClassesLoaded xs w) = position w"
  "position (selectTemplate_begin name w) = position w" "position (selectTemplate_end name r w) = position w"
  "position (snd (handleCreate_begin ws w)) = position w" "position (handleCreate_end fs out w) = position w"
  by (auto simp: position_def syncWorkspace_def namespacesLoaded_def templatesLoaded_def storageClassesLoaded_def
      selectTemplate_begin_def selectTemplate_end_def handleCreate_begin_def handleCreate_end_def
      split: sum.splits api_outcome.splits js_error.splits)

definition on_a_step :: "wizard \<Rightarrow> bool" where
  "on_a_step w \<longleftrightarrow> step w \<le> maxReachedStep w \<and> maxReachedStep w < length (labels (mode w))"

lemma on_a_step_position: "position w' = position w \<Longrightarrow> on_a_step w \<Longrightarrow> on_a_step w'"
  by (simp add: on_a_step_def position_def)

lemma labels_length [simp]: "length (labels Scratch) = 5" "length (labels FromTemplate) = 4" "0 < length (labels m)"
  by (cases m; simp add: labels_def STEP_LABELS_SCRATCH_def STEP_LABELS_TEMPLATE_def)+

lemma labels_nonempty [simp]: "labels m \<noteq> []"
  using labels_length(3) [of m] by auto

lemma wizard_step_on_a_step:
  assumes "wizard_step fs c c'" "on_a_step (fst c)"
  shows "on_a_step (fst c')"
  using assms
proof (cases rule: wizard_step.cases)
  case (goingNext w pnd)
  with assms(2) show ?thesis by (auto simp: on_a_step_def goNext_def isLastStep_def)
next
  case (changeMode w pnd m)
  then show ?thesis by (simp add: on_a_step_def handleModeChange_def Let_def)
next
  case (goingBack w pnd)
  with assms(2) show ?thesis by (auto simp: on_a_step_def goBack_def)
next
  case (jump i w pnd)
  with assms(2) show ?thesis by (auto simp: on_a_step_def goTo_def)
qed (use assms(2) in \<open>auto intro: on_a_step_position [rotated]\<close>)

definition page_title :: "wizard_page \<Rightarrow> string" where
  \<comment> \<open>what the stepper should call a page\<close>
  "page_title p =
     (case p of
        CreationModePage \<Rightarrow> ''Creation Mode''
      | BasicPage t \<Rightarrow> if t then ''Name & Namespace'' else ''Basic & Resources''
      | StoragePage \<Rightarrow> ''Namespace & Storage''
      | AdvancedPage \<Rightarrow> ''Advanced''
      | ReviewPage \<Rightarrow> ''Review'')"

lemma page_has_label:
  assumes "step w < length (labels (mode w))"
  shows "labels (mode w) ! step w = page_title (step_page w) \<and> (isLastStep w \<longleftrightarrow> step_page w = ReviewPage)"
proof (cases "mode w")
  case Scratch
  with assms consider "step w = 0" | "step w = 1" | "step w = 2" | "step w = 3" | "step w = 4" by fastforce
  then show ?thesis
    by cases (simp_all add: Scratch labels_def STEP_LABELS_SCRATCH_def step_page_def page_title_def isLastStep_def)
next
  case FromTemplate
  with assms consider "step w = 0" | "step w = 1" | "step w = 2" | "step w = 3" by fastforce
  then show ?thesis
    by cases (simp_all add: FromTemplate labels_def STEP_LABELS_TEMPLATE_def step_page_def page_title_def isLastStep_def)
qed

lemma reachable_on_a_step:
  assumes "(wizard_step fs)\<^sup>*\<^sup>* (initial_wizard ws, None) (w, pnd)"
  shows "on_a_step w"
proof -
  have "on_a_step (fst c)" if "(wizard_step fs)\<^sup>*\<^sup>* (initial_wizard ws, None) c" for c
    using that
  proof (induction rule: rtranclp_induct)
    case base
    show ?case by (simp add: on_a_step_def initial_wizard_def)
  next
    case (step y z)
    from step.hyps(2) step.IH show ?case by (rule wizard_step_on_a_step)
  qed
  from this [OF assms] show ?thesis by simp
qed

text \<open>
  C38: The wizard shows the page its stepper names. After any run of the wizard, with answers of the server at any
  time, the step is one of the steps of the current mode, the page on screen is the one under the current label
  of the stepper, that label can be chosen, the Create button is offered exactly on the review page, and the
  Next button is offered on every other page, disabled exactly when a message about that page is shown.
\<close>

theorem wizard_shows_named_page:
  assumes "(wizard_step fs)\<^sup>*\<^sup>* (initial_wizard ws, None) (w, pnd)"
  shows "step w < length (labels (mode w)) \<and> labels (mode w) ! step w = page_title (step_page w) \<and>
    \<not> si_disabled (Stepper (labels (mode w)) (step w) (maxReachedStep w) ! step w) \<and>
    snd (wizard_footer fs w) =
      (if step_page w = ReviewPage then CreateButton (submitting w)
       else NextButton (\<exists>m. m \<noteq> [] \<and> stepError fs w = Some m \<and> m \<in> set (wizard_messages fs w)))"
proof -
  have ok: "step w \<le> maxReachedStep w" "step w < length (labels (mode w))"
    using reachable_on_a_step [OF assms] by (auto simp: on_a_step_def)
  have "truthy (stepError fs w) \<longleftrightarrow> (\<exists>m. m \<noteq> [] \<and> stepError fs w = Some m \<and> m \<in> set (wizard_messages fs w))"
  proof (cases "stepError fs w")
    case (Some m)
    then show ?thesis using Some by (auto simp: wizard_messages_def)
  qed simp
  with page_has_label [OF ok(2)] ok show ?thesis by (auto simp: Stepper_def wizard_footer_def nth_enumerate_eq)
qed

theorem wizard_shows_named_page_witness:
  "labels (mode (initial_wizard ''ws'')) ! step (initial_wizard ''ws'') = page_title (step_page (initial_wizard ''ws''))"
  using wizard_shows_named_page [of "\<lambda>x. []" "''ws''" "initial_wizard ''ws''" None] by simp

text \<open>The hint above the Create button names the backend the request goes to.\<close>

lemma hint_names_backend: "ActiveClusterHint True s = map_option displayName (getActiveCluster s)"
  by (cases "registry s") (auto simp: ActiveClusterHint_def getActiveCluster_def Let_def split: option.splits list.splits)

end
