(* ===== verification/Record_Editor.thy ===== *)
theory Record_Editor
  imports Record_Browser
begin

text \<open>
  The record detail page,
  \<^verbatim>\<open>ui/src/app/(main)/clusters/[clusterId]/sets/[namespace]/[set]/records/[key]/page.tsx\<close>: how a bin
  is shown and edited as text, the bin drafts, and the load, edit, save and delete handlers.

  Exceptions of \<open>draftToBin\<close> and the messages of the two name checks are the values of \<open>bin_error\<close>.
  A request is returned as the call it makes; what follows its \<open>await\<close> is a function of the answer.
\<close>

section \<open>Bins as text\<close>

definition GEOJSON_TYPES :: "string list" where
  "GEOJSON_TYPES =
     [''Point'', ''LineString'', ''Polygon'', ''MultiPoint'', ''MultiLineString'', ''MultiPolygon'',
      ''GeometryCollection'', ''Feature'', ''FeatureCollection'']"

datatype edit_kind = EString | EInteger | EDouble | EBoolean | EList | EMap | EGeojson | ENull

definition BIN_KINDS :: "edit_kind list" where
  "BIN_KINDS = [EString, EInteger, EDouble, EBoolean, EList, EMap, EGeojson, ENull]"

definition geo_typed :: "json \<Rightarrow> bool" where
  \<comment> \<open>\<open>typeof v.type === "string" \&\& GEOJSON_TYPES.has(v.type)\<close>\<close>
  "geo_typed v = (case json_field v ''type'' of Some (JStr t) \<Rightarrow> t \<in> set GEOJSON_TYPES | _ \<Rightarrow> False)"

definition looksLikeGeoJsonString :: "string \<Rightarrow> bool" where
  "looksLikeGeoJsonString s =
     (let trimmed = trim s in
      if \<not> startsWith trimmed ''{'' \<or> \<not> endsWith trimmed ''}'' then False
      else if \<not> str_includes trimmed ([CHR 0x22] @ ''type'' @ [CHR 0x22]) then False
      else (case JSON_parse trimmed of
              None \<Rightarrow> False
            | Some parsed \<Rightarrow>
                geo_typed parsed \<and>
                (json_field parsed ''coordinates'' \<noteq> None \<or> json_field parsed ''geometries'' \<noteq> None \<or>
                 json_field parsed ''features'' \<noteq> None)))"

fun detectBinType :: "json \<Rightarrow> edit_kind" where
  "detectBinType JNull = ENull"
| "detectBinType (JArr js) = EList"
| "detectBinType (JBool b) = EBoolean"
| "detectBinType (JNum x) = (if isInteger x then EInteger else EDouble)"
| "detectBinType (JStr s) = (if looksLikeGeoJsonString s then EGeojson else EString)"
| "detectBinType (JObj kvs) = (if geo_typed (JObj kvs) then EGeojson else EMap)"

definition reformatted :: "(rat \<Rightarrow> string) \<Rightarrow> string \<Rightarrow> string" where
  \<comment> \<open>\<open>try { return JSON.stringify(JSON.parse(value), null, 2) } catch { return value }\<close>\<close>
  "reformatted fs s = (case JSON_parse s of Some j \<Rightarrow> stringify2 fs j | None \<Rightarrow> s)"

fun formatBinValue :: "(rat \<Rightarrow> string) \<Rightarrow> json \<Rightarrow> string" where
  "formatBinValue fs JNull = ''null''"
| "formatBinValue fs (JStr s) = (if looksLikeGeoJsonString s then reformatted fs s else s)"
| "formatBinValue fs (JNum x) = num_str fs x"
| "formatBinValue fs (JBool b) = (if b then ''true'' else ''false'')"
| "formatBinValue fs j = stringify2 fs j"

definition binToDraft :: "(rat \<Rightarrow> string) \<Rightarrow> json \<Rightarrow> edit_kind \<Rightarrow> string" where
  "binToDraft fs v k =
     (case k of
        EString \<Rightarrow> str_or_empty (Some v)
      | ENull \<Rightarrow> ''null''
      | EGeojson \<Rightarrow> (case v of JStr s \<Rightarrow> reformatted fs s | _ \<Rightarrow> stringify2 fs v)
      | _ \<Rightarrow> formatBinValue fs v)"

datatype bin_error =
    NameRequired
  | DuplicateName string
  | NotInteger
  | NotNumber
  | NotBoolean
  | InvalidJson
  | InvalidGeoJson

definition draftToBin :: "(rat \<Rightarrow> string) \<Rightarrow> string \<Rightarrow> edit_kind \<Rightarrow> bin_error + json" where
  "draftToBin fs draft k =
     (case k of
        ENull \<Rightarrow> Inr JNull
      | EString \<Rightarrow> Inr (JStr draft)
      | EInteger \<Rightarrow>
          (let n = js_Number (trim draft) in if \<not> isFinite n \<or> \<not> isInteger n then Inl NotInteger else Inr (JNum n))
      | EDouble \<Rightarrow> (let n = js_Number (trim draft) in if \<not> isFinite n then Inl NotNumber else Inr (JNum n))
      | EBoolean \<Rightarrow>
          (let t = toLowerCase (trim draft) in
           if t = ''true'' then Inr (JBool True) else if t = ''false'' then Inr (JBool False) else Inl NotBoolean)
      | EGeojson \<Rightarrow>
          (case JSON_parse draft of
             None \<Rightarrow> Inl InvalidGeoJson
           | Some parsed \<Rightarrow> if \<not> geo_typed parsed then Inl InvalidGeoJson else Inr (JStr (stringify fs parsed)))
      | _ \<Rightarrow> (case JSON_parse draft of None \<Rightarrow> Inl InvalidJson | Some j \<Rightarrow> Inr j))"

section \<open>Metadata\<close>

definition TTL_NEVER_SENTINEL :: int where
  "TTL_NEVER_SENTINEL = 4294967295"

definition whole_div :: "jsnum \<Rightarrow> rat \<Rightarrow> jsnum" where
  \<comment> \<open>\<open>Math.floor(x / d)\<close>\<close>
  "whole_div x d = Math_floor (num_div x d)"

fun num_rem :: "jsnum \<Rightarrow> rat \<Rightarrow> jsnum" where
  \<comment> \<open>\<open>x % d\<close> for a non-negative \<open>x\<close>\<close>
  "num_rem (Num x) d = Num (x - d * of_int \<lfloor>x / d\<rfloor>)"
| "num_rem y d = NaN"

definition record_formatTtl :: "(rat \<Rightarrow> string) \<Rightarrow> jsnum option \<Rightarrow> string" where
  "record_formatTtl fs ttl =
     (case ttl of
        None \<Rightarrow> [u_sub]
      | Some t \<Rightarrow>
          (if t = inum (-1) \<or> t = inum TTL_NEVER_SENTINEL then ''never''
           else if t = inum 0 then ''keep''
           else if num_le (inum 86400) t then
             num_str fs (whole_div t 86400) @ ''d '' @ num_str fs (whole_div (num_rem t 86400) 3600) @ ''h''
           else if num_le (inum 3600) t then
             num_str fs (whole_div t 3600) @ ''h '' @ num_str fs (whole_div (num_rem t 3600) 60) @ ''m''
           else if num_le (inum 60) t then num_str fs (whole_div t 60) @ ''m '' @ num_str fs (num_rem t 60) @ ''s''
           else num_str fs t @ ''s''))"

definition CITRUSLEAF_EPOCH_MS :: int where
  "CITRUSLEAF_EPOCH_MS = 1262304000000"

fun num_add_int :: "jsnum \<Rightarrow> int \<Rightarrow> jsnum" where
  "num_add_int (Num x) n = num_of_rat (x + of_int n)"
| "num_add_int y n = y"

definition formatLastUpdate :: "(jsnum \<Rightarrow> string) \<Rightarrow> jsnum option \<Rightarrow> string" where
  \<comment> \<open>\<open>local\<close> renders a time stamp in the local format (\<open>Date.toLocaleString\<close>)\<close>
  "formatLastUpdate local t =
     (case t of
        None \<Rightarrow> [u_sub]
      | Some ms \<Rightarrow>
          (if num_falsy ms then [u_sub]
           else local (if num_less ms (inum 1000000000000)
                       then num_add_int (whole_div ms 1000000) CITRUSLEAF_EPOCH_MS else ms)))"

section \<open>The page\<close>

record bin_draft =
  bd_id :: string
  bd_name :: string
  bd_kind :: edit_kind
  bd_value :: string

record bin_patch =
  bp_name :: "string option"
  bp_kind :: "edit_kind option"
  bp_value :: "string option"

record aerospike_record =
  ar_bins :: "(string, json) jsmap"
  ar_ttl :: "jsnum option"

record record_page =
  rp_cluster :: string
  rp_namespace :: string
  rp_set :: string
  rp_pk :: "string option" \<comment> \<open>\<open>None\<close>: the segment of the address does not decode\<close>
  rp_record :: "aerospike_record option"
  rp_error :: "string option"
  rp_isLoading :: bool
  rp_deleting :: bool
  rp_isEditing :: bool
  rp_drafts :: "bin_draft list"
  rp_binErrors :: "(string, bin_error) jsmap"
  rp_ttlDraft :: string
  rp_saving :: bool

definition buildInitialDraft :: "(rat \<Rightarrow> string) \<Rightarrow> aerospike_record \<Rightarrow> bin_draft list" where
  "buildInitialDraft fs r =
     map (\<lambda>(i, name, v).
            \<lparr>bd_id = ''bin-'' @ nat_str i @ ''-'' @ name, bd_name = name, bd_kind = detectBinType v,
             bd_value = binToDraft fs v (detectBinType v)\<rparr>)
         (enumerate 0 (ar_bins r))"

definition caught_text :: "(rat \<Rightarrow> string) \<Rightarrow> string \<Rightarrow> js_error \<Rightarrow> string" where
  \<comment> \<open>the message a \<open>catch\<close> of this page sets, with its text for a value that is no \<open>Error\<close>\<close>
  "caught_text fs other e =
     (case e of
        ApiErr a \<Rightarrow> str_or (detail fs a) (err_message a)
      | ErrorObj m \<Rightarrow> m
      | NonError _ \<Rightarrow> other)"

definition lookup :: "record_page \<Rightarrow> string \<Rightarrow> record_lookup_params" where
  "lookup p pk = \<lparr>rl_ns = rp_namespace p, rl_set = rp_set p, rl_pk = pk, rl_pk_type = Some PkAuto\<rparr>"

definition loadRecord :: "record_page \<Rightarrow> record_page \<times> api_call option" where
  "loadRecord p =
     (case rp_pk p of
        None \<Rightarrow> (p, None)
      | Some pk \<Rightarrow> (p\<lparr>rp_isLoading := True, rp_error := None\<rparr>, Some (getRecordDetail (rp_cluster p) (lookup p pk))))"

definition record_loaded ::
  "(rat \<Rightarrow> string) \<Rightarrow> bool \<Rightarrow> js_error + aerospike_record \<Rightarrow> record_page \<Rightarrow> record_page" where
  "record_loaded fs cancelled res p =
     (if cancelled then p
      else (case res of
              Inr r \<Rightarrow> p\<lparr>rp_record := Some r, rp_isLoading := False\<rparr>
            | Inl e \<Rightarrow> p\<lparr>rp_error := Some (caught_text fs ''Failed to load record'' e), rp_isLoading := False\<rparr>))"

definition handleDelete :: "record_page \<Rightarrow> record_page \<times> api_call option" where
  "handleDelete p =
     (case (rp_record p, rp_pk p) of
        (Some r, Some pk) \<Rightarrow> (p\<lparr>rp_deleting := True\<rparr>, Some (deleteRecord (rp_cluster p) (lookup p pk)))
      | _ \<Rightarrow> (p, None))"

definition delete_failed :: "(rat \<Rightarrow> string) \<Rightarrow> js_error \<Rightarrow> record_page \<Rightarrow> record_page" where
  \<comment> \<open>a successful delete leaves the page\<close>
  "delete_failed fs e p =
     p\<lparr>rp_error := Some (caught_text fs ''Failed to delete record'' e), rp_deleting := False\<rparr>"

definition startEdit :: "(rat \<Rightarrow> string) \<Rightarrow> record_page \<Rightarrow> record_page" where
  "startEdit fs p =
     (case rp_record p of
        None \<Rightarrow> p
      | Some r \<Rightarrow>
          p\<lparr>rp_drafts := buildInitialDraft fs r,
            rp_ttlDraft :=
              (if ar_ttl r = Some (inum (-1)) \<or> ar_ttl r = Some (inum TTL_NEVER_SENTINEL) then ''-1''
               else if ar_ttl r = None \<or> ar_ttl r = Some (inum 0) then []
               else num_str fs (the (ar_ttl r))),
            rp_binErrors := [], rp_isEditing := True\<rparr>)"

definition cancelEdit :: "record_page \<Rightarrow> record_page" where
  "cancelEdit p = p\<lparr>rp_isEditing := False, rp_drafts := [], rp_binErrors := []\<rparr>"

definition patched :: "bin_patch \<Rightarrow> bin_draft \<Rightarrow> bin_draft" where
  "patched u d =
     d\<lparr>bd_name := nullish (bp_name u) (bd_name d), bd_kind := nullish (bp_kind u) (bd_kind d),
       bd_value := nullish (bp_value u) (bd_value d)\<rparr>"

definition updateDraft :: "string \<Rightarrow> bin_patch \<Rightarrow> record_page \<Rightarrow> record_page" where
  "updateDraft i u p =
     p\<lparr>rp_drafts := map (\<lambda>d. if bd_id d = i then patched u d else d) (rp_drafts p),
       rp_binErrors := (if bp_value u \<noteq> None \<or> bp_kind u \<noteq> None then obj_del i (rp_binErrors p) else rp_binErrors p)\<rparr>"

definition addBin :: "nat \<Rightarrow> record_page \<Rightarrow> record_page" where
  "addBin now p =
     p\<lparr>rp_drafts := rp_drafts p @ [\<lparr>bd_id = ''bin-new-'' @ nat_str now, bd_name = [], bd_kind = EString, bd_value = []\<rparr>]\<rparr>"

definition removeBin :: "string \<Rightarrow> record_page \<Rightarrow> record_page" where
  "removeBin i p =
     p\<lparr>rp_drafts := filter (\<lambda>d. bd_id d \<noteq> i) (rp_drafts p), rp_binErrors := obj_del i (rp_binErrors p)\<rparr>"

fun check_names :: "bin_draft list \<Rightarrow> string list \<Rightarrow> (string, bin_error) jsmap \<Rightarrow> (string, bin_error) jsmap" where
  \<comment> \<open>the first loop: \<open>seenNames\<close> and \<open>nextErrors\<close>\<close>
  "check_names [] seen errs = errs"
| "check_names (d # ds) seen errs =
     (let n = trim (bd_name d) in
      if n = [] then check_names ds seen (obj_set (bd_id d) NameRequired errs)
      else if n \<in> set seen then check_names ds seen (obj_set (bd_id d) (DuplicateName n) errs)
      else check_names ds (n # seen) errs)"

fun parse_values ::
  "(rat \<Rightarrow> string) \<Rightarrow> bin_draft list \<Rightarrow> (string, json) jsmap \<Rightarrow> (string, bin_error) jsmap \<Rightarrow>
   (string, json) jsmap \<times> (string, bin_error) jsmap" where
  \<comment> \<open>the second loop: \<open>bins\<close> and \<open>nextErrors\<close>\<close>
  "parse_values fs [] bins errs = (bins, errs)"
| "parse_values fs (d # ds) bins errs =
     (if obj_get errs (bd_id d) \<noteq> None then parse_values fs ds bins errs
      else (case draftToBin fs (bd_value d) (bd_kind d) of
              Inr v \<Rightarrow> parse_values fs ds (obj_set (trim (bd_name d)) v bins) errs
            | Inl e \<Rightarrow> parse_values fs ds bins (obj_set (bd_id d) e errs)))"

definition parse_ttl :: "string \<Rightarrow> jsnum option option" where
  \<comment> \<open>\<open>None\<close>: refused; \<open>Some None\<close>: no TTL is sent\<close>
  "parse_ttl t =
     (if trim t = [] then Some None
      else (let n = js_Number (trim t) in if isInteger n then Some (Some n) else None))"

definition write_body :: "record_page \<Rightarrow> string \<Rightarrow> (string, json) jsmap \<Rightarrow> jsnum option \<Rightarrow> json" where
  "write_body p pk bins ttl =
     JObj ([(''key'', JObj [(''namespace'', JStr (rp_namespace p)), (''set'', JStr (rp_set p)), (''pk'', JStr pk)]),
            (''bins'', JObj bins)] @ (case ttl of None \<Rightarrow> [] | Some n \<Rightarrow> [(''ttl'', JNum n)]) @ [(''pkType'', JStr ''auto'')])"

definition TTL_MESSAGE :: string where
  "TTL_MESSAGE = ''TTL must be an integer (0 keep existing, -1 never expire, or seconds until expiry).''"

definition handleSave :: "(rat \<Rightarrow> string) \<Rightarrow> record_page \<Rightarrow> record_page \<times> api_call option" where
  "handleSave fs p =
     (case (rp_record p, rp_pk p) of
        (Some r, Some pk) \<Rightarrow>
          (let p1 = p\<lparr>rp_error := None\<rparr>;
               (bins, errs) = parse_values fs (rp_drafts p) [] (check_names (rp_drafts p) [] [])
           in if errs \<noteq> [] then (p1\<lparr>rp_binErrors := errs\<rparr>, None)
              else (case parse_ttl (rp_ttlDraft p) of
                      None \<Rightarrow> (p1\<lparr>rp_error := Some TTL_MESSAGE\<rparr>, None)
                    | Some ttl \<Rightarrow>
                        (p1\<lparr>rp_saving := True\<rparr>, Some (putRecord (rp_cluster p) (write_body p pk bins ttl)))))
      | _ \<Rightarrow> (p, None))"

definition save_answered :: "(rat \<Rightarrow> string) \<Rightarrow> js_error option \<Rightarrow> record_page \<Rightarrow> record_page \<times> api_call option" where
  \<comment> \<open>after the \<open>await\<close> of the write, up to the \<open>await\<close> of the reload\<close>
  "save_answered fs res p =
     (case res of
        None \<Rightarrow> loadRecord (p\<lparr>rp_isEditing := False, rp_drafts := []\<rparr>)
      | Some e \<Rightarrow> (p\<lparr>rp_error := Some (caught_text fs ''Failed to save record'' e), rp_saving := False\<rparr>, None))"

definition save_enabled :: "record_page \<Rightarrow> bool" where
  \<comment> \<open>the Save button is shown and not disabled\<close>
  "save_enabled p \<longleftrightarrow> rp_isEditing p \<and> \<not> (rp_saving p \<or> rp_binErrors p \<noteq> [])"

section \<open>Properties\<close>

lemma obj_set_nonempty [simp]: "obj_set k v m \<noteq> []"
  by (cases m) (auto split: if_splits)

lemma check_names_empty:
  "check_names ds seen errs = [] \<longleftrightarrow>
     errs = [] \<and> [] \<notin> set (map (trim \<circ> bd_name) ds) \<and> distinct (map (trim \<circ> bd_name) ds) \<and>
     set (map (trim \<circ> bd_name) ds) \<inter> set seen = {}"
proof (induction ds arbitrary: seen errs)
  case (Cons d ds)
  have ih: "check_names ds seen (obj_set i e errs) \<noteq> []" for i e using Cons.IH [of seen "obj_set i e errs"] by simp
  consider "trim (bd_name d) = []" | "trim (bd_name d) \<noteq> []" "trim (bd_name d) \<in> set seen"
    | "trim (bd_name d) \<noteq> []" "trim (bd_name d) \<notin> set seen" by blast
  then show ?case
  proof cases
    case 3
    then show ?thesis using Cons.IH [of "trim (bd_name d) # seen" errs] by (simp add: Let_def) blast
  qed (use ih in \<open>simp_all add: Let_def\<close>)
qed simp

definition parses :: "(rat \<Rightarrow> string) \<Rightarrow> bin_draft \<Rightarrow> bool" where
  "parses fs d \<longleftrightarrow> \<not> isl (draftToBin fs (bd_value d) (bd_kind d))"

definition parsed_bin :: "(rat \<Rightarrow> string) \<Rightarrow> bin_draft \<Rightarrow> string \<times> json" where
  "parsed_bin fs d = (trim (bd_name d), projr (draftToBin fs (bd_value d) (bd_kind d)))"

lemma parse_values_errors: "errs \<noteq> [] \<Longrightarrow> snd (parse_values fs ds bins errs) \<noteq> []"
  by (induction ds arbitrary: bins errs) (auto split: sum.splits)

lemma parse_values_ok: "snd (parse_values fs ds bins []) = [] \<longleftrightarrow> list_all (parses fs) ds"
proof (induction ds arbitrary: bins)
  case (Cons d ds)
  show ?case
  proof (cases "draftToBin fs (bd_value d) (bd_kind d)")
    case (Inl e)
    then show ?thesis using parse_values_errors [of "obj_set (bd_id d) e []"] by (simp add: parses_def)
  next
    case (Inr v)
    then show ?thesis using Cons.IH by (simp add: parses_def)
  qed
qed simp

lemma parse_values_bins:
  assumes "list_all (parses fs) ds" "distinct (map fst bins @ map (trim \<circ> bd_name) ds)"
  shows "parse_values fs ds bins [] = (bins @ map (parsed_bin fs) ds, [])"
  using assms
proof (induction ds arbitrary: bins)
  case (Cons d ds)
  then obtain v where v: "draftToBin fs (bd_value d) (bd_kind d) = Inr v"
    by (cases "draftToBin fs (bd_value d) (bd_kind d)") (auto simp: parses_def)
  have "obj_set (trim (bd_name d)) v bins = bins @ [(trim (bd_name d), v)]"
    using Cons.prems(2) by (intro obj_set_fresh) simp
  with Cons v show ?case by (simp add: parsed_bin_def)
qed simp

definition draft_valid :: "(rat \<Rightarrow> string) \<Rightarrow> bin_draft list \<Rightarrow> string \<Rightarrow> bool" where
  \<comment> \<open>names are present and distinct up to white space, every value reads in its kind, the TTL is blank or an integer\<close>
  "draft_valid fs ds t \<longleftrightarrow>
     [] \<notin> set (map (trim \<circ> bd_name) ds) \<and> distinct (map (trim \<circ> bd_name) ds) \<and> list_all (parses fs) ds \<and>
     parse_ttl t \<noteq> None"

lemma save_errors_iff:
  "snd (parse_values fs ds [] (check_names ds [] [])) = [] \<longleftrightarrow>
     [] \<notin> set (map (trim \<circ> bd_name) ds) \<and> distinct (map (trim \<circ> bd_name) ds) \<and> list_all (parses fs) ds"
proof (cases "check_names ds [] [] = []")
  case True
  then show ?thesis using parse_values_ok [of fs ds "[]"] check_names_empty [of ds "[]" "[]"] by simp
next
  case False
  then show ?thesis using parse_values_errors [OF False] check_names_empty [of ds "[]" "[]"] by auto
qed

lemma handleSave_valid:
  assumes "rp_record p = Some r" "rp_pk p = Some pk" "draft_valid fs (rp_drafts p) (rp_ttlDraft p)"
  shows "snd (handleSave fs p) =
    Some (putRecord (rp_cluster p) (write_body p pk (map (parsed_bin fs) (rp_drafts p)) (the (parse_ttl (rp_ttlDraft p)))))"
proof -
  have "check_names (rp_drafts p) [] [] = []"
    using assms(3) check_names_empty [of "rp_drafts p" "[]" "[]"] by (simp add: draft_valid_def)
  moreover have "parse_values fs (rp_drafts p) [] [] = (map (parsed_bin fs) (rp_drafts p), [])"
    using assms(3) parse_values_bins [of fs "rp_drafts p" "[]"] by (simp add: draft_valid_def)
  ultimately show ?thesis using assms by (auto simp: handleSave_def draft_valid_def)
qed

lemma handleSave_invalid:
  assumes "\<not> draft_valid fs (rp_drafts p) (rp_ttlDraft p)"
  shows "snd (handleSave fs p) = None"
proof -
  obtain bins errs where pv: "parse_values fs (rp_drafts p) [] (check_names (rp_drafts p) [] []) = (bins, errs)"
    by (cases "parse_values fs (rp_drafts p) [] (check_names (rp_drafts p) [] [])")
  have "errs \<noteq> [] \<or> parse_ttl (rp_ttlDraft p) = None"
    using assms save_errors_iff [of fs "rp_drafts p"] by (simp only: pv snd_conv draft_valid_def) blast
  then show ?thesis by (auto simp: handleSave_def pv Let_def split: option.splits)
qed

text \<open>
  C34: Save sends a request exactly when the whole form is valid, and sends what the form says. With a
  record loaded, a write goes out if and only if every bin has a name, names are distinct up to white
  space, every value reads in its chosen kind, and the TTL is blank or an integer; the write then
  carries each trimmed name with its parsed value, in order, and no request with part of the bins is
  ever sent.
\<close>

theorem save_sends_exactly_the_valid_form:
  assumes "rp_record p = Some r" "rp_pk p = Some pk"
  shows "snd (handleSave fs p) =
    (if draft_valid fs (rp_drafts p) (rp_ttlDraft p)
     then Some (putRecord (rp_cluster p)
            (write_body p pk (map (parsed_bin fs) (rp_drafts p)) (the (parse_ttl (rp_ttlDraft p)))))
     else None)"
  using handleSave_valid [OF assms] handleSave_invalid by simp

definition demo_page :: record_page where
  "demo_page =
     \<lparr>rp_cluster = ''c'', rp_namespace = ''n'', rp_set = ''s'', rp_pk = Some ''k'',
      rp_record = Some \<lparr>ar_bins = [(''a'', JNum (inum 7)), (''b'', JArr [JNull, JBool True])], ar_ttl = Some (inum 0)\<rparr>,
      rp_error = None, rp_isLoading = False, rp_deleting = False, rp_isEditing = False, rp_drafts = [],
      rp_binErrors = [], rp_ttlDraft = [], rp_saving = False\<rparr>"

theorem save_sends_exactly_the_valid_form_witness:
  "snd (handleSave (\<lambda>x. []) demo_page) =
    (if draft_valid (\<lambda>x. []) (rp_drafts demo_page) (rp_ttlDraft demo_page)
     then Some (putRecord (rp_cluster demo_page)
            (write_body demo_page ''k'' (map (parsed_bin (\<lambda>x. [])) (rp_drafts demo_page))
              (the (parse_ttl (rp_ttlDraft demo_page)))))
     else None) \<and> draft_valid (\<lambda>x. []) (rp_drafts demo_page) (rp_ttlDraft demo_page)"
  using save_sends_exactly_the_valid_form [of demo_page _ "''k''" "\<lambda>x. []"]
  by (simp add: demo_page_def draft_valid_def parse_ttl_def)

subsection \<open>An unedited record is written back as it was\<close>

lemma parses_own_draft:
  assumes "json_ok fs v" "detectBinType v \<noteq> EGeojson"
  shows "draftToBin fs (binToDraft fs v (detectBinType v)) (detectBinType v) = Inr v"
proof (cases v)
  case (JNum x)
  with assms have "reads fs x" by simp
  then have "js_Number (num_str fs x) = x" "trim (num_str fs x) = num_str fs x" "isFinite x"
    using js_Number_print by (auto simp: reads_def)
  with JNum show ?thesis by (simp add: draftToBin_def binToDraft_def Let_def)
next
  case (JBool b)
  then show ?thesis
    by (cases b) (simp_all add: draftToBin_def binToDraft_def trim_fixed is_ws_def toLowerCase_def lower_char_def is_upper_def)
next
  case (JStr s)
  with assms(2) have "\<not> looksLikeGeoJsonString s" by (auto split: if_splits)
  with JStr show ?thesis by (simp add: draftToBin_def binToDraft_def)
next
  case (JArr js)
  then show ?thesis using JSON_parse_stringify(2) [OF assms(1)] by (simp add: draftToBin_def binToDraft_def)
next
  case (JObj kvs)
  with assms(2) have "\<not> geo_typed v" by auto
  with JObj show ?thesis using JSON_parse_stringify(2) [OF assms(1)] by (simp add: draftToBin_def binToDraft_def)
qed (simp add: draftToBin_def binToDraft_def)

lemma initial_draft_parsed:
  assumes "\<forall>(k, v) \<in> set bins. trim k = k \<and> json_ok fs v \<and> detectBinType v \<noteq> EGeojson"
  shows "map (parsed_bin fs) (buildInitialDraft fs \<lparr>ar_bins = bins, ar_ttl = t\<rparr>) = bins"
    and "list_all (parses fs) (buildInitialDraft fs \<lparr>ar_bins = bins, ar_ttl = t\<rparr>)"
proof -
  let ?d = "\<lambda>(i, name, v). \<lparr>bd_id = ''bin-'' @ nat_str i @ ''-'' @ name, bd_name = name, bd_kind = detectBinType v,
             bd_value = binToDraft fs v (detectBinType v)\<rparr>"
  have one: "parsed_bin fs (?d (i, k, v)) = (k, v) \<and> parses fs (?d (i, k, v))" if "(k, v) \<in> set bins" for i k v
    using assms that parses_own_draft [of fs v] by (auto simp: parsed_bin_def parses_def)
  have mem: "(k, v) \<in> set bins" if "(i, k, v) \<in> set (enumerate n bins)" for i k v n
    using that by (metis in_set_zip enumerate_eq_zip nth_mem snd_conv)
  have "map (parsed_bin fs) (map ?d (enumerate 0 bins)) = map snd (enumerate 0 bins)"
    unfolding map_map by (rule map_cong) (use one mem in \<open>fastforce\<close>)+
  then show "map (parsed_bin fs) (buildInitialDraft fs \<lparr>ar_bins = bins, ar_ttl = t\<rparr>) = bins"
    by (simp add: buildInitialDraft_def)
  show "list_all (parses fs) (buildInitialDraft fs \<lparr>ar_bins = bins, ar_ttl = t\<rparr>)"
    unfolding buildInitialDraft_def list_all_iff using one mem by (fastforce simp: list_all_iff)
qed

definition kept_ttl :: "jsnum option \<Rightarrow> jsnum option" where
  \<comment> \<open>the TTL an unedited form sends: never stays never, unknown and zero are left to the server\<close>
  "kept_ttl t =
     (if t = Some (inum (-1)) \<or> t = Some (inum TTL_NEVER_SENTINEL) then Some (inum (-1))
      else if t = None \<or> t = Some (inum 0) then None else t)"

lemma int_str_minus_one: "int_str (-1) = ''-1''"
proof -
  have "char_of (code (CHR ''1'')) = CHR ''1''" by (rule char_of_char)
  then show ?thesis by (simp add: int_str_def nat_str.simps digit_char_def)
qed

lemma js_Number_int: "\<bar>i\<bar> < 2 ^ 53 \<Longrightarrow> js_Number (int_str i) = inum i \<and> trim (int_str i) = int_str i"
  using js_Number_print [OF reads_int, of i "\<lambda>x. []"] num_str_inum [of i "\<lambda>x. []"] by (simp del: num_str.simps)

lemma printed_number_nonempty: "reads fs x \<Longrightarrow> num_str fs x \<noteq> []"
  unfolding reads_def by (metis append_Nil2 number_end_delims(4) parse_number_head list.distinct(1))

lemma ttl_draft_parsed:
  assumes "\<forall>x. t = Some x \<longrightarrow> reads fs x \<and> isInteger x"
    and "d = (if t = Some (inum (-1)) \<or> t = Some (inum TTL_NEVER_SENTINEL) then ''-1''
               else if t = None \<or> t = Some (inum 0) then [] else num_str fs (the t))"
  shows "parse_ttl d = Some (kept_ttl t)"
proof -
  consider (never) "t = Some (inum (-1)) \<or> t = Some (inum TTL_NEVER_SENTINEL)"
    | (keep) "\<not> (t = Some (inum (-1)) \<or> t = Some (inum TTL_NEVER_SENTINEL))" "t = None \<or> t = Some (inum 0)"
    | (other) x where "t = Some x" "\<not> (t = Some (inum (-1)) \<or> t = Some (inum TTL_NEVER_SENTINEL))" "\<not> (t = None \<or> t = Some (inum 0))"
    by (cases t) blast+
  then show ?thesis
  proof cases
    case never
    have "js_Number ''-1'' = inum (-1)" "trim ''-1'' = ''-1''"
      using js_Number_int [of "-1"] by (simp_all only: int_str_minus_one) simp_all
    with never show ?thesis unfolding assms(2) kept_ttl_def parse_ttl_def by simp
  next
    case keep
    then show ?thesis unfolding assms(2) kept_ttl_def parse_ttl_def by auto
  next
    case other
    then have "d = num_str fs x" "kept_ttl t = Some x" unfolding assms(2) kept_ttl_def by simp_all
    moreover have "reads fs x" "isInteger x" using assms(1) other(1) by simp_all
    ultimately show ?thesis using js_Number_print [of fs x] printed_number_nonempty [of fs x] by (simp add: parse_ttl_def)
  qed
qed

text \<open>
  Opening the editor and saving without a change writes the record back as it was. For bins whose
  names have no surrounding white space and whose values are ordinary JSON, GeoJSON apart, the write
  carries exactly the bins that were read, with their values and in their order; a record that never
  expires keeps doing so, and a TTL of zero or none is left to the server.
\<close>

lemma unedited_save_call:
  assumes "rp_record p = Some r" "rp_pk p = Some pk"
    and "wf_obj (ar_bins r)" "\<forall>(k, v) \<in> set (ar_bins r). k \<noteq> [] \<and> trim k = k \<and> json_ok fs v \<and> detectBinType v \<noteq> EGeojson"
    and "\<forall>x. ar_ttl r = Some x \<longrightarrow> reads fs x \<and> isInteger x"
  shows "snd (handleSave fs (startEdit fs p)) =
    Some (putRecord (rp_cluster p) (write_body p pk (ar_bins r) (kept_ttl (ar_ttl r))))"
proof -
  let ?p = "startEdit fs p"
  have r: "r = \<lparr>ar_bins = ar_bins r, ar_ttl = ar_ttl r\<rparr>" by simp
  have ds: "rp_drafts ?p = buildInitialDraft fs r" and rec: "rp_record ?p = Some r" "rp_pk ?p = Some pk"
    and same: "rp_cluster ?p = rp_cluster p" "write_body ?p = write_body p"
    using assms(1,2) by (simp_all add: startEdit_def write_body_def fun_eq_iff)
  have ttl: "parse_ttl (rp_ttlDraft ?p) = Some (kept_ttl (ar_ttl r))"
    by (rule ttl_draft_parsed [OF assms(5)]) (simp add: startEdit_def assms(1))
  have bins: "map (parsed_bin fs) (rp_drafts ?p) = ar_bins r" "list_all (parses fs) (rp_drafts ?p)"
    using initial_draft_parsed [of "ar_bins r" fs "ar_ttl r"] assms(4) unfolding ds r [symmetric] by auto
  have "fst \<circ> parsed_bin fs = trim \<circ> bd_name" by (simp add: fun_eq_iff parsed_bin_def)
  then have names: "map (trim \<circ> bd_name) (rp_drafts ?p) = map fst (ar_bins r)"
    using arg_cong [OF bins(1), of "map fst"] by simp
  have "[] \<notin> set (map fst (ar_bins r))" using assms(4) by fastforce
  then have "draft_valid fs (rp_drafts ?p) (rp_ttlDraft ?p)"
    unfolding draft_valid_def names using assms(3) bins(2) ttl by simp
  from handleSave_valid [OF rec this] show ?thesis by (simp add: bins(1) ttl same)
qed

subsection \<open>Where saving or editing goes wrong\<close>

text \<open>
  GeoJSON is the exception: a map bin whose \<open>type\<close> field holds a GeoJSON type name, with or without
  coordinates, is taken for GeoJSON, and saving it unedited replaces the map by a string.
\<close>

theorem geo_typed_map_saved_as_string:
  "let v = JObj [(''type'', JStr ''Feature''), (''owner'', JStr ''ops'')]; k = detectBinType v in
   k = EGeojson \<and> draftToBin fs (binToDraft fs v k) k = Inr (JStr (stringify fs v))"
proof -
  let ?v = "JObj [(''type'', JStr ''Feature''), (''owner'', JStr ''ops'')]"
  have geo: "geo_typed ?v" by (simp add: geo_typed_def json_field_def GEOJSON_TYPES_def)
  have "json_ok fs ?v" by simp
  from JSON_parse_stringify(2) [OF this] geo show ?thesis
    by (simp add: draftToBin_def binToDraft_def Let_def)
qed

definition unnamed_page :: record_page where
  \<comment> \<open>one bin was added and its value filled in, its name was forgotten\<close>
  "unnamed_page = demo_page\<lparr>rp_isEditing := True, rp_drafts := [\<lparr>bd_id = ''i'', bd_name = [], bd_kind = EString, bd_value = ''v''\<rparr>]\<rparr>"

definition rename :: "string \<Rightarrow> bin_patch" where
  "rename n = \<lparr>bp_name = Some n, bp_kind = None, bp_value = None\<rparr>"

text \<open>
  correcting a bin name does not release the Save button. From a state in which Save can be pressed, a
  Save that is refused for a missing name, followed by typing the name, leaves the button disabled
  although the form is valid and saving it would send the write.
\<close>

theorem name_fix_leaves_save_disabled:
  "\<exists>p. save_enabled p \<and> snd (handleSave fs p) = None \<and>
     (let p' = updateDraft ''i'' (rename ''b'') (fst (handleSave fs p))
      in \<not> save_enabled p' \<and> snd (handleSave fs p') \<noteq> None)"
proof -
  have t: "trim ''b'' = ''b''" by (simp add: trim_fixed is_ws_def)
  show ?thesis
    by (rule exI [of _ unnamed_page])
      (simp add: unnamed_page_def demo_page_def save_enabled_def handleSave_def updateDraft_def rename_def patched_def
        nullish_def draftToBin_def parse_ttl_def t Let_def)
qed

lemma blank_integer_is_zero: "draftToBin fs '' '' EInteger = Inr (JNum (inum 0))"
  by (simp add: draftToBin_def js_Number_def trim_def trimStart_def trimEnd_def is_ws_def)

end
