(* ===== verification/Cluster_Rows.thy ===== *)
theory Cluster_Rows
  imports Js_Json
begin

text \<open>
  The cluster list: label primitives (\<^verbatim>\<open>ui/src/components/clusters/labels.ts\<close>), the order of
  environments (\<^verbatim>\<open>envSort.ts\<close>), and the rows that merge connection profiles with Kubernetes clusters
  (\<^verbatim>\<open>clusterRows.ts\<close>). \<open>localeCompare\<close> is the argument \<open>cmp\<close>, of which the sorting relies only on
  being a consistent comparator.
\<close>

section \<open>Labels (labels.ts)\<close>

definition ENV_LABEL_KEY :: string where
  "ENV_LABEL_KEY = ''env''"

definition DEFAULT_ENV_VALUE :: string where
  "DEFAULT_ENV_VALUE = ''default''"

type_synonym label_entry = "string \<times> string"

definition labelsToEntries :: "dict \<Rightarrow> label_entry list" where
  "labelsToEntries labels =
     (ENV_LABEL_KEY, nullish (obj_get labels ENV_LABEL_KEY) DEFAULT_ENV_VALUE) #
     filter (\<lambda>(k, v). k \<noteq> ENV_LABEL_KEY) labels"

definition add_entry :: "label_entry \<Rightarrow> dict \<Rightarrow> dict" where
  "add_entry e out = (let k = trim (fst e) in if k = [] then out else obj_set k (snd e) out)"

definition with_env :: "dict \<Rightarrow> dict" where
  \<comment> \<open>\<open>if (!out[ENV_LABEL_KEY]) out[ENV_LABEL_KEY] = DEFAULT_ENV_VALUE\<close>\<close>
  "with_env out = (if \<not> truthy (obj_get out ENV_LABEL_KEY) then obj_set ENV_LABEL_KEY DEFAULT_ENV_VALUE out else out)"

definition entriesToLabels :: "label_entry list \<Rightarrow> dict" where
  "entriesToLabels entries = with_env (fold add_entry entries [])"

section \<open>Label editor (LabelsEditor.tsx)\<close>

definition editor_entries :: "label_entry list \<Rightarrow> label_entry list" where
  "editor_entries value = (if value \<noteq> [] then value else [(ENV_LABEL_KEY, DEFAULT_ENV_VALUE)])"

definition label_update :: "nat \<Rightarrow> string option \<Rightarrow> string option \<Rightarrow> label_entry list \<Rightarrow> label_entry list" where
  \<comment> \<open>\<open>update\<close>: a patch of the key, the value or both\<close>
  "label_update i k v value =
     (let entries = editor_entries value in
      if i < length entries then entries[i := (nullish k (fst (entries ! i)), nullish v (snd (entries ! i)))] else entries)"

definition label_remove :: "nat \<Rightarrow> label_entry list \<Rightarrow> label_entry list" where
  \<comment> \<open>\<open>remove\<close>: the row of the environment stays\<close>
  "label_remove i value =
     (let entries = editor_entries value in
      if i < length entries \<and> fst (entries ! i) = ENV_LABEL_KEY then value
      else take i entries @ drop (Suc i) entries)"

definition label_add :: "label_entry list \<Rightarrow> label_entry list" where
  "label_add value = editor_entries value @ [([], [])]"

section \<open>Order of environments (envSort.ts)\<close>

definition ENV_PRIORITY :: "string list" where
  "ENV_PRIORITY = [''prod'', ''stage'', ''test'', ''dev'', DEFAULT_ENV_VALUE]"

fun index_of :: "'a \<Rightarrow> 'a list \<Rightarrow> nat option" where
  "index_of x [] = None"
| "index_of x (y # ys) = (if x = y then Some 0 else map_option Suc (index_of x ys))"

definition envSortKey :: "string \<Rightarrow> nat \<times> string" where
  "envSortKey env =
     (let normalized = toLowerCase env
      in (nullish (index_of normalized ENV_PRIORITY) (length ENV_PRIORITY), normalized))"

definition compareEnv :: "(string \<Rightarrow> string \<Rightarrow> int) \<Rightarrow> string \<Rightarrow> string \<Rightarrow> int" where
  "compareEnv cmp a b =
     (case (envSortKey a, envSortKey b) of
        ((ia, sa), (ib, sb)) \<Rightarrow> if ia \<noteq> ib then int ia - int ib else cmp sa sb)"

section \<open>Rows (clusterRows.ts)\<close>

record connection_profile =
  cp_id :: string
  cp_name :: string
  cp_hosts :: "string list"
  cp_port :: jsnum
  cp_username :: "string option"
  cp_color :: string
  cp_note :: "string option"
  cp_labels :: "dict option"
  cp_workspaceId :: "string option"

record k8s_summary =
  ks_name :: string
  ks_namespace :: string
  ks_size :: jsnum
  ks_phase :: string
  ks_connectionId :: "string option"

record cluster_row =
  cr_key :: string
  cr_connId :: "string option"
  cr_displayName :: string
  cr_color :: string
  cr_hosts :: "string list"
  cr_port :: jsnum
  cr_acko :: bool \<comment> \<open>\<open>managedBy\<close> is \<open>"ACKO"\<close>\<close>
  cr_k8sNamespace :: "string option"
  cr_phase :: "string option"
  cr_size :: "jsnum option"
  cr_note :: "string option"
  cr_labels :: dict
  cr_profile :: "connection_profile option"

definition ensureEnvLabel :: "dict option \<Rightarrow> dict" where
  "ensureEnvLabel labels = with_env (nullish labels [])"

definition conn_row :: "k8s_summary list option \<Rightarrow> connection_profile \<Rightarrow> cluster_row" where
  "conn_row k8s c =
     (let linked = (case k8s of None \<Rightarrow> None | Some ks \<Rightarrow> find (\<lambda>k. ks_connectionId k = Some (cp_id c)) ks) in
      \<lparr>cr_key = ''conn:'' @ cp_id c, cr_connId = Some (cp_id c), cr_displayName = cp_name c, cr_color = cp_color c,
       cr_hosts = cp_hosts c, cr_port = cp_port c, cr_acko = (linked \<noteq> None),
       cr_k8sNamespace = map_option ks_namespace linked, cr_phase = map_option ks_phase linked,
       cr_size = map_option ks_size linked, cr_note = cp_note c, cr_labels = ensureEnvLabel (cp_labels c),
       cr_profile = Some c\<rparr>)"

definition k8s_row :: "k8s_summary \<Rightarrow> cluster_row" where
  "k8s_row k =
     \<lparr>cr_key = ''k8s:'' @ ks_namespace k @ ''/'' @ ks_name k, cr_connId = ks_connectionId k, cr_displayName = ks_name k,
      cr_color = ''#4F46E5'', cr_hosts = [], cr_port = inum 0, cr_acko = True, cr_k8sNamespace = Some (ks_namespace k),
      cr_phase = Some (ks_phase k), cr_size = Some (ks_size k), cr_note = None, cr_labels = ensureEnvLabel None,
      cr_profile = None\<rparr>"

definition shown_by_connection :: "connection_profile list \<Rightarrow> k8s_summary \<Rightarrow> bool" where
  \<comment> \<open>\<open>k.connectionId \&\& seenConnIds.has(k.connectionId)\<close>\<close>
  "shown_by_connection cs k \<longleftrightarrow> truthy (ks_connectionId k) \<and> the (ks_connectionId k) \<in> set (map cp_id cs)"

definition mergeRows :: "connection_profile list option \<Rightarrow> k8s_summary list option \<Rightarrow> cluster_row list" where
  "mergeRows connections k8s =
     (let cs = nullish connections [] in
      map (conn_row k8s) cs @ map k8s_row (filter (\<lambda>k. \<not> shown_by_connection cs k) (nullish k8s [])))"

definition row_env :: "cluster_row \<Rightarrow> string" where
  "row_env r = toLowerCase (nullish (obj_get (cr_labels r) ENV_LABEL_KEY) DEFAULT_ENV_VALUE)"

definition push_row :: "cluster_row \<Rightarrow> (string, cluster_row list) jsmap \<Rightarrow> (string, cluster_row list) jsmap" where
  "push_row r groups =
     (case obj_get groups (row_env r) of
        Some rs \<Rightarrow> obj_set (row_env r) (rs @ [r]) groups
      | None \<Rightarrow> obj_set (row_env r) [r] groups)"

definition groupByEnv :: "(string \<Rightarrow> string \<Rightarrow> int) \<Rightarrow> cluster_row list \<Rightarrow> (string \<times> cluster_row list) list" where
  "groupByEnv cmp rows =
     sort_by (\<lambda>a b. compareEnv cmp (fst a) (fst b))
       (map (\<lambda>(env, items). (env, sort_by (\<lambda>a b. cmp (cr_displayName a) (cr_displayName b)) items))
         (fold push_row rows []))"

section \<open>Properties\<close>

lemma comparator_on: "comparator cmp \<Longrightarrow> comparator (\<lambda>a b. cmp (f a) (f b))"
  unfolding comparator_def by blast

lemma comparator_compareEnv:
  assumes "comparator cmp"
  shows "comparator (compareEnv cmp)"
proof -
  have "(compareEnv cmp a b < 0) = (compareEnv cmp b a > 0)" for a b
    using assms by (auto simp: compareEnv_def comparator_def split: prod.splits)
  moreover have "compareEnv cmp a c \<le> 0" if "compareEnv cmp a b \<le> 0" "compareEnv cmp b c \<le> 0" for a b c
    using assms that by (auto simp: compareEnv_def comparator_def split: prod.splits if_splits)
  ultimately show ?thesis unfolding comparator_def by blast
qed

subsection \<open>Grouping\<close>

text \<open>Grouping by a key, in the order in which the keys first occur; shared by the lists that group their rows.\<close>

definition group_push :: "('a \<Rightarrow> 'k) \<Rightarrow> 'a \<Rightarrow> ('k, 'a list) jsmap \<Rightarrow> ('k, 'a list) jsmap" where
  "group_push key r groups =
     (case obj_get groups (key r) of
        Some rs \<Rightarrow> obj_set (key r) (rs @ [r]) groups
      | None \<Rightarrow> obj_set (key r) [r] groups)"

lemma push_row_group: "push_row = group_push row_env"
  by (simp add: fun_eq_iff push_row_def group_push_def)

definition in_groups :: "('k, 'a list) jsmap \<Rightarrow> 'a multiset" where
  "in_groups m = mset (concat (map snd m))"

lemma obj_del_absent: "k \<notin> fst ` set m \<Longrightarrow> obj_del k m = m"
  unfolding obj_del_def by (rule filter_True) force

lemma in_groups_set:
  "in_groups (obj_set k rs m) = mset rs + in_groups (obj_del k m)" if "wf_obj m"
  using that
proof (induction m)
  case (Cons kv m)
  obtain a xs where kv: "kv = (a, xs)" by (cases kv)
  show ?case
  proof (cases "k = a")
    case True
    with Cons.prems kv have "k \<notin> fst ` set m" by simp
    then have "obj_del k m = m" by (rule obj_del_absent)
    with True kv show ?thesis by (simp add: in_groups_def obj_del_def)
  next
    case False
    with Cons kv show ?thesis by (simp add: in_groups_def obj_del_def)
  qed
qed (simp add: in_groups_def obj_del_def)

lemma in_groups_del: "wf_obj m \<Longrightarrow> obj_get m k = Some rs \<Longrightarrow> in_groups m = mset rs + in_groups (obj_del k m)"
proof (induction m)
  case (Cons kv m)
  obtain a xs where kv: "kv = (a, xs)" by (cases kv)
  show ?case
  proof (cases "k = a")
    case True
    with Cons.prems kv have "k \<notin> fst ` set m" by simp
    then have "obj_del k m = m" by (rule obj_del_absent)
    with True Cons.prems kv show ?thesis by (simp add: in_groups_def obj_del_def)
  next
    case False
    with Cons kv show ?thesis by (simp add: in_groups_def obj_del_def)
  qed
qed simp

lemma in_groups_push: "wf_obj m \<Longrightarrow> in_groups (group_push key r m) = add_mset r (in_groups m)"
proof (cases "obj_get m (key r)")
  case None
  assume "wf_obj m"
  moreover have "obj_del (key r) m = m" using None by (intro obj_del_absent) (simp add: map_of_eq_None_iff)
  ultimately show ?thesis by (simp add: group_push_def None in_groups_set)
next
  case (Some rs)
  assume "wf_obj m"
  then show ?thesis using Some by (simp add: group_push_def in_groups_set in_groups_del)
qed

definition grouped_ok :: "('a \<Rightarrow> 'k) \<Rightarrow> ('k, 'a list) jsmap \<Rightarrow> bool" where
  "grouped_ok key m \<longleftrightarrow> wf_obj m \<and> (\<forall>(e, rs) \<in> set m. rs \<noteq> [] \<and> (\<forall>r \<in> set rs. key r = e))"

lemma set_obj_set: "set (obj_set k v m) \<subseteq> insert (k, v) (set m)"
  by (induction m) (auto split: if_splits)

lemma grouped_ok_push:
  assumes "grouped_ok key m"
  shows "grouped_ok key (group_push key r m)"
proof -
  have set: "\<forall>(e, rs) \<in> set (obj_set k xs m). rs \<noteq> [] \<and> (\<forall>r \<in> set rs. key r = e)"
    if "xs \<noteq> []" "\<forall>x \<in> set xs. key x = k" for k xs
    using assms that set_obj_set [of k xs m] unfolding grouped_ok_def by fastforce
  show ?thesis
  proof (cases "obj_get m (key r)")
    case None
    then have "group_push key r m = obj_set (key r) [r] m" by (simp add: group_push_def)
    with set [of "[r]" "key r"] assms show ?thesis by (simp add: grouped_ok_def)
  next
    case (Some rs)
    then have "(key r, rs) \<in> set m" by (rule map_of_SomeD)
    with assms have "\<forall>x \<in> set rs. key x = key r" by (auto simp: grouped_ok_def)
    moreover have "group_push key r m = obj_set (key r) (rs @ [r]) m" using Some by (simp add: group_push_def)
    ultimately show ?thesis using set [of "rs @ [r]" "key r"] assms by (auto simp: grouped_ok_def)
  qed
qed

lemma fold_push:
  "grouped_ok key m \<Longrightarrow> grouped_ok key (fold (group_push key) rows m) \<and> in_groups (fold (group_push key) rows m) = mset rows + in_groups m"
proof (induction rows arbitrary: m)
  case (Cons r rows)
  have "in_groups (group_push key r m) = add_mset r (in_groups m)"
    using Cons.prems by (intro in_groups_push) (simp add: grouped_ok_def)
  with Cons.IH [OF grouped_ok_push [OF Cons.prems], of r] show ?case by simp
qed simp

lemma mset_concat_insert: "mset (concat (map snd (insert_by c x xs))) = mset (snd x) + mset (concat (map snd xs))"
  by (induction xs) auto

lemma mset_concat_sort: "mset (concat (map snd (sort_by c xs))) = mset (concat (map snd xs))"
  by (induction xs) (auto simp: mset_concat_insert)

lemma distinct_fst_sort: "distinct (map fst (sort_by c xs)) = distinct (map fst xs)"
  by (rule mset_eq_imp_distinct_iff) (simp only: mset_map mset_sort_by)

lemma mset_concat_inner:
  "mset (concat (map snd (map (\<lambda>(e, items). (e, sort_by c items)) m))) = in_groups m"
  by (induction m) (auto simp: in_groups_def)

lemma fst_inner: "map fst (map (\<lambda>(e, items). (e, sort_by c items)) m) = map fst m"
  by (induction m) auto

lemma groups_of:
  "grouped_ok key (fold (group_push key) rows [])" "in_groups (fold (group_push key) rows []) = mset rows"
  using fold_push [of key "[]" rows] by (simp_all add: grouped_ok_def in_groups_def)

lemmas groups_of_rows = groups_of [of row_env, folded push_row_group]

lemma groupByEnv_rows:
  "mset (concat (map snd (groupByEnv cmp rows))) = mset rows" "distinct (map fst (groupByEnv cmp rows))"
  unfolding groupByEnv_def mset_concat_sort mset_concat_inner distinct_fst_sort fst_inner
  using groups_of_rows [of rows] by (simp_all add: grouped_ok_def)


definition length_compare :: "string \<Rightarrow> string \<Rightarrow> int" where
  "length_compare a b = int (length a) - int (length b)"

lemma comparator_length: "comparator length_compare"
  by (auto simp: comparator_def length_compare_def)


subsection \<open>Merging\<close>

lemma append_sep_inject:
  "s \<notin> set a \<Longrightarrow> s \<notin> set b \<Longrightarrow> a @ s # x = b @ s # y \<longleftrightarrow> a = b \<and> x = y"
proof (induction a arbitrary: b)
  case Nil
  then show ?case by (cases b) auto
next
  case (Cons c a)
  then show ?case by (cases b) auto
qed

lemma cr_key_simps [simp]:
  "cr_key (conn_row ks c) = ''conn:'' @ cp_id c"
  "cr_key (k8s_row k) = ''k8s:'' @ ks_namespace k @ ''/'' @ ks_name k"
  by (simp_all add: conn_row_def k8s_row_def Let_def)

text \<open>
  The merged list identifies its rows: with distinct connection ids and distinct
  namespace and name pairs, namespaces holding no slash as Kubernetes demands, no two rows have the
  same key, so that no row is rendered in place of another.
\<close>

theorem mergeRows_keys_distinct:
  assumes "distinct (map cp_id cs)" "distinct (map (\<lambda>k. (ks_namespace k, ks_name k)) ks)"
    and "\<forall>k \<in> set ks. CHR ''/'' \<notin> set (ks_namespace k)"
  shows "distinct (map cr_key (mergeRows (Some cs) (Some ks)))"
proof -
  let ?ks = "filter (\<lambda>k. \<not> shown_by_connection cs k) ks"
  have "inj_on (\<lambda>k. (ks_namespace k, ks_name k)) (set ks)" "distinct ks" using assms(2) by (simp_all add: distinct_map)
  then have "inj_on (\<lambda>k. cr_key (k8s_row k)) (set ks)"
    using assms(3) by (auto simp: inj_on_def append_sep_inject)
  then have "distinct (map (\<lambda>k. cr_key (k8s_row k)) ?ks)"
    using \<open>distinct ks\<close> by (simp add: distinct_map inj_on_def)
  moreover have "distinct (map (\<lambda>c. cr_key (conn_row (Some ks) c)) cs)"
    using assms(1) by (auto simp: distinct_map inj_on_def)
  ultimately show ?thesis by (auto simp: mergeRows_def nullish_def comp_def)
qed

text \<open>
  No cluster is missing from the list as long as every connection is linked to at most one
  Kubernetes cluster: each connection has a row carrying its profile, and each Kubernetes cluster has a
  row that shows its namespace, phase and size, either its own or that of its connection.
\<close>

theorem mergeRows_complete:
  assumes "\<forall>k \<in> set ks. \<forall>k' \<in> set ks. ks_connectionId k = ks_connectionId k' \<longrightarrow> ks_connectionId k = None \<or> k = k'"
  shows "(\<forall>c \<in> set cs. \<exists>r \<in> set (mergeRows (Some cs) (Some ks)). cr_profile r = Some c \<and> cr_connId r = Some (cp_id c)) \<and>
    (\<forall>k \<in> set ks. \<exists>r \<in> set (mergeRows (Some cs) (Some ks)).
       cr_acko r \<and> cr_k8sNamespace r = Some (ks_namespace k) \<and> cr_phase r = Some (ks_phase k) \<and> cr_size r = Some (ks_size k))"
proof (intro conjI ballI)
  fix c assume "c \<in> set cs"
  then have "conn_row (Some ks) c \<in> set (mergeRows (Some cs) (Some ks))" by (simp add: mergeRows_def nullish_def)
  then show "\<exists>r \<in> set (mergeRows (Some cs) (Some ks)). cr_profile r = Some c \<and> cr_connId r = Some (cp_id c)"
    by (rule bexI [rotated]) (simp add: conn_row_def Let_def)
next
  fix k assume k: "k \<in> set ks"
  let ?shows = "\<lambda>r. cr_acko r \<and> cr_k8sNamespace r = Some (ks_namespace k) \<and> cr_phase r = Some (ks_phase k) \<and> cr_size r = Some (ks_size k)"
  show "\<exists>r \<in> set (mergeRows (Some cs) (Some ks)). ?shows r"
  proof (cases "shown_by_connection cs k")
    case True
    then obtain c where c: "c \<in> set cs" "ks_connectionId k = Some (cp_id c)"
      by (auto simp: shown_by_connection_def truthy_def split: option.splits)
    have "find (\<lambda>k. ks_connectionId k = Some (cp_id c)) ks = Some k"
    proof (cases "find (\<lambda>k. ks_connectionId k = Some (cp_id c)) ks")
      case None
      with k c show ?thesis by (auto simp: find_None_iff)
    next
      case (Some k')
      then have "k' \<in> set ks" "ks_connectionId k' = Some (cp_id c)" by (auto simp: find_Some_iff)
      with assms k c Some show ?thesis by fastforce
    qed
    then have "?shows (conn_row (Some ks) c)" by (simp add: conn_row_def Let_def)
    moreover have "conn_row (Some ks) c \<in> set (mergeRows (Some cs) (Some ks))" using c by (simp add: mergeRows_def nullish_def)
    ultimately show ?thesis by blast
  next
    case False
    with k have "k8s_row k \<in> set (mergeRows (Some cs) (Some ks))" by (simp add: mergeRows_def nullish_def)
    moreover have "?shows (k8s_row k)" by (simp add: k8s_row_def)
    ultimately show ?thesis by blast
  qed
qed

definition sample_connection :: connection_profile where
  "sample_connection =
     \<lparr>cp_id = ''c1'', cp_name = ''main'', cp_hosts = [''h''], cp_port = inum 3000, cp_username = None, cp_color = ''#fff'',
      cp_note = None, cp_labels = None, cp_workspaceId = None\<rparr>"

definition sample_cluster :: "string \<Rightarrow> string option \<Rightarrow> k8s_summary" where
  "sample_cluster n c =
     \<lparr>ks_name = n, ks_namespace = ''ns-'' @ n, ks_size = inum 3, ks_phase = ''Running'', ks_connectionId = c\<rparr>"

theorem mergeRows_complete_witness:
  "\<exists>r \<in> set (mergeRows (Some [sample_connection]) (Some [sample_cluster ''a'' (Some ''c1''), sample_cluster ''b'' None])).
     cr_acko r \<and> cr_k8sNamespace r = Some (ks_namespace (sample_cluster ''a'' (Some ''c1''))) \<and>
     cr_phase r = Some (ks_phase (sample_cluster ''a'' (Some ''c1''))) \<and>
     cr_size r = Some (ks_size (sample_cluster ''a'' (Some ''c1'')))"
  using mergeRows_complete [of "[sample_cluster ''a'' (Some ''c1''), sample_cluster ''b'' None]" "[sample_connection]"]
  by (simp add: sample_cluster_def)

text \<open>
  Without that proviso a cluster is lost: of two clusters that name the same connection the first
  one is shown on the row of the connection and the second one nowhere.
\<close>

lemma second_linked_cluster_hidden:
  "map cr_k8sNamespace
     (mergeRows (Some [sample_connection]) (Some [sample_cluster ''a'' (Some ''c1''), sample_cluster ''b'' (Some ''c1'')])) =
   [Some ''ns-a'']"
  by code_simp

subsection \<open>Labels\<close>

lemma map_of_rev_distinct: "distinct (map fst xs) \<Longrightarrow> map_of (rev xs) k = map_of xs k"
proof (induction xs)
  case (Cons x xs)
  then have "map_of xs (fst x) = None" by (simp add: map_of_eq_None_iff)
  with Cons show ?case by (cases x) (auto simp: map_add_def split: option.splits)
qed simp

lemma map_of_filter_ne: "k \<noteq> a \<Longrightarrow> map_of (filter (\<lambda>(k, v). k \<noteq> a) m) k = map_of m k"
  by (induction m) auto

lemma with_env_get:
  "obj_get (with_env out) k =
     (if k = ENV_LABEL_KEY \<and> \<not> truthy (obj_get out k) then Some DEFAULT_ENV_VALUE else obj_get out k)"
  by (auto simp: with_env_def)

lemma add_entries_get:
  "\<forall>e \<in> set es. trim (fst e) = fst e \<and> fst e \<noteq> [] \<Longrightarrow>
   obj_get (fold add_entry es out) k = (case map_of (rev es) k of Some v \<Rightarrow> Some v | None \<Rightarrow> obj_get out k)"
proof (induction es arbitrary: out)
  case (Cons e es)
  then have "add_entry e out = obj_set (fst e) (snd e) out" by (simp add: add_entry_def)
  with Cons show ?case by (auto simp: map_add_def split: option.splits)
qed simp


text \<open>
  The label editor round trip: labels turned into editor rows and saved unchanged read back
  as the labels, with the environment label filled in exactly as the cluster list fills it in,
  provided the keys are the trimmed, non-empty ones the editor itself saves.
\<close>

theorem labels_roundtrip:
  assumes "wf_obj labels" "\<forall>k \<in> set (obj_keys labels). trim k = k \<and> k \<noteq> []"
  shows "obj_get (entriesToLabels (labelsToEntries labels)) k = obj_get (ensureEnvLabel (Some labels)) k"
proof -
  let ?es = "labelsToEntries labels"
  have env: "trim ENV_LABEL_KEY = ENV_LABEL_KEY" "ENV_LABEL_KEY \<noteq> []" by (simp_all add: ENV_LABEL_KEY_def, code_simp)
  then have "\<forall>e \<in> set ?es. trim (fst e) = fst e \<and> fst e \<noteq> []"
    using assms(2) by (auto simp: labelsToEntries_def)
  then have get: "obj_get (fold add_entry ?es []) x = map_of (rev ?es) x" for x
    by (simp add: add_entries_get split: option.splits)
  have "distinct (map fst ?es)"
    using assms(1) distinct_map_filter [of fst labels] by (auto simp: labelsToEntries_def)
  then have "map_of (rev ?es) x = map_of ?es x" for x by (rule map_of_rev_distinct)
  moreover have "map_of ?es x = (if x = ENV_LABEL_KEY then Some (nullish (obj_get labels x) DEFAULT_ENV_VALUE) else obj_get labels x)" for x
    by (simp add: labelsToEntries_def map_of_filter_ne)
  ultimately show ?thesis
    by (auto simp: entriesToLabels_def ensureEnvLabel_def with_env_get get nullish_def truthy_def split: option.splits)
qed

theorem labels_roundtrip_witness:
  "obj_get (entriesToLabels (labelsToEntries [(''team'', ''db''), (''env'', ''prod'')])) ''team'' = Some ''db''"
  using labels_roundtrip [of "[(''team'', ''db''), (''env'', ''prod'')]" "''team''"] by code_simp

end
