(* ===== verification/Dialogs.thy ===== *)
theory Dialogs
  imports Record_Editor Cluster_Rows Stores Validation
begin

text \<open>
  The form dialogs of \<^verbatim>\<open>ui/src/components/dialogs\<close>. All of them run the same way: opening and
  dismissing set up the form, submitting validates it and sends one request, and the answer closes
  the dialog or shows an error. The life cycle is one state machine over the code of a dialog, the
  contract of that code is the locale \<open>form_dialog\<close>, and every dialog of the directory is an
  interpretation of it.
\<close>

section \<open>The life cycle of a dialog\<close>

record 'f dialog =
  dl_open :: bool
  dl_form :: 'f
  dl_error :: "string option"
  dl_fieldError :: "string option" \<comment> \<open>\<open>usernameError\<close>, \<open>nameError\<close>\<close>
  dl_submitting :: bool \<comment> \<open>\<open>isSubmitting\<close>, \<open>loading\<close>\<close>

record 'f dialog_code =
  dc_check :: "'f \<Rightarrow> string + api_call" \<comment> \<open>\<open>handleSubmit\<close> up to the request: a message, or the request\<close>
  dc_onOpen :: "'f dialog \<Rightarrow> 'f dialog" \<comment> \<open>the effect that runs when \<open>open\<close> turns true\<close>
  dc_onClose :: "'f dialog \<Rightarrow> 'f dialog" \<comment> \<open>\<open>handleOpenChange(false)\<close>\<close>
  dc_onDone :: "'f dialog \<Rightarrow> 'f dialog" \<comment> \<open>after the request succeeded\<close>
  dc_onFail :: "js_error \<Rightarrow> 'f dialog \<Rightarrow> 'f dialog" \<comment> \<open>the \<open>catch\<close> clause\<close>

definition dialog_submit :: "('f \<Rightarrow> string + api_call) \<Rightarrow> 'f dialog \<Rightarrow> 'f dialog \<times> api_call option" where
  "dialog_submit check d =
     (let d = d\<lparr>dl_error := None, dl_fieldError := None\<rparr> in
      case check (dl_form d) of
        Inl e \<Rightarrow> (d\<lparr>dl_error := Some e\<rparr>, None)
      | Inr c \<Rightarrow> (d\<lparr>dl_submitting := True\<rparr>, Some c))"

definition dialog_settled :: "'f dialog_code \<Rightarrow> api_outcome \<Rightarrow> 'f dialog \<Rightarrow> 'f dialog" where
  \<comment> \<open>the rest of \<open>handleSubmit\<close>, with its \<open>finally\<close>\<close>
  "dialog_settled dc r d =
     (case r of
        Value _ \<Rightarrow> (dc_onDone dc d)\<lparr>dl_open := False\<rparr>
      | Throws e \<Rightarrow> dc_onFail dc e d)\<lparr>dl_submitting := False\<rparr>"

definition show_error :: "(rat \<Rightarrow> string) \<Rightarrow> string \<Rightarrow> js_error \<Rightarrow> 'f dialog \<Rightarrow> 'f dialog" where
  "show_error fs other e d = d\<lparr>dl_error := Some (caught_text fs other e)\<rparr>"

definition show_conflict :: "(rat \<Rightarrow> string) \<Rightarrow> string \<Rightarrow> string \<Rightarrow> js_error \<Rightarrow> 'f dialog \<Rightarrow> 'f dialog" where
  \<comment> \<open>dialogs that show a conflict at the field\<close>
  "show_conflict fs taken other e d =
     (case e of
        ApiErr a \<Rightarrow> if err_status a = 409 then d\<lparr>dl_fieldError := Some taken\<rparr> else show_error fs other e d
      | _ \<Rightarrow> show_error fs other e d)"

definition reset_form :: "'f \<Rightarrow> 'f dialog \<Rightarrow> 'f dialog" where
  \<comment> \<open>\<open>resetForm\<close>\<close>
  "reset_form f d = d\<lparr>dl_form := f, dl_error := None, dl_fieldError := None\<rparr>"

datatype 'f dialog_event =
    DOpen
  | DDismiss \<comment> \<open>the cancel button, the close button, the escape key or a click outside\<close>
  | DType 'f
  | DSubmit
  | DSettled api_outcome

type_synonym 'f dialog_state = "'f dialog \<times> api_call option \<times> api_call list"

fun dialog_step :: "'f dialog_code \<Rightarrow> 'f dialog_event \<Rightarrow> 'f dialog_state \<Rightarrow> 'f dialog_state option" where
  \<comment> \<open>the state of the dialog, its request in flight, and the requests sent so far\<close>
  "dialog_step dc DOpen (d, fl, l) =
     (if dl_open d then None else Some (dc_onOpen dc (d\<lparr>dl_open := True\<rparr>), fl, l))"
| "dialog_step dc DDismiss (d, fl, l) =
     (if dl_open d then Some ((dc_onClose dc d)\<lparr>dl_open := False\<rparr>, fl, l) else None)"
| "dialog_step dc (DType f) (d, fl, l) = (if dl_open d then Some (d\<lparr>dl_form := f\<rparr>, fl, l) else None)"
| "dialog_step dc DSubmit (d, fl, l) =
     (if dl_open d \<and> \<not> dl_submitting d
      then (case dialog_submit (dc_check dc) d of
              (d', None) \<Rightarrow> Some (d', fl, l)
            | (d', Some c) \<Rightarrow> Some (d', Some c, l @ [c]))
      else None)"
| "dialog_step dc (DSettled r) (d, fl, l) =
     (case fl of None \<Rightarrow> None | Some _ \<Rightarrow> Some (dialog_settled dc r d, None, l))"

fun dialog_run :: "'f dialog_code \<Rightarrow> 'f dialog_event list \<Rightarrow> 'f dialog_state \<Rightarrow> 'f dialog_state option" where
  "dialog_run dc [] s = Some s"
| "dialog_run dc (e # es) s = (case dialog_step dc e s of None \<Rightarrow> None | Some s' \<Rightarrow> dialog_run dc es s')"

definition closed_dialog :: "'f \<Rightarrow> 'f dialog_state" where
  "closed_dialog f =
     (\<lparr>dl_open = False, dl_form = f, dl_error = None, dl_fieldError = None, dl_submitting = False\<rparr>, None, [])"

section \<open>The contract of a dialog\<close>

definition is_write :: "api_call \<Rightarrow> bool" where
  "is_write c \<longleftrightarrow> ri_method (snd c) \<in> {Some ''POST'', Some ''PUT''} \<and> ri_json (snd c) \<noteq> None"

locale form_dialog =
  fixes dc :: "'f dialog_code"
  assumes check_writes: "dc_check dc f = Inr c \<Longrightarrow> is_write c"
    and open_frame: "dl_submitting (dc_onOpen dc d) = dl_submitting d" "dl_open (dc_onOpen dc d) = dl_open d"
    and close_frame: "dl_submitting (dc_onClose dc d) = dl_submitting d"
    and done_frame: "dl_open (dc_onDone dc d) = dl_open d"
    and fail_frame: "dl_form (dc_onFail dc e d) = dl_form d" "dl_open (dc_onFail dc e d) = dl_open d"
    and fail_shows: "dl_error (dc_onFail dc e d) \<noteq> None \<or> dl_fieldError (dc_onFail dc e d) \<noteq> None"
begin

definition dialog_inv :: "'f dialog_state \<Rightarrow> bool" where
  "dialog_inv s \<longleftrightarrow>
     (case s of (d, fl, l) \<Rightarrow>
        (dl_submitting d \<longleftrightarrow> fl \<noteq> None) \<and> (\<forall>c. fl = Some c \<longrightarrow> c \<in> set l) \<and>
        (\<forall>c \<in> set l. \<exists>f. dc_check dc f = Inr c))"

lemma inv_step: "dialog_inv s \<Longrightarrow> dialog_step dc e s = Some s' \<Longrightarrow> dialog_inv s'"
proof (cases s)
  case (fields d fl l)
  assume inv: "dialog_inv s" and st: "dialog_step dc e s = Some s'"
  show ?thesis
  proof (cases e)
    case DSubmit
    then show ?thesis using inv st fields
      by (cases "dc_check dc (dl_form d)") (auto simp: dialog_inv_def dialog_submit_def Let_def split: if_splits)
  next
    case (DSettled r)
    then show ?thesis using inv st fields
      by (auto simp: dialog_inv_def dialog_settled_def split: option.splits api_outcome.splits)
  qed (use inv st fields in \<open>auto simp: dialog_inv_def open_frame close_frame split: if_splits\<close>)
qed

lemma inv_run: "dialog_inv s \<Longrightarrow> dialog_run dc es s = Some s' \<Longrightarrow> dialog_inv s'"
proof (induction es arbitrary: s)
  case (Cons e es)
  then show ?case using inv_step [of s e] by (cases "dialog_step dc e s") auto
qed simp

lemma inv_closed: "dialog_inv (closed_dialog f)"
  by (simp add: dialog_inv_def closed_dialog_def)

text \<open>Every request a run sends comes from a form that passed the check, and is a write with a JSON body.\<close>

lemma sent_checked:
  assumes "dialog_run dc es (closed_dialog f) = Some (d, fl, l)" "c \<in> set l"
  shows "(\<exists>g. dc_check dc g = Inr c) \<and> is_write c"
proof -
  from inv_run [OF inv_closed assms(1)] assms(2) obtain g where "dc_check dc g = Inr c"
    by (auto simp: dialog_inv_def)
  with check_writes show ?thesis by blast
qed

lemma in_flight_iff_submitting:
  assumes "dialog_run dc es (closed_dialog f) = Some (d, fl, l)"
  shows "fl \<noteq> None \<longleftrightarrow> dl_submitting d"
  using inv_run [OF inv_closed assms] by (simp add: dialog_inv_def)

text \<open>A failed request costs the user nothing: the form is kept, the dialog stays as it is, the error is shown and the button is back.\<close>

lemma failure_keeps_form:
  assumes "dialog_step dc (DSettled (Throws e)) (d, fl, l) = Some (d', fl', l')"
  shows "dl_form d' = dl_form d \<and> dl_open d' = dl_open d \<and> \<not> dl_submitting d' \<and>
    (dl_error d' \<noteq> None \<or> dl_fieldError d' \<noteq> None)"
  using assms fail_shows [of e d] by (auto simp: dialog_settled_def fail_frame split: option.splits)

end

section \<open>Shared parsing\<close>

definition comma_list :: "string \<Rightarrow> string list" where
  \<comment> \<open>\<open>s.split(",").map(trim).filter(nonempty)\<close>\<close>
  "comma_list s = filter (\<lambda>h. h \<noteq> []) (map trim (splitOn (CHR '','') s))"

definition opt_text :: "string \<Rightarrow> json" where
  \<comment> \<open>\<open>s || null\<close>\<close>
  "opt_text s = (if s = [] then JNull else JStr s)"

definition INT_RE :: "string \<Rightarrow> bool" where
  "INT_RE s \<longleftrightarrow> s \<noteq> [] \<and> list_all is_digit s"

section \<open>Connections (useConnectionForm.ts, AddConnectionDialog.tsx, EditConnectionDialog.tsx)\<close>

record connection_form =
  cf_name :: string
  cf_hosts :: string
  cf_port :: string
  cf_username :: string
  cf_password :: string
  cf_color :: string
  cf_note :: string
  cf_labels :: "label_entry list"
  cf_workspaceId :: string

record parsed_connection =
  pc_name :: string
  pc_hosts :: "string list"
  pc_port :: jsnum
  pc_username :: "string option"
  pc_password :: "string option"
  pc_color :: string
  pc_note :: "string option"
  pc_labels :: dict
  pc_workspaceId :: string

definition DEFAULT_COLOR :: string where
  "DEFAULT_COLOR = ''#4F46E5''"

definition EMPTY_CONNECTION :: connection_form where
  "EMPTY_CONNECTION =
     \<lparr>cf_name = [], cf_hosts = [], cf_port = ''3000'', cf_username = [], cf_password = [], cf_color = DEFAULT_COLOR,
      cf_note = [], cf_labels = [(ENV_LABEL_KEY, DEFAULT_ENV_VALUE)], cf_workspaceId = DEFAULT_WORKSPACE_ID\<rparr>"

definition fromConnection :: "(rat \<Rightarrow> string) \<Rightarrow> connection_profile \<Rightarrow> connection_form" where
  "fromConnection fs conn =
     \<lparr>cf_name = cp_name conn, cf_hosts = joinWith '', '' (cp_hosts conn), cf_port = num_str fs (cp_port conn),
      cf_username = nullish (cp_username conn) [], cf_password = [], cf_color = cp_color conn,
      cf_note = nullish (cp_note conn) [], cf_labels = labelsToEntries (nullish (cp_labels conn) []),
      cf_workspaceId = nullish (cp_workspaceId conn) DEFAULT_WORKSPACE_ID\<rparr>"

definition validate_connection :: "connection_form \<Rightarrow> string + parsed_connection" where
  "validate_connection form =
     (let name = trim (cf_name form);
          hosts = comma_list (cf_hosts form);
          port = parseInt10 (cf_port form)
      in if name = [] then Inl ''Name is required.''
         else if length hosts = 0 then Inl ''At least one host is required.''
         else if \<not> isFinite port \<or> num_le port (inum 0) \<or> num_less (inum 65535) port
         then Inl ''Port must be a number between 1 and 65535.''
         else Inr \<lparr>pc_name = name, pc_hosts = hosts, pc_port = port, pc_username = non_empty (trim (cf_username form)),
                pc_password = non_empty (cf_password form), pc_color = str_or (cf_color form) DEFAULT_COLOR,
                pc_note = non_empty (trim (cf_note form)), pc_labels = entriesToLabels (cf_labels form),
                pc_workspaceId = str_or (cf_workspaceId form) DEFAULT_WORKSPACE_ID\<rparr>)"

definition json_opt :: "string option \<Rightarrow> json" where
  "json_opt s = (case s of None \<Rightarrow> JNull | Some t \<Rightarrow> JStr t)"

definition labels_json :: "dict \<Rightarrow> json" where
  "labels_json m = JObj (map (\<lambda>(k, v). (k, JStr v)) m)"

definition connection_body :: "parsed_connection \<Rightarrow> json" where
  "connection_body p =
     JObj [(''name'', JStr (pc_name p)), (''hosts'', JArr (map JStr (pc_hosts p))), (''port'', JNum (pc_port p)),
           (''username'', json_opt (pc_username p)), (''password'', json_opt (pc_password p)),
           (''color'', JStr (pc_color p)), (''note'', json_opt (pc_note p)), (''labels'', labels_json (pc_labels p)),
           (''workspaceId'', JStr (pc_workspaceId p))]"

definition edited_connection_body :: "parsed_connection \<Rightarrow> json" where
  "edited_connection_body p =
     JObj [(''name'', JStr (pc_name p)), (''hosts'', JArr (map JStr (pc_hosts p))), (''port'', JNum (pc_port p)),
           (''color'', JStr (pc_color p)), (''note'', json_opt (pc_note p)), (''labels'', labels_json (pc_labels p)),
           (''workspaceId'', JStr (pc_workspaceId p))]"

definition AddConnectionDialog :: "(rat \<Rightarrow> string) \<Rightarrow> string \<Rightarrow> connection_form dialog_code" where
  \<comment> \<open>with the workspace the user is viewing\<close>
  "AddConnectionDialog fs ws =
     \<lparr>dc_check = (\<lambda>f. case validate_connection f of Inl e \<Rightarrow> Inl e | Inr p \<Rightarrow> Inr (createConnection (connection_body p))),
      dc_onOpen = (\<lambda>d. d\<lparr>dl_form := (dl_form d)\<lparr>cf_workspaceId := ws\<rparr>\<rparr>),
      dc_onClose = (\<lambda>d. d\<lparr>dl_form := EMPTY_CONNECTION, dl_error := None\<rparr>),
      dc_onDone = (\<lambda>d. d\<lparr>dl_form := EMPTY_CONNECTION\<rparr>),
      dc_onFail = show_error fs ''Failed to create connection.''\<rparr>"

definition EditConnectionDialog :: "(rat \<Rightarrow> string) \<Rightarrow> connection_profile \<Rightarrow> connection_form dialog_code" where
  "EditConnectionDialog fs connection =
     \<lparr>dc_check = (\<lambda>f. case validate_connection f of
        Inl e \<Rightarrow> Inl e | Inr p \<Rightarrow> Inr (updateConnection (cp_id connection) (edited_connection_body p))),
      dc_onOpen = (\<lambda>d. d\<lparr>dl_form := fromConnection fs connection, dl_error := None\<rparr>),
      dc_onClose = (\<lambda>d. d\<lparr>dl_error := None\<rparr>),
      dc_onDone = (\<lambda>d. d),
      dc_onFail = show_error fs ''Failed to update connection.''\<rparr>"

section \<open>Workspaces (useWorkspaceForm.ts, AddWorkspaceDialog.tsx, EditWorkspaceDialog.tsx)\<close>

record workspace_form =
  wf_name :: string
  wf_color :: string
  wf_description :: string

record workspace_response =
  wr_id :: string
  wr_name :: string
  wr_color :: string
  wr_description :: "string option"
  wr_isDefault :: bool

definition DEFAULT_WORKSPACE_COLOR :: string where
  "DEFAULT_WORKSPACE_COLOR = ''#6366F1''"

definition EMPTY_WORKSPACE :: workspace_form where
  "EMPTY_WORKSPACE = \<lparr>wf_name = [], wf_color = DEFAULT_WORKSPACE_COLOR, wf_description = []\<rparr>"

definition fromWorkspace :: "workspace_response \<Rightarrow> workspace_form" where
  "fromWorkspace ws =
     \<lparr>wf_name = wr_name ws, wf_color = wr_color ws, wf_description = nullish (wr_description ws) []\<rparr>"

definition validate_workspace :: "workspace_form \<Rightarrow> string + json" where
  "validate_workspace form =
     (let name = trim (wf_name form) in
      if name = [] then Inl ''Name is required.''
      else Inr (JObj [(''name'', JStr name), (''color'', JStr (str_or (wf_color form) DEFAULT_WORKSPACE_COLOR)),
                      (''description'', opt_text (trim (wf_description form)))]))"

definition AddWorkspaceDialog :: "(rat \<Rightarrow> string) \<Rightarrow> workspace_form dialog_code" where
  "AddWorkspaceDialog fs =
     \<lparr>dc_check = (\<lambda>f. case validate_workspace f of Inl e \<Rightarrow> Inl e | Inr p \<Rightarrow> Inr (createWorkspace p)),
      dc_onOpen = (\<lambda>d. d),
      dc_onClose = (\<lambda>d. d\<lparr>dl_form := EMPTY_WORKSPACE, dl_error := None\<rparr>),
      dc_onDone = (\<lambda>d. d\<lparr>dl_form := EMPTY_WORKSPACE\<rparr>),
      dc_onFail = show_error fs ''Failed to create workspace.''\<rparr>"

definition EditWorkspaceDialog :: "(rat \<Rightarrow> string) \<Rightarrow> workspace_response \<Rightarrow> workspace_form dialog_code" where
  \<comment> \<open>the dialog is open exactly while it is given a workspace, so that opening hydrates the form\<close>
  "EditWorkspaceDialog fs workspace =
     \<lparr>dc_check = (\<lambda>f. case validate_workspace f of Inl e \<Rightarrow> Inl e | Inr p \<Rightarrow> Inr (updateWorkspace (wr_id workspace) p)),
      dc_onOpen = (\<lambda>d. d\<lparr>dl_form := fromWorkspace workspace, dl_error := None\<rparr>),
      dc_onClose = (\<lambda>d. d\<lparr>dl_error := None\<rparr>),
      dc_onDone = (\<lambda>d. d),
      dc_onFail = show_error fs ''Failed to update workspace.''\<rparr>"

definition deleteWorkspace_request :: "workspace_response option \<Rightarrow> api_call option" where
  \<comment> \<open>\<open>handleDelete\<close>: the built-in workspace is never deleted\<close>
  "deleteWorkspace_request ws =
     (case ws of None \<Rightarrow> None | Some w \<Rightarrow> if wr_isDefault w then None else Some (deleteWorkspace (wr_id w)))"

section \<open>Records, sets and sample data\<close>

datatype seed_kind = SeedString | SeedInt | SeedDouble | SeedBool

definition signed_digits :: "string \<Rightarrow> bool" where
  \<comment> \<open>\<open>/^-?\d+$/\<close>\<close>
  "signed_digits s = (case s of [] \<Rightarrow> False | c # r \<Rightarrow> if c = CHR ''-'' then INT_RE r else INT_RE s)"

definition parseSeedBinValue :: "string \<Rightarrow> seed_kind \<Rightarrow> string + json" where
  "parseSeedBinValue raw kind =
     (case kind of
        SeedString \<Rightarrow> Inr (JStr raw)
      | SeedInt \<Rightarrow>
          (if \<not> signed_digits (trim raw) then Inl ''Bin value must be an integer.''
           else (let n = parseInt10 (trim raw)
                 in if \<not> isFinite n then Inl ''Bin value out of range for integer.'' else Inr (JNum n)))
      | SeedDouble \<Rightarrow>
          (let n = parseFloat (trim raw) in if \<not> isFinite n then Inl ''Bin value must be a number.'' else Inr (JNum n))
      | SeedBool \<Rightarrow>
          (let v = toLowerCase (trim raw)
           in if v = ''true'' then Inr (JBool True) else if v = ''false'' then Inr (JBool False)
              else Inl (''Bin value must be '' @ quote_str ''true'' @ '' or '' @ quote_str ''false'' @ ''.'')))"

record record_form =
  rf_pk :: string
  rf_pkType :: pk_type
  rf_binName :: string
  rf_binKind :: seed_kind
  rf_binValue :: string

definition NEW_RECORD :: record_form where
  "NEW_RECORD = \<lparr>rf_pk = [], rf_pkType = PkAuto, rf_binName = ''value'', rf_binKind = SeedString, rf_binValue = []\<rparr>"

definition key_json :: "string \<Rightarrow> string \<Rightarrow> string \<Rightarrow> json" where
  "key_json ns s pk = JObj [(''namespace'', JStr ns), (''set'', JStr s), (''pk'', JStr pk)]"

definition check_record :: "string \<Rightarrow> string \<Rightarrow> string \<Rightarrow> record_form \<Rightarrow> string + api_call" where
  "check_record connId namespace s f =
     (let primaryKey = trim (rf_pk f); bin = rf_binName f in
      if primaryKey = [] then Inl ''Primary key is required.''
      else case validateBinName bin of
        Some e \<Rightarrow> Inl e
      | None \<Rightarrow>
          (case parseSeedBinValue (rf_binValue f) (rf_binKind f) of
             Inl e \<Rightarrow> Inl e
           | Inr v \<Rightarrow>
               Inr (putRecord connId
                 (JObj [(''key'', key_json namespace s primaryKey), (''bins'', JObj [(bin, v)]),
                        (''pkType'', JStr (pk_type_str (rf_pkType f)))]))))"

definition CreateRecordDialog :: "(rat \<Rightarrow> string) \<Rightarrow> string \<Rightarrow> string \<Rightarrow> string \<Rightarrow> record_form dialog_code" where
  "CreateRecordDialog fs connId namespace s =
     \<lparr>dc_check = check_record connId namespace s,
      dc_onOpen = reset_form NEW_RECORD, dc_onClose = (\<lambda>d. d), dc_onDone = (\<lambda>d. d),
      dc_onFail = show_error fs ''Failed to create record.''\<rparr>"

record set_form =
  sf_setName :: string
  sf_pk :: string
  sf_binName :: string
  sf_binValue :: string

definition NEW_SET :: set_form where
  "NEW_SET = \<lparr>sf_setName = [], sf_pk = [], sf_binName = ''value'', sf_binValue = []\<rparr>"

definition check_set :: "string \<Rightarrow> string \<Rightarrow> set_form \<Rightarrow> string + api_call" where
  "check_set connId namespace f =
     (let s = trim (sf_setName f); primaryKey = trim (sf_pk f); bin = sf_binName f in
      if s = [] then Inl ''Set name is required''
      else if primaryKey = [] then Inl ''Primary key is required''
      else case validateBinName bin of
        Some e \<Rightarrow> Inl e
      | None \<Rightarrow>
          Inr (putRecord connId
            (JObj [(''key'', key_json namespace s primaryKey), (''bins'', JObj [(bin, JStr (sf_binValue f))])])))"

definition CreateSetDialog :: "(rat \<Rightarrow> string) \<Rightarrow> string \<Rightarrow> string \<Rightarrow> set_form dialog_code" where
  "CreateSetDialog fs connId namespace =
     \<lparr>dc_check = check_set connId namespace,
      dc_onOpen = reset_form NEW_SET, dc_onClose = (\<lambda>d. d), dc_onDone = (\<lambda>d. d),
      dc_onFail = show_error fs ''Failed to create set''\<rparr>"

record sample_form =
  sd_namespace :: string
  sd_setName :: string
  sd_recordCount :: string
  sd_createIndexes :: bool

definition MAX_RECORDS :: int where
  "MAX_RECORDS = 10000"

definition first_namespace :: "string option \<Rightarrow> string list \<Rightarrow> string" where
  \<comment> \<open>\<open>defaultNamespace ?? namespaces[0] ?? ""\<close>\<close>
  "first_namespace dflt nss = nullish dflt (case nss of [] \<Rightarrow> [] | n # _ \<Rightarrow> n)"

definition check_sample :: "(int \<Rightarrow> string) \<Rightarrow> string \<Rightarrow> sample_form \<Rightarrow> string + api_call" where
  \<comment> \<open>with \<open>toLocaleString\<close> for the message\<close>
  "check_sample toLocale connId f =
     (let name = trim (sd_setName f); count = parseInt10 (sd_recordCount f) in
      if sd_namespace f = [] then Inl ''Namespace is required''
      else if name = [] then Inl ''Set name is required''
      else if \<not> isFinite count \<or> num_less count (inum 1) \<or> num_less (inum MAX_RECORDS) count
      then Inl (''Record count must be between 1 and '' @ toLocale MAX_RECORDS)
      else Inr (createSampleData connId
             (JObj [(''namespace'', JStr (sd_namespace f)), (''setName'', JStr name), (''recordCount'', JNum count),
                    (''createIndexes'', JBool (sd_createIndexes f))])))"

definition CreateSampleDataDialog ::
  "(rat \<Rightarrow> string) \<Rightarrow> (int \<Rightarrow> string) \<Rightarrow> string \<Rightarrow> string list \<Rightarrow> string option \<Rightarrow> sample_form dialog_code" where
  "CreateSampleDataDialog fs toLocale connId namespaces defaultNamespace =
     \<lparr>dc_check = check_sample toLocale connId,
      dc_onOpen = reset_form \<lparr>sd_namespace = first_namespace defaultNamespace namespaces, sd_setName = ''sample_set'',
                              sd_recordCount = ''1234'', sd_createIndexes = True\<rparr>,
      dc_onClose = (\<lambda>d. d), dc_onDone = (\<lambda>d. d),
      dc_onFail = show_error fs ''Failed to create sample data''\<rparr>"

section \<open>Indexes and UDFs\<close>

datatype index_type = IdxNumeric | IdxString | IdxGeo

fun index_type_str :: "index_type \<Rightarrow> string" where
  "index_type_str IdxNumeric = ''numeric''"
| "index_type_str IdxString = ''string''"
| "index_type_str IdxGeo = ''geo2dsphere''"

record index_form =
  xf_name :: string
  xf_namespace :: string
  xf_set :: string
  xf_bin :: string
  xf_binType :: index_type

definition EMPTY_INDEX :: index_form where
  "EMPTY_INDEX = \<lparr>xf_name = [], xf_namespace = [], xf_set = [], xf_bin = [], xf_binType = IdxNumeric\<rparr>"

definition check_index :: "string \<Rightarrow> index_form \<Rightarrow> string + api_call" where
  "check_index connId f =
     (let name = trim (xf_name f); namespace = trim (xf_namespace f); bin = xf_bin f; s = trim (xf_set f) in
      if name = [] then Inl ''Index name is required.''
      else if namespace = [] then Inl ''Namespace is required.''
      else case validateBinName bin of
        Some e \<Rightarrow> Inl e
      | None \<Rightarrow>
          Inr (createIndex connId
            (JObj [(''name'', JStr name), (''namespace'', JStr namespace), (''set'', JStr s), (''bin'', JStr bin),
                   (''type'', JStr (index_type_str (xf_binType f)))])))"

definition CreateIndexDialog :: "(rat \<Rightarrow> string) \<Rightarrow> string \<Rightarrow> index_form dialog_code" where
  "CreateIndexDialog fs connId =
     \<lparr>dc_check = check_index connId,
      dc_onOpen = (\<lambda>d. d), dc_onClose = reset_form EMPTY_INDEX, dc_onDone = reset_form EMPTY_INDEX,
      dc_onFail = show_error fs ''Failed to create index.''\<rparr>"

record udf_form =
  uf_filename :: string
  uf_content :: string

definition EMPTY_UDF :: udf_form where
  "EMPTY_UDF = \<lparr>uf_filename = [], uf_content = []\<rparr>"

definition check_udf :: "string \<Rightarrow> udf_form \<Rightarrow> string + api_call" where
  "check_udf connId f =
     (let filename = trim (uf_filename f); content = uf_content f in
      if filename = [] then Inl ''Filename is required.''
      else if \<not> endsWith (toLowerCase filename) ''.lua'' then Inl ''Filename must end with .lua.''
      else if trim content = [] then Inl ''UDF content cannot be empty.''
      else Inr (uploadUdf connId (JObj [(''filename'', JStr filename), (''content'', JStr content)])))"

definition RegisterUdfDialog :: "(rat \<Rightarrow> string) \<Rightarrow> string \<Rightarrow> udf_form dialog_code" where
  "RegisterUdfDialog fs connId =
     \<lparr>dc_check = check_udf connId,
      dc_onOpen = (\<lambda>d. d), dc_onClose = reset_form EMPTY_UDF, dc_onDone = reset_form EMPTY_UDF,
      dc_onFail = show_error fs ''Failed to register UDF.''\<rparr>"

section \<open>Users and roles\<close>

record user_form =
  us_username :: string
  us_password :: string
  us_confirmPassword :: string
  us_roles :: "string list"

definition EMPTY_USER :: user_form where
  "EMPTY_USER = \<lparr>us_username = [], us_password = [], us_confirmPassword = [], us_roles = []\<rparr>"

definition MIN_PASSWORD_LENGTH :: nat where
  "MIN_PASSWORD_LENGTH = 8"

definition toggleRole :: "string \<Rightarrow> user_form \<Rightarrow> user_form" where
  "toggleRole roleName f =
     f\<lparr>us_roles := (if roleName \<in> set (us_roles f) then filter (\<lambda>r. r \<noteq> roleName) (us_roles f)
                    else us_roles f @ [roleName])\<rparr>"

definition check_user :: "string \<Rightarrow> user_form \<Rightarrow> string + api_call" where
  "check_user clusterId f =
     (let username = trim (us_username f) in
      if username = [] then Inl ''Username is required.''
      else if length (us_password f) < MIN_PASSWORD_LENGTH
      then Inl (''Password must be at least '' @ nat_str MIN_PASSWORD_LENGTH @ '' characters.'')
      else if us_password f \<noteq> us_confirmPassword f then Inl ''Passwords do not match.''
      else Inr (createUser clusterId
             (JObj [(''username'', JStr username), (''password'', JStr (us_password f)),
                    (''roles'', if length (us_roles f) > 0 then JArr (map JStr (us_roles f)) else JNull)])))"

definition CreateUserDialog :: "(rat \<Rightarrow> string) \<Rightarrow> string \<Rightarrow> user_form dialog_code" where
  "CreateUserDialog fs clusterId =
     \<lparr>dc_check = check_user clusterId,
      dc_onOpen = (\<lambda>d. d), dc_onClose = reset_form EMPTY_USER, dc_onDone = reset_form EMPTY_USER,
      dc_onFail = show_conflict fs ''User already exists.'' ''Failed to create user.''\<rparr>"

record privilege_row =
  pr_code :: string
  pr_ns :: string
  pr_set :: string

record role_form =
  ro_name :: string
  ro_privileges :: "privilege_row list"
  ro_whitelist :: string
  ro_readQuota :: string
  ro_writeQuota :: string

definition EMPTY_ROLE :: role_form where
  "EMPTY_ROLE = \<lparr>ro_name = [], ro_privileges = [], ro_whitelist = [], ro_readQuota = [], ro_writeQuota = []\<rparr>"

definition PRIVILEGE_CATALOG :: "string list" where
  "PRIVILEGE_CATALOG =
     [''read'', ''read-write'', ''read-write-udf'', ''write'', ''data-admin'', ''udf-admin'', ''sindex-admin'',
      ''sys-admin'', ''user-admin'', ''truncate'']"

definition togglePrivilege :: "string \<Rightarrow> role_form \<Rightarrow> role_form" where
  "togglePrivilege c f =
     f\<lparr>ro_privileges :=
         (if list_ex (\<lambda>p. pr_code p = c) (ro_privileges f) then filter (\<lambda>p. pr_code p \<noteq> c) (ro_privileges f)
          else ro_privileges f @ [\<lparr>pr_code = c, pr_ns = [], pr_set = []\<rparr>])\<rparr>"

definition updatePrivilegeScope :: "string \<Rightarrow> bool \<Rightarrow> string \<Rightarrow> role_form \<Rightarrow> role_form" where
  \<comment> \<open>the flag: the field is \<open>ns\<close>\<close>
  "updatePrivilegeScope c ns v f =
     f\<lparr>ro_privileges :=
         map (\<lambda>p. if pr_code p = c then (if ns then p\<lparr>pr_ns := v\<rparr> else p\<lparr>pr_set := v\<rparr>) else p) (ro_privileges f)\<rparr>"

fun unscoped_set :: "privilege_row list \<Rightarrow> string option" where
  "unscoped_set [] = None"
| "unscoped_set (p # ps) =
     (if trim (pr_set p) \<noteq> [] \<and> trim (pr_ns p) = []
      then Some (''Privilege '' @ [CHR 0x22] @ pr_code p @ [CHR 0x22] @ '' specifies a set but no namespace; provide both.'')
      else unscoped_set ps)"

definition parse_quota :: "string \<Rightarrow> string \<Rightarrow> string + json" where
  "parse_quota which raw =
     (let v = trim raw in
      if v = [] then Inr JNull
      else if \<not> INT_RE v then Inl (which @ '' quota must be a non-negative integer (no decimals).'')
      else (let parsed = parseInt10 v
            in if \<not> isFinite parsed \<or> num_less parsed (inum 0)
               then Inl (which @ '' quota must be a non-negative integer.'')
               else Inr (JNum parsed)))"

definition privilege_json :: "privilege_row \<Rightarrow> json" where
  "privilege_json p =
     JObj [(''code'', JStr (pr_code p)), (''namespace'', opt_text (trim (pr_ns p))), (''set'', opt_text (trim (pr_set p)))]"

definition check_role :: "string \<Rightarrow> role_form \<Rightarrow> string + api_call" where
  "check_role clusterId f =
     (let name = trim (ro_name f); whitelist = comma_list (ro_whitelist f) in
      if name = [] then Inl ''Role name is required.''
      else if length (ro_privileges f) = 0 then Inl ''Select at least one privilege.''
      else case unscoped_set (ro_privileges f) of
        Some e \<Rightarrow> Inl e
      | None \<Rightarrow>
          (case parse_quota ''Read'' (ro_readQuota f) of
             Inl e \<Rightarrow> Inl e
           | Inr readQuota \<Rightarrow>
               (case parse_quota ''Write'' (ro_writeQuota f) of
                  Inl e \<Rightarrow> Inl e
                | Inr writeQuota \<Rightarrow>
                    Inr (createRole clusterId
                      (JObj [(''name'', JStr name), (''privileges'', JArr (map privilege_json (ro_privileges f))),
                             (''whitelist'', if length whitelist > 0 then JArr (map JStr whitelist) else JNull),
                             (''readQuota'', readQuota), (''writeQuota'', writeQuota)])))))"

definition CreateRoleDialog :: "(rat \<Rightarrow> string) \<Rightarrow> string \<Rightarrow> role_form dialog_code" where
  "CreateRoleDialog fs clusterId =
     \<lparr>dc_check = check_role clusterId,
      dc_onOpen = (\<lambda>d. d), dc_onClose = reset_form EMPTY_ROLE, dc_onDone = reset_form EMPTY_ROLE,
      dc_onFail = show_conflict fs ''Role already exists.'' ''Failed to create role.''\<rparr>"

section \<open>Guides (GuideEditorDialog.tsx)\<close>

record guide_form =
  gf_title :: string
  gf_content :: string

definition MAX_GUIDE_CONTENT_LENGTH :: nat where
  "MAX_GUIDE_CONTENT_LENGTH = 65536"

fun GUIDE_TYPE_LABEL :: "guide_type \<Rightarrow> string" where
  "GUIDE_TYPE_LABEL DataPlane = ''Data-plane guide''"
| "GUIDE_TYPE_LABEL ControlPlane = ''Control-plane guide''"

definition check_guide :: "string \<Rightarrow> guide_type \<Rightarrow> guide_form \<Rightarrow> string + api_call" where
  "check_guide workspaceId guideType f =
     (let trimmedTitle = trim (gf_title f); content = gf_content f in
      if trimmedTitle = [] then Inl ''Title is required.''
      else if trim content = [] then Inl ''Guide content is required.''
      else if length content > MAX_GUIDE_CONTENT_LENGTH
      then Inl (''Content exceeds the '' @ nat_str MAX_GUIDE_CONTENT_LENGTH @ '' character limit.'')
      else Inr (upsertGuide workspaceId guideType (JObj [(''title'', JStr trimmedTitle), (''content'', JStr content)])))"

definition GuideEditorDialog ::
  "(rat \<Rightarrow> string) \<Rightarrow> (guide_type \<Rightarrow> string) \<Rightarrow> string \<Rightarrow> guide_type \<Rightarrow> guide_form option \<Rightarrow> guide_form dialog_code" where
  \<comment> \<open>with the text of \<open>STARTER_TEMPLATE\<close> and the title and content of the existing guide\<close>
  "GuideEditorDialog fs STARTER_TEMPLATE workspaceId guideType existing =
     \<lparr>dc_check = check_guide workspaceId guideType,
      dc_onOpen = (\<lambda>d. d\<lparr>dl_form := nullish existing \<lparr>gf_title = GUIDE_TYPE_LABEL guideType,
                                                      gf_content = STARTER_TEMPLATE guideType\<rparr>, dl_error := None\<rparr>),
      dc_onClose = (\<lambda>d. d), dc_onDone = (\<lambda>d. d),
      dc_onFail = show_error fs ''Failed to save the guide.''\<rparr>"

definition deleteGuide_request :: "string \<Rightarrow> guide_type \<Rightarrow> guide_form option \<Rightarrow> api_call option" where
  \<comment> \<open>\<open>handleDelete\<close>\<close>
  "deleteGuide_request workspaceId guideType existing =
     (case existing of None \<Rightarrow> None | Some _ \<Rightarrow> Some (deleteGuide workspaceId guideType))"

section \<open>Notes (NoteSection.tsx)\<close>

record note_section =
  ns_note :: "string option"
  ns_draft :: string
  ns_isEditing :: bool
  ns_saving :: bool
  ns_error :: "string option"

definition note_initial :: "note_section \<Rightarrow> string" where
  "note_initial n = nullish (ns_note n) []"

definition note_changed :: "string option \<Rightarrow> note_section \<Rightarrow> note_section" where
  \<comment> \<open>the effect: the draft follows the stored note, except while it is edited\<close>
  "note_changed v n =
     (let n = n\<lparr>ns_note := v\<rparr> in if ns_isEditing n then n else n\<lparr>ns_draft := note_initial n\<rparr>)"

definition note_startEdit :: "note_section \<Rightarrow> note_section" where
  "note_startEdit n = n\<lparr>ns_draft := note_initial n, ns_error := None, ns_isEditing := True\<rparr>"

definition note_cancel :: "note_section \<Rightarrow> note_section" where
  "note_cancel n = n\<lparr>ns_draft := note_initial n, ns_error := None, ns_isEditing := False\<rparr>"

definition note_handleSave :: "note_section \<Rightarrow> note_section \<times> string option" where
  \<comment> \<open>up to \<open>onSave(trimmed)\<close>, whose argument is the second component\<close>
  "note_handleSave n =
     (let trimmed = trim (ns_draft n) in
      if trimmed = [] then (n\<lparr>ns_error := Some ''Note can't be empty. Use Delete to remove it.''\<rparr>, None)
      else (n\<lparr>ns_saving := True, ns_error := None\<rparr>, Some trimmed))"

definition note_saved :: "(rat \<Rightarrow> string) \<Rightarrow> js_error option \<Rightarrow> note_section \<Rightarrow> note_section" where
  "note_saved fs r n =
     (case r of
        None \<Rightarrow> n\<lparr>ns_isEditing := False\<rparr>
      | Some e \<Rightarrow> n\<lparr>ns_error := Some (caught_text fs ''Failed to save note.'' e)\<rparr>)\<lparr>ns_saving := False\<rparr>"

definition note_handleDelete :: "note_section \<Rightarrow> note_section" where
  "note_handleDelete n = n\<lparr>ns_saving := True, ns_error := None\<rparr>"

definition note_deleted :: "(rat \<Rightarrow> string) \<Rightarrow> js_error option \<Rightarrow> note_section \<Rightarrow> note_section" where
  "note_deleted fs r n =
     (case r of
        None \<Rightarrow> n\<lparr>ns_draft := [], ns_isEditing := False\<rparr>
      | Some e \<Rightarrow> n\<lparr>ns_error := Some (caught_text fs ''Failed to delete note.'' e)\<rparr>)\<lparr>ns_saving := False\<rparr>"

definition note_showEmptyState :: "note_section \<Rightarrow> bool" where
  "note_showEmptyState n \<longleftrightarrow> \<not> ns_isEditing n \<and> note_initial n = []"

section \<open>Every dialog keeps the contract\<close>

lemma show_conflict_frame [simp]:
  "dl_form (show_conflict fs t m e d) = dl_form d" "dl_open (show_conflict fs t m e d) = dl_open d"
  "dl_fieldError (show_conflict fs t m e d) = None \<Longrightarrow> dl_error (show_conflict fs t m e d) = Some (caught_text fs m e)"
  by (auto simp: show_conflict_def show_error_def split: js_error.splits if_splits)

lemma show_error_frame [simp]:
  "dl_form (show_error fs m e d) = dl_form d" "dl_open (show_error fs m e d) = dl_open d"
  "dl_error (show_error fs m e d) = Some (caught_text fs m e)"
  by (simp_all add: show_error_def)

lemma reset_form_frame [simp]:
  "dl_open (reset_form f d) = dl_open d" "dl_submitting (reset_form f d) = dl_submitting d"
  by (simp_all add: reset_form_def)

lemmas call_simps = is_write_def apiPost_def apiPut_def createConnection_def updateConnection_def createWorkspace_def
  updateWorkspace_def putRecord_def createSampleData_def createIndex_def uploadUdf_def createUser_def createRole_def
  upsertGuide_def

interpretation add_conn: form_dialog "AddConnectionDialog fs ws" for fs ws
  by unfold_locales (auto simp: AddConnectionDialog_def call_simps split: sum.splits option.splits if_splits)

interpretation edit_conn: form_dialog "EditConnectionDialog fs conn" for fs conn
  by unfold_locales (auto simp: EditConnectionDialog_def call_simps split: sum.splits option.splits if_splits)

interpretation add_ws: form_dialog "AddWorkspaceDialog fs" for fs
  by unfold_locales (auto simp: AddWorkspaceDialog_def call_simps split: sum.splits option.splits if_splits)

interpretation edit_ws: form_dialog "EditWorkspaceDialog fs ws" for fs ws
  by unfold_locales (auto simp: EditWorkspaceDialog_def call_simps split: sum.splits option.splits if_splits)

interpretation new_record: form_dialog "CreateRecordDialog fs connId ns s" for fs connId ns s
  by unfold_locales (auto simp: CreateRecordDialog_def check_record_def Let_def call_simps split: sum.splits option.splits if_splits)

interpretation new_set: form_dialog "CreateSetDialog fs connId ns" for fs connId ns
  by unfold_locales (auto simp: CreateSetDialog_def check_set_def Let_def call_simps split: sum.splits option.splits if_splits)

interpretation sample: form_dialog "CreateSampleDataDialog fs loc connId nss dflt" for fs loc connId nss dflt
  by unfold_locales (auto simp: CreateSampleDataDialog_def check_sample_def Let_def call_simps split: sum.splits option.splits if_splits)

interpretation new_index: form_dialog "CreateIndexDialog fs connId" for fs connId
  by unfold_locales (auto simp: CreateIndexDialog_def check_index_def Let_def call_simps split: sum.splits option.splits if_splits)

interpretation new_udf: form_dialog "RegisterUdfDialog fs connId" for fs connId
  by unfold_locales (auto simp: RegisterUdfDialog_def check_udf_def Let_def call_simps split: sum.splits option.splits if_splits)

interpretation new_user: form_dialog "CreateUserDialog fs clusterId" for fs clusterId
  by unfold_locales (auto simp: CreateUserDialog_def check_user_def Let_def call_simps split: sum.splits option.splits if_splits)

interpretation new_role: form_dialog "CreateRoleDialog fs clusterId" for fs clusterId
  by unfold_locales (auto simp: CreateRoleDialog_def check_role_def Let_def call_simps split: sum.splits option.splits if_splits)

interpretation guide: form_dialog "GuideEditorDialog fs starter ws gt existing" for fs starter ws gt existing
  by unfold_locales (auto simp: GuideEditorDialog_def check_guide_def Let_def call_simps split: sum.splits option.splits if_splits)

section \<open>Properties\<close>

subsection \<open>Connection forms\<close>

definition host_ok :: "string \<Rightarrow> bool" where
  "host_ok h \<longleftrightarrow> h \<noteq> [] \<and> trim h = h \<and> CHR '','' \<notin> set h"

lemma trim_subset: "set (trim s) \<subseteq> set s"
  unfolding trim_def trimEnd_def trimStart_def by (metis set_dropWhileD set_rev subsetI)

lemma comma_list_ok: "\<forall>h \<in> set (comma_list s). host_ok h"
proof
  fix h assume "h \<in> set (comma_list s)"
  then obtain w where w: "w \<in> set (splitOn (CHR '','') s)" "h = trim w" "h \<noteq> []" by (auto simp: comma_list_def)
  then have "CHR '','' \<notin> set h" using splitOn_no_sep [of "CHR '',''" s] trim_subset [of w] by blast
  with w show "host_ok h" by (simp add: host_ok_def)
qed

lemma trim_space [simp]: "trim (CHR '' '' # s) = trim s"
  by (simp add: trim_def trimStart_def is_ws_def)

lemma splitOn_comma_join:
  "\<forall>h \<in> set (h # hs). CHR '','' \<notin> set h \<Longrightarrow>
   splitOn (CHR '','') (joinWith '', '' (h # hs)) = h # map (Cons (CHR '' '')) hs"
proof (induction hs arbitrary: h)
  case (Cons g gs)
  then have "splitOn (CHR '','') (joinWith '', '' (h # g # gs)) = h # splitOn (CHR '','') (CHR '' '' # joinWith '', '' (g # gs))"
    by (simp add: splitOn_append)
  also have "\<dots> = h # (CHR '' '' # g) # map (Cons (CHR '' '')) gs" using Cons by simp
  finally show ?case by simp
qed (simp add: splitOn_single)

lemma comma_list_join: "\<forall>h \<in> set hs. host_ok h \<Longrightarrow> comma_list (joinWith '', '' hs) = hs"
proof (cases hs)
  case (Cons h t)
  assume ok: "\<forall>h \<in> set hs. host_ok h"
  then have "splitOn (CHR '','') (joinWith '', '' hs) = h # map (Cons (CHR '' '')) t"
    unfolding Cons by (intro splitOn_comma_join) (auto simp: host_ok_def)
  moreover have "map trim t = t" "filter (\<lambda>h. h \<noteq> []) t = t" using ok Cons by (auto simp: host_ok_def map_idI filter_id_conv)
  ultimately show ?thesis using ok Cons by (simp add: comma_list_def host_ok_def comp_def)
qed (simp add: comma_list_def)

definition port_ok :: "jsnum \<Rightarrow> bool" where
  "port_ok p \<longleftrightarrow> (case p of Num x \<Rightarrow> of_int \<lfloor>x\<rfloor> = x \<and> 1 \<le> x \<and> x \<le> 65535 | _ \<Rightarrow> False)"

lemma parsed_port_ok:
  "(isFinite (parseInt10 s) \<and> \<not> num_le (parseInt10 s) (inum 0) \<and> \<not> num_less (inum 65535) (parseInt10 s)) = port_ok (parseInt10 s)"
proof (cases "parseInt10 s")
  case (Num x)
  then obtain i where "x = of_int i" using parseInt10_integral [of s] by auto
  then show ?thesis using Num by (auto simp: port_ok_def)
qed (simp_all add: port_ok_def)

definition connection_ok :: "parsed_connection \<Rightarrow> bool" where
  "connection_ok p \<longleftrightarrow>
     pc_name p \<noteq> [] \<and> trim (pc_name p) = pc_name p \<and> pc_hosts p \<noteq> [] \<and> (\<forall>h \<in> set (pc_hosts p). host_ok h) \<and>
     port_ok (pc_port p) \<and> pc_username p \<noteq> Some [] \<and> pc_password p \<noteq> Some [] \<and> pc_note p \<noteq> Some [] \<and>
     pc_color p \<noteq> [] \<and> truthy (obj_get (pc_labels p) ENV_LABEL_KEY) \<and> pc_workspaceId p \<noteq> []"

lemma validated_connection_ok:
  assumes "validate_connection f = Inr p"
  shows "connection_ok p"
  using assms comma_list_ok [of "cf_hosts f"] parsed_port_ok [of "cf_port f"]
  by (auto simp: validate_connection_def connection_ok_def Let_def str_or_def non_empty_def entriesToLabels_def
      with_env_get DEFAULT_COLOR_def DEFAULT_WORKSPACE_ID_def DEFAULT_ENV_VALUE_def split: if_splits)

text \<open>
  C8: Whatever a user does in the dialog, only valid connections leave it, one request at a time. Over
  every sequence of opening, typing, submitting, dismissing and answers, each request sent is the
  creation of a connection with a trimmed name, at least one host (each trimmed, non-empty and free of
  commas), an integral port from 1 to 65535, an environment label and a workspace; and a request is in
  flight exactly while the submit button is disabled.
\<close>

theorem add_connection_sends_valid:
  assumes "dialog_run (AddConnectionDialog fs ws) es (closed_dialog EMPTY_CONNECTION) = Some (d, fl, l)"
  shows "(\<forall>c \<in> set l. \<exists>p. c = createConnection (connection_body p) \<and> connection_ok p) \<and> (fl \<noteq> None \<longleftrightarrow> dl_submitting d)"
proof (intro conjI ballI)
  fix c assume "c \<in> set l"
  with add_conn.sent_checked [OF assms] obtain g where "dc_check (AddConnectionDialog fs ws) g = Inr c" by blast
  then obtain p where "validate_connection g = Inr p" "c = createConnection (connection_body p)"
    by (auto simp: AddConnectionDialog_def split: sum.splits)
  then show "\<exists>p. c = createConnection (connection_body p) \<and> connection_ok p" using validated_connection_ok by blast
qed (rule add_conn.in_flight_iff_submitting [OF assms])

definition demo_connection :: connection_form where
  "demo_connection = EMPTY_CONNECTION\<lparr>cf_name := ''main'', cf_hosts := ''10.0.0.1, 10.0.0.2''\<rparr>"

definition demo_parsed :: parsed_connection where
  "demo_parsed =
     \<lparr>pc_name = ''main'', pc_hosts = [''10.0.0.1'', ''10.0.0.2''], pc_port = inum 3000, pc_username = None, pc_password = None,
      pc_color = DEFAULT_COLOR, pc_note = None, pc_labels = [(''env'', ''default'')], pc_workspaceId = ''ws-default''\<rparr>"

lemma demo_accepted: "validate_connection demo_connection = Inr demo_parsed"
proof -
  have "int_str 3000 = ''3000''" by code_simp
  then have "parseInt10 ''3000'' = inum 3000" using parseInt10_int_str [of 3000] by simp
  moreover have "comma_list ''10.0.0.1, 10.0.0.2'' = [''10.0.0.1'', ''10.0.0.2'']" by code_simp
  moreover have "entriesToLabels [(ENV_LABEL_KEY, DEFAULT_ENV_VALUE)] = [(''env'', ''default'')]" by code_simp
  moreover have "trim ''main'' = ''main''" by code_simp
  ultimately show ?thesis
    by (simp add: validate_connection_def demo_connection_def EMPTY_CONNECTION_def demo_parsed_def str_or_def
        DEFAULT_COLOR_def DEFAULT_WORKSPACE_ID_def)
qed

theorem add_connection_sends_valid_witness:
  "\<exists>d fl c. dialog_run (AddConnectionDialog (\<lambda>_. []) ''ws-1'') [DOpen, DType demo_connection, DSubmit] (closed_dialog EMPTY_CONNECTION) =
     Some (d, fl, [c]) \<and> dl_submitting d \<and> (\<exists>p. c = createConnection (connection_body p) \<and> connection_ok p)"
proof -
  obtain d fl c where run: "dialog_run (AddConnectionDialog (\<lambda>_. []) ''ws-1'') [DOpen, DType demo_connection, DSubmit]
      (closed_dialog EMPTY_CONNECTION) = Some (d, fl, [c])" "dl_submitting d"
    by (simp add: closed_dialog_def AddConnectionDialog_def dialog_submit_def demo_accepted)
  with add_connection_sends_valid [OF run(1)] show ?thesis by auto
qed

text \<open>A connection profile as the backend stores it.\<close>

definition profile_ok :: "connection_profile \<Rightarrow> bool" where
  "profile_ok c \<longleftrightarrow>
     cp_name c \<noteq> [] \<and> trim (cp_name c) = cp_name c \<and> cp_hosts c \<noteq> [] \<and> (\<forall>h \<in> set (cp_hosts c). host_ok h) \<and>
     (\<exists>i. cp_port c = inum i \<and> 1 \<le> i \<and> i \<le> 65535) \<and> cp_color c \<noteq> [] \<and>
     (\<forall>n. cp_note c = Some n \<longrightarrow> n \<noteq> [] \<and> trim n = n) \<and>
     (\<forall>m. cp_labels c = Some m \<longrightarrow> wf_obj m \<and> (\<forall>k \<in> set (obj_keys m). trim k = k \<and> k \<noteq> [])) \<and>
     (\<exists>w. cp_workspaceId c = Some w \<and> w \<noteq> [])"

text \<open>
  C29: Opening the edit dialog on a stored connection and saving it unchanged writes the connection
  back as it was: the form is accepted, the request addresses that connection, its fields are
  the stored name, hosts, port, colour, note and workspace, its labels look up as the list shows
  them, and the user name and password are not part of the request at all.
\<close>

theorem edit_connection_roundtrip:
  assumes "profile_ok c"
  shows "\<exists>p. dc_check (EditConnectionDialog fs c) (fromConnection fs c) = Inr (updateConnection (cp_id c) (edited_connection_body p)) \<and>
    pc_name p = cp_name c \<and> pc_hosts p = cp_hosts c \<and> pc_port p = cp_port c \<and> pc_color p = cp_color c \<and>
    pc_note p = cp_note c \<and> Some (pc_workspaceId p) = cp_workspaceId c \<and>
    obj_get (pc_labels p) = obj_get (ensureEnvLabel (cp_labels c)) \<and>
    json_field (edited_connection_body p) ''username'' = None \<and> json_field (edited_connection_body p) ''password'' = None"
proof -
  from assms obtain i w where port: "cp_port c = inum i" "1 \<le> i" "i \<le> 65535" and ws: "cp_workspaceId c = Some w" "w \<noteq> []"
    by (auto simp: profile_ok_def)
  have parsed: "parseInt10 (num_str fs (cp_port c)) = inum i" using port by simp
  have noted: "non_empty (trim (nullish (cp_note c) [])) = cp_note c"
    using assms by (cases "cp_note c") (auto simp: profile_ok_def non_empty_def)
  have labels: "obj_get (entriesToLabels (labelsToEntries (nullish (cp_labels c) []))) = obj_get (ensureEnvLabel (cp_labels c))"
    using assms labels_roundtrip [of "nullish (cp_labels c) []"]
    by (cases "cp_labels c") (auto simp: profile_ok_def ensureEnvLabel_def fun_eq_iff)
  have "\<exists>p. validate_connection (fromConnection fs c) = Inr p \<and>
      pc_name p = cp_name c \<and> pc_hosts p = cp_hosts c \<and> pc_port p = cp_port c \<and> pc_color p = cp_color c \<and>
      pc_note p = cp_note c \<and> Some (pc_workspaceId p) = cp_workspaceId c \<and>
      obj_get (pc_labels p) = obj_get (ensureEnvLabel (cp_labels c))"
    using assms port ws parsed noted labels comma_list_join [of "cp_hosts c"]
    by (simp add: validate_connection_def fromConnection_def profile_ok_def Let_def str_or_def)
  then obtain p where p: "validate_connection (fromConnection fs c) = Inr p"
      "pc_name p = cp_name c \<and> pc_hosts p = cp_hosts c \<and> pc_port p = cp_port c \<and> pc_color p = cp_color c \<and>
       pc_note p = cp_note c \<and> Some (pc_workspaceId p) = cp_workspaceId c \<and>
       obj_get (pc_labels p) = obj_get (ensureEnvLabel (cp_labels c))" by blast
  moreover have "json_field (edited_connection_body p) k = None" if "k \<in> {''username'', ''password''}" for k
    using that by (auto simp: edited_connection_body_def json_field_def)
  ultimately show ?thesis by (intro exI [of _ p]) (simp add: EditConnectionDialog_def)
qed

theorem edit_connection_roundtrip_witness:
  "\<exists>p. dc_check (EditConnectionDialog (\<lambda>_. []) (sample_connection\<lparr>cp_workspaceId := Some ''w''\<rparr>))
         (fromConnection (\<lambda>_. []) (sample_connection\<lparr>cp_workspaceId := Some ''w''\<rparr>)) =
       Inr (updateConnection ''c1'' (edited_connection_body p)) \<and> pc_hosts p = [''h'']"
proof -
  let ?c = "sample_connection\<lparr>cp_workspaceId := Some ''w''\<rparr>"
  have "host_ok ''h''" "trim ''main'' = ''main''" unfolding host_ok_def by code_simp+
  moreover have "\<exists>i. cp_port ?c = inum i \<and> 1 \<le> i \<and> i \<le> 65535"
    by (intro exI [of _ 3000]) (simp add: sample_connection_def)
  ultimately have "profile_ok ?c" by (simp add: profile_ok_def sample_connection_def)
  from edit_connection_roundtrip [OF this, of "\<lambda>_. []"] show ?thesis by (auto simp: sample_connection_def)
qed

subsection \<open>Answers that come late\<close>

text \<open>
  An answer is not tied to the form it belongs to. When the user dismisses the dialog while a
  valid connection is being created, opens it again and has filled in another one, the success of
  the first request empties the form and closes the dialog, and nothing was sent for the second.
\<close>

theorem late_success_discards_draft:
  assumes "dc_check (AddConnectionDialog fs ws) f = Inr c"
  shows "\<exists>d. dialog_run (AddConnectionDialog fs ws) [DOpen, DType f, DSubmit, DDismiss, DOpen, DType g, DSettled (Value v)]
      (closed_dialog EMPTY_CONNECTION) = Some (d, None, [c]) \<and> \<not> dl_open d \<and> dl_form d = EMPTY_CONNECTION"
proof -
  have "validate_connection f \<noteq> Inl e" for e using assms by (auto simp: AddConnectionDialog_def)
  then obtain p where "validate_connection f = Inr p" by (cases "validate_connection f") auto
  with assms show ?thesis
    by (simp add: closed_dialog_def AddConnectionDialog_def dialog_submit_def dialog_settled_def)
qed

theorem late_success_discards_draft_witness:
  "\<exists>d c. dialog_run (AddConnectionDialog (\<lambda>_. []) ''ws-1'')
     [DOpen, DType demo_connection, DSubmit, DDismiss, DOpen, DType (demo_connection\<lparr>cf_name := ''second''\<rparr>), DSettled (Value Undefined)]
     (closed_dialog EMPTY_CONNECTION) = Some (d, None, [c]) \<and> dl_form d = EMPTY_CONNECTION"
proof -
  have "dc_check (AddConnectionDialog (\<lambda>_. []) ''ws-1'') demo_connection = Inr (createConnection (connection_body demo_parsed))"
    by (simp add: AddConnectionDialog_def demo_accepted)
  from late_success_discards_draft [OF this, of "demo_connection\<lparr>cf_name := ''second''\<rparr>" Undefined] show ?thesis by blast
qed

text \<open>A failure that comes after the dialog was dismissed is shown on the empty form the next time it opens.\<close>

lemma late_failure_shown_on_fresh_form:
  assumes "dc_check (AddConnectionDialog fs ws) f = Inr c"
  shows "\<exists>d. dialog_run (AddConnectionDialog fs ws) [DOpen, DType f, DSubmit, DDismiss, DSettled (Throws e), DOpen]
      (closed_dialog EMPTY_CONNECTION) = Some (d, None, [c]) \<and> dl_form d = EMPTY_CONNECTION\<lparr>cf_workspaceId := ws\<rparr> \<and>
      dl_error d = Some (caught_text fs ''Failed to create connection.'' e)"
proof -
  have "validate_connection f \<noteq> Inl e" for e using assms by (auto simp: AddConnectionDialog_def)
  then obtain p where "validate_connection f = Inr p" by (cases "validate_connection f") auto
  with assms show ?thesis
    by (simp add: closed_dialog_def AddConnectionDialog_def dialog_submit_def dialog_settled_def)
qed

subsection \<open>Roles and users\<close>

lemma unscoped_set_None: "unscoped_set ps = None \<longleftrightarrow> (\<forall>p \<in> set ps. trim (pr_set p) = [] \<or> trim (pr_ns p) \<noteq> [])"
  by (induction ps) auto

definition quota_ok :: "json \<Rightarrow> bool" where
  "quota_ok j \<longleftrightarrow> (case j of JNull \<Rightarrow> True | JNum (Num x) \<Rightarrow> of_int \<lfloor>x\<rfloor> = x \<and> 0 \<le> x | _ \<Rightarrow> False)"

lemma parse_quota_ok: "parse_quota which raw = Inr j \<Longrightarrow> quota_ok j"
proof -
  assume q: "parse_quota which raw = Inr j"
  have int: "of_int \<lfloor>x\<rfloor> = x" if "parseInt10 s = Num x" for s x
    using parseInt10_integral [OF that] by auto
  show ?thesis
  proof (cases "parseInt10 (trim raw)")
    case (Num x)
    with q int [OF Num] show ?thesis by (auto simp: parse_quota_def quota_ok_def Let_def split: if_splits)
  qed (use q in \<open>auto simp: parse_quota_def quota_ok_def Let_def split: if_splits\<close>)
qed

definition privilege_scoped :: "json \<Rightarrow> bool" where
  \<comment> \<open>a set only together with a namespace\<close>
  "privilege_scoped p \<longleftrightarrow> json_field p ''set'' = Some JNull \<or> json_field p ''namespace'' \<noteq> Some JNull"

lemma privilege_scoped_json: "privilege_scoped (privilege_json p) \<longleftrightarrow> trim (pr_set p) = [] \<or> trim (pr_ns p) \<noteq> []"
  by (simp add: privilege_scoped_def privilege_json_def json_field_def opt_text_def)

text \<open>
  A role the dialog sends is well formed: it has a name and at least one privilege, no privilege
  names a set without its namespace, every whitelist entry is a trimmed, non-empty text without
  commas, and both quotas are absent or integers that are not negative.
\<close>

theorem role_request_well_formed:
  assumes "check_role clusterId f = Inr c"
  shows "\<exists>name ps wl rq wq. c = createRole clusterId
      (JObj [(''name'', JStr name), (''privileges'', JArr ps),
             (''whitelist'', if wl = [] then JNull else JArr (map JStr wl)), (''readQuota'', rq), (''writeQuota'', wq)]) \<and>
    name \<noteq> [] \<and> trim name = name \<and> ps \<noteq> [] \<and> list_all privilege_scoped ps \<and> list_all host_ok wl \<and> quota_ok rq \<and> quota_ok wq"
proof -
  from assms obtain rq wq where
    parts: "trim (ro_name f) \<noteq> []" "ro_privileges f \<noteq> []" "unscoped_set (ro_privileges f) = None"
      "parse_quota ''Read'' (ro_readQuota f) = Inr rq" "parse_quota ''Write'' (ro_writeQuota f) = Inr wq"
    and c: "c = createRole clusterId
      (JObj [(''name'', JStr (trim (ro_name f))), (''privileges'', JArr (map privilege_json (ro_privileges f))),
             (''whitelist'', if comma_list (ro_whitelist f) = [] then JNull else JArr (map JStr (comma_list (ro_whitelist f)))),
             (''readQuota'', rq), (''writeQuota'', wq)])"
    by (auto simp: check_role_def Let_def split: if_splits option.splits sum.splits)
  have "list_all privilege_scoped (map privilege_json (ro_privileges f))"
    using parts(3) by (simp add: list_all_iff privilege_scoped_json unscoped_set_None)
  moreover have "list_all host_ok (comma_list (ro_whitelist f))" using comma_list_ok by (simp add: list_all_iff)
  ultimately show ?thesis using parts parse_quota_ok unfolding c by (intro exI conjI) auto
qed

definition demo_role :: role_form where
  "demo_role = EMPTY_ROLE\<lparr>ro_name := '' ops '', ro_privileges := [\<lparr>pr_code = ''read'', pr_ns = ''test'', pr_set = ''users''\<rparr>]\<rparr>"

lemma demo_role_accepted: "\<exists>c. check_role ''c1'' demo_role = Inr c"
  by (simp add: check_role_def demo_role_def EMPTY_ROLE_def parse_quota_def trim_def trimStart_def trimEnd_def is_ws_def Let_def)

theorem role_request_well_formed_witness:
  "\<exists>c name ps wl rq wq. check_role ''c1'' demo_role = Inr c \<and> c = createRole ''c1''
      (JObj [(''name'', JStr name), (''privileges'', JArr ps),
             (''whitelist'', if wl = [] then JNull else JArr (map JStr wl)), (''readQuota'', rq), (''writeQuota'', wq)]) \<and>
    ps \<noteq> [] \<and> list_all privilege_scoped ps"
  using demo_role_accepted role_request_well_formed [of "''c1''" demo_role] by blast

subsection \<open>Notes\<close>

text \<open>An empty draft is neither saved nor deleted, against the description of the component.\<close>

lemma empty_note_refused: "snd (note_handleSave n) = None \<longleftrightarrow> trim (ns_draft n) = []"
  by (simp add: note_handleSave_def Let_def)

lemma save_failure_keeps_draft:
  "ns_draft (note_saved fs (Some e) n) = ns_draft n \<and> ns_isEditing (note_saved fs (Some e) n) = ns_isEditing n \<and>
   \<not> ns_saving (note_saved fs (Some e) n)"
  by (simp add: note_saved_def)

text \<open>A background change of the note never touches the draft that is being edited.\<close>

lemma editing_protects_draft: "ns_isEditing n \<Longrightarrow> ns_draft (note_changed v n) = ns_draft n"
  by (simp add: note_changed_def)

end
