(* ===== verification/App_Shell.thy ===== *)
theory App_Shell
  imports Dialogs Api_Client
begin

text \<open>
  The shell around the pages: the boot sequence that decides between single-cluster mode, sign-in and
  the application (\<^verbatim>\<open>ui/src/components/AuthProvider.tsx\<close>), the switcher of backends with its health
  checks (\<^verbatim>\<open>ui/navigation/ClusterSelector.tsx\<close>) and the workspace switcher
  (\<^verbatim>\<open>ui/navigation/WorkspacesDropdown.tsx\<close>), the sidebar (\<^verbatim>\<open>ui/navigation/Sidebar.tsx\<close>) and the
  addresses of the pages (\<^verbatim>\<open>app/siteConfig.ts\<close>, \<^verbatim>\<open>lib/utils.ts\<close>).
\<close>

section \<open>Boot (AuthProvider.tsx)\<close>

datatype boot_state = BLoading | BSingleCluster | BReady | BError

record boot =
  bo_state :: boot_state
  bo_errorMsg :: "string option"
  bo_cancelled :: bool
  bo_logins :: "string list" \<comment> \<open>the \<open>redirectUri\<close> of every login that was started\<close>

definition PUBLIC_PATHS :: "string list" where
  "PUBLIC_PATHS = [''/silent-check-sso.html'']"

definition isPublicPath :: "string \<Rightarrow> bool" where
  "isPublicPath pathname \<longleftrightarrow> pathname \<in> set PUBLIC_PATHS"

definition initialBootState :: "string option \<Rightarrow> boot_state" where
  \<comment> \<open>from \<open>NEXT_PUBLIC_CLUSTER_REGISTRY_ENABLED\<close>\<close>
  "initialBootState flag = (if flag = Some ''true'' then BLoading else BSingleCluster)"

definition initial_boot :: "string option \<Rightarrow> boot" where
  "initial_boot flag = \<lparr>bo_state = initialBootState flag, bo_errorMsg = None, bo_cancelled = False, bo_logins = []\<rparr>"

definition registry_settled :: "string + cluster_registry \<Rightarrow> boot \<Rightarrow> boot \<times> bool" where
  \<comment> \<open>after \<open>hydrateClusterRegistry\<close>; the flag: the effect goes on to \<open>initKeycloak\<close>\<close>
  "registry_settled r b =
     (if bo_cancelled b then (b, False)
      else case r of Inl _ \<Rightarrow> (b\<lparr>bo_state := BSingleCluster\<rparr>, False) | Inr _ \<Rightarrow> (b, True))"

definition keycloak_settled :: "string \<Rightarrow> string \<Rightarrow> string + keycloak_instance \<Rightarrow> boot \<Rightarrow> boot" where
  \<comment> \<open>after \<open>initKeycloak\<close>, which gave the text of an error or the instance\<close>
  "keycloak_settled path href r b =
     (if bo_cancelled b then b
      else case r of
        Inl e \<Rightarrow> b\<lparr>bo_errorMsg := Some e, bo_state := BError\<rparr>
      | Inr kc \<Rightarrow>
          if \<not> authenticated kc \<and> \<not> isPublicPath path then b\<lparr>bo_logins := bo_logins b @ [href]\<rparr>
          else b\<lparr>bo_state := BReady\<rparr>)"

definition login_rejected :: "string \<Rightarrow> boot \<Rightarrow> boot" where
  \<comment> \<open>\<open>kc.login\<close> rejected\<close>
  "login_rejected e b = (if bo_cancelled b then b else b\<lparr>bo_errorMsg := Some e, bo_state := BError\<rparr>)"

definition boot_unmount :: "boot \<Rightarrow> boot" where
  "boot_unmount b = b\<lparr>bo_cancelled := True\<rparr>"

datatype shell_view = VSigningIn | VError "string option" | VRedirecting | VChildren

definition shell_view :: "selector_store \<Rightarrow> string option \<Rightarrow> boot \<Rightarrow> shell_view" where
  \<comment> \<open>what is rendered, with the store's registry and access token\<close>
  "shell_view s token b =
     (case bo_state b of
        BLoading \<Rightarrow> VSigningIn
      | BError \<Rightarrow> VError (bo_errorMsg b)
      | BReady \<Rightarrow> if registry s \<noteq> None \<and> \<not> truthy token then VRedirecting else VChildren
      | BSingleCluster \<Rightarrow> VChildren)"

definition boot_run ::
  "string option \<Rightarrow> registry_fetch \<Rightarrow> string \<Rightarrow> string \<Rightarrow> fetched_config \<Rightarrow> kc_init \<Rightarrow>
   selector_store \<times> keycloak_module \<Rightarrow> boot \<times> selector_store \<times> keycloak_module" where
  \<comment> \<open>the whole effect, when the component stays mounted\<close>
  "boot_run flag f path href res kinit st =
     (let (reg, s) = registry_outcome f (fst st);
          (b, go) = registry_settled reg (initial_boot flag)
      in if go then (let (kc, m) = initKeycloak res kinit (snd st) in (keycloak_settled path href kc b, s, m))
         else (b, s, snd st))"

section \<open>Backends (ClusterSelector.tsx)\<close>

datatype health = HOk | HFail | HChecking

fun dotLabel :: "health \<Rightarrow> string" where
  "dotLabel HOk = ''Healthy''"
| "dotLabel HFail = ''Unreachable''"
| "dotLabel HChecking = ''Checking''"

definition strip_slashes :: "string \<Rightarrow> string" where
  \<comment> \<open>\<open>replace(/\/+$/, "")\<close>\<close>
  "strip_slashes s = rev (dropWhile (\<lambda>c. c = CHR ''/'') (rev s))"

definition health_url :: "string \<Rightarrow> string" where
  "health_url api = strip_slashes api @ ''/api/health''"

definition pingHealth :: "fetch_outcome \<Rightarrow> bool" where
  "pingHealth r = (case r of Fetched res \<Rightarrow> response_ok res | _ \<Rightarrow> False)"

definition health_checking :: "cluster_entry list \<Rightarrow> (string, health) jsmap \<Rightarrow> (string, health) jsmap" where
  \<comment> \<open>the effect, up to the answers\<close>
  "health_checking cs state =
     (if cs = [] then state else foldl (\<lambda>m c. obj_set (ce_id c) HChecking m) [] cs)"

definition health_answered :: "bool \<Rightarrow> (string \<times> bool) list \<Rightarrow> (string, health) jsmap \<Rightarrow> (string, health) jsmap" where
  "health_answered cancelled results state =
     (if cancelled then state else foldl (\<lambda>m (i, ok). obj_set i (if ok then HOk else HFail) m) state results)"

definition shown_cluster :: "selector_store \<Rightarrow> cluster_entry option" where
  \<comment> \<open>\<open>current\<close>; \<open>None\<close>: the selector is not rendered\<close>
  "shown_cluster s =
     (case registry s of
        None \<Rightarrow> None
      | Some reg \<Rightarrow>
          if length (clusters reg) = 0 then None
          else (case find (\<lambda>c. Some (ce_id c) = currentClusterId s) (clusters reg) of
             Some c \<Rightarrow> Some c
           | None \<Rightarrow>
               (case find (\<lambda>c. ce_id c = defaultClusterId reg) (clusters reg) of
                  Some c \<Rightarrow> Some c
                | None \<Rightarrow> Some (clusters reg ! 0))))"

definition shown_health :: "(string, health) jsmap \<Rightarrow> cluster_entry option \<Rightarrow> health" where
  "shown_health state c = (case c of None \<Rightarrow> HChecking | Some e \<Rightarrow> nullish (obj_get state (ce_id e)) HChecking)"

section \<open>Workspaces (WorkspacesDropdown.tsx)\<close>

definition visible_workspaces ::
  "workspace_response list option \<Rightarrow> connection_profile list option \<Rightarrow> workspace_response list option" where
  "visible_workspaces data conns =
     (case data of
        None \<Rightarrow> None
      | Some ws \<Rightarrow>
          (case conns of
             None \<Rightarrow> Some ws
           | Some cs \<Rightarrow>
               if \<not> list_ex (\<lambda>w. \<not> wr_isDefault w) ws then Some ws
               else Some (filter (\<lambda>w. \<not> wr_isDefault w \<or> list_ex (\<lambda>c. cp_workspaceId c = Some (wr_id w)) cs) ws)))"

definition workspace_fallback :: "workspace_response list \<Rightarrow> workspace_response" where
  "workspace_fallback ws = (case find (\<lambda>w. wr_id w = DEFAULT_WORKSPACE_ID) ws of Some w \<Rightarrow> w | None \<Rightarrow> ws ! 0)"

definition reconcile_workspace :: "workspace_response list option \<Rightarrow> ui_store \<Rightarrow> ui_store" where
  \<comment> \<open>the effect\<close>
  "reconcile_workspace visible u =
     (case visible of
        None \<Rightarrow> u
      | Some ws \<Rightarrow>
          if length ws = 0 \<or> list_ex (\<lambda>w. wr_id w = currentWorkspaceId u) ws then u
          else setCurrentWorkspaceId (wr_id (workspace_fallback ws)) u)"

definition current_workspace :: "workspace_response list option \<Rightarrow> ui_store \<Rightarrow> workspace_response option" where
  "current_workspace visible u =
     (case visible of
        None \<Rightarrow> None
      | Some ws \<Rightarrow>
          (case find (\<lambda>w. wr_id w = currentWorkspaceId u) ws of
             Some w \<Rightarrow> Some w
           | None \<Rightarrow>
               (case find (\<lambda>w. wr_id w = DEFAULT_WORKSPACE_ID) ws of
                  Some w \<Rightarrow> Some w
                | None \<Rightarrow> (case ws of [] \<Rightarrow> None | w # _ \<Rightarrow> Some w))))"

definition workspace_deleted :: "string \<Rightarrow> ui_store \<Rightarrow> ui_store" where
  \<comment> \<open>\<open>onDeleted\<close>\<close>
  "workspace_deleted deletedId u =
     (if deletedId = currentWorkspaceId u then setCurrentWorkspaceId DEFAULT_WORKSPACE_ID u else u)"

section \<open>Addresses of the pages (siteConfig.ts, utils.ts)\<close>

definition nav_set :: "string \<Rightarrow> string \<Rightarrow> string \<Rightarrow> string" where
  \<comment> \<open>\<open>clusterSections.set\<close>\<close>
  "nav_set clusterId namespace s =
     ''/clusters/'' @ clusterId @ ''/sets/'' @ encodeURIComponent namespace @ ''/'' @ encodeURIComponent s"

definition nav_record :: "string \<Rightarrow> string \<Rightarrow> string \<Rightarrow> string \<Rightarrow> string" where
  \<comment> \<open>\<open>clusterSections.record\<close>\<close>
  "nav_record clusterId namespace s key =
     ''/clusters/'' @ clusterId @ ''/sets/'' @ encodeURIComponent namespace @ ''/'' @ encodeURIComponent s @
     ''/records/'' @ encodeURIComponent key"

definition hex_char :: "char \<Rightarrow> bool" where
  "hex_char c \<longleftrightarrow> is_digit c \<or> (97 \<le> code c \<and> code c \<le> 102) \<or> (65 \<le> code c \<and> code c \<le> 70)"

definition pct_byte :: "string \<Rightarrow> (nat \<times> string) option" where
  \<comment> \<open>an escaped byte at the start\<close>
  "pct_byte s =
     (case s of
        p # a # b # t \<Rightarrow> if p = CHR ''%'' \<and> hex_char a \<and> hex_char b then Some (16 * unhex a + unhex b, t) else None
      | _ \<Rightarrow> None)"

lemma pct_byte_rest: "pct_byte s = Some (n, t) \<Longrightarrow> length t < length s"
  by (auto simp: pct_byte_def split: list.splits if_splits)

function (sequential) safeDecodeURIComponent :: "string \<Rightarrow> string option" where
  \<comment> \<open>\<open>None\<close> for a malformed escape, and for the escapes of code points above U+00FF, which the strings of the model do not have\<close>
  "safeDecodeURIComponent [] = Some []"
| "safeDecodeURIComponent (c # s) =
     (if c \<noteq> CHR ''%'' then map_option (Cons c) (safeDecodeURIComponent s)
      else case pct_byte (c # s) of
        None \<Rightarrow> None
      | Some (n, t) \<Rightarrow>
          if n < 128 then map_option (Cons (char_of n)) (safeDecodeURIComponent t)
          else case pct_byte t of
            None \<Rightarrow> None
          | Some (m, u) \<Rightarrow>
              if n \<in> {194, 195} \<and> 128 \<le> m \<and> m < 192
              then map_option (Cons (char_of ((n - 192) * 64 + (m - 128)))) (safeDecodeURIComponent u) else None)"
  by pat_completeness auto

termination by (relation "measure length") (auto dest!: pct_byte_rest)

definition route_param :: "string \<Rightarrow> string" where
  \<comment> \<open>\<open>safeDecodeURIComponent(params.x) ?? params.x\<close>\<close>
  "route_param p = nullish (safeDecodeURIComponent p) p"

definition nav_active :: "string \<Rightarrow> string \<Rightarrow> bool" where
  \<comment> \<open>\<open>isActive(href)\<close>\<close>
  "nav_active pathname href \<longleftrightarrow> pathname = href \<or> startsWith pathname (href @ ''/'')"

section \<open>The sidebar (Sidebar.tsx)\<close>

record cluster_summary =
  cs_id :: string
  cs_name :: string
  cs_acko :: bool
  cs_namespaces :: "(string \<times> (string \<times> jsnum) list) list"

definition buildClusterList ::
  "connection_profile list option \<Rightarrow> k8s_summary list option \<Rightarrow> (string, (string \<times> (string \<times> jsnum) list) list) jsmap \<Rightarrow>
   string \<Rightarrow> cluster_summary list" where
  "buildClusterList connections k8s nsByConn workspaceId =
     map (\<lambda>c. \<lparr>cs_id = cp_id c, cs_name = cp_name c,
               cs_acko = (case k8s of None \<Rightarrow> False | Some ks \<Rightarrow> find (\<lambda>k. ks_connectionId k = Some (cp_id c)) ks \<noteq> None),
               cs_namespaces = nullish (obj_get nsByConn (cp_id c)) []\<rparr>)
       (filter (\<lambda>c. cp_workspaceId c = Some workspaceId) (nullish connections []))"

definition namespaces_answered ::
  "bool \<Rightarrow> string \<Rightarrow> 'e + 'n list \<Rightarrow> (string, 'n list) jsmap \<Rightarrow> (string, 'n list) jsmap" where
  \<comment> \<open>\<open>useClusterNamespaces\<close>, once \<open>getCluster\<close> has answered\<close>
  "namespaces_answered cancelled activeClusterId r m =
     (if cancelled then m
      else case r of Inr ns \<Rightarrow> obj_set activeClusterId ns m | Inl _ \<Rightarrow> obj_set activeClusterId [] m)"

definition follow_route ::
  "string option \<Rightarrow> connection_profile list option \<Rightarrow> string option \<times> ui_store \<Rightarrow> string option \<times> ui_store" where
  \<comment> \<open>the effect that follows the address into its workspace; the first component is \<open>followedClusterIdRef\<close>.
     Profiles have a workspace, by their type.\<close>
  "follow_route clusterId conns st =
     (case (clusterId, conns) of
        (Some i, Some cs) \<Rightarrow>
          if i = [] \<or> fst st = Some i then st
          else (case find (\<lambda>c. cp_id c = i) cs of
             None \<Rightarrow> st
           | Some target \<Rightarrow>
               (Some i,
                case cp_workspaceId target of
                  Some w \<Rightarrow> if w \<noteq> currentWorkspaceId (snd st) then setCurrentWorkspaceId w (snd st) else snd st
                | None \<Rightarrow> snd st))
      | _ \<Rightarrow> st)"

definition expandedCluster :: "string \<Rightarrow> cluster_summary list \<Rightarrow> string option" where
  "expandedCluster pathname cs = map_option cs_id (find (\<lambda>c. nav_active pathname (''/clusters/'' @ cs_id c)) cs)"

definition sync_open :: "string option \<Rightarrow> string \<Rightarrow> string" where
  \<comment> \<open>the effect on \<open>openCluster\<close>\<close>
  "sync_open expanded open_cluster =
     (case expanded of Some e \<Rightarrow> if e \<noteq> [] \<and> e \<noteq> open_cluster then e else open_cluster | None \<Rightarrow> open_cluster)"

section \<open>Properties of the boot sequence\<close>


definition failed_config :: fetched_config where
  "failed_config = \<lparr>fc_ok = False, fc_status = 404, fc_statusText = ''Not Found'', fc_body = None\<rparr>"

definition demo_registry :: cluster_registry where
  "demo_registry = \<lparr>defaultClusterId = ''c'', clusters = []\<rparr>"


text \<open>
  A registry that cannot be read is taken for one that does not exist. Any failure of the
  registry request (a server error, a lost connection, a malformed file), not only its absence,
  renders the pages in single-cluster mode, without a token and without starting a login.
\<close>

theorem registry_failure_skips_sign_in:
  assumes "fst (registry_outcome f s) = Inl e"
  shows "\<exists>b s'. boot_run flag f path href res kinit (s, m) = (b, s', m) \<and>
    shell_view s' (accessToken (store m)) b = VChildren \<and> bo_logins b = []"
proof -
  obtain s1 where "registry_outcome f s = (Inl e, s1)" using assms by (cases "registry_outcome f s") auto
  then show ?thesis by (simp add: boot_run_def registry_settled_def initial_boot_def shell_view_def)
qed

theorem registry_failure_skips_sign_in_witness:
  "\<exists>b s'. boot_run (Some ''true'') (HttpError 500 ''Internal Server Error'') ''/'' ''https://ui/'' failed_config
      (\<lambda>_. (False, \<lparr>authenticated = False, kc_token = None, tokenParsed = None\<rparr>)) (initial_selector, initial_module) = (b, s', initial_module) \<and>
    shell_view s' (accessToken (store initial_module)) b = VChildren"
proof -
  have "\<exists>e. fst (registry_outcome (HttpError 500 ''Internal Server Error'') initial_selector) = Inl e"
    by (simp add: registry_outcome_def Let_def)
  then show ?thesis using registry_failure_skips_sign_in by blast
qed

section \<open>Properties of the switchers\<close>

text \<open>
  The switcher tells the truth: the backend it shows as selected is the one that requests are
  sent to, in every state of the store.
\<close>

theorem shown_cluster_is_active: "shown_cluster s = getActiveCluster s"
  by (cases "registry s") (auto simp: shown_cluster_def getActiveCluster_def split: option.splits list.splits)

lemma health_set_get:
  "obj_get (foldl (\<lambda>m (i, ok). obj_set i (if ok then HOk else HFail) m) st rs) k =
     (case map_of (rev rs) k of Some ok \<Rightarrow> Some (if ok then HOk else HFail) | None \<Rightarrow> obj_get st k)"
  by (induction rs arbitrary: st) (auto simp: map_add_def split: option.splits)

text \<open>Once the checks of an unchanged list have answered, no backend of it is still being checked.\<close>

lemma health_settles:
  assumes "c \<in> set cs" "map fst results = map ce_id cs"
  shows "shown_health (health_answered False results (health_checking cs st)) (Some c) \<noteq> HChecking"
proof -
  have "ce_id c \<in> set (map fst results)" unfolding assms(2) using assms(1) by simp
  then have "map_of (rev results) (ce_id c) \<noteq> None" by (simp add: map_of_eq_None_iff)
  then obtain ok where "map_of (rev results) (ce_id c) = Some ok" by blast
  then show ?thesis by (simp add: shown_health_def health_answered_def health_set_get)
qed

lemma visible_nonempty:
  assumes "visible_workspaces (Some ws) conns = Some vs" "ws \<noteq> []"
  shows "vs \<noteq> []"
  using assms by (auto simp: visible_workspaces_def list_ex_iff filter_empty_conv split: option.splits if_splits)

lemma fallback_in: "ws \<noteq> [] \<Longrightarrow> workspace_fallback ws \<in> set ws"
  by (auto simp: workspace_fallback_def find_Some_iff split: option.splits)

lemma reconcile_selects:
  assumes "vs \<noteq> []"
  shows "\<exists>w \<in> set vs. wr_id w = currentWorkspaceId (reconcile_workspace (Some vs) u)"
  using assms fallback_in [OF assms] by (auto simp: reconcile_workspace_def setCurrentWorkspaceId_def list_ex_iff)

text \<open>
  C21: The workspace filter never hangs in the air. When the workspaces are loaded and there is one,
  then whatever was selected before, also right after the selected workspace was deleted, one run
  of the effect selects a workspace that is visible in the switcher; it is the one the switcher
  shows, and running the effect again changes nothing.
\<close>

theorem workspace_selection_sound:
  assumes "visible_workspaces (Some ws) conns = Some vs" "ws \<noteq> []"
  shows "\<exists>w. current_workspace (Some vs) (reconcile_workspace (Some vs) (workspace_deleted d u)) = Some w \<and> w \<in> set vs \<and>
    wr_id w = currentWorkspaceId (reconcile_workspace (Some vs) (workspace_deleted d u)) \<and>
    reconcile_workspace (Some vs) (reconcile_workspace (Some vs) (workspace_deleted d u)) =
      reconcile_workspace (Some vs) (workspace_deleted d u)"
proof -
  let ?u = "reconcile_workspace (Some vs) (workspace_deleted d u)"
  obtain v where v: "v \<in> set vs" "wr_id v = currentWorkspaceId ?u"
    using reconcile_selects [OF visible_nonempty [OF assms]] by blast
  then obtain w where w: "find (\<lambda>w. wr_id w = currentWorkspaceId ?u) vs = Some w"
    by (metis (mono_tags, lifting) find_None_iff option.exhaust)
  then have "w \<in> set vs" "wr_id w = currentWorkspaceId ?u" by (auto simp: find_Some_iff)
  moreover have "reconcile_workspace (Some vs) ?u = ?u" using v by (auto simp: reconcile_workspace_def [of _ ?u] list_ex_iff)
  ultimately show ?thesis using w by (simp add: current_workspace_def)
qed

theorem workspace_selection_sound_witness:
  "\<exists>w. current_workspace (Some [\<lparr>wr_id = ''a'', wr_name = ''A'', wr_color = [], wr_description = None, wr_isDefault = False\<rparr>])
     (reconcile_workspace (Some [\<lparr>wr_id = ''a'', wr_name = ''A'', wr_color = [], wr_description = None, wr_isDefault = False\<rparr>])
       (workspace_deleted ''b'' (initial_ui\<lparr>currentWorkspaceId := ''b''\<rparr>))) = Some w \<and> wr_id w = ''a''"
proof -
  let ?ws = "[\<lparr>wr_id = ''a'', wr_name = ''A'', wr_color = [], wr_description = None, wr_isDefault = False\<rparr>]"
  have "visible_workspaces (Some ?ws) None = Some ?ws" by (simp add: visible_workspaces_def)
  from workspace_selection_sound [OF this] show ?thesis by fastforce
qed

section \<open>Properties of addresses\<close>

lemma pct_byte_pct: "n < 256 \<Longrightarrow> pct_byte (pct n @ s) = Some (n, s)"
proof -
  assume "n < 256"
  then have "n div 16 < 16" "n mod 16 < 16" by auto
  moreover have "hex_char (upper_hex_digit d)" if "d < 16" for d
    using that by (auto simp: hex_char_def is_digit_def code_upper_hex_digit)
  ultimately show ?thesis by (simp add: pct_byte_def pct_def)
qed

lemma safeDecode_char: "safeDecodeURIComponent (encode_char c @ s) = map_option (Cons c) (safeDecodeURIComponent s)"
proof (cases "uri_unreserved c")
  case True
  with unreserved_plain [OF True] show ?thesis by (simp add: encode_char_def)
next
  case False
  have lt: "code c < 256" by simp
  have unfold: "safeDecodeURIComponent (pct n @ t) =
      (if n < 128 then map_option (Cons (char_of n)) (safeDecodeURIComponent t)
       else case pct_byte t of
         None \<Rightarrow> None
       | Some (m, u) \<Rightarrow> if n \<in> {194, 195} \<and> 128 \<le> m \<and> m < 192
           then map_option (Cons (char_of ((n - 192) * 64 + (m - 128)))) (safeDecodeURIComponent u) else None)" if "n < 256" for n t
    using pct_byte_pct [OF that, of t] by (simp add: pct_def)
  show ?thesis
  proof (cases "code c < 128")
    case True
    with False unfold [OF lt, of s] show ?thesis by (simp add: encode_char_def utf8_pct_def)
  next
    case high: False
    have "code c div 64 = 2 \<or> code c div 64 = 3" using high lt by linarith
    then have n: "192 + code c div 64 \<in> {194, 195}" "192 + code c div 64 < 256" by auto
    have m: "128 + code c mod 64 < 192" "128 + code c mod 64 < (256 :: nat)" by auto
    have "code c div 64 * 64 + code c mod 64 = code c" by simp
    then show ?thesis
      using False high unfold [OF n(2), of "pct (128 + code c mod 64) @ s"] pct_byte_pct [OF m(2), of s] n m
      by (simp add: encode_char_def utf8_pct_def Let_def)
  qed
qed

lemma safeDecode_encode: "safeDecodeURIComponent (encodeURIComponent s) = Some s"
  by (induction s) (simp_all add: encodeURIComponent_def safeDecode_char)

lemma record_link_segments:
  assumes "\<not> dotty ns" "\<not> dotty s" "\<not> dotty key" "\<not> dotty cid" "encodeURIComponent cid = cid"
  shows "url_path [] (tl (splitOn (CHR ''/'') (nav_record cid ns s key))) =
    [''clusters'', cid, ''sets'', enc ns, enc s, ''records'', enc key]"
proof -
  let ?segs = "[''clusters'', cid, ''sets'', ns, s, ''records'', key]"
  have lit: "enc ''clusters'' = ''clusters''" "enc ''sets'' = ''sets''" "enc ''records'' = ''records''" by code_simp+
  have path: "nav_record cid ns s key = ''/'' @ joinWith ''/'' (map enc ?segs)"
    by (simp add: nav_record_def lit assms(5))
  have "\<forall>x \<in> set ?segs. \<not> dotty x" using assms by (simp add: dotty_def)
  then have "url_path [] (tl (splitOn (CHR ''/'') (nav_record cid ns s key))) = map enc ?segs"
    unfolding path by (subst split_route) (simp_all only: list.sel url_path_plain rev.simps append_Nil list.distinct not_False_eq_True)
  then show ?thesis by (simp add: lit assms(5))
qed

lemma route_param_enc [simp]: "route_param (enc x) = x"
  by (simp add: route_param_def safeDecode_encode)

text \<open>
  Every record can be reached by its link. For a cluster identifier that needs no escaping and
  names that are not dot segments, whatever other characters they hold, the browser sends the address of a record to the record page, and the
  page reads back exactly the namespace, the set and the key the link was built from.
\<close>

theorem record_link_roundtrip:
  assumes "\<not> dotty ns" "\<not> dotty s" "\<not> dotty key" "\<not> dotty cid" "encodeURIComponent cid = cid"
  shows "map route_param (url_path [] (tl (splitOn (CHR ''/'') (nav_record cid ns s key)))) =
    [''clusters'', cid, ''sets'', ns, s, ''records'', key]"
proof -
  have "route_param ''clusters'' = ''clusters''" "route_param ''sets'' = ''sets''" "route_param ''records'' = ''records''"
    by code_simp+
  moreover have "route_param cid = cid" using route_param_enc [of cid] assms(5) by simp
  ultimately show ?thesis by (simp add: record_link_segments [OF assms])
qed

theorem record_link_roundtrip_witness:
  "map route_param (url_path [] (tl (splitOn (CHR ''/'') (nav_record ''c1'' ''test'' ''a/b'' ''50%'')))) =
   [''clusters'', ''c1'', ''sets'', ''test'', ''a/b'', ''records'', ''50%'']"
proof (rule record_link_roundtrip)
  show "encodeURIComponent ''c1'' = ''c1''" by code_simp
qed (simp_all add: dotty_def)

section \<open>Properties of the workspace effects\<close>

definition shell_effects ::
  "string option \<Rightarrow> connection_profile list option \<Rightarrow> workspace_response list option \<Rightarrow> string option \<times> ui_store \<Rightarrow> string option \<times> ui_store" where
  \<comment> \<open>both effects on the selected workspace, for a fixed address and loaded data\<close>
  "shell_effects clusterId conns visible st =
     (let st = follow_route clusterId conns st in (fst st, reconcile_workspace visible (snd st)))"

lemma reconcile_idem: "reconcile_workspace visible (reconcile_workspace visible u) = reconcile_workspace visible u"
proof (cases visible)
  case (Some vs)
  show ?thesis
  proof (cases "vs = []")
    case False
    from reconcile_selects [OF this, of u] Some show ?thesis by (auto simp: reconcile_workspace_def [of _ "reconcile_workspace _ _"] list_ex_iff)
  qed (simp add: Some reconcile_workspace_def)
qed (simp add: reconcile_workspace_def)

lemma follow_settles: "follow_route i cs (fst (follow_route i cs st), u) = (fst (follow_route i cs st), u)"
  by (auto simp: follow_route_def split: option.splits)

text \<open>
  The sidebar and the workspace switcher both write the selected workspace. For a fixed address and
  fixed data the two effects settle after one round and do not fight over it.
\<close>

theorem workspace_effects_settle:
  "shell_effects i cs visible (shell_effects i cs visible st) = shell_effects i cs visible st"
  by (simp add: shell_effects_def Let_def follow_settles reconcile_idem)

text \<open>
  The reference that remembers the followed cluster is never reset: a user who leaves the page of a
  cluster, selects another workspace and opens the same cluster again is not followed a second
  time, so the cluster is missing from the sidebar list.
\<close>

theorem second_visit_not_followed:
  assumes "find (\<lambda>c. cp_id c = i) cs = Some t" "i \<noteq> []" "cp_workspaceId t \<noteq> Some w"
    and "st1 = follow_route (Some i) (Some cs) st"
    and "st2 = follow_route None (Some cs) (fst st1, setCurrentWorkspaceId w (snd st1))"
  shows "currentWorkspaceId (snd (follow_route (Some i) (Some cs) st2)) = w"
  using assms by (cases "fst st = Some i") (auto simp: follow_route_def setCurrentWorkspaceId_def)

end
