(* ===== verification/Row_Widgets.thy ===== *)
theory Row_Widgets
  imports App_Shell
begin

text \<open>
  The pieces of a row of the cluster list, \<^verbatim>\<open>ui/src/components/clusters/\<close>: tones of environments and
  phases, the name with its link, labels, and the address with its copy button; with the colour helper
  of \<^verbatim>\<open>ui/src/lib/utils.ts\<close>. Style classes are left out: a tone is the name of its palette entry.
\<close>

section \<open>Colours (utils.ts, ClusterTable.tsx)\<close>

definition hex_pair :: "string \<Rightarrow> nat" where
  \<comment> \<open>\<open>parseInt(s, 16)\<close> of two hexadecimal digits\<close>
  "hex_pair s = 16 * unhex (s ! 0) + unhex (s ! 1)"

definition hexToRgba :: "string \<Rightarrow> string \<Rightarrow> string option" where
  \<comment> \<open>the second argument is the printed alpha\<close>
  "hexToRgba hex alpha =
     (let h = (if startsWith hex ''#'' then tl hex else hex) in
      if length h = 6 \<and> list_all hex_char h
      then Some (''rgba('' @ nat_str (hex_pair (take 2 h)) @ '', '' @ nat_str (hex_pair (take 2 (drop 2 h))) @ '', '' @
                 nat_str (hex_pair (drop 4 h)) @ '', '' @ alpha @ '')'')
      else None)"

definition nameCellStyle :: "string \<Rightarrow> dict" where
  "nameCellStyle color =
     (case hexToRgba color ''0.1'' of
        None \<Rightarrow> []
      | Some tint \<Rightarrow> if tint = [] then [] else [(''backgroundColor'', tint), (''boxShadow'', ''inset 3px 0 0 '' @ color)])"

section \<open>Tones (envTone.ts, PhaseBadge.tsx)\<close>

datatype env_tone = ToneProd | ToneStage | ToneTest | ToneDev | ToneDefault
  | NoTone \<comment> \<open>a member of \<open>Object.prototype\<close>, which \<open>in\<close> finds as well\<close>

definition getEnvTone :: "string \<Rightarrow> env_tone" where
  "getEnvTone env =
     (let key = toLowerCase env in
      if key = ''prod'' then ToneProd else if key = ''stage'' then ToneStage else if key = ''test'' then ToneTest
      else if key = ''dev'' then ToneDev else if key = ''default'' then ToneDefault
      else if key \<in> {''constructor'', ''__proto__''} then NoTone
      else ToneDefault)"

definition phaseTone :: "string option \<Rightarrow> string \<times> string" where
  \<comment> \<open>label and variant\<close>
  "phaseTone phase =
     (if \<not> truthy phase then (''Unknown'', ''neutral'')
      else (let p = toLowerCase (the phase) in
        if p = ''ready'' \<or> p = ''running'' then (the phase, ''success'')
        else if p = ''error'' \<or> p = ''failed'' then (the phase, ''error'')
        else if p = ''paused'' then (the phase, ''neutral'')
        else (the phase, ''warning'')))"

section \<open>Name and actions (NameLink.tsx, ClusterTable.tsx)\<close>

definition nav_overview :: "string \<Rightarrow> string" where
  "nav_overview clusterId = ''/clusters/'' @ clusterId"

definition NameLink :: "cluster_row \<Rightarrow> string option" where
  \<comment> \<open>the target, when the name is a link\<close>
  "NameLink row = (if truthy (cr_connId row) then Some (nav_overview (the (cr_connId row))) else None)"

datatype row_action = EditProfile connection_profile | NotLinked

definition action_of :: "cluster_row \<Rightarrow> row_action" where
  "action_of r = (case cr_profile r of Some p \<Rightarrow> EditProfile p | None \<Rightarrow> NotLinked)"

section \<open>Labels (LabelsCell.tsx)\<close>

record labels_cell =
  lc_env :: "string option"
  lc_visible :: dict
  lc_overflow :: dict

definition LabelsCell :: "dict \<Rightarrow> bool \<Rightarrow> nat \<Rightarrow> labels_cell option" where
  \<comment> \<open>\<open>None\<close>: the dash of an empty cell\<close>
  "LabelsCell labels hideEnv maxVisible =
     (let envValue = nullish (obj_get labels ENV_LABEL_KEY) ''default'';
          others = filter (\<lambda>(k, v). k \<noteq> ENV_LABEL_KEY) labels
      in if others = [] \<and> hideEnv then None
         else Some \<lparr>lc_env = (if hideEnv then None else Some envValue),
                    lc_visible = take maxVisible others, lc_overflow = drop maxVisible others\<rparr>)"

section \<open>Address (AddressCopyCell.tsx)\<close>

definition formatted_hosts :: "(rat \<Rightarrow> string) \<Rightarrow> string list \<Rightarrow> jsnum \<Rightarrow> string list" where
  "formatted_hosts fs hosts port = map (\<lambda>h. h @ '':'' @ num_str fs port) hosts"

definition seedList :: "(rat \<Rightarrow> string) \<Rightarrow> string list \<Rightarrow> jsnum \<Rightarrow> string" where
  "seedList fs hosts port = joinWith '','' (formatted_hosts fs hosts port)"

definition copyText :: "bool \<Rightarrow> bool \<Rightarrow> bool option \<Rightarrow> bool" where
  \<comment> \<open>whether the clipboard API is there in a secure context, whether it writes, and what
     \<open>execCommand\<close> returns (\<open>None\<close>: the fallback throws)\<close>
  "copyText clipboard written fallback =
     (if clipboard \<and> written then True else case fallback of None \<Rightarrow> False | Some ok \<Rightarrow> ok)"

datatype copy_status = CopyIdle | Copied | CopyError

record copy_cell =
  cc_status :: copy_status
  cc_timer :: "nat option" \<comment> \<open>\<open>resetTimerRef\<close>\<close>
  cc_live :: "nat list" \<comment> \<open>the timers that are set and have not fired\<close>
  cc_next :: nat
  cc_copying :: nat \<comment> \<open>calls of \<open>handleCopy\<close> waiting for the clipboard\<close>
  cc_mounted :: bool

definition initial_cell :: copy_cell where
  "initial_cell = \<lparr>cc_status = CopyIdle, cc_timer = None, cc_live = [], cc_next = 0, cc_copying = 0, cc_mounted = True\<rparr>"

definition clearTimeout :: "nat \<Rightarrow> copy_cell \<Rightarrow> copy_cell" where
  "clearTimeout t c = c\<lparr>cc_live := removeAll t (cc_live c)\<rparr>"

definition clear_ref :: "copy_cell \<Rightarrow> copy_cell" where
  "clear_ref c = (case cc_timer c of Some t \<Rightarrow> clearTimeout t c | None \<Rightarrow> c)"

datatype copy_event = CopyClick | CopyDone bool | TimerFires nat | CellUnmounts

fun copy_step :: "copy_event \<Rightarrow> copy_cell \<Rightarrow> copy_cell option" where
  \<comment> \<open>\<open>None\<close>: the event cannot happen\<close>
  "copy_step CopyClick c = (if cc_mounted c then Some (c\<lparr>cc_copying := Suc (cc_copying c)\<rparr>) else None)"
| "copy_step (CopyDone ok) c =
     (if cc_copying c = 0 then None
      else (let c1 = clear_ref (c\<lparr>cc_copying := cc_copying c - 1, cc_status := if ok then Copied else CopyError\<rparr>)
            in Some (c1\<lparr>cc_timer := Some (cc_next c1), cc_live := cc_live c1 @ [cc_next c1], cc_next := Suc (cc_next c1)\<rparr>)))"
| "copy_step (TimerFires t) c =
     (if t \<in> set (cc_live c) then Some ((clearTimeout t c)\<lparr>cc_status := CopyIdle, cc_timer := None\<rparr>) else None)"
| "copy_step CellUnmounts c =
     (if cc_mounted c then Some ((clear_ref c)\<lparr>cc_timer := None, cc_mounted := False\<rparr>) else None)"

fun copy_run :: "copy_event list \<Rightarrow> copy_cell \<Rightarrow> copy_cell option" where
  "copy_run [] c = Some c"
| "copy_run (e # es) c = Option.bind (copy_step e c) (copy_run es)"

section \<open>Properties\<close>


lemma unhex_bound: "hex_char c \<Longrightarrow> unhex c < 16"
  by (auto simp: hex_char_def unhex_def is_digit_def is_lower_az_def)

lemma hex_pair_bound: "length s = 2 \<Longrightarrow> list_all hex_char s \<Longrightarrow> hex_pair s < 256"
  using unhex_bound [of "s ! 0"] unhex_bound [of "s ! 1"] by (auto simp: hex_pair_def list_all_length)

text \<open>
  A colour is translated exactly when it consists of six hexadecimal digits, with or without a hash, and
  then to components below 256; anything else is refused.
\<close>

theorem hexToRgba_components:
  "(case hexToRgba hex alpha of
      None \<Rightarrow> \<not> (\<exists>h. (hex = h \<or> hex = CHR ''#'' # h) \<and> length h = 6 \<and> list_all hex_char h)
    | Some s \<Rightarrow> \<exists>r g b. r < 256 \<and> g < 256 \<and> b < 256 \<and>
        s = ''rgba('' @ nat_str r @ '', '' @ nat_str g @ '', '' @ nat_str b @ '', '' @ alpha @ '')'')"
proof (cases "hexToRgba hex alpha")
  case None
  have "\<not> hex_char (CHR ''#'')" by (simp add: hex_char_def is_digit_def)
  with None show ?thesis by (cases hex) (auto simp: hexToRgba_def Let_def split: if_splits)
next
  case (Some s)
  define h where "h = (if startsWith hex ''#'' then tl hex else hex)"
  have h: "length h = 6" "list_all hex_char h"
    and s: "s = ''rgba('' @ nat_str (hex_pair (take 2 h)) @ '', '' @ nat_str (hex_pair (take 2 (drop 2 h))) @ '', '' @
                 nat_str (hex_pair (drop 4 h)) @ '', '' @ alpha @ '')''"
    using Some by (auto simp: hexToRgba_def Let_def h_def [symmetric] split: if_splits)
  have "list_all hex_char (take n h)" "list_all hex_char (drop n h)" "list_all hex_char (take n (drop k h))" for n k
    using h(2) by (auto simp: list_all_iff dest: in_set_takeD in_set_dropD)
  then have "hex_pair (take 2 h) < 256" "hex_pair (take 2 (drop 2 h)) < 256" "hex_pair (drop 4 h) < 256"
    using h(1) by (simp_all add: hex_pair_bound)
  with Some s show ?thesis by auto
qed

text \<open>No label is hidden: the chips and the overflow are the labels, in order, without the environment.\<close>

lemma LabelsCell_complete:
  "LabelsCell labels hideEnv m = Some cell \<Longrightarrow>
   lc_visible cell @ lc_overflow cell = filter (\<lambda>(k, v). k \<noteq> ENV_LABEL_KEY) labels \<and> length (lc_visible cell) \<le> m"
  by (auto simp: LabelsCell_def Let_def split: if_splits)

text \<open>The copied seed list reads back as the addresses that are shown, for hosts without commas.\<close>

lemma seedList_roundtrip:
  assumes "hosts \<noteq> []" "\<forall>h \<in> set hosts. CHR '','' \<notin> set h" "CHR '','' \<notin> set (num_str fs port)"
  shows "splitOn (CHR '','') (seedList fs hosts port) = formatted_hosts fs hosts port"
  unfolding seedList_def by (rule splitOn_joinWith) (use assms in \<open>auto simp: formatted_hosts_def\<close>)

definition copy_inv :: "copy_cell \<Rightarrow> bool" where
  "copy_inv c \<longleftrightarrow>
     (\<forall>t \<in> set (cc_live c). t < cc_next c) \<and>
     (cc_mounted c \<longrightarrow>
        cc_live c = (case cc_timer c of None \<Rightarrow> [] | Some t \<Rightarrow> [t]) \<and> (cc_status c \<noteq> CopyIdle \<longleftrightarrow> cc_timer c \<noteq> None))"

lemma copy_step_inv: "copy_step e c = Some c' \<Longrightarrow> copy_inv c \<Longrightarrow> copy_inv c'"
  by (cases e)
    (auto simp: copy_inv_def clear_ref_def clearTimeout_def Let_def less_SucI split: if_splits option.splits)

lemma copy_run_inv: "copy_run es c = Some c' \<Longrightarrow> copy_inv c \<Longrightarrow> copy_inv c'"
  by (induction es arbitrary: c) (auto simp: bind_eq_Some_conv dest: copy_step_inv)

text \<open>
  The feedback of the copy button always ends, and not early. Whatever clicks, clipboard answers and
  timers interleave, while the cell is mounted at most one timer is pending, namely the one of the last
  answer; the cell shows feedback exactly as long as that timer is pending, and its firing returns the
  cell to idle.
\<close>

theorem copy_feedback_ends:
  assumes "copy_run es initial_cell = Some c" "cc_mounted c"
  shows "(cc_status c \<noteq> CopyIdle \<longleftrightarrow> cc_live c \<noteq> []) \<and>
    (\<forall>t \<in> set (cc_live c). cc_timer c = Some t \<and> cc_live c = [t] \<and>
       (\<exists>c'. copy_step (TimerFires t) c = Some c' \<and> cc_status c' = CopyIdle \<and> cc_live c' = []))"
proof -
  have "copy_inv c" using copy_run_inv [OF assms(1)] by (simp add: copy_inv_def initial_cell_def)
  with assms(2) show ?thesis by (auto simp: copy_inv_def clearTimeout_def split: option.splits)
qed

theorem copy_feedback_ends_witness:
  "\<exists>c. copy_run [CopyClick, CopyClick, CopyDone True, CopyDone False] initial_cell = Some c \<and> cc_status c \<noteq> CopyIdle \<and> cc_live c \<noteq> []"
proof -
  have run: "copy_run [CopyClick, CopyClick, CopyDone True, CopyDone False] initial_cell =
      Some \<lparr>cc_status = CopyError, cc_timer = Some 1, cc_live = [1], cc_next = 2, cc_copying = 0, cc_mounted = True\<rparr>"
    by (simp add: initial_cell_def clear_ref_def clearTimeout_def Let_def)
  from copy_feedback_ends [OF run] run show ?thesis by simp
qed

text \<open>
  Unmounting cancels the pending timer, but a copy that is still waiting for the clipboard sets a new
  one afterwards, which nothing cancels.
\<close>

theorem copy_after_unmount_leaks_timer:
  "\<exists>c. copy_run [CopyClick, CellUnmounts, CopyDone ok] initial_cell = Some c \<and> \<not> cc_mounted c \<and> cc_live c \<noteq> []"
  by (simp add: initial_cell_def clear_ref_def Let_def)

text \<open>
  A Kubernetes cluster whose connection is not in the list is shown as not linked, yet its name is a
  link to the page of that connection.
\<close>

theorem unlinked_row_has_link:
  assumes "ks_connectionId k = Some i" "i \<noteq> []"
  shows "action_of (k8s_row k) = NotLinked \<and> NameLink (k8s_row k) = Some (''/clusters/'' @ i)"
  using assms by (simp add: action_of_def NameLink_def k8s_row_def nav_overview_def)

end
