(* ===== verification/Shared_Fetch.thy ===== *)
theory Shared_Fetch
  imports Prelude
begin

text \<open>
  In-flight request coalescing (\<^verbatim>\<open>ui/src/lib/shared-fetch.ts\<close>).

  A promise is a number: its position in the list of all requests ever started. The contract of a
  coalescer is the locale \<open>coalescer\<close>; what its clients need, that a caller never joins a
  request that has already been answered and that requests of one key do not overlap, is proved
  there once, for histories of calls, and holds of the code's coalescer by interpretation. The
  abstract specification is a machine on partial functions, which the code refines.
\<close>

section \<open>The program\<close>

record shared_fetch =
  inFlight :: "(string, nat) jsmap"
  started :: "string list" \<comment> \<open>the key of every request ever started\<close>

definition createSharedFetch :: shared_fetch where
  "createSharedFetch = \<lparr>inFlight = [], started = []\<rparr>"

definition sf_run :: "string \<Rightarrow> shared_fetch \<Rightarrow> nat \<times> shared_fetch" where
  "sf_run key s =
     (case obj_get (inFlight s) key of
        Some existing \<Rightarrow> (existing, s)
      | None \<Rightarrow>
          (let promise = length (started s)
           in (promise, s\<lparr>inFlight := obj_set key promise (inFlight s), started := started s @ [key]\<rparr>)))"

definition sf_settle :: "nat \<Rightarrow> shared_fetch \<Rightarrow> shared_fetch" where
  \<comment> \<open>the \<open>finally\<close> callback of a promise\<close>
  "sf_settle promise s =
     (let key = started s ! promise
      in if obj_get (inFlight s) key = Some promise then s\<lparr>inFlight := obj_del key (inFlight s)\<rparr> else s)"

definition sf_reset :: "shared_fetch \<Rightarrow> shared_fetch" where
  "sf_reset s = s\<lparr>inFlight := []\<rparr>"

definition sf_size :: "shared_fetch \<Rightarrow> nat" where
  "sf_size s = length (inFlight s)"

section \<open>The contract of a coalescer\<close>

datatype sf_op = Run string | Settle nat | Reset

fun settled :: "sf_op list \<Rightarrow> nat set" where
  "settled [] = {}"
| "settled (Settle p # os) = insert p (settled os)"
| "settled (_ # os) = settled os"

lemma settled_iff: "p \<in> settled os \<longleftrightarrow> Settle p \<in> set os"
  by (induction os rule: settled.induct) auto

locale coalescer =
  fixes init :: 's
    and run :: "string \<Rightarrow> 's \<Rightarrow> nat \<times> 's"
    and settle :: "nat \<Rightarrow> 's \<Rightarrow> 's"
    and reset :: "'s \<Rightarrow> 's"
    and pending :: "'s \<Rightarrow> string \<Rightarrow> nat option" \<comment> \<open>what a call for a key would join\<close>
    and issued :: "'s \<Rightarrow> string list" \<comment> \<open>the keys of the requests sent\<close>
    and ok :: "'s \<Rightarrow> bool"
  assumes init_ok: "ok init" and init_empty: "pending init k = None" "issued init = []"
    and run_ok: "ok s \<Longrightarrow> ok (snd (run k s))"
    and run_join: "ok s \<Longrightarrow> pending s k = Some p \<Longrightarrow> run k s = (p, s)"
    and run_start: "ok s \<Longrightarrow> pending s k = None \<Longrightarrow>
          fst (run k s) = length (issued s) \<and> issued (snd (run k s)) = issued s @ [k] \<and>
          pending (snd (run k s)) = (pending s)(k \<mapsto> length (issued s))"
    and settle_ok: "ok s \<Longrightarrow> p < length (issued s) \<Longrightarrow> ok (settle p s)"
    and settle_pending: "ok s \<Longrightarrow> p < length (issued s) \<Longrightarrow>
          pending (settle p s) = (\<lambda>k. if pending s k = Some p then None else pending s k)"
    and settle_issued: "issued (settle p s) = issued s"
    and reset_ok: "ok s \<Longrightarrow> ok (reset s)"
    and reset_pending: "pending (reset s) k = None" and reset_issued: "issued (reset s) = issued s"
begin

fun exec :: "sf_op list \<Rightarrow> 's \<Rightarrow> 's" where
  "exec [] s = s"
| "exec (Run k # os) s = exec os (snd (run k s))"
| "exec (Settle p # os) s = exec os (settle p s)"
| "exec (Reset # os) s = exec os (reset s)"

fun valid :: "sf_op list \<Rightarrow> 's \<Rightarrow> bool" where
  \<comment> \<open>only promises that were handed out settle\<close>
  "valid [] s = True"
| "valid (Run k # os) s = valid os (snd (run k s))"
| "valid (Settle p # os) s = (p < length (issued s) \<and> valid os (settle p s))"
| "valid (Reset # os) s = valid os (reset s)"

definition history_inv :: "nat set \<Rightarrow> 's \<Rightarrow> bool" where
  "history_inv S s \<longleftrightarrow> ok s \<and> (\<forall>p \<in> S. p < length (issued s)) \<and>
     (\<forall>k p. pending s k = Some p \<longrightarrow> p \<notin> S \<and> p < length (issued s) \<and> issued s ! p = k)"

lemma run_inv: "history_inv S s \<Longrightarrow> history_inv S (snd (run k s))"
proof (cases "pending s k")
  case None
  assume inv: "history_inv S s"
  then have "ok s" by (simp add: history_inv_def)
  note st = run_start [OF this None]
  from inv have "length (issued s) \<notin> S" by (auto simp: history_inv_def)
  with inv st run_ok [OF \<open>ok s\<close>] show ?thesis
    by (auto simp: history_inv_def nth_append less_Suc_eq)
qed (auto simp: history_inv_def run_join)

lemma settle_inv:
  "history_inv S s \<Longrightarrow> p < length (issued s) \<Longrightarrow> history_inv (insert p S) (settle p s)"
  by (auto simp: history_inv_def settle_ok settle_pending settle_issued split: if_splits)

lemma reset_inv: "history_inv S s \<Longrightarrow> history_inv S (reset s)"
  by (auto simp: history_inv_def reset_ok reset_pending reset_issued)

lemma exec_inv:
  "history_inv S s \<Longrightarrow> valid os s \<Longrightarrow> history_inv (S \<union> settled os) (exec os s)"
proof (induction os arbitrary: s S rule: list.induct)
  case (Cons x os)
  then show ?case
  proof (cases x)
    case (Settle p)
    from Cons.prems Settle have "history_inv (insert p S) (settle p s)" by (simp add: settle_inv)
    from Cons.IH [OF this] Cons.prems Settle show ?thesis by simp
  qed (simp_all add: run_inv reset_inv)
qed simp

lemma init_inv: "history_inv {} init"
  by (simp add: history_inv_def init_ok init_empty)

lemma joined_is_unsettled:
  assumes "valid os init" "fst (run k (exec os init)) = p"
  shows "Settle p \<notin> set os"
proof -
  let ?s = "exec os init"
  have inv: "history_inv (settled os) ?s" using exec_inv [OF init_inv assms(1)] by simp
  then have "ok ?s" by (simp add: history_inv_def)
  show ?thesis
  proof (cases "pending ?s k")
    case None
    with run_start [OF \<open>ok ?s\<close>] assms(2) have "p = length (issued ?s)" by simp
    with inv have "p \<notin> settled os" by (auto simp: history_inv_def)
    then show ?thesis by (simp add: settled_iff)
  next
    case (Some q)
    with run_join [OF \<open>ok ?s\<close>] assms(2) have "q = p" by simp
    with inv Some have "p \<notin> settled os" by (auto simp: history_inv_def)
    then show ?thesis by (simp add: settled_iff)
  qed
qed

definition tracked :: "nat set \<Rightarrow> 's \<Rightarrow> bool" where
  "tracked S s \<longleftrightarrow> (\<forall>p < length (issued s). p \<notin> S \<longrightarrow> pending s (issued s ! p) = Some p)"

lemma run_tracked: "history_inv S s \<Longrightarrow> tracked S s \<Longrightarrow> tracked S (snd (run k s))"
proof (cases "pending s k")
  case None
  assume inv: "history_inv S s" and tr: "tracked S s"
  then have "ok s" by (simp add: history_inv_def)
  note st = run_start [OF this None]
  have "pending s (issued s ! p) = Some p \<and> issued s ! p \<noteq> k" if "p < length (issued s)" "p \<notin> S" for p
    using tr that None by (auto simp: tracked_def)
  with st show ?thesis by (simp add: tracked_def nth_append less_Suc_eq)
qed (auto simp: history_inv_def run_join)

lemma settle_tracked:
  "history_inv S s \<Longrightarrow> tracked S s \<Longrightarrow> p < length (issued s) \<Longrightarrow> tracked (insert p S) (settle p s)"
  by (auto simp: history_inv_def tracked_def settle_pending settle_issued)

lemma exec_tracked:
  "history_inv S s \<Longrightarrow> tracked S s \<Longrightarrow> valid os s \<Longrightarrow> Reset \<notin> set os \<Longrightarrow>
     tracked (S \<union> settled os) (exec os s)"
proof (induction os arbitrary: s S rule: list.induct)
  case (Cons x os)
  then show ?case
  proof (cases x)
    case (Settle p)
    from Cons.prems Settle have "history_inv (insert p S) (settle p s)" "tracked (insert p S) (settle p s)"
      by (simp_all add: settle_inv settle_tracked)
    from Cons.IH [OF this] Cons.prems Settle show ?thesis by simp
  qed (simp_all add: run_inv run_tracked)
qed simp

lemma no_overlap:
  assumes "valid os init" "Reset \<notin> set os"
    and "p < length (issued (exec os init))" "q < length (issued (exec os init))"
    and "issued (exec os init) ! p = issued (exec os init) ! q" "Settle p \<notin> set os" "Settle q \<notin> set os"
  shows "p = q"
proof -
  have "tracked (settled os) (exec os init)"
    using exec_tracked [OF init_inv _ assms(1,2)] by (simp add: tracked_def init_empty)
  then have "pending (exec os init) (issued (exec os init) ! r) = Some r"
    if "r < length (issued (exec os init))" "Settle r \<notin> set os" for r
    using that by (simp add: tracked_def settled_iff)
  from this [OF assms(3,6)] this [OF assms(4,7)] assms(5) show ?thesis by (metis option.inject)
qed

lemma joins_start_nothing: "ok s \<Longrightarrow> pending s k = Some p \<Longrightarrow> exec (replicate n (Run k)) s = s"
  by (induction n) (simp_all add: run_join)

lemma one_request_for_all:
  assumes "ok s" "pending s k = None"
  shows "issued (exec (replicate (Suc n) (Run k)) s) = issued s @ [k]"
proof -
  from run_start [OF assms] have "pending (snd (run k s)) k = Some (length (issued s))" by simp
  from joins_start_nothing [OF run_ok [OF assms(1)] this] run_start [OF assms] show ?thesis by simp
qed

end

section \<open>The code keeps the contract\<close>

definition sf_ok :: "shared_fetch \<Rightarrow> bool" where
  "sf_ok s \<longleftrightarrow>
     (\<forall>k p. obj_get (inFlight s) k = Some p \<longrightarrow> p < length (started s) \<and> started s ! p = k)"

lemma sf_okI: "(\<And>k p. obj_get (inFlight s) k = Some p \<Longrightarrow> p < length (started s) \<and> started s ! p = k) \<Longrightarrow> sf_ok s"
  by (simp add: sf_ok_def)

lemma sf_okD: "sf_ok s \<Longrightarrow> obj_get (inFlight s) k = Some p \<Longrightarrow> p < length (started s) \<and> started s ! p = k"
  unfolding sf_ok_def by blast

lemma sf_settle_get:
  assumes "sf_ok s"
  shows "obj_get (inFlight (sf_settle p s)) =
    (\<lambda>k. if obj_get (inFlight s) k = Some p then None else obj_get (inFlight s) k)"
proof
  fix k
  show "obj_get (inFlight (sf_settle p s)) k =
      (if obj_get (inFlight s) k = Some p then None else obj_get (inFlight s) k)"
  proof (cases "obj_get (inFlight s) k = Some p")
    case True
    then have "started s ! p = k" using sf_okD [OF assms True] by blast
    with True show ?thesis by (simp add: sf_settle_def)
  next
    case False
    then show ?thesis by (cases "started s ! p = k") (simp_all add: sf_settle_def Let_def)
  qed
qed

lemma sf_settle_started [simp]: "started (sf_settle p s) = started s"
  by (simp add: sf_settle_def Let_def)

lemma sf_settle_ok:
  assumes "sf_ok s"
  shows "sf_ok (sf_settle p s)"
proof (rule sf_okI)
  fix k q assume "obj_get (inFlight (sf_settle p s)) k = Some q"
  then have "obj_get (inFlight s) k = Some q" by (simp add: sf_settle_get [OF assms] split: if_splits)
  from sf_okD [OF assms this] show "q < length (started (sf_settle p s)) \<and> started (sf_settle p s) ! q = k" by simp
qed

lemma sf_run_ok:
  assumes "sf_ok s"
  shows "sf_ok (snd (sf_run k s))"
proof (cases "obj_get (inFlight s) k")
  case None
  have "q < length (started s @ [k]) \<and> (started s @ [k]) ! q = j"
    if "((obj_get (inFlight s))(k \<mapsto> length (started s))) j = Some q" for j q
  proof (cases "j = k")
    case False
    with that have "obj_get (inFlight s) j = Some q" by simp
    from sf_okD [OF assms this] show ?thesis by (simp add: nth_append)
  qed (use that in \<open>auto simp: nth_append\<close>)
  with None show ?thesis by (intro sf_okI) (simp add: sf_run_def Let_def)
qed (simp add: sf_run_def assms)

lemma sf_reset_ok: "sf_ok (sf_reset s)"
  by (simp add: sf_ok_def sf_reset_def)

interpretation sf: coalescer createSharedFetch sf_run sf_settle sf_reset "\<lambda>s k. map_of (inFlight s) k" started sf_ok
proof unfold_locales
  fix s :: shared_fetch and k p
  show "sf_ok s \<Longrightarrow> map_of (inFlight (sf_settle p s)) =
      (\<lambda>k. if map_of (inFlight s) k = Some p then None else map_of (inFlight s) k)"
    by (rule sf_settle_get)
  show "map_of (inFlight s) k = None \<Longrightarrow>
      fst (sf_run k s) = length (started s) \<and> started (snd (sf_run k s)) = started s @ [k] \<and>
      map_of (inFlight (snd (sf_run k s))) = (map_of (inFlight s))(k \<mapsto> length (started s))"
    by (simp add: sf_run_def Let_def)
  show "sf_ok createSharedFetch" by (simp add: sf_ok_def createSharedFetch_def)
qed (simp_all add: sf_settle_ok sf_run_ok sf_reset_ok, simp_all add: createSharedFetch_def sf_run_def sf_reset_def)

text \<open>
  The abstract specification: which key has which request in flight, and how many were started.
\<close>

type_synonym spec_state = "(string \<Rightarrow> nat option) \<times> nat"

definition spec_run :: "string \<Rightarrow> spec_state \<Rightarrow> nat \<times> spec_state" where
  "spec_run k st = (case fst st k of Some p \<Rightarrow> (p, st) | None \<Rightarrow> (snd st, (fst st)(k \<mapsto> snd st), Suc (snd st)))"

definition spec_settle :: "nat \<Rightarrow> spec_state \<Rightarrow> spec_state" where
  "spec_settle p st = ((\<lambda>k. if fst st k = Some p then None else fst st k), snd st)"

definition spec_reset :: "spec_state \<Rightarrow> spec_state" where
  "spec_reset st = (\<lambda>k. None, snd st)"

definition sf_abs :: "shared_fetch \<Rightarrow> spec_state" where
  "sf_abs s = (obj_get (inFlight s), length (started s))"

text \<open>
  C11: the coalescer refines its specification. On every state its operations can reach, running,
  settling and resetting commute with the abstraction to a partial function from keys to in-flight
  requests: a call joins exactly when a request for its key is in flight, settling a request
  removes its own entry and no other, even after a reset put a newer request under the same
  key, and the state invariant is kept.
\<close>

theorem shared_fetch_refines_spec:
  assumes "sf_ok s"
  shows "map_prod id sf_abs (sf_run k s) = spec_run k (sf_abs s) \<and> sf_ok (snd (sf_run k s)) \<and>
    sf_abs (sf_settle p s) = spec_settle p (sf_abs s) \<and> sf_ok (sf_settle p s) \<and>
    sf_abs (sf_reset s) = spec_reset (sf_abs s) \<and> sf_ok (sf_reset s)"
proof -
  have "map_prod id sf_abs (sf_run k s) = spec_run k (sf_abs s)"
    by (auto simp: sf_run_def spec_run_def sf_abs_def Let_def split: option.splits)
  moreover have "sf_abs (sf_settle p s) = spec_settle p (sf_abs s)"
    by (simp add: sf_abs_def spec_settle_def sf_settle_get [OF assms] fun_eq_iff)
  moreover have "sf_abs (sf_reset s) = spec_reset (sf_abs s)"
    by (simp add: sf_abs_def spec_reset_def sf_reset_def fun_eq_iff)
  ultimately show ?thesis
    using assms by (simp add: sf_run_ok sf_settle_ok sf_reset_ok)
qed

definition demo_flight :: shared_fetch where
  "demo_flight = \<lparr>inFlight = [(''rev:1'', 1)], started = [''rev:0'', ''rev:1'']\<rparr>"

theorem shared_fetch_refines_spec_witness:
  "sf_abs (sf_settle 1 demo_flight) = spec_settle 1 (sf_abs demo_flight)"
proof -
  have "sf_ok demo_flight" by (auto simp: sf_ok_def demo_flight_def split: if_splits)
  from shared_fetch_refines_spec [OF this] show ?thesis by blast
qed

text \<open>
  Coalescing never serves old data and never duplicates work. After any history of calls,
  settlements (of promises handed out before) and resets, the promise a caller gets is one that has not
  settled yet; and as long as nobody resets, two requests for the same key are never in flight
  together, so any number of components that mount in the same tick share one request.
\<close>

theorem coalescing_is_fresh_and_exclusive:
  assumes "sf.valid os createSharedFetch"
  shows "Settle (fst (sf_run k (sf.exec os createSharedFetch))) \<notin> set os \<and>
    (Reset \<notin> set os \<longrightarrow>
      (\<forall>p q. p < length (started (sf.exec os createSharedFetch)) \<and> q < length (started (sf.exec os createSharedFetch)) \<and>
         started (sf.exec os createSharedFetch) ! p = started (sf.exec os createSharedFetch) ! q \<and>
         Settle p \<notin> set os \<and> Settle q \<notin> set os \<longrightarrow> p = q)) \<and>
    (obj_get (inFlight (sf.exec os createSharedFetch)) k = None \<longrightarrow>
      started (sf.exec (replicate (Suc n) (Run k)) (sf.exec os createSharedFetch)) =
        started (sf.exec os createSharedFetch) @ [k])"
proof -
  have "sf_ok (sf.exec os createSharedFetch)"
    using sf.exec_inv [OF sf.init_inv assms] by (simp add: sf.history_inv_def)
  then show ?thesis
    using sf.joined_is_unsettled [OF assms refl] sf.no_overlap [OF assms] sf.one_request_for_all by blast
qed

theorem coalescing_is_fresh_and_exclusive_witness:
  "started (sf.exec (replicate (Suc 4) (Run ''rev:0'')) (sf.exec [Run ''rev:0'', Settle 0] createSharedFetch)) =
     [''rev:0'', ''rev:0'']"
proof -
  have "sf.valid [Run ''rev:0'', Settle 0] createSharedFetch"
    by (simp add: sf_run_def createSharedFetch_def)
  moreover have "sf.exec [Run ''rev:0'', Settle 0] createSharedFetch = \<lparr>inFlight = [], started = [''rev:0'']\<rparr>"
    by (simp add: sf_run_def sf_settle_def createSharedFetch_def obj_del_def)
  ultimately show ?thesis
    using coalescing_is_fresh_and_exclusive [of "[Run ''rev:0'', Settle 0]" "''rev:0''" 4] by simp
qed

end
