(* ===== verification/Event_Stream.thy ===== *)
theory Event_Stream
  imports Api_Client
begin

text \<open>
  The server-sent-event subscription (\<^verbatim>\<open>ui/src/lib/api/events.ts\<close>): minting a single-use ticket,
  building the stream URL, and the reconnect protocol with token refresh and exponential backoff.

  A subscription is a record; what its asynchronous functions wait for is a list of tasks, one
  per pending continuation, so that concurrent continuations are not excluded by construction.
  The events of the environment (a response arrives, the browser opens or loses a stream, the
  timer fires, the consumer closes the handle) are a datatype, and \<open>sse_apply\<close> is the program's
  reaction to one event. The network, the browser's \<open>EventSource\<close> and the token refresh are the
  environment: every outcome they can have is an event.
\<close>

section \<open>Ticket and URL\<close>

definition RECONNECT_INITIAL_MS :: nat where "RECONNECT_INITIAL_MS = 1000"
definition RECONNECT_MAX_MS :: nat where "RECONNECT_MAX_MS = 30000"

definition resolveBaseHost :: "cluster_entry option \<Rightarrow> string" where
  "resolveBaseHost active = (case active of None \<Rightarrow> [] | Some c \<Rightarrow> stripTrailingSlashes (apiUrl c))"

definition mint_request :: "string \<Rightarrow> string \<Rightarrow> http_request" where
  "mint_request baseHost token =
     \<lparr>rq_url = baseHost @ API_PREFIX @ ''/events/ticket'', rq_method = Some ''POST'',
      rq_headers = [(''accept'', ''application/json''), (''authorization'', ''Bearer '' @ token)],
      rq_body = None\<rparr>"

datatype mint_outcome =
    MintThrows \<comment> \<open>the fetch itself rejected\<close>
  | MintTicket "string option"

definition mintStreamTicket :: "(string \<Rightarrow> json option) \<Rightarrow> fetch_outcome \<Rightarrow> mint_outcome" where
  \<comment> \<open>what the function makes of the answer to \<open>mint_request\<close>; \<open>parse\<close> is \<open>JSON.parse\<close>\<close>
  "mintStreamTicket parse out =
     (case out of
        Fetched r \<Rightarrow>
          (if \<not> response_ok r then MintTicket None
           else (case Option.bind (bodyText r) parse of
                   None \<Rightarrow> MintTicket None
                 | Some body \<Rightarrow>
                     (case json_field body ''ticket'' of
                        Some (JStr t) \<Rightarrow> MintTicket (non_empty t)
                      | _ \<Rightarrow> MintTicket None)))
      | _ \<Rightarrow> MintThrows)"

definition stream_params :: "cluster_entry option \<Rightarrow> string list option \<Rightarrow> string option \<Rightarrow> (string \<times> string) list" where
  "stream_params active types ticket =
     (case types of Some ts \<Rightarrow> (if ts \<noteq> [] then [(''types'', joinWith '','' ts)] else []) | None \<Rightarrow> []) @
     (case active of Some c \<Rightarrow> [(''cluster'', ce_id c)] | None \<Rightarrow> []) @
     (if truthy ticket then [(''ticket'', the ticket)] else [])"

definition buildStreamUrl :: "cluster_entry option \<Rightarrow> string list option \<Rightarrow> string option \<Rightarrow> string" where
  "buildStreamUrl active types ticket =
     (let qs = search_params (stream_params active types ticket)
      in resolveBaseHost active @ API_PREFIX @ ''/events/stream'' @ (if qs \<noteq> [] then ''?'' @ qs else []))"

section \<open>The subscription\<close>

datatype sse_task =
    Minting "cluster_entry option" \<comment> \<open>the first \<open>mintStreamTicket\<close> of \<open>openConnection\<close>\<close>
  | RefreshingToMint "cluster_entry option" \<comment> \<open>\<open>refreshToken\<close> after a rejected mint\<close>
  | Reminting "cluster_entry option" \<comment> \<open>the second \<open>mintStreamTicket\<close>\<close>
  | RefreshingToReopen \<comment> \<open>\<open>refreshToken\<close> of the error listener\<close>

record sse =
  sub_closed :: bool
  es_source :: "nat option" \<comment> \<open>the current \<open>EventSource\<close>, by its position in \<open>urls\<close>\<close>
  reconnectTimer :: "nat option" \<comment> \<open>the delay of the pending timer\<close>
  backoffMs :: nat
  tasks :: "sse_task list"
  live :: "nat list" \<comment> \<open>the event sources that are not closed\<close>
  urls :: "string list" \<comment> \<open>of all event sources ever created\<close>
  minted :: "http_request list" \<comment> \<open>all ticket requests ever sent\<close>
  errorCalls :: nat
  openCalls :: nat

definition initial_sse :: sse where
  "initial_sse =
     \<lparr>sub_closed = False, es_source = None, reconnectTimer = None, backoffMs = RECONNECT_INITIAL_MS,
      tasks = [], live = [], urls = [], minted = [], errorCalls = 0, openCalls = 0\<rparr>"

datatype sse_data = Parsed json | Raw string

record sse_event =
  ev_event :: string
  ev_data :: sse_data
  ev_id :: "string option"

definition messageHandler :: "(string \<Rightarrow> json option) \<Rightarrow> string \<Rightarrow> string \<Rightarrow> string \<Rightarrow> sse_event" where
  \<comment> \<open>what \<open>onMessage\<close> receives for an event with this type, data and last event id\<close>
  "messageHandler parse ty dat lastEventId =
     \<lparr>ev_event = str_or ty ''message'',
      ev_data = (case parse dat of Some j \<Rightarrow> Parsed j | None \<Rightarrow> Raw dat),
      ev_id = non_empty lastEventId\<rparr>"

definition scheduleReconnect :: "sse \<Rightarrow> sse" where
  "scheduleReconnect s =
     (if sub_closed s then s
      else if reconnectTimer s \<noteq> None then s
      else s\<lparr>reconnectTimer := Some (backoffMs s), backoffMs := min (backoffMs s * 2) RECONNECT_MAX_MS\<rparr>)"

definition teardown :: "sse \<Rightarrow> sse" where
  "teardown s =
     (case es_source s of None \<Rightarrow> s | Some i \<Rightarrow> s\<lparr>live := removeAll i (live s), es_source := None\<rparr>)"

definition connect :: "string list option \<Rightarrow> cluster_entry option \<Rightarrow> string option \<Rightarrow> sse \<Rightarrow> sse" where
  \<comment> \<open>\<open>new EventSource(buildStreamUrl(...))\<close>\<close>
  "connect types active ticket s =
     (let i = length (urls s)
      in s\<lparr>es_source := Some i, live := live s @ [i], urls := urls s @ [buildStreamUrl active types ticket]\<rparr>)"

definition send_mint :: "sse_task \<Rightarrow> cluster_entry option \<Rightarrow> string \<Rightarrow> sse \<Rightarrow> sse" where
  "send_mint task active token s =
     s\<lparr>tasks := tasks s @ [task], minted := minted s @ [mint_request (resolveBaseHost active) token]\<rparr>"

definition openConnection ::
  "string list option \<Rightarrow> cluster_entry option \<Rightarrow> string option \<Rightarrow> sse \<Rightarrow> sse" where
  \<comment> \<open>up to its first \<open>await\<close>, with the active cluster and the access token it reads\<close>
  "openConnection types active token s =
     (if sub_closed s then s
      else (let s1 = teardown s
            in if truthy token then send_mint (Minting active) active (the token) s1
               else connect types active None s1))"

definition after_mint :: "string list option \<Rightarrow> cluster_entry option \<Rightarrow> string option \<Rightarrow> sse \<Rightarrow> sse" where
  \<comment> \<open>the rest of \<open>openConnection\<close> once the ticket is known\<close>
  "after_mint types active ticket s =
     (if sub_closed s then s
      else if \<not> truthy ticket then scheduleReconnect (s\<lparr>errorCalls := Suc (errorCalls s)\<rparr>)
      else connect types active ticket s)"

definition mint_settled :: "string list option \<Rightarrow> cluster_entry option \<Rightarrow> mint_outcome \<Rightarrow> sse \<Rightarrow> sse" where
  "mint_settled types active out s =
     (case out of
        MintThrows \<Rightarrow> after_mint types active None s
      | MintTicket ticket \<Rightarrow>
          (if \<not> truthy ticket \<and> \<not> sub_closed s then s\<lparr>tasks := tasks s @ [RefreshingToMint active]\<rparr>
           else after_mint types active ticket s))"

definition refresh_for_mint :: "string list option \<Rightarrow> cluster_entry option \<Rightarrow> string option \<Rightarrow> sse \<Rightarrow> sse" where
  \<comment> \<open>\<open>None\<close>: the refresh gave no token or rejected\<close>
  "refresh_for_mint types active newToken s =
     (if truthy newToken \<and> \<not> sub_closed s then send_mint (Reminting active) active (the newToken) s
      else after_mint types active None s)"

definition remint_settled :: "string list option \<Rightarrow> cluster_entry option \<Rightarrow> mint_outcome \<Rightarrow> sse \<Rightarrow> sse" where
  "remint_settled types active out s =
     after_mint types active (case out of MintThrows \<Rightarrow> None | MintTicket t \<Rightarrow> t) s"

definition source_opened :: "sse \<Rightarrow> sse" where
  "source_opened s = s\<lparr>backoffMs := RECONNECT_INITIAL_MS, openCalls := Suc (openCalls s)\<rparr>"

definition source_error :: "nat \<Rightarrow> bool \<Rightarrow> sse \<Rightarrow> sse" where
  \<comment> \<open>the error listener of source \<open>i\<close>; \<open>dead\<close>: the source is in state \<open>CLOSED\<close>\<close>
  "source_error i dead s =
     (let s1 = s\<lparr>errorCalls := Suc (errorCalls s)\<rparr>
      in if \<not> dead then s1
         else (let s2 = s1\<lparr>live := removeAll i (live s1)\<rparr>
               in if sub_closed s2 then s2 else s2\<lparr>tasks := tasks s2 @ [RefreshingToReopen]\<rparr>))"

definition refresh_to_reopen ::
  "string list option \<Rightarrow> cluster_entry option \<Rightarrow> string option \<Rightarrow> string option \<Rightarrow> sse \<Rightarrow> sse" where
  "refresh_to_reopen types active token newToken s =
     (if sub_closed s then s
      else if truthy newToken then openConnection types active token (s\<lparr>backoffMs := RECONNECT_INITIAL_MS\<rparr>)
      else scheduleReconnect s)"

definition timer_fires :: "string list option \<Rightarrow> cluster_entry option \<Rightarrow> string option \<Rightarrow> sse \<Rightarrow> sse" where
  "timer_fires types active token s = openConnection types active token (s\<lparr>reconnectTimer := None\<rparr>)"

definition close_subscription :: "sse \<Rightarrow> sse" where
  "close_subscription s =
     s\<lparr>sub_closed := True, reconnectTimer := None,
       live := (case es_source s of None \<Rightarrow> live s | Some i \<Rightarrow> removeAll i (live s))\<rparr>"

definition subscribeEvents :: "string list option \<Rightarrow> cluster_entry option \<Rightarrow> string option \<Rightarrow> sse" where
  "subscribeEvents types active token = openConnection types active token initial_sse"

section \<open>Events of the environment\<close>

datatype sse_input =
    MintAnswer nat mint_outcome \<comment> \<open>the answer the \<open>n\<close>-th pending task waits for\<close>
  | RefreshAnswer nat "string option" "cluster_entry option" "string option"
      \<comment> \<open>the new token, and the active cluster and access token at that time\<close>
  | SourceOpen nat
  | SourceError nat bool
  | TimerFires "cluster_entry option" "string option"
  | Close

definition drop_task :: "nat \<Rightarrow> sse \<Rightarrow> sse" where
  "drop_task n s = s\<lparr>tasks := take n (tasks s) @ drop (Suc n) (tasks s)\<rparr>"

fun sse_apply :: "string list option \<Rightarrow> sse_input \<Rightarrow> sse \<Rightarrow> sse option" where
  \<comment> \<open>\<open>None\<close>: the environment cannot produce this event in this state\<close>
  "sse_apply types (MintAnswer n out) s =
     (if n < length (tasks s) then
        (case tasks s ! n of
           Minting a \<Rightarrow> Some (mint_settled types a out (drop_task n s))
         | Reminting a \<Rightarrow> Some (remint_settled types a out (drop_task n s))
         | _ \<Rightarrow> None)
      else None)"
| "sse_apply types (RefreshAnswer n newToken active token) s =
     (if n < length (tasks s) then
        (case tasks s ! n of
           RefreshingToMint a \<Rightarrow> Some (refresh_for_mint types a newToken (drop_task n s))
         | RefreshingToReopen \<Rightarrow> Some (refresh_to_reopen types active token newToken (drop_task n s))
         | _ \<Rightarrow> None)
      else None)"
| "sse_apply types (SourceOpen i) s = (if i \<in> set (live s) then Some (source_opened s) else None)"
| "sse_apply types (SourceError i dead) s = (if i \<in> set (live s) then Some (source_error i dead s) else None)"
| "sse_apply types (TimerFires active token) s =
     (if reconnectTimer s \<noteq> None then Some (timer_fires types active token s) else None)"
| "sse_apply types Close s = Some (close_subscription s)"

fun sse_run :: "string list option \<Rightarrow> sse_input list \<Rightarrow> sse \<Rightarrow> sse option" where
  "sse_run types [] s = Some s"
| "sse_run types (e # es) s = Option.bind (sse_apply types e s) (sse_run types es)"

section \<open>One activity at a time\<close>

definition timers :: "sse \<Rightarrow> nat" where
  "timers s = (case reconnectTimer s of None \<Rightarrow> 0 | Some d \<Rightarrow> 1)"

definition delays_ok :: "sse \<Rightarrow> bool" where
  "delays_ok s \<longleftrightarrow> RECONNECT_INITIAL_MS \<le> backoffMs s \<and> backoffMs s \<le> RECONNECT_MAX_MS \<and>
     (\<forall>d. reconnectTimer s = Some d \<longrightarrow> RECONNECT_INITIAL_MS \<le> d \<and> d \<le> RECONNECT_MAX_MS)"

definition quiet :: "sse \<Rightarrow> bool" where
  "quiet s \<longleftrightarrow> live s = [] \<and> reconnectTimer s = None \<and> (\<not> sub_closed s \<longrightarrow> tasks s = []) \<and> delays_ok s"

definition sse_inv :: "sse \<Rightarrow> bool" where
  "sse_inv s \<longleftrightarrow>
     (if sub_closed s then live s = [] \<and> reconnectTimer s = None
      else length (tasks s) + length (live s) + timers s = 1) \<and>
     (\<forall>i \<in> set (live s). es_source s = Some i) \<and> delays_ok s"

lemmas delay_defs = RECONNECT_INITIAL_MS_def RECONNECT_MAX_MS_def

lemmas sse_defs = sse_inv_def quiet_def delays_ok_def timers_def delay_defs

lemma scheduleReconnect_inv: "quiet s \<Longrightarrow> sse_inv (scheduleReconnect s)"
  by (auto simp: scheduleReconnect_def sse_defs split: option.splits)

lemma connect_inv: "quiet s \<Longrightarrow> \<not> sub_closed s \<Longrightarrow> sse_inv (connect types a t s)"
  by (auto simp: connect_def sse_defs Let_def)

lemma send_mint_inv: "quiet s \<Longrightarrow> \<not> sub_closed s \<Longrightarrow> sse_inv (send_mint task a t s)"
  by (auto simp: send_mint_def sse_defs)

lemma teardown_simps [simp]:
  "sub_closed (teardown s) = sub_closed s" "tasks (teardown s) = tasks s"
  "reconnectTimer (teardown s) = reconnectTimer s" "backoffMs (teardown s) = backoffMs s"
  "urls (teardown s) = urls s" "minted (teardown s) = minted s"
  by (simp_all add: teardown_def split: option.splits)

lemma teardown_quiet: "quiet s \<Longrightarrow> quiet (teardown s)"
  by (auto simp: teardown_def sse_defs split: option.splits)

lemma quiet_closed_inv: "quiet s \<Longrightarrow> sub_closed s \<Longrightarrow> sse_inv s"
  by (auto simp: sse_defs)

lemma openConnection_inv: "quiet s \<Longrightarrow> sse_inv (openConnection types a t s)"
  by (auto simp: openConnection_def Let_def quiet_closed_inv teardown_quiet intro: connect_inv send_mint_inv)

lemma after_mint_inv: "quiet s \<Longrightarrow> sse_inv (after_mint types a t s)"
proof -
  assume q: "quiet s"
  then have "quiet (s\<lparr>errorCalls := n\<rparr>)" for n by (simp add: sse_defs)
  with q show ?thesis
    by (auto simp: after_mint_def quiet_closed_inv intro: connect_inv scheduleReconnect_inv)
qed

lemma initial_quiet: "quiet initial_sse"
  by (simp add: initial_sse_def sse_defs)

text \<open>Taking the only pending task, or the timer, leaves nothing else to do.\<close>

lemma drop_task_quiet: "sse_inv s \<Longrightarrow> n < length (tasks s) \<Longrightarrow> quiet (drop_task n s)"
  by (cases "live s") (auto simp: drop_task_def sse_defs split: if_splits option.splits)

lemma drop_timer_quiet: "sse_inv s \<Longrightarrow> reconnectTimer s \<noteq> None \<Longrightarrow> quiet (s\<lparr>reconnectTimer := None\<rparr>)"
  by (auto simp: sse_defs split: if_splits)

lemma mint_settled_inv: "quiet s \<Longrightarrow> sse_inv (mint_settled types a out s)"
  by (auto simp: mint_settled_def after_mint_inv split: mint_outcome.splits) (auto simp: sse_defs)

lemma refresh_for_mint_inv: "quiet s \<Longrightarrow> sse_inv (refresh_for_mint types a t s)"
  by (auto simp: refresh_for_mint_def after_mint_inv intro: send_mint_inv)

lemma refresh_to_reopen_inv: "quiet s \<Longrightarrow> sse_inv (refresh_to_reopen types a t nt s)"
proof -
  assume q: "quiet s"
  then have "quiet (s\<lparr>backoffMs := RECONNECT_INITIAL_MS\<rparr>)" by (auto simp: sse_defs)
  with q show ?thesis
    by (auto simp: refresh_to_reopen_def quiet_closed_inv intro: openConnection_inv scheduleReconnect_inv)
qed

lemma source_error_inv: "sse_inv s \<Longrightarrow> i \<in> set (live s) \<Longrightarrow> sse_inv (source_error i dead s)"
proof -
  assume inv: "sse_inv s" and i: "i \<in> set (live s)"
  then have "\<not> sub_closed s" by (auto simp: sse_inv_def)
  with inv i have "live s = [i] \<and> tasks s = [] \<and> reconnectTimer s = None"
    by (cases "live s") (auto simp: sse_defs split: option.splits)
  with inv show ?thesis by (auto simp: source_error_def Let_def sse_defs)
qed

lemma close_inv: "sse_inv s \<Longrightarrow> sse_inv (close_subscription s)"
  by (auto simp: close_subscription_def sse_defs filter_empty_conv removeAll_filter_not_eq split: option.splits if_splits)

lemma sse_apply_inv: "sse_inv s \<Longrightarrow> sse_apply types e s = Some s' \<Longrightarrow> sse_inv s'"
proof (induction types e s rule: sse_apply.induct)
  case (1 types n out s)
  then show ?case
    using drop_task_quiet [of s n]
    by (auto simp: remint_settled_def mint_settled_inv after_mint_inv split: if_splits sse_task.splits)
next
  case (2 types n nt a t s)
  then show ?case
    using drop_task_quiet [of s n]
    by (auto simp: refresh_for_mint_inv refresh_to_reopen_inv split: if_splits sse_task.splits)
next
  case (3 types i s)
  then show ?case by (auto simp: source_opened_def sse_defs split: if_splits)
next
  case (4 types i dead s)
  then show ?case by (auto simp: source_error_inv split: if_splits)
next
  case (5 types a t s)
  then show ?case using drop_timer_quiet [of s] by (auto simp: timer_fires_def openConnection_inv split: if_splits)
next
  case (6 types s)
  then show ?case by (auto simp: close_inv)
qed

lemma sse_run_inv: "sse_inv s \<Longrightarrow> sse_run types es s = Some s' \<Longrightarrow> sse_inv s'"
  by (induction es arbitrary: s) (auto dest: sse_apply_inv split: bind_splits)

lemma subscribeEvents_inv: "sse_inv (subscribeEvents types a t)"
  by (simp add: subscribeEvents_def openConnection_inv initial_quiet)

lemma sse_progress:
  assumes "sse_inv s" "\<not> sub_closed s"
  shows "\<exists>e s'. e \<noteq> Close \<and> sse_apply types e s = Some s'"
proof -
  consider (task) "tasks s \<noteq> []" | (source) i where "i \<in> set (live s)" | (timer) "reconnectTimer s \<noteq> None"
    using assms by (cases "live s"; cases "tasks s") (auto simp: sse_inv_def timers_def split: option.splits)
  then show ?thesis
  proof cases
    case task
    show ?thesis
    proof (cases "tasks s ! 0")
      case (Minting a)
      with task have "sse_apply types (MintAnswer 0 MintThrows) s \<noteq> None" by simp
      then show ?thesis by blast
    next
      case (Reminting a)
      with task have "sse_apply types (MintAnswer 0 MintThrows) s \<noteq> None" by simp
      then show ?thesis by blast
    next
      case (RefreshingToMint a)
      with task have "sse_apply types (RefreshAnswer 0 None None None) s \<noteq> None" by simp
      then show ?thesis by blast
    next
      case RefreshingToReopen
      with task have "sse_apply types (RefreshAnswer 0 None None None) s \<noteq> None" by simp
      then show ?thesis by blast
    qed
  next
    case source
    then have "sse_apply types (SourceOpen i) s \<noteq> None" by simp
    then show ?thesis by blast
  next
    case timer
    then have "sse_apply types (TimerFires None None) s \<noteq> None" by simp
    then show ?thesis by blast
  qed
qed

section \<open>What a stream URL carries\<close>

definition tickets :: "sse_input list \<Rightarrow> string set" where
  \<comment> \<open>the tickets the backend handed out\<close>
  "tickets es = {t. \<exists>n. MintAnswer n (MintTicket (Some t)) \<in> set es}"

definition url_ok :: "string list option \<Rightarrow> string set \<Rightarrow> string \<Rightarrow> bool" where
  "url_ok types T u \<longleftrightarrow> (\<exists>a t. u = buildStreamUrl a types t \<and> (t = None \<or> t \<in> Some ` T))"

lemma urls_simps [simp]:
  "urls (scheduleReconnect s) = urls s" "urls (drop_task n s) = urls s" "urls (send_mint k a tok s) = urls s"
  "urls (connect types a t s) = urls s @ [buildStreamUrl a types t]"
  by (simp_all add: scheduleReconnect_def drop_task_def send_mint_def connect_def Let_def)

lemma openConnection_urls:
  "urls (openConnection types a t s) \<in> {urls s, urls s @ [buildStreamUrl a types None]}"
  by (simp add: openConnection_def Let_def)

lemma after_mint_urls:
  "urls (after_mint types a t s) = urls s \<or> (\<exists>k. t = Some k \<and> urls (after_mint types a t s) = urls s @ [buildStreamUrl a types t])"
  by (cases t) (auto simp: after_mint_def)

lemma sse_apply_urls:
  assumes "sse_apply types e s = Some s'"
  shows "urls s' = urls s \<or> (\<exists>u. urls s' = urls s @ [u] \<and> url_ok types (tickets [e]) u)"
  using assms
proof (induction types e s rule: sse_apply.induct)
  case (1 types n out s)
  then consider a t where "s' = after_mint types a t (drop_task n s)" "t = None \<or> out = MintTicket t" |
      "urls s' = urls s"
    by (auto simp: mint_settled_def remint_settled_def split: if_splits sse_task.splits mint_outcome.splits)
  then show ?case
  proof cases
    case 1
    then show ?thesis using after_mint_urls [of types a t "drop_task n s"] by (auto simp: url_ok_def tickets_def)
  qed simp
next
  case (2 types n nt a t s)
  then obtain b where "urls s' \<in> {urls s, urls s @ [buildStreamUrl b types None]}"
    using after_mint_urls [of types _ None "drop_task n s"]
      openConnection_urls [of types a t "(drop_task n s)\<lparr>backoffMs := RECONNECT_INITIAL_MS\<rparr>"]
    by (auto simp: refresh_for_mint_def refresh_to_reopen_def split: if_splits sse_task.splits)
  then show ?case by (auto simp: url_ok_def)
next
  case (5 types a t s)
  then show ?case
    using openConnection_urls [of types a t "s\<lparr>reconnectTimer := None\<rparr>"]
    by (auto simp: timer_fires_def url_ok_def split: if_splits)
qed (auto simp: source_opened_def source_error_def close_subscription_def Let_def split: if_splits)

lemma tickets_Cons: "tickets (e # es) = tickets [e] \<union> tickets es"
  by (auto simp: tickets_def)

lemma url_ok_mono: "url_ok types T u \<Longrightarrow> T \<subseteq> T' \<Longrightarrow> url_ok types T' u"
  by (auto simp: url_ok_def)

lemma sse_run_urls:
  "sse_run types es s = Some s' \<Longrightarrow> u \<in> set (urls s') \<Longrightarrow> u \<in> set (urls s) \<or> url_ok types (tickets es) u"
proof (induction es arbitrary: s)
  case (Cons e es)
  then obtain s1 where s1: "sse_apply types e s = Some s1" "sse_run types es s1 = Some s'"
    by (auto split: bind_splits)
  from Cons.IH [OF s1(2) Cons.prems(2)] show ?case
  proof
    assume "u \<in> set (urls s1)"
    then show ?thesis
      using sse_apply_urls [OF s1(1)] url_ok_mono [of types "tickets [e]" u "tickets (e # es)"]
      by (auto simp: tickets_Cons [of e es])
  qed (auto simp: tickets_Cons [of e es] intro: url_ok_mono)
qed simp

lemma url_ok_no_ticket: "url_ok types T (buildStreamUrl a types None)"
  by (auto simp: url_ok_def)

lemma subscribe_urls: "u \<in> set (urls (subscribeEvents types a t)) \<Longrightarrow> url_ok types T u"
  using openConnection_urls [of types a t initial_sse]
  by (simp add: subscribeEvents_def) (auto simp: initial_sse_def url_ok_no_ticket)

lemma search_params_Nil [simp]: "search_params [] = []"
  by (simp add: search_params_def)

lemma stream_params_mem:
  assumes "(k, v) \<in> set (stream_params a types t)"
  shows "k = ''types'' \<and> (\<exists>ts. types = Some ts \<and> v = joinWith '','' ts) \<or>
     k = ''cluster'' \<and> (\<exists>c. a = Some c \<and> v = ce_id c) \<or> k = ''ticket'' \<and> t = Some v"
proof -
  let ?A = "case types of Some ts \<Rightarrow> (if ts \<noteq> [] then [(''types'', joinWith '','' ts)] else []) | None \<Rightarrow> []"
  let ?B = "case a of Some c \<Rightarrow> [(''cluster'', ce_id c)] | None \<Rightarrow> []"
  let ?C = "if truthy t then [(''ticket'', the t)] else []"
  from assms consider (A) "(k, v) \<in> set ?A" | (B) "(k, v) \<in> set ?B" | (C) "(k, v) \<in> set ?C"
    unfolding stream_params_def set_append by blast
  then show ?thesis
  proof cases
    case A
    then show ?thesis by (cases types) (simp_all split: if_splits)
  next
    case B
    then show ?thesis by (cases a) simp_all
  next
    case C
    then show ?thesis by (cases t) (simp_all split: if_splits)
  qed
qed

lemma buildStreamUrl_params:
  "\<exists>q. buildStreamUrl a types t = resolveBaseHost a @ API_PREFIX @ ''/events/stream'' @ q \<and>
       parse_search (drop 1 q) = stream_params a types t"
proof (cases "search_params (stream_params a types t) = []")
  case True
  with parse_search_params [of "stream_params a types t"] show ?thesis
    by (auto simp: buildStreamUrl_def intro: exI [of _ "[]"])
next
  case False
  then show ?thesis
    by (auto simp: buildStreamUrl_def parse_search_params
        intro!: exI [of _ "''?'' @ search_params (stream_params a types t)"])
qed

section \<open>After closing\<close>

lemma closed_after_mint: "sub_closed s \<Longrightarrow> after_mint types a t s = s"
  by (simp add: after_mint_def)

lemma closed_open: "sub_closed s \<Longrightarrow> openConnection types a t s = s"
  by (simp add: openConnection_def)

lemma sse_apply_closed:
  assumes "sub_closed s" "live s = []" "sse_apply types e s = Some s'"
  shows "sub_closed s' \<and> live s' = [] \<and> urls s' = urls s \<and> minted s' = minted s"
  using assms(3,1,2)
proof (induction types e s rule: sse_apply.induct)
  case (1 types n out s)
  then have "sub_closed (drop_task n s)" by (simp add: drop_task_def)
  with 1 have "s' = drop_task n s"
    by (auto simp: mint_settled_def remint_settled_def closed_after_mint split: if_splits sse_task.splits mint_outcome.splits)
  with 1 show ?case by (simp add: drop_task_def)
next
  case (2 types n nt a t s)
  then have "sub_closed (drop_task n s)" by (simp add: drop_task_def)
  with 2 have "s' = drop_task n s"
    by (auto simp: refresh_for_mint_def refresh_to_reopen_def closed_after_mint split: if_splits sse_task.splits)
  with 2 show ?case by (simp add: drop_task_def)
next
  case (5 types a t s)
  then have "s' = s\<lparr>reconnectTimer := None\<rparr>"
    by (auto simp: timer_fires_def closed_open split: if_splits)
  with 5 show ?case by simp
next
  case (6 types s)
  then show ?case by (auto simp: close_subscription_def split: option.splits)
qed (auto simp: source_opened_def source_error_def Let_def split: if_splits)

lemma sse_run_closed:
  "sse_run types es s = Some s' \<Longrightarrow> sub_closed s \<Longrightarrow> live s = [] \<Longrightarrow>
     sub_closed s' \<and> live s' = [] \<and> urls s' = urls s \<and> minted s' = minted s"
proof (induction es arbitrary: s)
  case (Cons e es)
  then obtain s1 where s1: "sse_apply types e s = Some s1" "sse_run types es s1 = Some s'"
    by (auto split: bind_splits)
  from sse_apply_closed [OF Cons.prems(2,3) s1(1)] Cons.IH [OF s1(2)] show ?case by simp
qed simp

section \<open>The reconnect loop without delay\<close>

fun storm :: "nat \<Rightarrow> nat \<Rightarrow> cluster_entry option \<Rightarrow> string \<Rightarrow> string \<Rightarrow> sse_input list" where
  \<comment> \<open>\<open>n\<close> rounds from stream \<open>k\<close> on: the stream is rejected, the token refresh succeeds, a ticket is minted\<close>
  "storm k 0 a tok t = []"
| "storm k (Suc n) a tok t =
     SourceError k True # RefreshAnswer 0 (Some tok) a (Some tok) # MintAnswer 0 (MintTicket (Some t)) #
     storm (Suc k) n a tok t"

definition streaming :: "nat \<Rightarrow> sse \<Rightarrow> bool" where
  "streaming k s \<longleftrightarrow> \<not> sub_closed s \<and> es_source s = Some k \<and> live s = [k] \<and> tasks s = [] \<and>
     reconnectTimer s = None \<and> length (urls s) = Suc k \<and> length (minted s) = Suc k \<and> openCalls s = 0"

lemma storm_round:
  assumes "streaming k s" "tok \<noteq> []" "t \<noteq> []"
  shows "\<exists>s'. sse_run types (storm k 1 a tok t) s = Some s' \<and> streaming (Suc k) s'"
  using assms
  by (simp add: streaming_def source_error_def refresh_to_reopen_def openConnection_def teardown_def
      send_mint_def drop_task_def mint_settled_def after_mint_def connect_def Let_def)

lemma sse_run_append:
  "sse_run types (es @ es') s = Option.bind (sse_run types es s) (sse_run types es')"
  by (induction es arbitrary: s) (auto split: bind_splits)

lemma storm_runs:
  assumes "streaming k s" "tok \<noteq> []" "t \<noteq> []"
  shows "\<exists>s'. sse_run types (storm k n a tok t) s = Some s' \<and> streaming (k + n) s'"
  using assms(1)
proof (induction n arbitrary: k s)
  case (Suc n)
  from storm_round [OF Suc.prems assms(2,3)] obtain s1 where
    s1: "sse_run types (storm k 1 a tok t) s = Some s1" "streaming (Suc k) s1" by blast
  from Suc.IH [OF s1(2)] obtain s2 where
    s2: "sse_run types (storm (Suc k) n a tok t) s1 = Some s2" "streaming (Suc k + n) s2" by blast
  have "storm k (Suc n) a tok t = storm k 1 a tok t @ storm (Suc k) n a tok t" by simp
  then have "sse_run types (storm k (Suc n) a tok t) s = Some s2"
    using s1(1) s2(1) by (simp only: sse_run_append) simp
  with s2(2) show ?case by auto
qed simp

fun waits :: "sse_input \<Rightarrow> bool" where
  "waits (TimerFires a t) = True"
| "waits e = False"

lemma storm_never_waits: "list_all (\<lambda>e. \<not> waits e) (storm k n a tok t)"
  by (induction n arbitrary: k) auto

section \<open>Properties\<close>

definition demo_entry :: cluster_entry where
  "demo_entry = \<lparr>ce_id = ''eu'', displayName = ''EU'', apiUrl = ''https://eu/'', ce_labels = None\<rparr>"

definition demo_history :: "sse_input list" where
  "demo_history = [MintAnswer 0 (MintTicket (Some ''t1'')), SourceOpen 0, SourceError 0 True,
     RefreshAnswer 0 None None None, TimerFires (Some demo_entry) (Some ''jwt'')]"

definition demo_stream :: sse where
  "demo_stream = the (sse_run None demo_history (subscribeEvents None (Some demo_entry) (Some ''jwt'')))"

lemmas demo_stream_eval =
  demo_stream_def demo_history_def demo_entry_def subscribeEvents_def initial_sse_def openConnection_def teardown_def
  send_mint_def connect_def mint_settled_def after_mint_def drop_task_def source_opened_def source_error_def
  refresh_to_reopen_def scheduleReconnect_def timer_fires_def delay_defs Let_def

lemma demo_stream_run:
  "sse_run None demo_history (subscribeEvents None (Some demo_entry) (Some ''jwt'')) = Some demo_stream"
  by (simp add: demo_stream_eval)

text \<open>
  C4: a subscription does exactly one thing at a time and never dies. Whatever the network, the browser,
  the identity provider and the clock do, as long as the consumer has not closed it exactly one of
  these holds: one continuation is pending, one stream is live, or one reconnect timer is armed; so
  some event can always make it proceed, two streams are never live together, and every
  reconnect delay lies between 1 and 30 seconds. Once closed there is no live stream and no timer.
\<close>

theorem subscription_single_activity:
  assumes "sse_run types es (subscribeEvents types a token) = Some s"
  shows "(if sub_closed s then live s = [] \<and> reconnectTimer s = None
          else length (tasks s) + length (live s) + timers s = 1 \<and>
               (\<exists>e s'. e \<noteq> Close \<and> sse_apply types e s = Some s')) \<and>
    (\<forall>d. reconnectTimer s = Some d \<longrightarrow> 1000 \<le> d \<and> d \<le> 30000)"
  using sse_run_inv [OF subscribeEvents_inv assms] sse_progress [of s types]
  by (auto simp: sse_inv_def delays_ok_def delay_defs)

theorem subscription_single_activity_witness:
  "length (tasks demo_stream) + length (live demo_stream) + timers demo_stream = 1"
proof -
  have "\<not> sub_closed demo_stream" by (simp add: demo_stream_eval)
  with subscription_single_activity [OF demo_stream_run] show ?thesis by simp
qed

text \<open>
  C24: no stream URL ever carries the access token. In every run, each URL an event source was created
  with consists of the active cluster's base and the stream path, and its query decodes to at most
  the subscribed types, the cluster id, and a ticket that the backend itself had minted.
\<close>

theorem stream_urls_carry_only_tickets:
  assumes "sse_run types es (subscribeEvents types a0 token) = Some s" "u \<in> set (urls s)"
  shows "\<exists>a q. u = resolveBaseHost a @ ''/api/events/stream'' @ q \<and>
    (\<forall>(k, v) \<in> set (parse_search (drop 1 q)).
       k = ''types'' \<and> (\<exists>ts. types = Some ts \<and> v = joinWith '','' ts) \<or>
       k = ''cluster'' \<and> (\<exists>c. a = Some c \<and> v = ce_id c) \<or>
       k = ''ticket'' \<and> v \<in> tickets es)"
proof -
  from sse_run_urls [OF assms] subscribe_urls obtain a t where
    u: "u = buildStreamUrl a types t" and t: "t = None \<or> t \<in> Some ` tickets es"
    unfolding url_ok_def by blast
  from buildStreamUrl_params [of a types t] obtain q where
    q: "u = resolveBaseHost a @ API_PREFIX @ ''/events/stream'' @ q" "parse_search (drop 1 q) = stream_params a types t"
    unfolding u by blast
  have "u = resolveBaseHost a @ ''/api/events/stream'' @ q" using q(1) by (simp add: API_PREFIX_def)
  moreover have "\<forall>(k, v) \<in> set (parse_search (drop 1 q)).
       k = ''types'' \<and> (\<exists>ts. types = Some ts \<and> v = joinWith '','' ts) \<or>
       k = ''cluster'' \<and> (\<exists>c. a = Some c \<and> v = ce_id c) \<or> k = ''ticket'' \<and> v \<in> tickets es"
    using t unfolding q(2) by (blast dest: stream_params_mem)
  ultimately show ?thesis by blast
qed

theorem stream_urls_carry_only_tickets_witness:
  "\<exists>a q. hd (urls demo_stream) = resolveBaseHost a @ ''/api/events/stream'' @ q \<and>
    (\<forall>(k, v) \<in> set (parse_search (drop 1 q)). k \<in> {''types'', ''cluster''} \<or> k = ''ticket'' \<and> v = ''t1'')"
proof -
  have "hd (urls demo_stream) \<in> set (urls demo_stream)" by (simp add: demo_stream_eval)
  moreover have "tickets demo_history = {''t1''}" by (auto simp: tickets_def demo_history_def)
  ultimately obtain a q where "hd (urls demo_stream) = resolveBaseHost a @ ''/api/events/stream'' @ q"
    "\<forall>(k, v) \<in> set (parse_search (drop 1 q)). k = ''types'' \<and> (\<exists>ts. None = Some ts \<and> v = joinWith '','' ts) \<or>
       k = ''cluster'' \<and> (\<exists>c. a = Some c \<and> v = ce_id c) \<or> k = ''ticket'' \<and> v \<in> {''t1''}"
    using stream_urls_carry_only_tickets [OF demo_stream_run, of "hd (urls demo_stream)"] by force
  then show ?thesis by blast
qed

text \<open>
  Closing is final. After the handle is closed, whatever continuations were still pending and
  whatever happens later, no further stream is created, no further ticket is requested and no stream
  is live.
\<close>

theorem closing_is_final:
  assumes "sse_run types es (subscribeEvents types a token) = Some s"
    and "sse_run types es' (close_subscription s) = Some s'"
  shows "live s' = [] \<and> urls s' = urls s \<and> minted s' = minted s"
proof -
  have "sse_inv (close_subscription s)"
    using sse_run_inv [OF subscribeEvents_inv assms(1)] by (rule close_inv)
  moreover have "sub_closed (close_subscription s)" by (simp add: close_subscription_def)
  ultimately have "live (close_subscription s) = []" by (simp add: sse_inv_def)
  with sse_run_closed [OF assms(2)] show ?thesis by (simp add: close_subscription_def)
qed

theorem closing_is_final_witness:
  "minted (the (sse_run None [MintAnswer 0 (MintTicket (Some ''t2''))] (close_subscription demo_stream))) =
     minted demo_stream"
proof -
  have "sse_run None [MintAnswer 0 (MintTicket (Some ''t2''))] (close_subscription demo_stream) =
      Some (the (sse_run None [MintAnswer 0 (MintTicket (Some ''t2''))] (close_subscription demo_stream)))"
    by (simp add: close_subscription_def demo_stream_eval)
  from closing_is_final [OF demo_stream_run this] show ?thesis by simp
qed

text \<open>
  The backoff does not cover a stream that is rejected while the session is alive. For every number
  of attempts there is a run in which every stream is rejected before it opens, every token refresh
  succeeds, and the subscription has made that many further attempts without ever waiting for
  its timer.
\<close>

theorem rejected_stream_reconnects_without_delay:
  "\<exists>es s. sse_run types es (subscribeEvents types a (Some (c # cs))) = Some s \<and>
     list_all (\<lambda>e. \<not> waits e) es \<and> openCalls s = 0 \<and> length (urls s) = Suc n \<and>
     length (minted s) = Suc n"
proof -
  let ?tok = "c # cs" and ?t = "''t''"
  let ?s0 = "subscribeEvents types a (Some ?tok)"
  let ?es = "MintAnswer 0 (MintTicket (Some ?t)) # storm 0 n a ?tok ?t"
  obtain s1 where s1: "sse_apply types (MintAnswer 0 (MintTicket (Some ?t))) ?s0 = Some s1" "streaming 0 s1"
    by (simp add: subscribeEvents_def initial_sse_def openConnection_def teardown_def send_mint_def drop_task_def
        mint_settled_def after_mint_def connect_def streaming_def Let_def)
  from storm_runs [OF s1(2), of ?tok ?t types n a] obtain s where
    s: "sse_run types (storm 0 n a ?tok ?t) s1 = Some s" "streaming n s" by auto
  have run: "sse_run types ?es ?s0 = Some s" using s1(1) s(1) by simp
  with s(2) show ?thesis
    using storm_never_waits [of 0 n a ?tok ?t] by (auto simp: streaming_def intro!: exI [of _ ?es])
qed

end
