(* ===== verification/Data_Hooks.thy ===== *)
theory Data_Hooks
  imports Stores Shared_Fetch Event_Stream Latest_Load
begin

text \<open>
  The data hooks of the pages (\<^verbatim>\<open>ui/src/hooks/\<close>): \<open>useConnections\<close>, \<open>useWorkspaces\<close>, \<open>useK8sClusters\<close>,
  \<open>useGuides\<close>, \<open>useCluster\<close>, \<open>useEventStream\<close> and \<open>useStableListKeys\<close>.

  A hook instance is a record of its React state, its mounted flag and the number of its current
  effect run; a \<open>cancelled\<close> flag of an effect run is set exactly when the hook has moved to another
  run or was unmounted. Calls to the API are split at their \<open>await\<close>; the calls of \<open>useCluster\<close> that
  are still unanswered are kept in a list, so that an answer may arrive at any later time.
\<close>

section \<open>List hooks (use-connections.ts, use-workspaces.ts, use-k8s-clusters.ts, use-guides.ts)\<close>

record 'a query_hook =
  q_data :: "'a option"
  q_error :: "js_error option"
  q_isLoading :: bool
  q_mounted :: bool
  q_run :: nat \<comment> \<open>the number of the current run of the fetch effect\<close>

definition initial_hook :: "'a query_hook" where
  "initial_hook = \<lparr>q_data = None, q_error = None, q_isLoading = True, q_mounted = True, q_run = 0\<rparr>"

definition unmount :: "'a query_hook \<Rightarrow> 'a query_hook" where
  "unmount h = h\<lparr>q_mounted := False\<rparr>"

definition refetch_begin :: "'a query_hook \<Rightarrow> 'a query_hook" where
  "refetch_begin h = h\<lparr>q_isLoading := True, q_error := None\<rparr>"

definition as_error :: "js_error \<Rightarrow> js_error" where
  \<comment> \<open>\<open>err instanceof Error ? err : new Error(String(err))\<close>\<close>
  "as_error e = (case e of NonError v \<Rightarrow> ErrorObj v | _ \<Rightarrow> e)"

definition refetch_end :: "js_error + 'a \<Rightarrow> 'a query_hook \<Rightarrow> 'a query_hook" where
  "refetch_end r h =
     (if \<not> q_mounted h then h
      else (case r of
              Inr d \<Rightarrow> h\<lparr>q_data := Some d, q_isLoading := False\<rparr>
            | Inl e \<Rightarrow> h\<lparr>q_error := Some (as_error e), q_isLoading := False\<rparr>))"

definition effect_begin :: "'a query_hook \<Rightarrow> 'a query_hook" where
  \<comment> \<open>of \<open>useConnections\<close> and \<open>useWorkspaces\<close>, when the revision changes\<close>
  "effect_begin h = h\<lparr>q_run := Suc (q_run h)\<rparr>"

definition k8s_effect_begin :: "'a query_hook \<Rightarrow> 'a query_hook" where
  \<comment> \<open>of \<open>useK8sClusters\<close>, when the serialised parameters change\<close>
  "k8s_effect_begin h = h\<lparr>q_run := Suc (q_run h), q_isLoading := True\<rparr>"

definition effect_end :: "nat \<Rightarrow> js_error + 'a \<Rightarrow> 'a query_hook \<Rightarrow> 'a query_hook" where
  "effect_end n r h =
     (if n \<noteq> q_run h \<or> \<not> q_mounted h then h
      else (case r of
              Inr d \<Rightarrow> h\<lparr>q_data := Some d, q_error := None, q_isLoading := False\<rparr>
            | Inl e \<Rightarrow> h\<lparr>q_error := Some (as_error e), q_isLoading := False\<rparr>))"

definition connections_key :: "nat \<Rightarrow> string" where
  "connections_key r = ''rev:'' @ nat_str r"

lemma connections_key_inject [simp]: "connections_key m = connections_key n \<longleftrightarrow> m = n"
  by (simp add: connections_key_def)

lemma connections_key_inj: "inj connections_key"
  by (simp add: inj_def)

text \<open>A superseded run changes nothing; an unmounted hook never changes again.\<close>

lemma stale_run_ignored: "n \<noteq> q_run h \<Longrightarrow> effect_end n r h = h"
  by (simp add: effect_end_def)

lemma unmounted_frozen:
  "\<not> q_mounted h \<Longrightarrow> effect_end n r h = h \<and> refetch_end r h = h"
  by (simp add: effect_end_def refetch_end_def)

lemma settled_not_loading:
  "q_mounted h \<Longrightarrow> \<not> q_isLoading (effect_end (q_run h) r h) \<and> \<not> q_isLoading (refetch_end r h)"
  by (auto simp: effect_end_def refetch_end_def split: sum.splits)

text \<open>Useful data is never lost: a failing call keeps what was shown before.\<close>

lemma failure_keeps_data: "q_data (effect_end n (Inl e) h) = q_data h \<and> q_data (refetch_end (Inl e) h) = q_data h"
  by (simp add: effect_end_def refetch_end_def)

text \<open>The fetch effects of the list hooks are guarded loads: an answer of an earlier run is dropped.\<close>

interpretation list_effect: latest_load q_run "\<lambda>(_ :: unit). effect_begin" effect_end
  by unfold_locales (auto simp: effect_begin_def effect_end_def split: sum.splits)

interpretation k8s_effect: latest_load q_run "\<lambda>(_ :: unit). k8s_effect_begin" effect_end
  by unfold_locales (auto simp: k8s_effect_begin_def effect_end_def split: sum.splits)

lemma mounted_run: "q_mounted (load_run (\<lambda>(_ :: unit). effect_begin) effect_end es h) = q_mounted h"
  by (induction es arbitrary: h rule: loads.induct) (auto simp: effect_begin_def effect_end_def split: sum.splits)

lemma list_hook_shows_newest:
  assumes "q_mounted h" "loads es = []" "answers (Suc (q_run h + length (loads before))) es = [Inr d]"
  shows "\<exists>h'. load_run (\<lambda>_. effect_begin) effect_end (before @ Load () # es) h = h' \<and>
    q_data h' = Some d \<and> q_error h' = None \<and> \<not> q_isLoading h'"
proof -
  let ?h = "effect_begin (load_run (\<lambda>_. effect_begin) effect_end before h)"
  have "q_run ?h = Suc (q_run h + length (loads before))" "q_mounted ?h"
    using assms(1) list_effect.seqno_run [of before h] by (simp_all add: effect_begin_def mounted_run)
  with list_effect.newest_decides [OF assms(2) refl assms(3)] show ?thesis
    by (simp add: effect_end_def)
qed

section \<open>Cluster information with polling (use-cluster.ts)\<close>

datatype cluster_call =
    Initial nat string \<comment> \<open>of the fetch effect: run number and connection\<close>
  | Manual string \<comment> \<open>of \<open>refetch\<close>\<close>
  | Poll nat string \<comment> \<open>of \<open>tick\<close>: the run number of its effect\<close>

fun call_conn :: "cluster_call \<Rightarrow> string" where
  "call_conn (Initial n c) = c"
| "call_conn (Manual c) = c"
| "call_conn (Poll n c) = c"

record cluster_hook =
  c_connId :: "string option"
  c_data :: "json option"
  c_error :: "js_error option"
  c_isLoading :: bool
  lastUpdatedAt :: "nat option"
  c_mounted :: bool
  c_run :: nat
  pollInFlight :: bool \<comment> \<open>of the current polling effect\<close>
  calls :: "cluster_call list" \<comment> \<open>still unanswered\<close>

definition CLUSTER_POLL_INTERVAL_MS :: nat where
  "CLUSTER_POLL_INTERVAL_MS = 5000"

definition setConnId :: "string option \<Rightarrow> cluster_hook \<Rightarrow> cluster_hook" where
  \<comment> \<open>clean-up of the old effects and the new run of both effects for a new \<open>connId\<close>\<close>
  "setConnId c h =
     (let n = Suc (c_run h);
          h1 = h\<lparr>c_connId := c, c_run := n, pollInFlight := False, c_data := None, c_error := None, lastUpdatedAt := None\<rparr>
      in if \<not> truthy c then h1\<lparr>c_isLoading := False\<rparr>
         else h1\<lparr>c_isLoading := True, calls := calls h1 @ [Initial n (the c)]\<rparr>)"

definition useCluster :: "string option \<Rightarrow> cluster_hook" where
  "useCluster c =
     setConnId c \<lparr>c_connId = c, c_data = None, c_error = None, c_isLoading = truthy c, lastUpdatedAt = None,
       c_mounted = True, c_run = 0, pollInFlight = False, calls = []\<rparr>"

definition cluster_refetch :: "cluster_hook \<Rightarrow> cluster_hook" where
  "cluster_refetch h =
     (if \<not> truthy (c_connId h) then h
      else h\<lparr>c_isLoading := True, c_error := None, calls := calls h @ [Manual (the (c_connId h))]\<rparr>)"

definition tick :: "bool \<Rightarrow> cluster_hook \<Rightarrow> cluster_hook" where
  \<comment> \<open>by the interval timer, or when the tab becomes visible; \<open>hidden\<close> is \<open>document.hidden\<close>\<close>
  "tick hidden h =
     (if \<not> c_mounted h \<or> \<not> truthy (c_connId h) \<or> pollInFlight h \<or> hidden then h
      else h\<lparr>pollInFlight := True, calls := calls h @ [Poll (c_run h) (the (c_connId h))]\<rparr>)"

definition cluster_unmount :: "cluster_hook \<Rightarrow> cluster_hook" where
  "cluster_unmount h = h\<lparr>c_mounted := False, c_run := Suc (c_run h)\<rparr>"

fun cluster_answer :: "cluster_call \<Rightarrow> js_error + json \<Rightarrow> nat \<Rightarrow> cluster_hook \<Rightarrow> cluster_hook" where
  "cluster_answer (Initial n c) r now h =
     (if n \<noteq> c_run h then h
      else (case r of
              Inr d \<Rightarrow> h\<lparr>c_data := Some d, c_error := None, lastUpdatedAt := Some now, c_isLoading := False\<rparr>
            | Inl e \<Rightarrow> h\<lparr>c_error := Some (as_error e), c_isLoading := False\<rparr>))"
| "cluster_answer (Manual c) r now h =
     (if \<not> c_mounted h then h
      else (case r of
              Inr d \<Rightarrow> h\<lparr>c_data := Some d, lastUpdatedAt := Some now, c_isLoading := False\<rparr>
            | Inl e \<Rightarrow> h\<lparr>c_error := Some (as_error e), c_isLoading := False\<rparr>))"
| "cluster_answer (Poll n c) r now h =
     (let h1 = (case r of
                  Inr d \<Rightarrow> (if c_mounted h then h\<lparr>c_data := Some d, lastUpdatedAt := Some now\<rparr> else h)
                | Inl e \<Rightarrow> h)
      in if n = c_run h1 then h1\<lparr>pollInFlight := False\<rparr> else h1)"

datatype cluster_input =
    Connect "string option"
  | Refetch
  | Tick bool
  | Answer nat "js_error + json" nat \<comment> \<open>to the \<open>i\<close>-th unanswered call, at a time\<close>
  | Unmount

fun cluster_step :: "cluster_input \<Rightarrow> cluster_hook \<Rightarrow> cluster_hook option" where
  \<comment> \<open>\<open>None\<close>: the environment cannot produce this event in this state\<close>
  "cluster_step (Connect c) h = (if c_mounted h \<and> c \<noteq> c_connId h then Some (setConnId c h) else None)"
| "cluster_step Refetch h = Some (cluster_refetch h)"
| "cluster_step (Tick hidden) h = Some (tick hidden h)"
| "cluster_step (Answer i r now) h =
     (if i < length (calls h)
      then Some (cluster_answer (calls h ! i) r now (h\<lparr>calls := take i (calls h) @ drop (Suc i) (calls h)\<rparr>))
      else None)"
| "cluster_step Unmount h = Some (cluster_unmount h)"

fun cluster_run :: "cluster_input list \<Rightarrow> cluster_hook \<Rightarrow> cluster_hook option" where
  "cluster_run [] h = Some h"
| "cluster_run (e # es) h = Option.bind (cluster_step e h) (cluster_run es)"

lemma poll_is_silent:
  "c_isLoading (cluster_answer (Poll n c) r now h) = c_isLoading h \<and>
   c_error (cluster_answer (Poll n c) r now h) = c_error h \<and>
   (\<forall>e. r = Inl e \<longrightarrow> c_data (cluster_answer (Poll n c) r now h) = c_data h \<and>
      lastUpdatedAt (cluster_answer (Poll n c) r now h) = lastUpdatedAt h)"
  by (auto simp: Let_def split: sum.splits)

definition polls :: "nat \<Rightarrow> cluster_call list \<Rightarrow> nat" where
  "polls n cs = length (filter (\<lambda>x. case x of Poll m c \<Rightarrow> m = n | _ \<Rightarrow> False) cs)"

lemma polls_append [simp]: "polls n (xs @ ys) = polls n xs + polls n ys"
  by (simp add: polls_def)

lemma polls_Cons [simp]:
  "polls n (x # xs) = (case x of Poll m c \<Rightarrow> (if m = n then Suc (polls n xs) else polls n xs) | _ \<Rightarrow> polls n xs)"
  by (auto simp: polls_def split: cluster_call.splits)

lemma polls_Nil [simp]: "polls n [] = 0"
  by (simp add: polls_def)

lemma list_split_nth: "i < length xs \<Longrightarrow> xs = take i xs @ xs ! i # drop (Suc i) xs"
  by (rule id_take_nth_drop)

text \<open>
  The runs in which every answer is that of the cluster it was asked of, and those in which the
  connection is only changed while no manual or polling call is unanswered.
\<close>

fun honest :: "(string \<Rightarrow> json \<Rightarrow> bool) \<Rightarrow> cluster_input list \<Rightarrow> cluster_hook \<Rightarrow> bool" where
  "honest P [] h = True"
| "honest P (e # es) h =
     ((case e of Answer i (Inr d) now \<Rightarrow> i < length (calls h) \<longrightarrow> P (call_conn (calls h ! i)) d | _ \<Rightarrow> True) \<and>
      (case cluster_step e h of None \<Rightarrow> True | Some h' \<Rightarrow> honest P es h'))"

fun is_initial :: "cluster_call \<Rightarrow> bool" where
  "is_initial (Initial n c) = True"
| "is_initial _ = False"

fun calm :: "cluster_input list \<Rightarrow> cluster_hook \<Rightarrow> bool" where
  "calm [] h = True"
| "calm (e # es) h =
     ((case e of Connect c \<Rightarrow> list_all is_initial (calls h) | _ \<Rightarrow> True) \<and>
      (case cluster_step e h of None \<Rightarrow> True | Some h' \<Rightarrow> calm es h'))"

definition call_ok :: "cluster_hook \<Rightarrow> cluster_call \<Rightarrow> bool" where
  "call_ok h x =
     (case x of
        Initial n c \<Rightarrow> n \<le> c_run h \<and> (n = c_run h \<longrightarrow> c_connId h = Some c)
      | Manual c \<Rightarrow> c_connId h = Some c
      | Poll n c \<Rightarrow> c_connId h = Some c)"

definition data_ok :: "(string \<Rightarrow> json \<Rightarrow> bool) \<Rightarrow> cluster_hook \<Rightarrow> bool" where
  "data_ok P h \<longleftrightarrow> (\<forall>d. c_data h = Some d \<longrightarrow> (\<exists>c. c_connId h = Some c \<and> P c d))"

lemma setConnId_simps [simp]:
  "c_connId (setConnId c h) = c" "c_run (setConnId c h) = Suc (c_run h)" "c_data (setConnId c h) = None"
  "calls (setConnId c h) = calls h @ (if truthy c then [Initial (Suc (c_run h)) (the c)] else [])"
  by (simp_all add: setConnId_def Let_def)

lemma setConnId_call_ok:
  assumes "list_all is_initial (calls h)" "list_all (call_ok h) (calls h)"
  shows "list_all (call_ok (setConnId c h)) (calls (setConnId c h))"
proof -
  have "call_ok (setConnId c h) x" if "x \<in> set (calls h)" for x
    using assms that by (cases x) (auto simp: list_all_iff call_ok_def)
  moreover have "truthy c \<Longrightarrow> call_ok (setConnId c h) (Initial (Suc (c_run h)) (the c))"
    by (cases c) (simp_all add: call_ok_def)
  ultimately show ?thesis by (auto simp: list_all_iff)
qed

lemma answer_keeps_conn [simp]:
  "c_connId (cluster_answer x r now h) = c_connId h" "c_run (cluster_answer x r now h) = c_run h"
  "calls (cluster_answer x r now h) = calls h"
  by (cases x; auto simp: Let_def split: sum.splits)+

lemma answer_call_ok: "call_ok (cluster_answer x r now h) y = call_ok h y"
  by (simp add: call_ok_def split: cluster_call.splits)

lemma answer_data_ok:
  assumes "data_ok P h" "call_ok h x" "\<And>d. r = Inr d \<Longrightarrow> P (call_conn x) d"
  shows "data_ok P (cluster_answer x r now h)"
  using assms by (cases x) (auto simp: data_ok_def call_ok_def Let_def split: sum.splits if_splits)

lemma call_ok_cong: "c_run h = c_run h' \<Longrightarrow> c_connId h = c_connId h' \<Longrightarrow> call_ok h = call_ok h'"
  by (simp add: call_ok_def fun_eq_iff split: cluster_call.splits)

lemma issue_ok:
  assumes "data_ok P h" "list_all (call_ok h) (calls h)" "call_ok h x"
    and "c_run h' = c_run h" "c_connId h' = c_connId h" "c_data h' = c_data h" "calls h' = calls h @ [x]"
  shows "data_ok P h' \<and> list_all (call_ok h') (calls h')"
  using assms call_ok_cong [of h' h] by (simp add: data_ok_def)

lemma cluster_step_ok:
  assumes "cluster_step e h = Some h'" "data_ok P h" "list_all (call_ok h) (calls h)"
    and "honest P [e] h" "calm [e] h"
  shows "data_ok P h' \<and> list_all (call_ok h') (calls h')"
  using assms
proof (cases e)
  case (Connect c)
  with assms(1) have h': "h' = setConnId c h" by (simp split: if_splits)
  from assms(5) Connect have "list_all is_initial (calls h)" by simp
  from setConnId_call_ok [OF this assms(3), of c] show ?thesis unfolding h' by (simp add: data_ok_def)
next
  case Refetch
  show ?thesis
  proof (cases "truthy (c_connId h)")
    case True
    then have "call_ok h (Manual (the (c_connId h)))" by (cases "c_connId h") (simp_all add: call_ok_def)
    from issue_ok [OF assms(2,3) this] True assms(1) Refetch show ?thesis by (auto simp: cluster_refetch_def)
  qed (use assms Refetch in \<open>auto simp: cluster_refetch_def\<close>)
next
  case (Tick hidden)
  show ?thesis
  proof (cases "\<not> c_mounted h \<or> \<not> truthy (c_connId h) \<or> pollInFlight h \<or> hidden")
    case False
    then have "call_ok h (Poll (c_run h) (the (c_connId h)))" by (cases "c_connId h") (simp_all add: call_ok_def)
    from issue_ok [OF assms(2,3) this] False assms(1) Tick show ?thesis by (auto simp: tick_def)
  qed (use assms Tick in \<open>auto simp: tick_def\<close>)
next
  case (Answer i r now)
  with assms(1) have i: "i < length (calls h)" by (auto split: if_splits)
  let ?h = "h\<lparr>calls := take i (calls h) @ drop (Suc i) (calls h)\<rparr>"
  have h': "h' = cluster_answer (calls h ! i) r now ?h" using assms(1) Answer by (auto split: if_splits)
  have same: "call_ok ?h = call_ok h" by (simp add: call_ok_def fun_eq_iff split: cluster_call.splits)
  have "call_ok h (calls h ! i)" using assms(3) i by (simp add: list_all_length)
  moreover have "\<And>d. r = Inr d \<Longrightarrow> P (call_conn (calls h ! i)) d"
    using assms(4) Answer i by (auto split: sum.splits)
  moreover have "data_ok P ?h" using assms(2) by (simp add: data_ok_def)
  ultimately have "data_ok P h'" unfolding h' by (intro answer_data_ok) (simp_all add: same)
  moreover have "list_all (call_ok h') (calls h')"
    using assms(3) unfolding h' answer_call_ok [abs_def] by (auto simp: same list_all_iff dest: in_set_takeD in_set_dropD)
  ultimately show ?thesis by blast
next
  case Unmount
  with assms(1) have h': "h' = cluster_unmount h" by simp
  have "call_ok h x \<Longrightarrow> call_ok (cluster_unmount h) x" for x
    by (cases x) (auto simp: call_ok_def cluster_unmount_def)
  with assms(2,3) show ?thesis unfolding h' by (auto simp: list_all_iff data_ok_def cluster_unmount_def)
qed

lemma cluster_run_ok:
  "cluster_run es h = Some h' \<Longrightarrow> data_ok P h \<Longrightarrow> list_all (call_ok h) (calls h) \<Longrightarrow>
     honest P es h \<Longrightarrow> calm es h \<Longrightarrow> data_ok P h'"
proof (induction es arbitrary: h)
  case (Cons e es)
  then obtain h1 where h1: "cluster_step e h = Some h1" "cluster_run es h1 = Some h'"
    by (auto split: bind_splits)
  with Cons.prems have "honest P [e] h" "calm [e] h" "honest P es h1" "calm es h1"
    by (simp_all split: option.splits)
  with Cons h1 cluster_step_ok [OF h1(1) Cons.prems(2,3)] show ?case by blast
qed simp

lemma useCluster_ok: "data_ok P (useCluster c) \<and> list_all (call_ok (useCluster c)) (calls (useCluster c))"
  by (cases c) (simp_all add: useCluster_def data_ok_def call_ok_def)

text \<open>
  C26: a page never shows one cluster's data under another, as long as the connection is only changed
  while no manual refresh and no poll is unanswered. Whatever the order of answers, polls, manual
  refreshes, failures and switches, if each answer is that of the cluster it was asked of, then data
  that the hook exposes is data of the connection it is mounted for.
\<close>

theorem cluster_data_is_of_connection:
  assumes "cluster_run es (useCluster c) = Some h" "honest P es (useCluster c)" "calm es (useCluster c)"
    and "c_data h = Some d"
  shows "\<exists>i. c_connId h = Some i \<and> P i d"
  using cluster_run_ok [OF assms(1) _ _ assms(2,3)] useCluster_ok [of P c] assms(4)
  by (auto simp: data_ok_def)

definition demo_switch :: "cluster_input list" where
  "demo_switch = [Answer 0 (Inr (JStr ''a'')) 1, Tick False, Answer 0 (Inr (JStr ''a'')) 2, Connect (Some ''b''),
     Answer 0 (Inr (JStr ''b'')) 3]"

theorem cluster_data_is_of_connection_witness:
  "\<exists>i. c_connId (the (cluster_run demo_switch (useCluster (Some ''a'')))) = Some i \<and> JStr ''b'' = JStr i"
proof -
  have run: "cluster_run demo_switch (useCluster (Some ''a'')) =
      Some (the (cluster_run demo_switch (useCluster (Some ''a''))))"
    and dat: "c_data (the (cluster_run demo_switch (useCluster (Some ''a'')))) = Some (JStr ''b'')"
    by (simp_all add: demo_switch_def useCluster_def setConnId_def tick_def)
  have "honest (\<lambda>c d. d = JStr c) demo_switch (useCluster (Some ''a''))" "calm demo_switch (useCluster (Some ''a''))"
    by (simp_all add: demo_switch_def useCluster_def setConnId_def tick_def)
  from cluster_data_is_of_connection [OF run this dat] show ?thesis .
qed

text \<open>
  The restriction of the previous property is needed. There is a run in which every answer is that
  of the cluster it was asked of, and in which the hook ends up with the data of cluster \<open>a\<close> while
  it is mounted for cluster \<open>b\<close> and not loading: a poll of \<open>a\<close> was in flight when the connection
  changed, and its answer is not discarded.
\<close>

theorem late_poll_shows_other_cluster:
  "\<exists>es h. cluster_run es (useCluster (Some ''a'')) = Some h \<and>
     honest (\<lambda>c d. d = JStr c) es (useCluster (Some ''a'')) \<and>
     c_connId h = Some ''b'' \<and> c_data h = Some (JStr ''a'') \<and> \<not> c_isLoading h \<and> calls h = []"
proof -
  let ?es = "[Answer 0 (Inr (JStr ''a'')) 1, Tick False, Connect (Some ''b''), Answer 1 (Inr (JStr ''b'')) 2,
    Answer 0 (Inr (JStr ''a'')) 3]"
  show ?thesis
    by (rule exI [of _ ?es]) (simp add: useCluster_def setConnId_def tick_def)
qed

section \<open>Event stream hook (use-event-stream.ts)\<close>

record stream_hook =
  lastEvent :: "sse_event option"
  connected :: bool
  streamError :: bool \<comment> \<open>an error event is held\<close>
  s_active :: bool \<comment> \<open>subscribed and not cancelled\<close>

definition initial_stream_hook :: stream_hook where
  "initial_stream_hook = \<lparr>lastEvent = None, connected = False, streamError = False, s_active = False\<rparr>"

definition stream_subscribe :: "bool \<Rightarrow> stream_hook \<Rightarrow> stream_hook" where
  "stream_subscribe enabled h = (if \<not> enabled then h else h\<lparr>s_active := True\<rparr>)"

definition on_open :: "stream_hook \<Rightarrow> stream_hook" where
  "on_open h = (if s_active h then h\<lparr>streamError := False, connected := True\<rparr> else h)"

definition on_error :: "stream_hook \<Rightarrow> stream_hook" where
  "on_error h = (if \<not> s_active h then h else h\<lparr>streamError := True, connected := False\<rparr>)"

definition on_message :: "sse_event \<Rightarrow> stream_hook \<Rightarrow> stream_hook" where
  "on_message ev h = (if \<not> s_active h then h else h\<lparr>lastEvent := Some ev\<rparr>)"

definition stream_cleanup :: "stream_hook \<Rightarrow> stream_hook" where
  "stream_cleanup h = h\<lparr>s_active := False, connected := False, streamError := False, lastEvent := None\<rparr>"

lemma never_connected_with_error:
  "\<not> (connected h \<and> streamError h) \<Longrightarrow>
     \<not> (connected (on_open h) \<and> streamError (on_open h)) \<and> \<not> (connected (on_error h) \<and> streamError (on_error h)) \<and>
     \<not> (connected (on_message ev h) \<and> streamError (on_message ev h)) \<and>
     \<not> (connected (stream_cleanup h) \<and> streamError (stream_cleanup h))"
  by (auto simp: on_open_def on_error_def on_message_def stream_cleanup_def)

lemma late_events_after_cleanup:
  "on_open (stream_cleanup h) = stream_cleanup h \<and> on_error (stream_cleanup h) = stream_cleanup h \<and>
   on_message ev (stream_cleanup h) = stream_cleanup h"
  by (simp add: on_open_def on_error_def on_message_def stream_cleanup_def)

section \<open>Stable list keys (use-stable-list-keys.ts)\<close>

definition align_keys :: "string list \<Rightarrow> nat \<Rightarrow> string list \<Rightarrow> string list" where
  \<comment> \<open>the memo for a new length; \<open>ids\<close> are the identifiers \<open>newId\<close> gives next\<close>
  "align_keys ids n keys =
     (if length keys = n then keys
      else if length keys < n then keys @ take (n - length keys) ids
      else take n keys)"

definition notifyAdd :: "string \<Rightarrow> string list \<Rightarrow> string list" where
  "notifyAdd i keys = keys @ [i]"

definition notifyRemove :: "nat \<Rightarrow> string list \<Rightarrow> string list" where
  "notifyRemove i keys = take i keys @ drop (Suc i) keys"

lemma length_align_keys: "n \<le> length keys + length ids \<Longrightarrow> length (align_keys ids n keys) = n"
  by (simp add: align_keys_def)

lemma align_keys_distinct:
  "distinct (keys @ ids) \<Longrightarrow> distinct (align_keys ids n keys)"
  by (auto simp: align_keys_def dest: in_set_takeD)

text \<open>Removing the row and its key keeps every other row with its own key.\<close>

lemma notifyRemove_aligned:
  assumes "length keys = length rows"
  shows "zip (notifyRemove i keys) (take i rows @ drop (Suc i) rows) =
    take i (zip keys rows) @ drop (Suc i) (zip keys rows)"
  using assms by (simp add: notifyRemove_def zip_append take_zip drop_zip)

lemma notifyAdd_aligned: "length keys = length rows \<Longrightarrow> zip (notifyAdd i keys) (rows @ [r]) = zip keys rows @ [(i, r)]"
  by (simp add: notifyAdd_def)

end
