(* ===== verification/List_Pages.thy ===== *)
theory List_Pages
  imports Cluster_Rows Record_Browser Data_Hooks
begin

text \<open>
  The pages that list what a cluster holds, under \<^verbatim>\<open>ui/src/app/(main)/clusters/\<close>: users and roles
  (\<^verbatim>\<open>[clusterId]/admin/page.tsx\<close>), secondary indexes (\<^verbatim>\<open>secondary-indexes/page.tsx\<close>), UDF modules
  (\<^verbatim>\<open>udfs/page.tsx\<close>), namespaces and sets (\<^verbatim>\<open>sets/page.tsx\<close>), the overview (\<^verbatim>\<open>page.tsx\<close>) and the
  list of clusters itself.

  A page is a record of its React state; a load is split at its \<open>await\<close>, so that answers arrive in any
  order. \<open>fs\<close> prints the fractions that are not integers, \<open>cmp\<close> is \<open>localeCompare\<close> and \<open>loc\<close> is
  \<open>toLocaleString\<close>. What is logged to the console is left out.
\<close>

section \<open>Users and roles (admin/page.tsx)\<close>

record privilege =
  pr_code :: string
  pr_namespace :: "string option"
  pr_set :: "string option"

record aerospike_user =
  us_username :: string
  us_roles :: "string list"
  us_readQuota :: jsnum
  us_writeQuota :: jsnum
  us_connections :: jsnum

record aerospike_role =
  ro_name :: string
  ro_privileges :: "privilege list"
  ro_whitelist :: "string list"
  ro_readQuota :: jsnum
  ro_writeQuota :: jsnum

record 'a load_state =
  ls_data :: "'a option"
  ls_loading :: bool
  ls_error :: "string option"

record admin_page =
  usersState :: "aerospike_user list load_state"
  rolesState :: "aerospike_role list load_state"
  securityDisabled :: bool
  loadSeq :: nat

definition initial_admin :: admin_page where
  "initial_admin =
     \<lparr>usersState = \<lparr>ls_data = None, ls_loading = True, ls_error = None\<rparr>,
      rolesState = \<lparr>ls_data = None, ls_loading = True, ls_error = None\<rparr>, securityDisabled = False, loadSeq = 0\<rparr>"

definition admin_load :: "admin_page \<Rightarrow> admin_page" where
  \<comment> \<open>\<open>load\<close> up to the \<open>await\<close>\<close>
  "admin_load p =
     p\<lparr>loadSeq := Suc (loadSeq p),
       usersState := (usersState p)\<lparr>ls_loading := True, ls_error := None\<rparr>,
       rolesState := (rolesState p)\<lparr>ls_loading := True, ls_error := None\<rparr>,
       securityDisabled := False\<rparr>"

definition isAclGate :: "(rat \<Rightarrow> string) \<Rightarrow> js_error \<Rightarrow> bool" where
  "isAclGate fs e = (case mapApiError fs e of SecurityDisabled _ \<Rightarrow> True | PermissionDenied _ \<Rightarrow> True | _ \<Rightarrow> False)"

definition section_state :: "(rat \<Rightarrow> string) \<Rightarrow> js_error + 'a \<Rightarrow> 'a load_state" where
  "section_state fs r =
     (case r of
        Inr d \<Rightarrow> \<lparr>ls_data = Some d, ls_loading = False, ls_error = None\<rparr>
      | Inl e \<Rightarrow> \<lparr>ls_data = None, ls_loading = False, ls_error = Some (error_text fs e)\<rparr>)"

type_synonym admin_answer = "(js_error + aerospike_user list) \<times> (js_error + aerospike_role list)"

definition admin_settled :: "(rat \<Rightarrow> string) \<Rightarrow> nat \<Rightarrow> admin_answer \<Rightarrow> admin_page \<Rightarrow> admin_page" where
  \<comment> \<open>\<open>load\<close> after both requests have settled; \<open>n\<close> is the number of the call\<close>
  "admin_settled fs n r p =
     (if n \<noteq> loadSeq p then p
      else (case r of
          (Inl ue, Inl re) \<Rightarrow>
            if isAclGate fs ue \<and> isAclGate fs re
            then p\<lparr>securityDisabled := True,
                   usersState := \<lparr>ls_data = None, ls_loading = False, ls_error = None\<rparr>,
                   rolesState := \<lparr>ls_data = None, ls_loading = False, ls_error = None\<rparr>\<rparr>
            else p\<lparr>usersState := section_state fs (Inl ue), rolesState := section_state fs (Inl re)\<rparr>
        | (u, ro) \<Rightarrow> p\<lparr>usersState := section_state fs u, rolesState := section_state fs ro\<rparr>))"

definition matches :: "string \<Rightarrow> string \<Rightarrow> bool" where
  \<comment> \<open>\<open>name.toLowerCase().includes(q)\<close>\<close>
  "matches q name = str_includes (toLowerCase name) q"

definition filter_query :: "string \<Rightarrow> string" where
  "filter_query s = toLowerCase (trim s)"

definition users_filtered :: "string \<Rightarrow> aerospike_user list option \<Rightarrow> aerospike_user list option" where
  "users_filtered s data =
     (case data of
        None \<Rightarrow> None
      | Some us \<Rightarrow>
          (let q = filter_query s in
           if q = [] then Some us
           else Some (filter (\<lambda>u. matches q (us_username u) \<or> list_ex (matches q) (us_roles u)) us)))"

datatype 'a table_view = Skeleton | Failed | Message string | Rows "'a list"

definition users_table :: "string \<Rightarrow> aerospike_user list load_state \<Rightarrow> aerospike_user table_view" where
  "users_table s st =
     (if ls_loading st then Skeleton
      else case users_filtered s (ls_data st) of
        Some (u # us) \<Rightarrow> Rows (u # us)
      | _ \<Rightarrow> Message (if ls_data st \<noteq> None \<and> ls_data st \<noteq> Some [] then ''No users match the filter.'' else ''No users.''))"

definition roles_table :: "aerospike_role list load_state \<Rightarrow> aerospike_role table_view" where
  "roles_table st =
     (if ls_loading st then Skeleton
      else case ls_data st of Some (r # rs) \<Rightarrow> Rows (r # rs) | _ \<Rightarrow> Message ''No roles.'')"

section \<open>Secondary indexes and UDF modules\<close>

text \<open>Both pages keep the same state and have the same \<open>load\<close>, which is not guarded by a number.\<close>

record 'a list_page =
  lp_items :: "'a list option"
  lp_loading :: bool
  lp_error :: "string option"

definition initial_list :: "'a list_page" where
  "initial_list = \<lparr>lp_items = None, lp_loading = True, lp_error = None\<rparr>"

definition list_load :: "'a list_page \<Rightarrow> 'a list_page" where
  "list_load p = p\<lparr>lp_loading := True, lp_error := None\<rparr>"

definition list_settled :: "(rat \<Rightarrow> string) \<Rightarrow> nat \<Rightarrow> js_error + 'a list \<Rightarrow> 'a list_page \<Rightarrow> 'a list_page" where
  \<comment> \<open>the number of the call is not looked at\<close>
  "list_settled fs n r p =
     (case r of
        Inr d \<Rightarrow> p\<lparr>lp_items := Some d, lp_loading := False\<rparr>
      | Inl e \<Rightarrow> p\<lparr>lp_error := Some (error_text fs e), lp_loading := False\<rparr>)"

definition index_matches :: "string \<Rightarrow> secondary_index \<Rightarrow> bool" where
  "index_matches q r \<longleftrightarrow> (if q = [] then True else matches q (ix_name r) \<or> matches q (ix_bin r))"

definition indexes_grouped :: "string \<Rightarrow> secondary_index list option \<Rightarrow> (string, secondary_index list) jsmap" where
  \<comment> \<open>\<open>grouped\<close>, for namespaces that are neither canonical numerals, which JavaScript lists first, nor
     members of \<open>Object.prototype\<close>\<close>
  "indexes_grouped s indexes =
     fold (group_push ix_namespace) (filter (index_matches (filter_query s)) (nullish indexes [])) []"

definition list_table :: "string \<Rightarrow> string \<Rightarrow> 'a list_page \<Rightarrow> 'b list \<Rightarrow> 'b table_view" where
  "list_table no_match none p rows =
     (if lp_loading p \<and> lp_items p = None then Skeleton
      else if truthy (lp_error p) \<and> lp_items p = None then Failed
      else if rows = [] then Message (if nullish (lp_items p) [] \<noteq> [] then no_match else none)
      else Rows rows)"

definition indexes_table :: "string \<Rightarrow> secondary_index list_page \<Rightarrow> (string \<times> secondary_index list) table_view" where
  "indexes_table s p =
     list_table ''No indexes match the filter.'' ''No secondary indexes defined.'' p (indexes_grouped s (lp_items p))"

record udf_module = \<comment> \<open>the type is always \<open>"LUA"\<close>\<close>
  ud_filename :: string
  ud_hash :: string
  ud_content :: "string option"

definition udfs_filtered :: "string \<Rightarrow> udf_module list option \<Rightarrow> udf_module list" where
  "udfs_filtered s udfs =
     (case udfs of
        None \<Rightarrow> []
      | Some us \<Rightarrow> (let q = filter_query s in filter (\<lambda>u. q = [] \<or> matches q (ud_filename u)) us))"

definition udfs_table :: "string \<Rightarrow> udf_module list_page \<Rightarrow> udf_module table_view" where
  "udfs_table s p =
     list_table ''No modules match the filter.'' ''No UDF modules registered.'' p (udfs_filtered s (lp_items p))"

section \<open>Namespaces and sets (sets/page.tsx)\<close>

record set_info =
  se_name :: string
  se_namespace :: string
  se_objects :: jsnum
  se_tombstones :: jsnum
  se_memoryDataBytes :: jsnum
  se_stopWritesCount :: jsnum
  se_nodeCount :: jsnum
  se_totalNodes :: jsnum
  se_note :: "string option"

record namespace_info =
  ni_name :: string
  ni_objects :: jsnum
  ni_memoryUsed :: jsnum
  ni_memoryTotal :: jsnum
  ni_memoryFreePct :: jsnum
  ni_deviceUsed :: jsnum
  ni_deviceTotal :: jsnum
  ni_replicationFactor :: jsnum
  ni_stopWrites :: bool
  ni_hwmBreached :: bool
  ni_highWaterMemoryPct :: jsnum
  ni_highWaterDiskPct :: jsnum
  ni_nsupPeriod :: jsnum
  ni_defaultTtl :: jsnum
  ni_allowTtlWithoutNsup :: bool
  ni_sets :: "set_info list"

definition toFixed :: "(rat \<Rightarrow> string) \<Rightarrow> nat \<Rightarrow> rat \<Rightarrow> string" where
  \<comment> \<open>\<open>Number.prototype.toFixed\<close> on a number that is not negative\<close>
  "toFixed fs f x =
     (if 10 ^ 21 \<le> x then num_str fs (Num x)
      else (let m = nat_str (nat \<lfloor>x * 10 ^ f + 1 / 2\<rfloor>);
                ds = replicate (Suc f - length m) (CHR ''0'') @ m;
                k = length ds - f
            in if f = 0 then m else take k ds @ ''.'' @ drop k ds))"

definition scaled :: "(rat \<Rightarrow> string) \<Rightarrow> nat \<Rightarrow> rat \<Rightarrow> rat \<Rightarrow> string" where
  \<comment> \<open>\<open>(x / d).toFixed(f)\<close>; the quotient is rounded to a double\<close>
  "scaled fs f x d = toFixed fs f (round_binary64 (x / d))"

definition formatBytes :: "(rat \<Rightarrow> string) \<Rightarrow> jsnum \<Rightarrow> string" where
  "formatBytes fs bytes =
     (case bytes of
        Num x \<Rightarrow>
          if x \<le> 0 then ''0 B''
          else if 2 ^ 30 \<le> x then scaled fs 2 x (2 ^ 30) @ '' GB''
          else if 2 ^ 20 \<le> x then scaled fs 1 x (2 ^ 20) @ '' MB''
          else if 2 ^ 10 \<le> x then scaled fs 1 x (2 ^ 10) @ '' KB''
          else num_str fs (Num x) @ '' B''
      | _ \<Rightarrow> ''0 B'')"

definition formatCount :: "(rat \<Rightarrow> string) \<Rightarrow> (rat \<Rightarrow> string) \<Rightarrow> jsnum \<Rightarrow> string" where
  "formatCount fs loc n =
     (case n of
        Num x \<Rightarrow>
          if 1000000 \<le> x then scaled fs (if 10000000 \<le> x then 0 else 1) x 1000000 @ ''M''
          else if 1000 \<le> x then scaled fs (if 10000 \<le> x then 0 else 1) x 1000 @ ''K''
          else loc x
      | _ \<Rightarrow> ''0'')"

datatype severity = SevOk | SevWarning | SevError

definition nsSeverity :: "namespace_info \<Rightarrow> severity" where
  "nsSeverity ns = (if ni_stopWrites ns then SevError else if ni_hwmBreached ns then SevWarning else SevOk)"

definition nsStatusLabel :: "namespace_info \<Rightarrow> string" where
  "nsStatusLabel ns = (if ni_stopWrites ns then ''Stop writes'' else if ni_hwmBreached ns then ''HWM breached'' else ''Healthy'')"

definition namespaces_filtered :: "string \<Rightarrow> namespace_info list \<Rightarrow> namespace_info list" where
  "namespaces_filtered s namespaces =
     (let q = filter_query s in
      if q = [] then namespaces
      else filter (\<lambda>ns. matches q (ni_name ns) \<or> ni_sets ns \<noteq> [])
             (map (\<lambda>ns. ns\<lparr>ni_sets := filter (\<lambda>st. matches q (se_name st)) (ni_sets ns)\<rparr>) namespaces))"

definition filled :: "set_info \<Rightarrow> int" where
  \<comment> \<open>\<open>Number(s.objects > 0)\<close>\<close>
  "filled s = (if num_less (inum 0) (se_objects s) then 1 else 0)"

definition compareSets :: "(string \<Rightarrow> string \<Rightarrow> int) \<Rightarrow> set_info \<Rightarrow> set_info \<Rightarrow> int" where
  "compareSets cmp a b = (if filled b - filled a \<noteq> 0 then filled b - filled a else cmp (se_name a) (se_name b))"

definition set_chips :: "(string \<Rightarrow> string \<Rightarrow> int) \<Rightarrow> namespace_info \<Rightarrow> set_info list" where
  "set_chips cmp ns = sort_by (compareSets cmp) (ni_sets ns)"

definition sets_notice :: "namespace_info \<Rightarrow> string option" where
  "sets_notice ns = (if ni_sets ns = [] then Some ''No sets in this namespace yet.'' else None)"

section \<open>Overview (page.tsx)\<close>

definition last_updated :: "int \<Rightarrow> int option \<Rightarrow> string option" where
  \<comment> \<open>the label of \<open>LastUpdated\<close> at the time \<open>now\<close>, in milliseconds; the quotient is rounded to a double\<close>
  "last_updated now updated =
     (case updated of
        None \<Rightarrow> None
      | Some t \<Rightarrow>
          (let seconds = max 0 \<lfloor>round_binary64 (of_int (now - t) / 1000) + 1 / 2\<rfloor>
           in Some (if seconds < 60 then int_str seconds @ ''s ago''
                    else int_str (seconds div 60) @ ''m '' @ int_str (seconds mod 60) @ ''s ago'')))"

datatype stat_value = StatText string | StatNum jsnum

definition stat_positive :: "(string \<Rightarrow> jsnum) \<Rightarrow> stat_value option \<Rightarrow> bool" where
  \<comment> \<open>\<open>Number(stat ?? 0) > 0\<close>; \<open>num\<close> is \<open>Number\<close> on strings\<close>
  "stat_positive num v =
     (case v of None \<Rightarrow> False | Some (StatText s) \<Rightarrow> num_less (inum 0) (num s) | Some (StatNum x) \<Rightarrow> num_less (inum 0) x)"

definition nodeStatus :: "(string \<Rightarrow> jsnum) \<Rightarrow> (string, stat_value) jsmap option \<Rightarrow> string \<times> string" where
  \<comment> \<open>label and badge variant\<close>
  "nodeStatus num statistics =
     (let stats = nullish statistics [] in
      if stat_positive num (obj_get stats ''migrate_partitions_remaining'') \<or>
         obj_get stats ''cluster_integrity'' = Some (StatText ''false'')
      then (''Migrating'', ''warning'') else (''Up'', ''success''))"

section \<open>List of clusters (clusters/page.tsx)\<close>

definition filteredConnections :: "string \<Rightarrow> connection_profile list option \<Rightarrow> connection_profile list option" where
  "filteredConnections workspace = map_option (filter (\<lambda>c. cp_workspaceId c = Some workspace))"

definition clusters_rows :: "string \<Rightarrow> connection_profile list option \<Rightarrow> k8s_summary list option \<Rightarrow> cluster_row list" where
  "clusters_rows workspace conns k8s = mergeRows (filteredConnections workspace conns) k8s"

datatype clusters_view = ClustersSkeleton | ClustersEmptyState | EnvSections "(string \<times> cluster_row list) list"

definition clusters_page ::
  "(string \<Rightarrow> string \<Rightarrow> int) \<Rightarrow> string \<Rightarrow> connection_profile list query_hook \<Rightarrow> k8s_summary list query_hook \<Rightarrow> clusters_view" where
  "clusters_page cmp workspace conn k8s =
     (let rows = clusters_rows workspace (q_data conn) (q_data k8s) in
      if rows = [] then (if q_isLoading conn \<or> q_isLoading k8s then ClustersSkeleton else ClustersEmptyState)
      else EnvSections (groupByEnv cmp rows))"

definition combinedError :: "'a query_hook \<Rightarrow> 'b query_hook \<Rightarrow> js_error option" where
  "combinedError conn k8s = (case q_error conn of Some e \<Rightarrow> Some e | None \<Rightarrow> q_error k8s)"

section \<open>Properties of the guarded load\<close>

interpretation admin: latest_load loadSeq "\<lambda>(_ :: unit). admin_load" "admin_settled fs" for fs
  by unfold_locales (auto simp: admin_load_def admin_settled_def split: sum.splits)

abbreviation admin_run :: "(rat \<Rightarrow> string) \<Rightarrow> (unit, admin_answer) load_event list \<Rightarrow> admin_page \<Rightarrow> admin_page" where
  "admin_run fs \<equiv> load_run (\<lambda>_. admin_load) (admin_settled fs)"

definition admin_gated :: "(rat \<Rightarrow> string) \<Rightarrow> admin_answer \<Rightarrow> bool" where
  "admin_gated fs r \<longleftrightarrow> (case r of (Inl ue, Inl re) \<Rightarrow> isAclGate fs ue \<and> isAclGate fs re | _ \<Rightarrow> False)"

lemma admin_settled_current:
  "\<not> securityDisabled p \<Longrightarrow> admin_settled fs (loadSeq p) (u, r) p =
     (if admin_gated fs (u, r)
      then p\<lparr>securityDisabled := True, usersState := \<lparr>ls_data = None, ls_loading = False, ls_error = None\<rparr>,
             rolesState := \<lparr>ls_data = None, ls_loading = False, ls_error = None\<rparr>\<rparr>
      else p\<lparr>securityDisabled := False, usersState := section_state fs u, rolesState := section_state fs r\<rparr>)"
  by (auto simp: admin_settled_def admin_gated_def split: sum.splits)

text \<open>
  C19: The users and roles page always shows the newest load. Let any number of loads be started and
  answered in any order; once the last load that was started has been answered, the page shows that
  answer and nothing of the others: the notice that security is disabled exactly when both of its
  requests were refused for that reason or for lack of permission, and otherwise each section with its
  own data or its own error.
\<close>

theorem admin_shows_latest_load:
  assumes "loads after = []" "answers (Suc (length (loads before))) after = [(u, r)]"
    and "p = admin_run fs (before @ Load () # after) initial_admin"
  shows "securityDisabled p = admin_gated fs (u, r) \<and>
    (if admin_gated fs (u, r)
     then usersState p = \<lparr>ls_data = None, ls_loading = False, ls_error = None\<rparr> \<and>
          rolesState p = \<lparr>ls_data = None, ls_loading = False, ls_error = None\<rparr>
     else usersState p = section_state fs u \<and> rolesState p = section_state fs r)"
proof -
  let ?q = "admin_load (admin_run fs before initial_admin)"
  have seq: "loadSeq ?q = Suc (length (loads before))"
    using admin.seqno_run [of fs before initial_admin] by (simp add: admin_load_def initial_admin_def)
  have "p = admin_settled fs (loadSeq ?q) (u, r) ?q"
    unfolding assms(3) seq by (rule admin.newest_decides) (use assms in \<open>simp_all add: initial_admin_def\<close>)
  also have "\<dots> = (if admin_gated fs (u, r)
      then ?q\<lparr>securityDisabled := True, usersState := \<lparr>ls_data = None, ls_loading = False, ls_error = None\<rparr>,
             rolesState := \<lparr>ls_data = None, ls_loading = False, ls_error = None\<rparr>\<rparr>
      else ?q\<lparr>securityDisabled := False, usersState := section_state fs u, rolesState := section_state fs r\<rparr>)"
    by (rule admin_settled_current) (simp add: admin_load_def)
  finally show ?thesis by simp
qed

theorem admin_shows_latest_load_witness:
  "\<exists>p. p = admin_run (\<lambda>_. []) ([Load ()] @ Load () # [Settled 2 (Inr [], Inr []), Settled 1 (Inl (ErrorObj ''x''), Inr [])]) initial_admin \<and>
     \<not> securityDisabled p \<and> ls_data (usersState p) = Some [] \<and> ls_error (usersState p) = None"
proof -
  let ?after = "[Settled 2 (Inr [], Inr []), Settled 1 (Inl (ErrorObj ''x''), Inr [])] :: (unit, admin_answer) load_event list"
  have "loads ?after = []" "answers (Suc (length (loads ([Load ()] :: (unit, admin_answer) load_event list)))) ?after = [(Inr [], Inr [])]"
    by simp_all
  from admin_shows_latest_load [OF this refl, of "\<lambda>_. []"] show ?thesis
    by (simp add: admin_gated_def section_state_def)
qed

section \<open>Properties of the index and module lists\<close>

abbreviation list_run :: "(rat \<Rightarrow> string) \<Rightarrow> (unit, js_error + 'a list) load_event list \<Rightarrow> 'a list_page \<Rightarrow> 'a list_page" where
  "list_run fs \<equiv> load_run (\<lambda>_. list_load) (list_settled fs)"

text \<open>
  The lists of indexes and modules have no such guard. After an index is created while the first
  load is still in flight, the answer of the first load may arrive last; the page then shows the list
  without the new index, as the final answer, with no error.
\<close>

theorem late_list_answer_wins:
  "list_run fs [Load (), Load (), Settled 2 (Inr newest), Settled 1 (Inr old)] initial_list =
     \<lparr>lp_items = Some old, lp_loading = False, lp_error = None\<rparr>"
  by (simp add: list_load_def list_settled_def initial_list_def)

fun answered :: "('a, 'r) load_event list \<Rightarrow> 'r list" where
  "answered [] = []"
| "answered (Load a # es) = answered es"
| "answered (Settled n r # es) = r # answered es"

definition list_honest :: "(rat \<Rightarrow> string) \<Rightarrow> (js_error + 'a list) list \<Rightarrow> 'a list_page \<Rightarrow> bool" where
  \<comment> \<open>the items come from an answer; without items the page is loading or has a non-empty error\<close>
  "list_honest fs rs p \<longleftrightarrow>
     (\<forall>d. lp_items p = Some d \<longrightarrow> Inr d \<in> set rs) \<and>
     (lp_items p = None \<longrightarrow> lp_loading p \<or> (\<exists>e. Inl e \<in> set rs \<and> lp_error p = Some (error_text fs e)))"

lemma list_honest_mono: "list_honest fs rs p \<Longrightarrow> set rs \<subseteq> set rs' \<Longrightarrow> list_honest fs rs' p"
  unfolding list_honest_def by blast

lemma list_honest_run:
  "list_honest fs rs p \<Longrightarrow> list_honest fs (rs @ answered es) (list_run fs es p)"
proof (induction es arbitrary: rs p rule: answered.induct)
  case (2 a es)
  have "list_honest fs rs (list_load p)" using "2.prems" by (auto simp: list_honest_def list_load_def)
  from "2.IH" [OF this] show ?case by simp
next
  case (3 n r es)
  have "list_honest fs (rs @ [r]) (list_settled fs n r p)"
    using "3.prems" by (cases r) (auto simp: list_honest_def list_settled_def)
  from "3.IH" [OF this] show ?case by simp
qed simp

lemma list_honest_initial: "list_honest fs [] initial_list"
  by (simp add: list_honest_def initial_list_def)

text \<open>
  The index page says that there are no secondary indexes only when the cluster said so. For all
  loads and answers in any order, if the table shows \<open>No secondary indexes defined.\<close> then one of the
  answers was the empty list, as long as no failed request has an empty error text.
\<close>

theorem no_indexes_only_if_answered:
  assumes "indexes_table s (list_run fs es initial_list) = Message ''No secondary indexes defined.''"
    and "\<forall>e. Inl e \<in> set (answered es) \<longrightarrow> error_text fs e \<noteq> []"
  shows "Inr [] \<in> set (answered es) \<and> lp_items (list_run fs es initial_list) = Some []"
proof -
  let ?p = "list_run fs es initial_list :: secondary_index list_page"
  have h: "list_honest fs (answered es) ?p" using list_honest_run [OF list_honest_initial, of fs es] by simp
  have items: "\<not> (lp_loading ?p \<and> lp_items ?p = None)" "\<not> (truthy (lp_error ?p) \<and> lp_items ?p = None)"
    "nullish (lp_items ?p) [] = []"
    using assms(1) by (auto simp: indexes_table_def list_table_def split: if_splits)
  have "lp_items ?p \<noteq> None"
  proof
    assume none: "lp_items ?p = None"
    with h items(1) obtain e where "Inl e \<in> set (answered es)" "lp_error ?p = Some (error_text fs e)"
      by (auto simp: list_honest_def)
    with assms(2) items(2) none show False by simp
  qed
  with items(3) have "lp_items ?p = Some []" by auto
  with h show ?thesis by (auto simp: list_honest_def)
qed

theorem no_indexes_only_if_answered_witness:
  "Inr [] \<in> set (answered [Load (), Settled 1 (Inr ([] :: secondary_index list))])"
proof -
  let ?es = "[Load (), Settled 1 (Inr ([] :: secondary_index list))] :: (unit, js_error + secondary_index list) load_event list"
  have "indexes_table [] (list_run (\<lambda>_. []) ?es initial_list) = Message ''No secondary indexes defined.''"
    by (simp add: indexes_table_def list_table_def list_load_def list_settled_def initial_list_def indexes_grouped_def)
  from no_indexes_only_if_answered [OF this] show ?thesis by simp
qed

text \<open>
  The groups of the index table hold the indexes that match the filter, each once, under their
  namespace, and every namespace heads one group.
\<close>

theorem indexes_grouped_sound:
  "in_groups (indexes_grouped s indexes) = mset (filter (index_matches (filter_query s)) (nullish indexes [])) \<and>
   grouped_ok ix_namespace (indexes_grouped s indexes)"
  by (simp add: indexes_grouped_def groups_of)

section \<open>Properties of namespaces and sets\<close>

lemma comparator_compareSets: "comparator cmp \<Longrightarrow> comparator (compareSets cmp)"
  unfolding comparator_def compareSets_def by (auto split: if_splits)

text \<open>
  The chips of a namespace are its sets, each once; the sets that hold records come first, and among
  those that do and those that do not the order is by name.
\<close>

theorem set_chips_sound:
  assumes "comparator cmp"
  shows "mset (set_chips cmp ns) = mset (ni_sets ns) \<and>
    sorted_wrt (\<lambda>a b. filled b \<le> filled a \<and> (filled a = filled b \<longrightarrow> cmp (se_name a) (se_name b) \<le> 0)) (set_chips cmp ns)"
proof
  show "mset (set_chips cmp ns) = mset (ni_sets ns)" by (simp add: set_chips_def)
  have "sorted_by (compareSets cmp) (set_chips cmp ns)"
    unfolding set_chips_def by (rule sorted_sort_by [OF comparator_compareSets [OF assms]])
  then show "sorted_wrt (\<lambda>a b. filled b \<le> filled a \<and> (filled a = filled b \<longrightarrow> cmp (se_name a) (se_name b) \<le> 0)) (set_chips cmp ns)"
    by (rule sorted_wrt_mono_rel [rotated]) (auto simp: compareSets_def split: if_splits)
qed

text \<open>
  The filter is announced as a filter by namespace or set name. A namespace whose name matches is kept,
  but only with those of its sets whose names match as well: when none does, the card of a namespace
  that has sets says that there are none.
\<close>

theorem namespace_match_hides_sets:
  assumes "ns \<in> set namespaces" "filter_query s \<noteq> []" "matches (filter_query s) (ni_name ns)"
    and "\<forall>st \<in> set (ni_sets ns). \<not> matches (filter_query s) (se_name st)"
  shows "\<exists>shown \<in> set (namespaces_filtered s namespaces). ni_name shown = ni_name ns \<and>
    sets_notice shown = Some ''No sets in this namespace yet.''"
proof
  have "ns\<lparr>ni_sets := []\<rparr> = ns\<lparr>ni_sets := filter (\<lambda>st. matches (filter_query s) (se_name st)) (ni_sets ns)\<rparr>"
    using assms(4) by (simp add: filter_False)
  then show "ns\<lparr>ni_sets := []\<rparr> \<in> set (namespaces_filtered s namespaces)"
    using assms(1,2,3) by (auto simp: namespaces_filtered_def Let_def)
qed (simp add: sets_notice_def)

lemma namespaces_filtered_sets:
  "filter_query s \<noteq> [] \<Longrightarrow> shown \<in> set (namespaces_filtered s namespaces) \<Longrightarrow>
   \<exists>ns \<in> set namespaces. ni_name shown = ni_name ns \<and> ni_sets shown = filter (\<lambda>st. matches (filter_query s) (se_name st)) (ni_sets ns)"
  by (auto simp: namespaces_filtered_def Let_def)

subsection \<open>Numbers with units\<close>

lemma digits_val_zeros [simp]: "digits_val (replicate k (CHR ''0'') @ s) = digits_val s"
  by (induction k) (simp_all add: digits_val_def digit_val_def)

lemma half_unit:
  fixes x :: rat
  assumes "\<bar>n - x * d\<bar> \<le> 1 / 2" "0 < d"
  shows "\<bar>n / d - x\<bar> \<le> 1 / (2 * d)"
proof -
  have "n / d - x = (n - x * d) / d" using assms(2) by (simp add: field_simps)
  then have "\<bar>n / d - x\<bar> = \<bar>n - x * d\<bar> / d" using assms(2) by (simp add: abs_divide)
  also have "\<dots> \<le> 1 / 2 / d" using assms by (intro divide_right_mono) simp_all
  finally show ?thesis by simp
qed

lemma decimal_val_split: "f \<le> length ds \<Longrightarrow> decimal_val (take (length ds - f) ds) (drop (length ds - f) ds) = of_nat (digits_val ds) / 10 ^ f"
  by (simp add: decimal_val_def)

text \<open>
  What \<open>toFixed\<close> prints is the nearest decimal: the digits around the point read back as a number
  that differs from the given one by at most half a unit of the last printed place, and the number of
  printed places is the one asked for.
\<close>

theorem toFixed_nearest:
  assumes "0 \<le> x" "x < 10 ^ 21" "0 < f"
  shows "\<exists>a b. toFixed fs f x = a @ ''.'' @ b \<and> a \<noteq> [] \<and> length b = f \<and> \<bar>decimal_val a b - x\<bar> \<le> 1 / (2 * 10 ^ f)"
proof -
  define n where "n = \<lfloor>x * 10 ^ f + 1 / 2\<rfloor>"
  define m where "m = nat_str (nat n)"
  define ds where "ds = replicate (Suc f - length m) (CHR ''0'') @ m"
  have "0 \<le> n" unfolding n_def using assms(1) by simp
  then have val: "of_nat (digits_val ds) = (of_int n :: rat)" by (simp add: ds_def m_def)
  have len: "f < length ds" by (auto simp: ds_def)
  have "\<bar>of_int n - x * 10 ^ f\<bar> \<le> 1 / 2" unfolding n_def by linarith
  then have near: "\<bar>of_int n / 10 ^ f - x\<bar> \<le> 1 / (2 * 10 ^ f)" by (rule half_unit) simp
  have "toFixed fs f x = take (length ds - f) ds @ ''.'' @ drop (length ds - f) ds"
    using assms(2,3) unfolding ds_def m_def n_def toFixed_def Let_def by simp
  moreover have "\<bar>decimal_val (take (length ds - f) ds) (drop (length ds - f) ds) - x\<bar> \<le> 1 / (2 * 10 ^ f)"
    using len near by (simp only: decimal_val_split [OF less_imp_le] val)
  moreover have "take (length ds - f) ds \<noteq> []" "length (drop (length ds - f) ds) = f" using len by auto
  ultimately show ?thesis by blast
qed

theorem toFixed_nearest_witness:
  "\<exists>a b. toFixed (\<lambda>_. []) 1 (5 / 4) = a @ ''.'' @ b \<and> length b = 1 \<and> \<bar>decimal_val a b - 5 / 4\<bar> \<le> 1 / 20"
  using toFixed_nearest [of "5 / 4" 1 "\<lambda>_. []"] by auto

section \<open>Properties of the list of clusters\<close>

lemma mergeRows_profiles:
  "mset (filter (\<lambda>r. cr_profile r \<noteq> None) (mergeRows cs k8s)) = mset (map (conn_row k8s) (nullish cs []))"
proof -
  have "filter (\<lambda>r. cr_profile r \<noteq> None) (map (conn_row k8s) ys) = map (conn_row k8s) ys" for ys
    by (rule filter_True) (auto simp: conn_row_def Let_def)
  moreover have "filter (\<lambda>r. cr_profile r \<noteq> None) (map k8s_row ks) = []" for ks
    by (rule filter_False) (auto simp: k8s_row_def)
  ultimately show ?thesis by (simp add: mergeRows_def Let_def)
qed



text \<open>
  The workspace filter is applied before the Kubernetes clusters are merged in. A cluster that is linked
  to a connection of another workspace is therefore not recognised as linked, and is listed in every
  workspace, without its profile and its labels.
\<close>

theorem k8s_cluster_of_other_workspace_listed:
  assumes "k \<in> set ks" "ks_connectionId k = Some (cp_id c)" "c \<in> set cs" "cp_workspaceId c \<noteq> Some w"
    and "distinct (map cp_id cs)"
  shows "k8s_row k \<in> set (clusters_rows w (Some cs) (Some ks))"
proof -
  have "cp_id c \<notin> cp_id ` {x \<in> set cs. cp_workspaceId x = Some w}"
    using assms(3,4,5) by (auto simp: distinct_map inj_on_def)
  then have "\<not> shown_by_connection (filter (\<lambda>x. cp_workspaceId x = Some w) cs) k"
    by (simp add: shown_by_connection_def assms(2))
  with assms(1) show ?thesis
    by (simp add: clusters_rows_def filteredConnections_def mergeRows_def Let_def)
qed

section \<open>Templates (acko/templates/page.tsx)\<close>

definition templates_table :: "'a list_page \<Rightarrow> 'a table_view" where
  "templates_table p =
     (if lp_loading p \<and> lp_items p = None then Skeleton
      else if truthy (lp_error p) \<and> lp_items p = None then Failed
      else case lp_items p of Some (t # ts) \<Rightarrow> Rows (t # ts) | _ \<Rightarrow> Message ''No AerospikeClusterTemplates defined.'')"

text \<open>A failed refresh never takes away templates that were read before.\<close>

lemma templates_survive_failure:
  "lp_items p = Some (t # ts) \<Longrightarrow> templates_table (list_settled fs n (Inl e) (list_load p)) = Rows (t # ts)"
  by (simp add: templates_table_def list_settled_def list_load_def)

end
