(* ===== verification/User_Menu.thy ===== *)
theory User_Menu
  imports Auth_Session
begin

text \<open>
  The signed-in user: the name and monogram of the profile button
  (\<^verbatim>\<open>ui/navigation/UserProfile.tsx\<close>), the label of its menu and signing out
  (\<^verbatim>\<open>ui/navigation/DropdownUserProfile.tsx\<close>, \<open>logout\<close> and \<open>getKeycloak\<close> of
  \<^verbatim>\<open>lib/auth/keycloak.ts\<close>). What \<open>logout\<close> of the client library does to its instance, and whether it
  resolves, is an argument.
\<close>

section \<open>Name and monogram (UserProfile.tsx)\<close>

definition claim_text :: "json \<Rightarrow> string \<Rightarrow> string" where
  \<comment> \<open>\<open>claims.k?.trim()\<close>, with the empty text for a missing claim; the claims read are texts, by their type\<close>
  "claim_text cl k = (case json_field cl k of Some (JStr s) \<Rightarrow> trim s | _ \<Rightarrow> [])"

fun first_text :: "string list \<Rightarrow> string \<Rightarrow> string" where
  \<comment> \<open>a chain of \<open>||\<close>\<close>
  "first_text [] d = d"
| "first_text (t # ts) d = (if t = [] then first_text ts d else t)"

definition upper_char :: "char \<Rightarrow> string" where
  \<comment> \<open>for the characters whose capital is one of the 256; the sharp s has two letters\<close>
  "upper_char c =
     (if code c = 223 then ''SS''
      else if (97 \<le> code c \<and> code c \<le> 122) \<or> (224 \<le> code c \<and> code c \<le> 254 \<and> code c \<noteq> 247)
      then [char_of (code c - 32)] else [c])"

definition toUpperCase :: "string \<Rightarrow> string" where
  "toUpperCase s = concat (map upper_char s)"

fun split_ws :: "string \<Rightarrow> string list" where
  "split_ws [] = [[]]"
| "split_ws (c # s) =
     (if is_ws c then [] # split_ws s else case split_ws s of [] \<Rightarrow> [[c]] | w # ws \<Rightarrow> (c # w) # ws)"

definition words_of :: "string \<Rightarrow> string list" where
  \<comment> \<open>\<open>split(/\s+/).filter(Boolean)\<close>\<close>
  "words_of s = filter (\<lambda>w. w \<noteq> []) (split_ws s)"

definition identity_name :: "json \<Rightarrow> string" where
  "identity_name cl =
     first_text [claim_text cl ''name'', claim_text cl ''preferred_username'', claim_text cl ''email''] ''User''"

definition monogram :: "string \<Rightarrow> string" where
  "monogram display =
     (let trimmed = trim display; parts = words_of trimmed;
          initials =
            (case parts of
               p # q # _ \<Rightarrow> toUpperCase [hd p, hd q]
             | _ \<Rightarrow>
                 if CHR ''@'' \<in> set trimmed then toUpperCase (take 2 (hd (splitOn (CHR ''@'') trimmed)))
                 else toUpperCase (take 2 trimmed))
      in if initials = [] then ''U'' else initials)"

definition deriveIdentity :: "auth_store \<Rightarrow> string \<times> string" where
  "deriveIdentity s =
     (case claims s of
        None \<Rightarrow> (''Local user'', ''LU'')
      | Some cl \<Rightarrow> (let display = identity_name cl in (display, monogram display)))"

definition useIdentity :: "auth_store \<Rightarrow> string \<times> string" where
  "useIdentity s = (if claims s = None then (''Local user'', ''LU'') else deriveIdentity s)"

section \<open>Label and sign-out (DropdownUserProfile.tsx)\<close>

definition menu_label :: "auth_store \<Rightarrow> string" where
  "menu_label s =
     (case claims s of
        None \<Rightarrow> ''Local user''
      | Some cl \<Rightarrow>
          first_text [claim_text cl ''email'', claim_text cl ''preferred_username'', claim_text cl ''name''] ''Local user'')"

definition getKeycloak :: "keycloak_module \<Rightarrow> keycloak_instance option" where
  "getKeycloak m = keycloak m"

type_synonym kc_logout = "keycloak_instance \<Rightarrow> bool \<times> keycloak_instance"
  \<comment> \<open>whether the redirect was started, and the instance afterwards\<close>

definition logout ::
  "fetched_config \<Rightarrow> kc_init \<Rightarrow> kc_logout \<Rightarrow> keycloak_module \<Rightarrow> bool \<times> keycloak_module" where
  \<comment> \<open>whether the promise resolves\<close>
  "logout res kinit kout m =
     (let (r, m1) = (case keycloak m of Some kc \<Rightarrow> (Inr kc, m) | None \<Rightarrow> initKeycloak res kinit m) in
      case r of
        Inl _ \<Rightarrow> (False, m1)
      | Inr kc \<Rightarrow> (let (ok, kc') = kout kc in (ok, m1\<lparr>keycloak := Some kc'\<rparr>)))"

datatype sign_out = Redirected | Reloaded | Stayed

definition handleSignOut ::
  "fetched_config \<Rightarrow> kc_init \<Rightarrow> kc_logout \<Rightarrow> keycloak_module \<Rightarrow> sign_out \<times> keycloak_module" where
  "handleSignOut res kinit kout m =
     (if claims (store m) \<noteq> None
      then (case logout res kinit kout m of
              (True, m1) \<Rightarrow> (Redirected, m1)
            | (False, m1) \<Rightarrow> (Stayed, m1\<lparr>store := clear (store m1)\<rparr>))
      else (Reloaded, m\<lparr>store := clear (store m)\<rparr>))"

section \<open>Properties\<close>

lemma upper_char_length: "0 < length (upper_char c) \<and> length (upper_char c) \<le> 2"
  by (simp add: upper_char_def)

lemma toUpperCase_length: "length s \<le> length (toUpperCase s) \<and> length (toUpperCase s) \<le> 2 * length s"
proof (induction s)
  case (Cons c s)
  then show ?case using upper_char_length [of c] unfolding toUpperCase_def by (simp only: list.map concat.simps length_append list.size) presburger
qed (simp add: toUpperCase_def)

lemma toUpperCase_plain: "\<forall>c \<in> set s. code c \<noteq> 223 \<Longrightarrow> length (toUpperCase s) = length s"
  by (induction s) (auto simp: toUpperCase_def upper_char_def)

lemma split_ws_sub: "w \<in> set (split_ws s) \<Longrightarrow> set w \<subseteq> set s"
proof (induction s arbitrary: w)
  case (Cons c s)
  then show ?case by (cases "split_ws s") (auto split: if_splits, blast+)
qed simp

lemma first_text_nonempty: "d \<noteq> [] \<Longrightarrow> first_text ts d \<noteq> []"
  by (induction ts) auto

definition monogram_source :: "string \<Rightarrow> string" where
  \<comment> \<open>the letters of the monogram before they are capitalised\<close>
  "monogram_source display =
     (let trimmed = trim display in
      case words_of trimmed of
        p # q # _ \<Rightarrow> [hd p, hd q]
      | _ \<Rightarrow> if CHR ''@'' \<in> set trimmed then take 2 (hd (splitOn (CHR ''@'') trimmed)) else take 2 trimmed)"

lemma monogram_eq:
  "monogram d = (if monogram_source d = [] then ''U'' else toUpperCase (monogram_source d))"
proof -
  have "toUpperCase s = [] \<longleftrightarrow> s = []" for s using toUpperCase_length [of s] by auto
  then show ?thesis by (cases "words_of (trim d)"; cases "tl (words_of (trim d))") (simp_all add: monogram_def monogram_source_def Let_def)
qed

lemma monogram_source_length: "length (monogram_source d) \<le> 2"
  by (auto simp: monogram_source_def Let_def split: list.splits)

lemma set_hd_splitOn: "set (hd (splitOn d s)) \<subseteq> set s"
  by (induction s) (auto split: list.splits)

lemma trim_sub: "set (trim s) \<subseteq> set s"
  by (auto simp: trim_def trimStart_def trimEnd_def dest!: set_dropWhileD)

lemma word_hd: "p \<in> set (words_of s) \<Longrightarrow> hd p \<in> set s"
  unfolding words_of_def using split_ws_sub [of p s] by (cases p) auto

lemma monogram_source_sub: "set (monogram_source d) \<subseteq> set d"
proof -
  have "set (monogram_source d) \<subseteq> set (trim d)"
    using word_hd [of _ "trim d"] set_hd_splitOn [of "CHR ''@''" "trim d"]
    by (auto simp: monogram_source_def Let_def split: list.splits dest!: in_set_takeD)
  with trim_sub show ?thesis by blast
qed

text \<open>
  The avatar is never blank and never overflows: whatever the claims are, the name is not empty
  and the monogram has one to four letters, at most two of them when the name has no sharp s, which
  capitalises to two letters.
\<close>

theorem monogram_bounds:
  "fst (useIdentity s) \<noteq> [] \<and> snd (useIdentity s) \<noteq> [] \<and> length (snd (useIdentity s)) \<le> 4 \<and>
   (CHR 0xDF \<notin> set (fst (useIdentity s)) \<longrightarrow> length (snd (useIdentity s)) \<le> 2)"
proof (cases "claims s")
  case (Some cl)
  let ?d = "identity_name cl" and ?m = "monogram_source (identity_name cl)"
  have id: "useIdentity s = (?d, if ?m = [] then ''U'' else toUpperCase ?m)"
    by (simp add: useIdentity_def deriveIdentity_def Some Let_def monogram_eq)
  have "?d \<noteq> []" unfolding identity_name_def by (rule first_text_nonempty) simp
  moreover have "length (toUpperCase ?m) \<le> 4" "?m \<noteq> [] \<Longrightarrow> toUpperCase ?m \<noteq> []"
    using toUpperCase_length [of ?m] monogram_source_length [of ?d] by auto
  moreover have "length (toUpperCase ?m) \<le> 2" if "CHR 0xDF \<notin> set ?d"
  proof -
    have "code c \<noteq> 223" if "c \<in> set ?m" for c
    proof
      assume "code c = 223"
      then have "c = CHR 0xDF" using of_char_eq_iff [where ?'a = nat, of c "CHR 0xDF"] by simp
      with that \<open>CHR 0xDF \<notin> set ?d\<close> monogram_source_sub show False by blast
    qed
    then show ?thesis using toUpperCase_plain monogram_source_length [of ?d] by simp
  qed
  ultimately show ?thesis unfolding id by auto
qed (simp add: useIdentity_def)

text \<open>
  Signing out ends the local session: unless the browser is on its way to the identity provider,
  the store holds neither a token nor claims afterwards and is not refreshing, whatever the client
  library or the configuration request did.
\<close>

theorem sign_out_clears:
  assumes "handleSignOut res kinit kout m = (how, m')" "how \<noteq> Redirected"
  shows "accessToken (store m') = None \<and> claims (store m') = None \<and> \<not> refreshing (store m')"
  using assms by (auto simp: handleSignOut_def clear_def split: if_splits prod.splits bool.splits)

text \<open>
  A failed sign-out does not last. The module keeps the instance of the client library, so when
  \<open>logout\<close> rejects and leaves the instance signed in, the next refresh (which any request answered with 401
  starts) puts its token back into the store.
\<close>

theorem failed_sign_out_resumes:
  assumes "keycloak m = Some kc" "claims (store m) \<noteq> None" "kout kc = (False, kc)"
    and "upd kc n = (True, kc')" "authenticated kc'" "kc_token kc' = Some t" "t \<noteq> []"
  shows "\<exists>m1. handleSignOut res kinit kout m = (Stayed, m1) \<and> accessToken (store m1) = None \<and>
    accessToken (store (snd (refreshToken upd n m1))) = Some t"
  using assms by (simp add: handleSignOut_def logout_def refreshToken_def auth_defs Let_def)

end
