(* ===== verification/Side_Nav.thy ===== *)
theory Side_Nav
  imports Row_Widgets List_Pages User_Menu
begin

text \<open>
  What the navigation shows: the tree of clusters, namespaces and sets of the sidebar with its
  highlights and accordions (\<^verbatim>\<open>ui/navigation/Sidebar.tsx\<close>), the links of the small-screen drawer
  (\<^verbatim>\<open>ui/navigation/MobileSidebar.tsx\<close>), the tabs of a cluster (\<^verbatim>\<open>ui/navigation/ClusterTabs.tsx\<close>) and the rest of the page addresses
  (\<^verbatim>\<open>app/siteConfig.ts\<close>). \<open>cmp\<close> is \<open>localeCompare\<close>.
\<close>

section \<open>Addresses (siteConfig.ts)\<close>

definition link_guides :: string where
  "link_guides = ''/guides''"

definition link_clusters :: string where
  "link_clusters = ''/clusters''"

definition link_ackoTemplates :: string where
  "link_ackoTemplates = ''/acko/templates''"

definition nav_sets :: "string \<Rightarrow> string" where
  "nav_sets clusterId = ''/clusters/'' @ clusterId @ ''/sets''"

definition nav_admin :: "string \<Rightarrow> string" where
  "nav_admin clusterId = ''/clusters/'' @ clusterId @ ''/admin''"

definition nav_secondaryIndexes :: "string \<Rightarrow> string" where
  "nav_secondaryIndexes clusterId = ''/clusters/'' @ clusterId @ ''/secondary-indexes''"

definition nav_udfs :: "string \<Rightarrow> string" where
  "nav_udfs clusterId = ''/clusters/'' @ clusterId @ ''/udfs''"

section \<open>The tree (Sidebar.tsx)\<close>

record set_node =
  sn_name :: string
  sn_href :: "string option" \<comment> \<open>\<open>None\<close>: the inert label of an empty set\<close>
  sn_active :: bool

record ns_node =
  nn_name :: string
  nn_active :: bool
  nn_count :: string
  nn_sets :: "set_node list"
  nn_notice :: "string option"

record cluster_node =
  cn_id :: string
  cn_href :: string
  cn_tooltip :: string
  cn_label :: string
  cn_badge :: bool
  cn_toggle :: string
  cn_active :: bool
  cn_notice :: "string option"
  cn_namespaces :: "ns_node list"

definition route_name :: "string option \<Rightarrow> string option" where
  \<comment> \<open>\<open>routeNamespace\<close> and \<open>routeSet\<close>, from the route parameter\<close>
  "route_name p = (if truthy p then safeDecodeURIComponent (the p) else None)"

definition node_label :: "cluster_summary \<Rightarrow> string" where
  \<comment> \<open>\<open>replace(/^\[K8s\]\s*/, "")\<close>\<close>
  "node_label c =
     (if cs_acko c \<and> startsWith (cs_name c) ''[K8s]'' then trimStart (drop 5 (cs_name c)) else cs_name c)"

definition positive_num :: "jsnum \<Rightarrow> int" where
  \<comment> \<open>\<open>Number(n > 0)\<close>\<close>
  "positive_num n = (if num_less (inum 0) n then 1 else 0)"

definition compareSidebarSets :: "(string \<Rightarrow> string \<Rightarrow> int) \<Rightarrow> string \<times> jsnum \<Rightarrow> string \<times> jsnum \<Rightarrow> int" where
  "compareSidebarSets cmp a b =
     (if positive_num (snd b) - positive_num (snd a) \<noteq> 0 then positive_num (snd b) - positive_num (snd a) else cmp (fst a) (fst b))"

definition SetNode :: "string \<Rightarrow> string \<Rightarrow> bool \<Rightarrow> string option \<Rightarrow> string \<times> jsnum \<Rightarrow> set_node" where
  "SetNode clusterId namespace active activeSet s =
     (if snd s = inum 0 then \<lparr>sn_name = fst s, sn_href = None, sn_active = False\<rparr>
      else \<lparr>sn_name = fst s, sn_href = Some (nav_set clusterId namespace (fst s)),
            sn_active = (active \<and> activeSet = Some (fst s))\<rparr>)"

definition NamespaceNode ::
  "(string \<Rightarrow> string \<Rightarrow> int) \<Rightarrow> string \<Rightarrow> bool \<Rightarrow> string option \<Rightarrow> string \<times> (string \<times> jsnum) list \<Rightarrow> ns_node" where
  "NamespaceNode cmp clusterId active activeSet n =
     \<lparr>nn_name = fst n, nn_active = active,
      nn_count = nat_str (length (snd n)) @ '' '' @ (if length (snd n) = 1 then ''set'' else ''sets''),
      nn_sets = map (SetNode clusterId (fst n) active activeSet) (sort_by (compareSidebarSets cmp) (snd n)),
      nn_notice = (if length (snd n) = 0 then Some ''no sets'' else None)\<rparr>"

definition ns_open_init :: "bool \<Rightarrow> string \<Rightarrow> string" where
  \<comment> \<open>the accordion of a namespace when it is mounted\<close>
  "ns_open_init active name = (if active then name else [])"

definition ns_open_sync :: "bool \<Rightarrow> string \<Rightarrow> string \<Rightarrow> string" where
  \<comment> \<open>its effect\<close>
  "ns_open_sync active name opened = (if active then name else opened)"

definition ClusterNode ::
  "(string \<Rightarrow> string \<Rightarrow> int) \<Rightarrow> string \<Rightarrow> string option \<Rightarrow> string option \<Rightarrow> cluster_summary \<Rightarrow> cluster_node" where
  "ClusterNode cmp pathname routeNamespace routeSet c =
     (let clusterActive = nav_active pathname (''/clusters/'' @ cs_id c);
          activeNamespace = (if clusterActive then routeNamespace else None);
          activeSet = (if clusterActive then routeSet else None)
      in \<lparr>cn_id = cs_id c, cn_href = ''/clusters/'' @ cs_id c, cn_tooltip = cs_name c, cn_label = node_label c,
          cn_badge = cs_acko c, cn_toggle = ''Toggle '' @ node_label c @ '' namespaces'', cn_active = clusterActive,
          cn_notice = (if length (cs_namespaces c) = 0 then Some ''no namespaces'' else None),
          cn_namespaces =
            map (\<lambda>n. NamespaceNode cmp (cs_id c) (activeNamespace = Some (fst n))
                       (if activeNamespace = Some (fst n) then activeSet else None) n) (cs_namespaces c)\<rparr>)"

definition sidebar_tree ::
  "(string \<Rightarrow> string \<Rightarrow> int) \<Rightarrow> string \<Rightarrow> string option \<Rightarrow> string option \<Rightarrow> cluster_summary list \<Rightarrow> cluster_node list" where
  \<comment> \<open>with the route parameters \<open>namespace\<close> and \<open>set\<close>, which arrive encoded\<close>
  "sidebar_tree cmp pathname ns s = map (ClusterNode cmp pathname (route_name ns) (route_name s))"

datatype tree_state = TreeLoading | NoClustersYet | TreeShown

definition tree_notice :: "bool \<Rightarrow> cluster_summary list \<Rightarrow> tree_state" where
  "tree_notice loading cs = (if length cs = 0 then if loading then TreeLoading else NoClustersYet else TreeShown)"

datatype side_link = BrandLink | GuidesLink | TemplatesLink

definition side_active :: "string \<Rightarrow> side_link \<Rightarrow> bool" where
  "side_active pathname l =
     (case l of
        BrandLink \<Rightarrow> pathname = ''/clusters''
      | GuidesLink \<Rightarrow> nav_active pathname link_guides
      | TemplatesLink \<Rightarrow> nav_active pathname link_ackoTemplates)"

section \<open>The switchers (ClusterSelector.tsx, WorkspacesDropdown.tsx)\<close>

record backend_item =
  bi_id :: string
  bi_name :: string
  bi_state :: string
  bi_selected :: bool

definition selector_button :: "selector_store \<Rightarrow> (string \<times> string) option" where
  \<comment> \<open>name and environment of the backend that is shown; \<open>None\<close>: the switcher is not rendered\<close>
  "selector_button s =
     map_option (\<lambda>c. (displayName c, nullish (Option.bind (ce_labels c) (\<lambda>l. obj_get l ''env'')) ''Cluster'')) (shown_cluster s)"

definition selector_items :: "(string, health) jsmap \<Rightarrow> selector_store \<Rightarrow> backend_item list" where
  "selector_items state s =
     (case registry s of
        None \<Rightarrow> []
      | Some reg \<Rightarrow>
          map (\<lambda>c. \<lparr>bi_id = ce_id c, bi_name = displayName c, bi_state = dotLabel (nullish (obj_get state (ce_id c)) HChecking),
                    bi_selected = (map_option ce_id (shown_cluster s) = Some (ce_id c))\<rparr>) (clusters reg))"

definition workspaceInitials :: "string \<Rightarrow> string" where
  \<comment> \<open>a trimmed text has no empty parts\<close>
  "workspaceInitials name =
     (let trimmed = trim name in
      if trimmed = [] then ''WS''
      else case words_of trimmed of
        p # q # _ \<Rightarrow> toUpperCase [hd p, hd q]
      | ps \<Rightarrow> toUpperCase (take 2 (hd ps)))"

record workspace_item =
  wi_id :: string
  wi_name :: string
  wi_initials :: string
  wi_selected :: bool

definition workspace_button :: "workspace_response option \<Rightarrow> bool \<Rightarrow> string \<times> string" where
  "workspace_button current loading =
     (case current of
        Some w \<Rightarrow> (wr_name w, if wr_isDefault w then ''Default'' else ''Workspace'')
      | None \<Rightarrow> (if loading then ''Loading'' @ [u_sub] else ''No workspace'', ''Workspace''))"

definition workspace_items :: "workspace_response list option \<Rightarrow> ui_store \<Rightarrow> workspace_item list" where
  "workspace_items visible u =
     map (\<lambda>w. \<lparr>wi_id = wr_id w, wi_name = wr_name w, wi_initials = workspaceInitials (wr_name w),
               wi_selected = (wr_id w = currentWorkspaceId u)\<rparr>) (nullish visible [])"

definition workspaces_notice :: "workspace_response list option \<Rightarrow> bool \<Rightarrow> bool" where
  "workspaces_notice visible loading \<longleftrightarrow> visible = Some [] \<and> \<not> loading"

definition select_workspace :: "bool \<Rightarrow> string \<Rightarrow> ui_store \<Rightarrow> ui_store" where
  \<comment> \<open>\<open>onSelect\<close> of an item; the flag: the click was on its edit button\<close>
  "select_workspace on_edit i u = (if on_edit then u else setCurrentWorkspaceId i u)"

definition workspace_created :: "workspace_response \<Rightarrow> ui_store \<Rightarrow> ui_store" where
  \<comment> \<open>\<open>onSuccess\<close> of the dialog, after its \<open>refetch\<close>\<close>
  "workspace_created created u = setCurrentWorkspaceId (wr_id created) u"

section \<open>The drawer (MobileSidebar.tsx)\<close>

definition mobile_navigation :: "(string \<times> string) list" where
  "mobile_navigation =
     [(''Guides'', link_guides), (''Clusters'', link_clusters), (''ACKO templates'', link_ackoTemplates)]"

definition mobile_active :: "string \<Rightarrow> string \<Rightarrow> bool" where
  "mobile_active pathname itemHref \<longleftrightarrow>
     pathname = itemHref \<or> startsWith pathname (itemHref @ ''/'') \<or> startsWith pathname (itemHref @ ''?'')"

section \<open>The tabs of a cluster (ClusterTabs.tsx)\<close>

definition cluster_tabs :: "string \<Rightarrow> (string \<times> string \<times> bool) list" where
  \<comment> \<open>address, label and \<open>exact\<close>\<close>
  "cluster_tabs clusterId =
     [(nav_overview clusterId, ''Overview'', True),
      (nav_sets clusterId, ''Namespaces'', False),
      (nav_secondaryIndexes clusterId, ''Indexes'', False),
      (nav_admin clusterId, ''Admin'', False),
      (nav_udfs clusterId, ''UDFs'', False)]"

definition tab_active :: "string \<Rightarrow> string \<times> string \<times> bool \<Rightarrow> bool" where
  "tab_active pathname t =
     (case t of (href, _, exact) \<Rightarrow> if exact then pathname = href else pathname = href \<or> startsWith pathname (href @ ''/''))"

definition active_tabs :: "string \<Rightarrow> string \<Rightarrow> string list" where
  "active_tabs pathname clusterId = map (fst \<circ> snd) (filter (tab_active pathname) (cluster_tabs clusterId))"

section \<open>Properties of the switchers\<close>

text \<open>A new workspace is selected and stays selected, once the reloaded list holds it.\<close>

lemma created_workspace_selected:
  assumes "w \<in> set ws" "\<not> wr_isDefault w" "visible_workspaces (Some ws) conns = Some vs"
  shows "currentWorkspaceId (reconcile_workspace (Some vs) (workspace_created w u)) = wr_id w"
proof -
  have "w \<in> set vs" using assms by (auto simp: visible_workspaces_def list_ex_iff split: option.splits if_splits)
  then show ?thesis by (auto simp: reconcile_workspace_def workspace_created_def setCurrentWorkspaceId_def list_ex_iff)
qed

text \<open>When the reload fails the list is the old one, and the effect takes the selection back at once.\<close>

lemma created_workspace_lost:
  assumes "vs \<noteq> []" "wr_id w \<notin> wr_id ` set vs"
  shows "currentWorkspaceId (reconcile_workspace (Some vs) (workspace_created w u)) \<noteq> wr_id w"
  using reconcile_selects [OF assms(1), of "workspace_created w u"] assms(2) by (auto simp: image_iff)

text \<open>At most one backend is marked, the one requests go to.\<close>

lemma selected_backend_is_active:
  "bi_selected b \<Longrightarrow> b \<in> set (selector_items state s) \<Longrightarrow> map_option ce_id (getActiveCluster s) = Some (bi_id b)"
  by (auto simp: selector_items_def shown_cluster_is_active split: option.splits)

section \<open>Highlights\<close>

definition ns_highlights :: "string \<Rightarrow> ns_node \<Rightarrow> (string \<times> string \<times> string) list" where
  "ns_highlights i n = concat (map (\<lambda>x. if sn_active x then [(i, nn_name n, sn_name x)] else []) (nn_sets n))"

definition cluster_highlights :: "cluster_node \<Rightarrow> (string \<times> string \<times> string) list" where
  "cluster_highlights c = concat (map (ns_highlights (cn_id c)) (cn_namespaces c))"

definition highlighted :: "cluster_node list \<Rightarrow> (string \<times> string \<times> string) list" where
  \<comment> \<open>the sets shown as current, with their cluster and namespace\<close>
  "highlighted tree = concat (map cluster_highlights tree)"

lemma concat_map_single:
  assumes "distinct (map f xs)" "x \<in> set xs" "\<And>y. y \<in> set xs \<Longrightarrow> f y \<noteq> f x \<Longrightarrow> g y = []"
  shows "concat (map g xs) = g x"
  using assms
proof (induction xs)
  case (Cons y ys)
  show ?case
  proof (cases "x = y")
    case True
    have "g z = []" if "z \<in> set ys" for z
    proof (rule Cons.prems(3))
      show "f z \<noteq> f x" using Cons.prems(1) True that by (metis distinct.simps(2) image_eqI list.simps(9) set_map)
    qed (use that in simp)
    with True show ?thesis by simp
  next
    case False
    with Cons.prems have "f y \<noteq> f x" by force
    with Cons False show ?thesis by simp
  qed
qed simp

lemma slash_prefix:
  assumes "CHR ''/'' \<notin> set i" "CHR ''/'' \<notin> set j"
  shows "i @ CHR ''/'' # t = j @ CHR ''/'' # u \<longleftrightarrow> i = j \<and> t = u"
proof
  assume eq: "i @ CHR ''/'' # t = j @ CHR ''/'' # u"
  from arg_cong [OF eq, of "splitOn (CHR ''/'')"] have "i = j" by (simp add: splitOn_append assms)
  with eq show "i = j \<and> t = u" by simp
qed simp

lemma startsWith_cancel [simp]: "startsWith (p @ s) (p @ t) \<longleftrightarrow> startsWith s t"
  by (simp add: startsWith_def)

lemma nav_active_cluster:
  assumes "CHR ''/'' \<notin> set i" "CHR ''/'' \<notin> set j"
  shows "nav_active (''/clusters/'' @ i @ CHR ''/'' # t) (''/clusters/'' @ j) \<longleftrightarrow> j = i"
proof -
  have "i @ CHR ''/'' # t \<noteq> j" using assms(2) by auto
  moreover have "startsWith (i @ CHR ''/'' # t) (j @ ''/'') \<longleftrightarrow> j = i"
    unfolding startsWith_iff using slash_prefix [OF assms] by auto
  ultimately show ?thesis by (auto simp: nav_active_def startsWith_def)
qed

lemma nav_active_set:
  assumes "CHR ''/'' \<notin> set i" "CHR ''/'' \<notin> set j"
  shows "nav_active (nav_set i ns s) (''/clusters/'' @ j) \<longleftrightarrow> j = i"
  using nav_active_cluster [OF assms, of "''sets/'' @ enc ns @ ''/'' @ enc s"] by (simp add: nav_set_def)

lemma route_name_enc: "n \<noteq> [] \<Longrightarrow> route_name (Some (enc n)) = Some n"
proof -
  assume "n \<noteq> []"
  then have "enc n \<noteq> []" using safeDecode_encode [of n] by auto
  then show ?thesis by (simp add: route_name_def safeDecode_encode)
qed

lemma set_highlights:
  assumes "distinct (map fst sets)" "(s, k) \<in> set sets" "k \<noteq> inum 0"
  shows "ns_highlights i (NamespaceNode cmp i True (Some s) (ns, sets)) = [(i, ns, s)]"
proof -
  let ?g = "\<lambda>x. if sn_active (SetNode i ns True (Some s) x) then [(i, ns, sn_name (SetNode i ns True (Some s) x))] else []"
  have "concat (map ?g (sort_by (compareSidebarSets cmp) sets)) = ?g (s, k)"
    by (rule concat_map_single [where f = fst]) (use assms in \<open>auto simp: distinct_fst_sort SetNode_def\<close>)
  moreover have "?g (s, k) = [(i, ns, s)]" using assms(3) by (simp add: SetNode_def)
  moreover have "nn_sets (NamespaceNode cmp i True (Some s) (ns, sets)) =
      map (SetNode i ns True (Some s)) (sort_by (compareSidebarSets cmp) sets)" "nn_name (NamespaceNode cmp i True (Some s) (ns, sets)) = ns"
    by (simp_all add: NamespaceNode_def)
  ultimately show ?thesis by (simp only: ns_highlights_def map_map comp_def)
qed

lemma NamespaceNode_sel [simp]:
  "nn_name (NamespaceNode cmp i b a n) = fst n" "nn_active (NamespaceNode cmp i b a n) = b"
  by (simp_all add: NamespaceNode_def)

lemma inactive_highlights:
  "ns_highlights i (NamespaceNode cmp i False a n) = []"
  by (auto simp: ns_highlights_def NamespaceNode_def SetNode_def)

lemma namespace_highlights:
  assumes "distinct (map fst nss)" "(ns, sets) \<in> set nss" "distinct (map fst sets)" "(s, k) \<in> set sets" "k \<noteq> inum 0"
  shows "concat (map (\<lambda>n. ns_highlights i (NamespaceNode cmp i (ns = fst n) (if ns = fst n then Some s else None) n)) nss) =
    [(i, ns, s)]"
    (is "concat (map ?h nss) = _")
proof -
  have "concat (map ?h nss) = ?h (ns, sets)"
  proof (rule concat_map_single [where f = fst])
    show "?h y = []" if "fst y \<noteq> fst (ns, sets)" for y
      using that by (auto simp: inactive_highlights)
  qed (use assms in auto)
  then show ?thesis using set_highlights [OF assms(3-5), of i cmp ns] by simp
qed

lemma find_unique:
  assumes "distinct (map f xs)" "x \<in> set xs" "\<And>y. y \<in> set xs \<Longrightarrow> P y \<longleftrightarrow> f y = f x"
  shows "find P xs = Some x"
  using assms
proof (induction xs)
  case (Cons y ys)
  then show ?case by (cases "f y = f x") (auto simp: inj_on_def)
qed simp



section \<open>Tabs\<close>

lemmas tab_addresses = nav_overview_def nav_sets_def nav_secondaryIndexes_def nav_admin_def nav_udfs_def nav_set_def nav_record_def

text \<open>
  On every page of a cluster exactly one tab is shown as current: the pages of a set and of a
  record belong to the namespaces, and the overview is current on its own address only.
\<close>

theorem one_tab_active:
  "active_tabs (nav_overview i) i = [''Overview''] \<and> active_tabs (nav_sets i) i = [''Namespaces''] \<and>
   active_tabs (nav_set i ns s) i = [''Namespaces''] \<and> active_tabs (nav_record i ns s k) i = [''Namespaces''] \<and>
   active_tabs (nav_secondaryIndexes i) i = [''Indexes''] \<and> active_tabs (nav_admin i) i = [''Admin''] \<and>
   active_tabs (nav_udfs i) i = [''UDFs'']"
  by (simp add: active_tabs_def cluster_tabs_def tab_active_def tab_addresses startsWith_def)

end
