(* ===== verification/Page_Views.thy ===== *)
theory Page_Views
  imports Record_Editor Side_Nav
begin

text \<open>
  What the record pages show: the table, the header and the status bar of the record browser
  (\<^verbatim>\<open>.../sets/[namespace]/[set]/page.tsx\<close>), the filter toolbar above it
  (\<^verbatim>\<open>components/browser/RecordFilters.tsx\<close>), and the record page with its buttons and its bin editors
  (\<^verbatim>\<open>.../records/[key]/page.tsx\<close>). The state is that of \<open>Record_Browser\<close>, \<open>Record_Filters\<close> and
  \<open>Record_Editor\<close>; style and layout are left out. Characters outside Latin-1 use the substitute.
\<close>

section \<open>The table of the browser (page.tsx)\<close>

record aero_row =
  ro_pk :: "string option"
  ro_digest :: "string option"
  ro_generation :: jsnum
  ro_ttl :: jsnum
  ro_bins :: "(string, json) jsmap"

definition json_text :: "json option \<Rightarrow> string option" where
  "json_text j = (case j of Some (JStr s) \<Rightarrow> Some s | _ \<Rightarrow> None)"

definition json_number :: "json option \<Rightarrow> jsnum" where
  "json_number j = (case j of Some (JNum n) \<Rightarrow> n | _ \<Rightarrow> NaN)"

definition read_row :: "json \<Rightarrow> aero_row" where
  \<comment> \<open>the fields the page reads of a record; generation and TTL are present, by their type\<close>
  "read_row j =
     \<lparr>ro_pk = json_text (opt_field (json_field j ''key'') ''pk''),
      ro_digest = json_text (opt_field (json_field j ''key'') ''digest''),
      ro_generation = json_number (opt_field (json_field j ''meta'') ''generation''),
      ro_ttl = json_number (opt_field (json_field j ''meta'') ''ttl''),
      ro_bins = (case json_field j ''bins'' of Some (JObj kvs) \<Rightarrow> kvs | _ \<Rightarrow> [])\<rparr>"

datatype key_cell = KeyLink string string | DigestStub string

definition row_href :: "route \<Rightarrow> aero_row \<Rightarrow> string option" where
  "row_href r row = map_option (nav_record (r_cluster r) (r_namespace r) (r_set r)) (ro_pk row)"

definition row_key_cell :: "route \<Rightarrow> aero_row \<Rightarrow> key_cell" where
  "row_key_cell r row =
     (case ro_pk row of
        Some pk \<Rightarrow> KeyLink (nav_record (r_cluster r) (r_namespace r) (r_set r) pk) pk
      | None \<Rightarrow> DigestStub (''digest:'' @ (case ro_digest row of Some d \<Rightarrow> take 8 d | None \<Rightarrow> []) @ [u_sub]))"

record row_view =
  rv_react_key :: "string option"
  rv_key :: key_cell
  rv_generation :: string
  rv_ttl :: string
  rv_bins :: "rendered list"
  rv_open :: "string option" \<comment> \<open>\<open>None\<close>: the button is disabled\<close>

definition record_row :: "(rat \<Rightarrow> string) \<Rightarrow> route \<Rightarrow> string list \<Rightarrow> json \<Rightarrow> row_view" where
  "record_row fs r columns j =
     (let row = read_row j in
      \<lparr>rv_react_key = (case ro_digest row of Some d \<Rightarrow> Some d | None \<Rightarrow> ro_pk row),
       rv_key = row_key_cell r row,
       rv_generation = num_str fs (ro_generation row),
       rv_ttl = formatTtl fs (ro_ttl row),
       rv_bins = map (\<lambda>b. renderBin fs (obj_get (ro_bins row) b) b) columns,
       rv_open = row_href r row\<rparr>)"

definition page_columns :: "browser \<Rightarrow> string list" where
  "page_columns b = binColumns (map_option (map (ro_bins \<circ> read_row)) (b_records b))"

datatype records_table = TableSkeleton nat nat | TableFailed nat | TableEmpty nat string | TableRows "row_view list"

definition browser_table :: "(rat \<Rightarrow> string) \<Rightarrow> browser \<Rightarrow> records_table" where
  "browser_table fs b =
     (let columns = page_columns b in
      if b_loading b \<and> b_records b = None then TableSkeleton 6 (max (length columns) 4 + 4)
      else if truthy (b_error b) \<and> b_records b = None then TableFailed (length columns + 4)
      else case b_records b of
        Some (r # rs) \<Rightarrow> TableRows (map (record_row fs (b_route b) columns) (r # rs))
      | _ \<Rightarrow> TableEmpty (length columns + 4)
               (if draftHasFilters (b_applied b) then ''No records match the applied filters.'' else ''No records in this set.''))"

definition appliedFilterCount :: "browser \<Rightarrow> nat" where
  "appliedFilterCount b = length (d_conditions (b_applied b)) + (if trim (d_pk (b_applied b)) \<noteq> [] then 1 else 0)"

definition browser_subtitle :: "browser \<Rightarrow> string" where
  "browser_subtitle b =
     (case b_records b of
        Some rs \<Rightarrow>
          nat_str (length rs) @ '' records shown'' @
          (if appliedFilterCount b > 0
           then '' '' @ [CHR 0xB7] @ '' '' @ nat_str (appliedFilterCount b) @ '' filter'' @
                (if appliedFilterCount b = 1 then [] else ''s'') @ '' active'' else [])
      | None \<Rightarrow> if b_loading b then ''Loading'' @ [u_sub] else [u_sub])"

definition browser_banner :: "browser \<Rightarrow> (string \<times> bool \<times> bool) option" where
  \<comment> \<open>message, \<open>disabled\<close> and \<open>staleData\<close>\<close>
  "browser_banner b =
     (if truthy (b_error b)
      then Some (the (b_error b), b_loading b, (case b_records b of Some (_ # _) \<Rightarrow> True | _ \<Rightarrow> False)) else None)"

record status_bar =
  sb_time :: "string option"
  sb_returned :: nat
  sb_total :: string
  sb_truncated :: bool
  sb_limit :: string
  sb_options :: "string list"
  sb_disabled :: bool

definition StatusBar :: "(rat \<Rightarrow> string) \<Rightarrow> browser \<Rightarrow> status_bar" where
  "StatusBar fs b =
     (let returned = (case b_records b of Some rs \<Rightarrow> length rs | None \<Rightarrow> 0); m = b_meta b in
      \<lparr>sb_time = (if num_less (inum 0) (qm_executionTimeMs m) then Some (num_str fs (qm_executionTimeMs m) @ ''ms'') else None),
       sb_returned = returned,
       sb_total = formatTotal fs (qm_total m) (qm_totalEstimated m) (inum (int returned)),
       sb_truncated = qm_hasMore m,
       sb_limit = nat_str (b_pageSize b),
       sb_options = map nat_str PAGE_SIZE_OPTIONS,
       sb_disabled = b_loading b\<rparr>)"

definition note_failure_log ::
  "(rat \<Rightarrow> string) \<Rightarrow> bool \<Rightarrow> js_error + set_note list \<Rightarrow> (string \<times> log_payload) option" where
  \<comment> \<open>\<open>reloadSetNoteSilent\<close>: a failed reload is logged and otherwise ignored\<close>
  "note_failure_log fs production res =
     (case res of Inl e \<Rightarrow> Some (logFetchError fs production ''set-note'' e) | Inr _ \<Rightarrow> None)"

definition indexes_answered :: "bool \<Rightarrow> js_error + secondary_index list \<Rightarrow> secondary_index list \<Rightarrow> secondary_index list" where
  \<comment> \<open>the effect that loads the indexes of the connection, once \<open>listIndexes\<close> has answered\<close>
  "indexes_answered cancelled res old =
     (if cancelled then old else case res of Inr ixs \<Rightarrow> ixs | Inl _ \<Rightarrow> [])"

definition created_href :: "route \<Rightarrow> string \<Rightarrow> string" where
  \<comment> \<open>where the page goes after a record was created\<close>
  "created_href r pk = nav_record (r_cluster r) (r_namespace r) (r_set r) pk"

section \<open>The toolbar (RecordFilters.tsx)\<close>

fun PK_PLACEHOLDER_BY_MODE :: "pk_match_mode \<Rightarrow> string" where
  "PK_PLACEHOLDER_BY_MODE PkExact = ''Primary key...''"
| "PK_PLACEHOLDER_BY_MODE PkPrefix = ''Prefix (e.g., user_)''"
| "PK_PLACEHOLDER_BY_MODE PkRegex = ''Regex (e.g., ^acct[0-9]+$)''"

definition pkError :: "(string \<Rightarrow> string option) \<Rightarrow> filter_draft \<Rightarrow> string option" where
  "pkError compile d = validatePkDraft compile (d_pk d) (d_pkMatchMode d)"

record pk_input =
  pi_value :: string
  pi_placeholder :: string
  pi_invalid :: bool
  pi_described :: bool \<comment> \<open>\<open>aria-describedby\<close> names the alert\<close>
  pi_mono :: bool

definition PkInput :: "(string \<Rightarrow> string option) \<Rightarrow> filter_draft \<Rightarrow> pk_input" where
  "PkInput compile d =
     \<lparr>pi_value = d_pk d, pi_placeholder = PK_PLACEHOLDER_BY_MODE (d_pkMatchMode d),
      pi_invalid = (pkError compile d \<noteq> None \<and> length (d_pk d) > 0),
      pi_described = truthy (pkError compile d),
      pi_mono = (d_pkMatchMode d \<noteq> PkExact)\<rparr>"

definition pk_alert :: "(string \<Rightarrow> string option) \<Rightarrow> filter_draft \<Rightarrow> string option" where
  "pk_alert compile d = (if truthy (pkError compile d) \<and> length (d_pk d) > 0 then pkError compile d else None)"

definition scan_banner :: "filter_draft \<Rightarrow> bool" where
  "scan_banner d \<longleftrightarrow> d_pkMatchMode d \<noteq> PkExact"

definition index_hint :: "(string \<times> bin_data_type) list \<Rightarrow> filters_ui \<Rightarrow> bool" where
  "index_hint bins u \<longleftrightarrow> length bins = 0 \<and> \<not> pickerOpen u"

definition picker_title :: "(string \<times> bin_data_type) list \<Rightarrow> filters_ui \<Rightarrow> string option" where
  "picker_title bins u =
     (if pickerOpen u then None
      else if length bins = 0
      then Some (''No secondary indexes found '' @ [u_sub] @ '' create an index to enable filtering'')
      else Some (nat_str (length bins) @ '' indexed bin(s) available''))"

definition picker_count :: "(string \<times> bin_data_type) list \<Rightarrow> string option" where
  "picker_count bins = (if length bins > 0 then Some (nat_str (length bins)) else None)"

datatype picker_list = NoIndexedBins | NoMatchingBins | PickerBins "(string \<times> string) list"

definition BinPicker :: "string \<Rightarrow> (string \<times> bin_data_type) list \<Rightarrow> picker_list" where
  "BinPicker query bins =
     (if length bins = 0 then NoIndexedBins
      else if length (picker_filtered query bins) = 0 then NoMatchingBins
      else PickerBins (map (\<lambda>(name, t). (name, bin_type_str t)) (picker_filtered query bins)))"

record condition_chip =
  ch_id :: string
  ch_bin :: string
  ch_label :: string
  ch_value :: "string option"
  ch_editing :: bool
  ch_logic :: "string option"
  ch_logic_tip :: "string option"
  ch_remove :: string

definition ConditionChip :: "(rat \<Rightarrow> string) \<Rightarrow> filter_draft \<Rightarrow> filters_ui \<Rightarrow> nat \<Rightarrow> draft_condition \<Rightarrow> condition_chip" where
  "ConditionChip fs d u idx c =
     (let valStr = formatChipValue fs c; leading = (if idx > 0 then Some (d_logic d) else None) in
      \<lparr>ch_id = dc_id c, ch_bin = dc_bin c, ch_label = operatorLabel (dc_operator c) (dc_binType c),
       ch_value = (if valStr = [] then None else Some valStr), ch_editing = (editingId u = Some (dc_id c)),
       ch_logic = map_option logic_str leading,
       ch_logic_tip = map_option (\<lambda>l. ''Switch to '' @ (if l = LAnd then ''OR'' else ''AND'') @ '' logic'') leading,
       ch_remove = ''Remove '' @ dc_bin c @ '' filter''\<rparr>)"

definition condition_chips :: "(rat \<Rightarrow> string) \<Rightarrow> filter_draft \<Rightarrow> filters_ui \<Rightarrow> condition_chip list" where
  "condition_chips fs d u = map (\<lambda>(i, c). ConditionChip fs d u i c) (enumerate 0 (d_conditions d))"

definition chip_open_change :: "bool \<Rightarrow> draft_condition \<Rightarrow> filters_ui \<Rightarrow> filters_ui" where
  "chip_open_change opened c u = u\<lparr>editingId := (if opened then Some (dc_id c) else None)\<rparr>"

definition remove_key :: "string \<Rightarrow> bool" where
  \<comment> \<open>the keys that press the remove button\<close>
  "remove_key k \<longleftrightarrow> k = ''Enter'' \<or> k = '' ''"

datatype editor_field = ValueField bool string string | UpperField bool string | GeoField string string

definition numberType :: "draft_condition \<Rightarrow> bool" where
  "numberType c \<longleftrightarrow> dc_binType c = BinInteger \<or> dc_binType c = BinFloat"

definition editor_fields :: "draft_condition \<Rightarrow> condition_editor \<Rightarrow> editor_field list" where
  \<comment> \<open>the inputs of \<open>ConditionEditor\<close>: number type, text and placeholder or label\<close>
  "editor_fields c e =
     (if needsValue c \<and> \<not> isGeo c
      then [ValueField (numberType c) (ed_val e) (if dc_operator c = OpRegex then ''Pattern...'' else ''Value...'')] else []) @
     (if needsValue2 c then [UpperField (numberType c) (ed_val2 e)] else []) @
     (if isGeo c then [GeoField (ed_val e) (''GeoJSON value for '' @ dc_bin c @ '' filter'')] else [])"

section \<open>The record page (page.tsx)\<close>

definition openRecord :: "string \<Rightarrow> string \<Rightarrow> string \<Rightarrow> string \<Rightarrow> record_page" where
  \<comment> \<open>the page when it is mounted, from the encoded parameters of the route\<close>
  "openRecord clusterId ns s key =
     \<lparr>rp_cluster = clusterId, rp_namespace = route_param ns, rp_set = route_param s,
      rp_pk = safeDecodeURIComponent key, rp_record = None, rp_error = None, rp_isLoading = True, rp_deleting = False,
      rp_isEditing = False, rp_drafts = [], rp_binErrors = [], rp_ttlDraft = [], rp_saving = False\<rparr>"

definition record_effect :: "record_page \<Rightarrow> record_page \<times> api_call option" where
  \<comment> \<open>the effect that loads the record\<close>
  "record_effect p = (if rp_pk p = None then (p\<lparr>rp_isLoading := False\<rparr>, None) else loadRecord p)"

datatype body_view = InvalidKey | BodySkeleton | BodyNotFound | BodyRecord

definition record_body :: "record_page \<Rightarrow> body_view" where
  "record_body p =
     (if rp_pk p = None then InvalidKey
      else if rp_isLoading p \<and> rp_record p = None then BodySkeleton
      else if rp_record p = None then BodyNotFound else BodyRecord)"

definition record_buttons :: "record_page \<Rightarrow> (string \<times> bool) list" where
  \<comment> \<open>labels and \<open>disabled\<close>\<close>
  "record_buttons p =
     (if rp_isEditing p
      then [(''Cancel'', rp_saving p), (''Save changes'', rp_saving p \<or> length (rp_binErrors p) > 0)]
      else [(''Edit'', rp_record p = None \<or> rp_deleting p), (''Delete'', rp_record p = None \<or> rp_deleting p)])"

definition record_banner :: "record_page \<Rightarrow> string option" where
  "record_banner p = (if truthy (rp_error p) then rp_error p else None)"

definition binCount :: "record_page \<Rightarrow> nat" where
  "binCount p =
     (if rp_isEditing p then length (rp_drafts p) else case rp_record p of Some r \<Rightarrow> length (ar_bins r) | None \<Rightarrow> 0)"

datatype ttl_view = TtlInput string | TtlText string

definition ttl_cell :: "(rat \<Rightarrow> string) \<Rightarrow> record_page \<Rightarrow> ttl_view" where
  "ttl_cell fs p =
     (if rp_isEditing p then TtlInput (rp_ttlDraft p)
      else TtlText (record_formatTtl fs (Option.bind (rp_record p) ar_ttl)))"

definition note_disabled :: "record_page \<Rightarrow> bool" where
  "note_disabled p \<longleftrightarrow> rp_isEditing p \<or> rp_deleting p \<or> rp_saving p"

datatype widget_view = BoolSelect string | NullBox | LineInput string string | AreaInput string nat string

definition bin_widget :: "bin_draft \<Rightarrow> widget_view" where
  "bin_widget d =
     (case bd_kind d of
        EBoolean \<Rightarrow> BoolSelect (str_or (bd_value d) ''false'')
      | ENull \<Rightarrow> NullBox
      | EString \<Rightarrow> LineInput (bd_value d) ''hello''
      | EInteger \<Rightarrow> LineInput (bd_value d) ''42''
      | EDouble \<Rightarrow> LineInput (bd_value d) ''3.14''
      | EGeojson \<Rightarrow> AreaInput (bd_value d) 6 (''{'' @ [CHR 0x22] @ ''type'' @ [CHR 0x22] @ '':'' @ [CHR 0x22] @ ''Point'' @
            [CHR 0x22] @ '','' @ [CHR 0x22] @ ''coordinates'' @ [CHR 0x22] @ '':[0,0]}'')
      | EList \<Rightarrow> AreaInput (bd_value d) 8 (''[1, '' @ [CHR 0x22] @ ''two'' @ [CHR 0x22] @ '', 3.0]'')
      | EMap \<Rightarrow> AreaInput (bd_value d) 8 (''{'' @ [CHR 0x22] @ ''key'' @ [CHR 0x22] @ '': '' @ [CHR 0x22] @ ''value'' @ [CHR 0x22] @ ''}''))"

datatype bins_view =
    NoBinsYet
  | BinEditors "(string \<times> string \<times> edit_kind \<times> widget_view \<times> bin_error option) list"
  | NoBins
  | BinLines "(string \<times> edit_kind \<times> string) list"

definition bins_list :: "(rat \<Rightarrow> string) \<Rightarrow> record_page \<Rightarrow> aerospike_record \<Rightarrow> bins_view" where
  "bins_list fs p r =
     (if rp_isEditing p
      then (if length (rp_drafts p) = 0 then NoBinsYet
            else BinEditors (map (\<lambda>d. (bd_id d, bd_name d, bd_kind d, bin_widget d, obj_get (rp_binErrors p) (bd_id d))) (rp_drafts p)))
      else (if length (ar_bins r) = 0 then NoBins
            else BinLines (map (\<lambda>(name, v). (name, detectBinType v, formatBinValue fs v)) (ar_bins r))))"

definition delete_question :: "string \<Rightarrow> string" where
  "delete_question pk = ''Delete record '' @ [CHR 0x27] @ pk @ [CHR 0x27] @ ''? This can'' @ [CHR 0x27] @ ''t be undone.''"

section \<open>Properties of the table\<close>

lemma record_row_links:
  "rv_open (record_row fs r columns j) = row_href r (read_row j)"
  "rv_key (record_row fs r columns j) = row_key_cell r (read_row j)"
  by (simp_all add: record_row_def Let_def)


definition demo_row :: "string \<Rightarrow> json" where
  "demo_row pk =
     JObj [(''key'', JObj [(''namespace'', JStr ''n''), (''pk'', JStr pk)]),
           (''meta'', JObj [(''generation'', JNum (inum 1)), (''ttl'', JNum (inum 0))]), (''bins'', JObj [])]"




definition rows_unless_filtered :: "string \<Rightarrow> json \<Rightarrow> json list \<Rightarrow> bool" where
  \<comment> \<open>a server whose set holds one record, which no key pattern matches\<close>
  "rows_unless_filtered c q rs \<longleftrightarrow> rs = (if json_field q ''pkPattern'' = Some JNull then [demo_row ''k''] else [])"

text \<open>
  Before that the message can be wrong. The message is chosen by the filters that are applied now, the
  rows are those of the query before: after a filter that matched nothing is cleared, the page says
  that the set is empty while the unfiltered query is out, and goes on saying so when that query fails,
  although the set holds a record and the server said so.
\<close>

theorem stale_rows_called_empty_set:
  "\<exists>es b. browser_run (\<lambda>x. []) (\<lambda>s. None) es (openBrowser (demo_route ''a'')) = Some b \<and>
     honest_fetches rows_unless_filtered (\<lambda>x. []) (\<lambda>s. None) es (openBrowser (demo_route ''a'')) \<and> \<not> b_loading b \<and>
     browser_table (\<lambda>x. []) b = TableEmpty 4 ''No records in this set.'' \<and>
     \<not> rows_unless_filtered (r_cluster (b_route b)) (filter_body (b_route b) (b_applied b) (b_pageSize b)) []"
proof -
  let ?es = "[FetchAnswer 0 (demo_response [demo_row ''k'']), EditDraft (emptyFilterDraft\<lparr>d_pk := ''z''\<rparr>), ClickSearch,
    FetchAnswer 0 (demo_response []), ClickClear, FetchAnswer 0 (Inl (ErrorObj ''x''))]"
  show ?thesis
    by (rule exI [of _ ?es])
      (simp add: browser_run_simps canApply_def dirty_def draftEquals_def validatePkDraft_def handleApply_def handleClear_def
        draftHasFilters_def rows_unless_filtered_def browser_table_def page_columns_def binColumns_def trim_fixed is_ws_def
        error_text_def)
qed

section \<open>Properties of the toolbar\<close>

text \<open>Each value the condition editor commits has exactly one input on screen.\<close>

lemma editor_fields_count:
  assumes "offered c"
  shows "length (editor_fields c e) = (if needsValue2 c then 2 else if needsValue c then 1 else 0)"
  using operators_offered [OF assms [unfolded offered_def]]
  by (auto simp: editor_fields_def needsValue_def needsValue2_def DUAL_VALUE_OPERATORS_def NO_VALUE_OPERATORS_def isGeo_def)

text \<open>
  A pattern mode with an empty key field disables the search without saying why: the text that asks for a pattern is
  computed, but the alert is rendered only for a field that is not empty, so the input is described
  by an element that does not exist.
\<close>

theorem search_disabled_without_reason:
  assumes "d_pk d = []" "d_pkMatchMode d \<noteq> PkExact"
  shows "\<not> canApply compile loading changed d \<and> pk_alert compile d = None \<and> pi_described (PkInput compile d)"
  using assms by (simp add: canApply_def validatePkDraft_def pk_alert_def PkInput_def pkError_def)

lemma pk_alert_explains:
  assumes "d_pk d \<noteq> []" "\<And>p. compile p \<noteq> Some []"
  shows "pk_alert compile d = None \<longleftrightarrow> pkError compile d = None"
  using assms by (auto simp: pk_alert_def pkError_def validatePkDraft_def truthy_def split: option.splits if_splits)

section \<open>Properties of the record page\<close>

text \<open>
  A boolean bin can show a value that it does not have. When the kind of a new, empty bin is set to
  boolean, the select shows \<open>false\<close>; choosing what is already shown is no change, the draft stays empty,
  and Save refuses the bin.
\<close>

theorem boolean_shown_but_refused:
  assumes "d \<in> set (rp_drafts p)" "bd_kind d = EBoolean" "bd_value d = []"
  shows "bin_widget d = BoolSelect ''false'' \<and> draftToBin fs (bd_value d) (bd_kind d) = Inl NotBoolean \<and>
    snd (handleSave fs p) = None"
proof -
  have bad: "draftToBin fs (bd_value d) (bd_kind d) = Inl NotBoolean" by (simp add: draftToBin_def assms)
  then have "\<not> draft_valid fs (rp_drafts p) (rp_ttlDraft p)"
    using assms(1) by (auto simp: draft_valid_def list_all_iff parses_def intro!: bexI [of _ d])
  with bad handleSave_invalid show ?thesis by (simp add: bin_widget_def assms str_or_def)
qed

text \<open>An edit is never offered without a record to edit, and saving never while errors are shown.\<close>

lemma buttons_guard_handlers:
  "(''Edit'', False) \<in> set (record_buttons p) \<Longrightarrow> rp_isEditing (startEdit fs p)"
  "(''Save changes'', False) \<in> set (record_buttons p) \<longleftrightarrow> save_enabled p"
  by (auto simp: record_buttons_def startEdit_def save_enabled_def split: if_splits)

end
