(* ===== verification/Guides_Page.thy ===== *)
theory Guides_Page
  imports Data_Hooks Dialogs
begin

text \<open>
  The operational guides of a workspace: the hook \<open>useGuides\<close> (\<^verbatim>\<open>ui/src/hooks/use-guides.ts\<close>), the page
  \<^verbatim>\<open>ui/src/app/(main)/guides/page.tsx\<close> and how they work together with the editor dialog of
  \<open>Dialogs\<close>. A request is split at its \<open>await\<close>; the workspaces of unanswered requests are kept in a
  list, so that answers may arrive late or in another order. \<open>tls\<close> renders a date in the local
  format, \<open>None\<close> for an invalid one.
\<close>

section \<open>The hook (use-guides.ts)\<close>

record guide =
  gd_workspaceId :: string
  gd_type :: guide_type
  gd_title :: string
  gd_content :: string
  gd_updatedAt :: string
  gd_updatedBy :: "string option"

record editor_target =
  et_type :: guide_type
  et_existing :: "guide option"

record guides_page =
  gp_workspace :: string \<comment> \<open>\<open>currentWorkspaceId\<close> of the store\<close>
  gp_hook :: "guide list query_hook"
  gp_calls :: "string list" \<comment> \<open>unanswered\<close>
  gp_editor :: "editor_target option"

definition fetchGuides :: "guides_page \<Rightarrow> guides_page" where
  \<comment> \<open>up to the \<open>await\<close>\<close>
  "fetchGuides p = p\<lparr>gp_hook := refetch_begin (gp_hook p), gp_calls := gp_calls p @ [gp_workspace p]\<rparr>"

definition guides_answered :: "js_error + guide list \<Rightarrow> guides_page \<Rightarrow> guides_page" where
  \<comment> \<open>after the \<open>await\<close>\<close>
  "guides_answered r p = p\<lparr>gp_hook := refetch_end r (gp_hook p)\<rparr>"

definition open_guides :: "string \<Rightarrow> guides_page" where
  \<comment> \<open>the page when it is mounted, with its effects\<close>
  "open_guides w = fetchGuides \<lparr>gp_workspace = w, gp_hook = initial_hook, gp_calls = [], gp_editor = None\<rparr>"

definition switch_workspace :: "string \<Rightarrow> guides_page \<Rightarrow> guides_page" where
  \<comment> \<open>the effect that follows a change of \<open>workspaceId\<close>\<close>
  "switch_workspace w p = (if w = gp_workspace p then p else fetchGuides (p\<lparr>gp_workspace := w\<rparr>))"

section \<open>The page (page.tsx)\<close>

definition formatDate :: "(string \<Rightarrow> string option) \<Rightarrow> string \<Rightarrow> string" where
  "formatDate tls stamp = (case tls stamp of None \<Rightarrow> stamp | Some t \<Rightarrow> t)"

definition workspaceName :: "workspace_response list option \<Rightarrow> string \<Rightarrow> string" where
  "workspaceName ws current =
     (case Option.bind ws (find (\<lambda>w. wr_id w = current)) of Some w \<Rightarrow> wr_name w | None \<Rightarrow> current)"

definition byType :: "guides_page \<Rightarrow> guide_type \<Rightarrow> guide option" where
  \<comment> \<open>later entries of the list replace earlier ones\<close>
  "byType p t = map_of (rev (map (\<lambda>g. (gd_type g, g)) (nullish (q_data (gp_hook p)) []))) t"

fun GUIDE_TYPE_DESCRIPTION :: "guide_type \<Rightarrow> string" where
  "GUIDE_TYPE_DESCRIPTION DataPlane =
     ''Org/team policy for dynamic Aerospike data CRUD '' @ [u_sub] @ '' TTL ceilings, note templates, naming rules.''"
| "GUIDE_TYPE_DESCRIPTION ControlPlane =
     ''Org/team policy for Aerospike cluster lifecycle '' @ [u_sub] @ '' test/stage/prod creation rules and approvals.''"

datatype card_body = CardLoading | CardGuide string string string | CardEmpty string string

record card_view =
  gc_label :: string
  gc_badge :: string
  gc_description :: string
  gc_button :: string
  gc_disabled :: bool
  gc_body :: card_body

definition guides_pending :: "guides_page \<Rightarrow> bool" where
  "guides_pending p \<longleftrightarrow> q_isLoading (gp_hook p) \<and> q_data (gp_hook p) = None"

definition guide_card :: "(string \<Rightarrow> string option) \<Rightarrow> guides_page \<Rightarrow> guide_type \<Rightarrow> card_view" where
  "guide_card tls p t =
     (let g = byType p t; low = toLowerCase (GUIDE_TYPE_LABEL t) in
      \<lparr>gc_label = GUIDE_TYPE_LABEL t,
       gc_badge = (if g \<noteq> None then ''Registered'' else ''Not registered''),
       gc_description = GUIDE_TYPE_DESCRIPTION t,
       gc_button = (if g \<noteq> None then ''Edit'' else ''Register''),
       gc_disabled = guides_pending p,
       gc_body =
         (if guides_pending p then CardLoading
          else case g of
            Some gd \<Rightarrow>
              CardGuide (gd_title gd)
                (''updated '' @ formatDate tls (gd_updatedAt gd) @
                 (if truthy (gd_updatedBy gd) then '' by '' @ the (gd_updatedBy gd) else []))
                (gd_content gd)
          | None \<Rightarrow> CardEmpty (''No '' @ low @ '' registered for this workspace yet.'') (''Register '' @ low))\<rparr>)"

definition guide_cards :: "(string \<Rightarrow> string option) \<Rightarrow> guides_page \<Rightarrow> card_view list" where
  "guide_cards tls p = map (guide_card tls p) GUIDE_TYPES"

definition guides_banner :: "(rat \<Rightarrow> string) \<Rightarrow> guides_page \<Rightarrow> (string \<times> bool \<times> bool) option" where
  \<comment> \<open>message, \<open>disabled\<close> and \<open>staleData\<close>\<close>
  "guides_banner fs p =
     map_option (\<lambda>e. (error_text fs e, q_isLoading (gp_hook p), q_data (gp_hook p) \<noteq> None)) (q_error (gp_hook p))"

definition open_editor :: "guide_type \<Rightarrow> guides_page \<Rightarrow> guides_page" where
  \<comment> \<open>the button in the head of a card\<close>
  "open_editor t p = p\<lparr>gp_editor := Some \<lparr>et_type = t, et_existing = byType p t\<rparr>\<rparr>"

definition open_register :: "guide_type \<Rightarrow> guides_page \<Rightarrow> guides_page" where
  \<comment> \<open>the button in the body of an empty card\<close>
  "open_register t p = p\<lparr>gp_editor := Some \<lparr>et_type = t, et_existing = None\<rparr>\<rparr>"

definition close_editor :: "guides_page \<Rightarrow> guides_page" where
  "close_editor p = p\<lparr>gp_editor := None\<rparr>"

definition page_dialog ::
  "(rat \<Rightarrow> string) \<Rightarrow> (guide_type \<Rightarrow> string) \<Rightarrow> guides_page \<Rightarrow> editor_target \<Rightarrow> guide_form dialog_code" where
  \<comment> \<open>the dialog the page renders: the workspace is the current one\<close>
  "page_dialog fs starter p t =
     GuideEditorDialog fs starter (gp_workspace p) (et_type t)
       (map_option (\<lambda>g. \<lparr>gf_title = gd_title g, gf_content = gd_content g\<rparr>) (et_existing t))"

datatype guides_input =
    SwitchTo string
  | RefreshGuides
  | GuidesAnswer nat "js_error + guide list" \<comment> \<open>of the unanswered request at this index\<close>
  | ClickGuide guide_type
  | ClickRegister guide_type
  | CloseGuide
  | GuideSaved \<comment> \<open>\<open>onSaved\<close> or \<open>onDeleted\<close>\<close>

fun guides_step :: "guides_input \<Rightarrow> guides_page \<Rightarrow> guides_page option" where
  \<comment> \<open>\<open>None\<close>: the input is not possible in this state\<close>
  "guides_step (SwitchTo w) p = Some (switch_workspace w p)"
| "guides_step RefreshGuides p = (if q_isLoading (gp_hook p) then None else Some (fetchGuides p))"
| "guides_step (GuidesAnswer i r) p =
     (if i < length (gp_calls p)
      then Some (guides_answered r (p\<lparr>gp_calls := take i (gp_calls p) @ drop (Suc i) (gp_calls p)\<rparr>)) else None)"
| "guides_step (ClickGuide t) p = (if guides_pending p then None else Some (open_editor t p))"
| "guides_step (ClickRegister t) p = (if guides_pending p \<or> byType p t \<noteq> None then None else Some (open_register t p))"
| "guides_step CloseGuide p = (if gp_editor p = None then None else Some (close_editor p))"
| "guides_step GuideSaved p = (if gp_editor p = None then None else Some (fetchGuides p))"

fun guides_run :: "guides_input list \<Rightarrow> guides_page \<Rightarrow> guides_page option" where
  "guides_run [] p = Some p"
| "guides_run (e # es) p = (case guides_step e p of None \<Rightarrow> None | Some p' \<Rightarrow> guides_run es p')"

section \<open>Properties\<close>

text \<open>
  \<open>P w gs\<close> says that \<open>gs\<close> are guides the server holds for workspace \<open>w\<close>; a run is honest when every answer in it is one,
  and in order when the oldest request is answered first.
\<close>

fun honest_guides :: "(string \<Rightarrow> guide list \<Rightarrow> bool) \<Rightarrow> guides_input list \<Rightarrow> guides_page \<Rightarrow> bool" where
  "honest_guides P [] p = True"
| "honest_guides P (e # es) p =
     ((case e of GuidesAnswer i (Inr gs) \<Rightarrow> i < length (gp_calls p) \<longrightarrow> P (gp_calls p ! i) gs | _ \<Rightarrow> True) \<and>
      (case guides_step e p of None \<Rightarrow> True | Some p' \<Rightarrow> honest_guides P es p'))"

definition answers_in_order :: "guides_input list \<Rightarrow> bool" where
  "answers_in_order es \<longleftrightarrow> (\<forall>i r. GuidesAnswer i r \<in> set es \<longrightarrow> i = 0)"

definition guides_ok :: "(string \<Rightarrow> guide list \<Rightarrow> bool) \<Rightarrow> guides_page \<Rightarrow> bool" where
  "guides_ok P p \<longleftrightarrow> q_mounted (gp_hook p) \<and>
     (if gp_calls p = []
      then q_error (gp_hook p) = None \<longrightarrow> (\<exists>gs. q_data (gp_hook p) = Some gs \<and> P (gp_workspace p) gs)
      else last (gp_calls p) = gp_workspace p)"

lemma fetchGuides_ok: "q_mounted (gp_hook p) \<Longrightarrow> guides_ok P (fetchGuides p)"
  by (simp add: guides_ok_def fetchGuides_def refetch_begin_def)

lemma guides_ok_mounted: "guides_ok P p \<Longrightarrow> q_mounted (gp_hook p)"
  by (simp add: guides_ok_def)

lemma answer_ok:
  assumes "guides_ok P p" "gp_calls p = c # cs" "\<And>gs. r = Inr gs \<Longrightarrow> P c gs"
  shows "guides_ok P (guides_answered r (p\<lparr>gp_calls := cs\<rparr>))"
  using assms by (cases r) (auto simp: guides_ok_def guides_answered_def refetch_end_def split: if_splits)

lemma guides_step_ok:
  assumes "guides_ok P p" "guides_step e p = Some p'" "honest_guides P [e] p" "answers_in_order [e]"
  shows "guides_ok P p'"
proof (cases e)
  case (GuidesAnswer i r)
  with assms(4) have i: "i = 0" by (auto simp: answers_in_order_def)
  with assms(2) GuidesAnswer obtain c cs where c: "gp_calls p = c # cs" by (cases "gp_calls p") auto
  with assms(2,3) GuidesAnswer i have "p' = guides_answered r (p\<lparr>gp_calls := cs\<rparr>)" "\<And>gs. r = Inr gs \<Longrightarrow> P c gs" by auto
  with answer_ok [OF assms(1) c] show ?thesis by simp
next
  case (SwitchTo w)
  with assms show ?thesis
    by (auto simp: switch_workspace_def intro!: fetchGuides_ok dest: guides_ok_mounted split: if_splits)
qed (use assms in \<open>auto simp: open_editor_def open_register_def close_editor_def guides_ok_def fetchGuides_def refetch_begin_def
        split: if_splits\<close>)

lemma guides_run_ok:
  assumes "guides_ok P p" "guides_run es p = Some p'" "honest_guides P es p" "answers_in_order es"
  shows "guides_ok P p'"
  using assms
proof (induction es arbitrary: p)
  case (Cons e es)
  then obtain p1 where p1: "guides_step e p = Some p1" by (auto split: option.splits)
  have "guides_ok P p1"
    by (rule guides_step_ok [OF Cons.prems(1) p1]) (use Cons.prems(3,4) p1 in \<open>simp_all add: answers_in_order_def\<close>)
  then show ?case
    by (rule Cons.IH) (use Cons.prems(2-4) p1 in \<open>auto simp: answers_in_order_def\<close>)
qed simp

lemma open_guides_ok: "guides_ok P (open_guides w)"
  unfolding open_guides_def by (rule fetchGuides_ok) (simp add: initial_hook_def)

text \<open>
  When requests are answered in the order they were sent, then once nothing is out and no error is
  shown, the cards show the guides of the workspace named in the title, whatever the user did in between.
\<close>

theorem guides_of_current_workspace:
  assumes "guides_run es (open_guides w) = Some p" "honest_guides P es (open_guides w)" "answers_in_order es"
    and "gp_calls p = []" "q_error (gp_hook p) = None"
  shows "\<exists>gs. P (gp_workspace p) gs \<and> q_data (gp_hook p) = Some gs \<and> \<not> guides_pending p"
  using guides_run_ok [OF open_guides_ok assms(1-3)] assms(4,5) by (auto simp: guides_ok_def guides_pending_def)

definition demo_guide :: "string \<Rightarrow> guide" where
  "demo_guide w =
     \<lparr>gd_workspaceId = w, gd_type = DataPlane, gd_title = ''Policy'', gd_content = ''rules of '' @ w, gd_updatedAt = [],
      gd_updatedBy = None\<rparr>"

definition own_guides :: "string \<Rightarrow> guide list \<Rightarrow> bool" where
  "own_guides w gs \<longleftrightarrow> gs = [demo_guide w]"

lemmas guides_run_simps = open_guides_def fetchGuides_def refetch_begin_def initial_hook_def switch_workspace_def
  guides_answered_def refetch_end_def guides_pending_def open_editor_def byType_def own_guides_def

definition saved_request ::
  "(rat \<Rightarrow> string) \<Rightarrow> (guide_type \<Rightarrow> string) \<Rightarrow> guides_page \<Rightarrow> editor_target \<Rightarrow> guide_form \<Rightarrow> api_call option" where
  \<comment> \<open>what Save sends when the dialog is opened and submitted without an edit; the form held \<open>f\<close> before\<close>
  "saved_request fs starter p t f =
     map_option (\<lambda>(d, fl, l). last l) (dialog_run (page_dialog fs starter p t) [DOpen, DSubmit] (closed_dialog f))"

text \<open>
  The policy of one workspace is written to another. The hook keeps the guides of the old workspace while those of
  the new one are loading, and the editor saves under the new one. So after switching the workspace, with every answer
  honest and in order, the data-plane card still offers Edit with the guide of workspace \<open>a\<close>, and opening it and
  saving without any change sends that guide as the guide of workspace \<open>b\<close>.
\<close>

theorem guide_saved_under_other_workspace:
  "\<exists>es p t. guides_run es (open_guides ''a'') = Some p \<and> honest_guides own_guides es (open_guides ''a'') \<and>
     answers_in_order es \<and> gp_workspace p = ''b'' \<and> gp_editor p = Some t \<and>
     map_option gd_workspaceId (et_existing t) = Some ''a'' \<and>
     saved_request fs starter p t f = Some (upsertGuide ''b'' DataPlane
       (JObj [(''title'', JStr ''Policy''), (''content'', JStr ''rules of a'')]))"
proof -
  let ?es = "[GuidesAnswer 0 (Inr [demo_guide ''a'']), SwitchTo ''b'', ClickGuide DataPlane]"
  have trims: "trim ''Policy'' = ''Policy''" "trim ''rules of a'' \<noteq> []" by code_simp+
  show ?thesis
    by (rule exI [of _ ?es])
      (simp add: guides_run_simps answers_in_order_def demo_guide_def saved_request_def page_dialog_def GuideEditorDialog_def
        closed_dialog_def dialog_submit_def check_guide_def trims MAX_GUIDE_CONTENT_LENGTH_def Let_def)
qed

text \<open>
  A failed request looks like an empty workspace: when the first request fails the cards say that no guide is
  registered and offer to register one, next to the error banner; the editor starts from the template and saves over
  whatever the server holds.
\<close>

theorem failed_load_offers_register:
  assumes "guides_step (GuidesAnswer 0 (Inl e)) (open_guides w) = Some p"
  shows "gc_badge (guide_card tls p t) = ''Not registered'' \<and> gc_button (guide_card tls p t) = ''Register'' \<and>
    \<not> gc_disabled (guide_card tls p t) \<and> guides_banner fs p = Some (error_text fs (as_error e), False, False) \<and>
    (\<exists>p'. guides_step (ClickGuide t) p = Some p' \<and> gp_editor p' = Some \<lparr>et_type = t, et_existing = None\<rparr>)"
  using assms by (auto simp: guides_run_simps guide_card_def Let_def guides_banner_def)

end
