(* ===== verification/Overview_Pages.thy ===== *)
theory Overview_Pages
  imports Side_Nav Record_Editor
begin

text \<open>
  What the pages about clusters show: the rows of the cluster list as cards and as a table
  (\<^verbatim>\<open>components/clusters/ClusterCard.tsx\<close>, \<^verbatim>\<open>ClusterTable.tsx\<close>, \<^verbatim>\<open>EnvSection.tsx\<close>, \<^verbatim>\<open>EnvSectionHeader.tsx\<close>),
  the overview of a cluster (\<^verbatim>\<open>app/(main)/clusters/[clusterId]/page.tsx\<close>), its namespaces and sets
  (\<^verbatim>\<open>.../sets/page.tsx\<close>), and the status bar of the shell (\<^verbatim>\<open>ui/navigation/ShellStatusBar.tsx\<close>).
  \<open>cmp\<close> is \<open>localeCompare\<close>, \<open>loc\<close> is \<open>toLocaleString\<close>, \<open>num\<close> is \<open>Number\<close> on strings; characters outside Latin-1 use the
  substitute.
\<close>

section \<open>Rows as cards and in a table\<close>

record cluster_view =
  cv_key :: string
  cv_href :: "string option"
  cv_status :: string
  cv_name :: string
  cv_note :: "string option" \<comment> \<open>\<open>None\<close>: no note is shown\<close>
  cv_labels :: "labels_cell option" \<comment> \<open>\<open>None\<close>: no labels are shown\<close>
  cv_hosts :: "string list"
  cv_port :: jsnum
  cv_fallback :: string
  cv_managed :: string
  cv_action :: row_action

definition shown_note :: "cluster_row \<Rightarrow> string option" where
  "shown_note r = (if truthy (cr_note r) then cr_note r else None)"

definition address_fallback :: "cluster_row \<Rightarrow> string" where
  "address_fallback r = nullish (cr_k8sNamespace r) [u_sub]"

definition hasCustomLabels :: "cluster_row \<Rightarrow> bool" where
  "hasCustomLabels r \<longleftrightarrow> length (filter (\<lambda>k. k \<noteq> ENV_LABEL_KEY) (obj_keys (cr_labels r))) > 0"

definition DEFAULT_MAX_VISIBLE :: nat where
  \<comment> \<open>the default of \<open>maxVisible\<close> of \<open>LabelsCell\<close>\<close>
  "DEFAULT_MAX_VISIBLE = 3"

definition ClusterCard :: "cluster_row \<Rightarrow> cluster_view" where
  "ClusterCard r =
     \<lparr>cv_key = cr_key r,
      cv_href = (if truthy (cr_connId r) then Some (nav_overview (the (cr_connId r))) else None),
      cv_status = fst (phaseTone (cr_phase r)), cv_name = cr_displayName r, cv_note = shown_note r,
      cv_labels = (if cr_profile r \<noteq> None \<and> hasCustomLabels r then LabelsCell (cr_labels r) True DEFAULT_MAX_VISIBLE else None),
      cv_hosts = cr_hosts r, cv_port = cr_port r, cv_fallback = address_fallback r,
      cv_managed = (if cr_acko r then ''ACKO'' else ''Manual''),
      cv_action = (case cr_profile r of Some p \<Rightarrow> EditProfile p | None \<Rightarrow> NotLinked)\<rparr>"

definition table_line :: "cluster_row \<Rightarrow> cluster_view" where
  "table_line r =
     \<lparr>cv_key = cr_key r, cv_href = NameLink r, cv_status = fst (phaseTone (cr_phase r)), cv_name = cr_displayName r,
      cv_note = shown_note r,
      cv_labels = (if cr_profile r \<noteq> None then LabelsCell (cr_labels r) False DEFAULT_MAX_VISIBLE else None),
      cv_hosts = cr_hosts r, cv_port = cr_port r, cv_fallback = address_fallback r,
      cv_managed = (if cr_acko r then ''ACKO'' else ''manual''), cv_action = action_of r\<rparr>"

definition ClusterTable :: "cluster_row list \<Rightarrow> cluster_view list" where
  "ClusterTable rows = map table_line rows"

definition EnvSectionHeader :: "string \<Rightarrow> nat \<Rightarrow> string \<times> string" where
  "EnvSectionHeader env n = (env, nat_str n @ '' '' @ (if n = 1 then ''cluster'' else ''clusters''))"

definition EnvSection :: "bool \<Rightarrow> string \<Rightarrow> cluster_row list \<Rightarrow> (string \<times> string) \<times> cluster_view list" where
  \<comment> \<open>the flag: \<open>view === "card"\<close>\<close>
  "EnvSection as_cards env rows =
     (EnvSectionHeader env (length rows), if as_cards then map ClusterCard rows else ClusterTable rows)"

section \<open>Overview of a cluster (page.tsx)\<close>

record cluster_node_info =
  no_name :: string
  no_address :: string
  no_port :: jsnum
  no_build :: string
  no_edition :: string
  no_uptime :: jsnum
  no_statistics :: "(string, stat_value) jsmap option"

record cluster_info =
  ci_nodes :: "cluster_node_info list"
  ci_namespaces :: "namespace_info list"

definition formatUptime :: "(rat \<Rightarrow> string) \<Rightarrow> jsnum \<Rightarrow> string" where
  "formatUptime fs seconds =
     (if \<not> isFinite seconds \<or> num_le seconds (inum 0) then [u_sub]
      else (let d = whole_div seconds 86400; h = whole_div (num_rem seconds 86400) 3600 in
        if num_less (inum 0) d then num_str fs d @ ''d '' @ num_str fs h @ ''h''
        else num_str fs h @ ''h '' @ num_str fs (whole_div (num_rem seconds 3600) 60) @ ''m''))"

definition overview_subtitle :: "cluster_info option \<Rightarrow> bool \<Rightarrow> string" where
  "overview_subtitle data loading =
     (case data of
        Some c \<Rightarrow> nat_str (length (ci_nodes c)) @ '' nodes '' @ [CHR 0xB7] @ '' '' @ nat_str (length (ci_namespaces c)) @ '' namespaces''
      | None \<Rightarrow> if loading then ''Loading cluster info'' @ [u_sub] else [u_sub])"

definition overview_badges :: "cluster_info option \<Rightarrow> string list" where
  "overview_badges data =
     (case data of
        None \<Rightarrow> []
      | Some c \<Rightarrow> (case ci_nodes c of n # _ \<Rightarrow> if no_edition n \<noteq> [] then [no_edition n] else [] | [] \<Rightarrow> []) @ [''Connected''])"

definition ackoInfo :: "k8s_summary list option \<Rightarrow> string \<Rightarrow> k8s_summary option" where
  "ackoInfo k8s clusterId = Option.bind k8s (find (\<lambda>c. ks_connectionId c = Some clusterId))"

definition image_tag :: "string \<Rightarrow> string" where
  \<comment> \<open>\<open>image.split(":").pop() ?? image\<close>\<close>
  "image_tag img = last (splitOn (CHR '':'') img)"

record line_view =
  nl_name :: string
  nl_address :: string
  nl_build :: string
  nl_uptime :: string
  nl_status :: "string \<times> string"

datatype nodes_view = NodesSkeleton nat | NodesList "line_view list" | NoNodes

definition node_line :: "(rat \<Rightarrow> string) \<Rightarrow> (string \<Rightarrow> jsnum) \<Rightarrow> cluster_node_info \<Rightarrow> line_view" where
  "node_line fs num n =
     \<lparr>nl_name = no_name n, nl_address = no_address n @ '':'' @ num_str fs (no_port n), nl_build = ''build '' @ no_build n,
      nl_uptime = ''uptime '' @ formatUptime fs (no_uptime n), nl_status = nodeStatus num (no_statistics n)\<rparr>"

definition overview_nodes :: "(rat \<Rightarrow> string) \<Rightarrow> (string \<Rightarrow> jsnum) \<Rightarrow> cluster_info option \<Rightarrow> bool \<Rightarrow> nodes_view" where
  "overview_nodes fs num data loading =
     (if loading then NodesSkeleton 3
      else case data of
        Some c \<Rightarrow> if length (ci_nodes c) > 0 then NodesList (map (node_line fs num) (ci_nodes c)) else NoNodes
      | None \<Rightarrow> NoNodes)"

definition overview_count :: "cluster_info option \<Rightarrow> bool \<Rightarrow> string" where
  "overview_count data loading =
     (case data of Some c \<Rightarrow> nat_str (length (ci_nodes c)) @ '' nodes'' | None \<Rightarrow> if loading then [u_sub] else ''0'')"

section \<open>Namespaces and sets (sets/page.tsx)\<close>

datatype set_chip = EmptyChip string | SetLink string string string bool "string option"

definition SetChip :: "(rat \<Rightarrow> string) \<Rightarrow> (rat \<Rightarrow> string) \<Rightarrow> string \<Rightarrow> string \<Rightarrow> set_info \<Rightarrow> set_chip" where
  \<comment> \<open>a link has its address, name, count, the note badge and the title\<close>
  "SetChip fs loc clusterId namespace s =
     (if se_objects s = inum 0 then EmptyChip (se_name s)
      else SetLink (nav_set clusterId namespace (se_name s)) (se_name s) (formatCount fs loc (se_objects s))
             (truthy (se_note s)) (se_note s))"

definition memPct :: "namespace_info \<Rightarrow> jsnum" where
  "memPct ns =
     (case ni_memoryTotal ns of
        Num t \<Rightarrow> if 0 < t then Math_round (num_mul (num_div (ni_memoryUsed ns) t) (inum 100)) else inum 0
      | _ \<Rightarrow> inum 0)"

datatype meter = MeterRed | MeterAmber | MeterPrimary

definition mem_meter :: "namespace_info \<Rightarrow> meter" where
  "mem_meter ns =
     (if num_less (inum 80) (memPct ns) then MeterRed
      else if num_less (inum 60) (memPct ns) then MeterAmber else MeterPrimary)"

fun severity_variant :: "severity \<Rightarrow> string" where
  "severity_variant SevOk = ''success''"
| "severity_variant SevWarning = ''warning''"
| "severity_variant SevError = ''error''"

record namespace_card =
  nc_name :: string
  nc_status :: "string \<times> string"
  nc_sets_label :: string
  nc_objects :: string
  nc_memory :: string
  nc_hwm :: "string \<times> bool" \<comment> \<open>the flag: shown as a warning\<close>
  nc_ttl :: string
  nc_meter :: "string \<times> meter"
  nc_notice :: "string option"
  nc_chips :: "set_chip list"

definition NamespaceCard ::
  "(rat \<Rightarrow> string) \<Rightarrow> (rat \<Rightarrow> string) \<Rightarrow> (string \<Rightarrow> string \<Rightarrow> int) \<Rightarrow> string \<Rightarrow> namespace_info \<Rightarrow> namespace_card" where
  "NamespaceCard fs loc cmp clusterId ns =
     \<lparr>nc_name = ni_name ns, nc_status = (nsStatusLabel ns, severity_variant (nsSeverity ns)),
      nc_sets_label = nat_str (length (ni_sets ns)) @ '' '' @ (if length (ni_sets ns) = 1 then ''set'' else ''sets'') @ '' '' @
        [CHR 0xB7] @ '' RF '' @ num_str fs (ni_replicationFactor ns),
      nc_objects = formatCount fs loc (ni_objects ns),
      nc_memory = formatBytes fs (ni_memoryUsed ns) @ '' / '' @ formatBytes fs (ni_memoryTotal ns),
      nc_hwm = (num_str fs (ni_highWaterMemoryPct ns) @ ''%'', num_less (inum 70) (ni_highWaterMemoryPct ns)),
      nc_ttl = (if ni_defaultTtl ns = inum 0 then ''None'' else num_str fs (ni_defaultTtl ns) @ ''s''),
      nc_meter = (num_str fs (memPct ns) @ ''%'', mem_meter ns),
      nc_notice = sets_notice ns,
      nc_chips = map (SetChip fs loc clusterId (ni_name ns)) (set_chips cmp ns)\<rparr>"

datatype sets_view = SetsSkeleton | NoNamespaces | NamespaceCards "namespace_card list"

definition sets_page ::
  "(rat \<Rightarrow> string) \<Rightarrow> (rat \<Rightarrow> string) \<Rightarrow> (string \<Rightarrow> string \<Rightarrow> int) \<Rightarrow> string \<Rightarrow> string \<Rightarrow> bool \<Rightarrow> cluster_info option \<Rightarrow> sets_view" where
  "sets_page fs loc cmp clusterId s loading data =
     (let namespaces = (case data of Some c \<Rightarrow> ci_namespaces c | None \<Rightarrow> []); filtered = namespaces_filtered s namespaces in
      if loading \<and> length namespaces = 0 then SetsSkeleton
      else if length filtered = 0 then NoNamespaces
      else NamespaceCards (map (NamespaceCard fs loc cmp clusterId) filtered))"

definition sidebar_summary :: "cluster_info \<Rightarrow> (string \<times> (string \<times> jsnum) list) list" where
  \<comment> \<open>what \<open>useClusterNamespaces\<close> of the sidebar keeps of a cluster\<close>
  "sidebar_summary c = map (\<lambda>ns. (ni_name ns, map (\<lambda>s. (se_name s, se_objects s)) (ni_sets ns))) (ci_namespaces c)"

section \<open>The status bar (ShellStatusBar.tsx)\<close>

datatype service_health = Healthy | Degraded | Unreach

record shell_status =
  ss_connected :: bool
  ss_connections :: nat
  ss_services :: "(string \<times> service_health) list"

definition ShellStatusBar :: "connection_profile list query_hook \<Rightarrow> k8s_summary list query_hook \<Rightarrow> shell_status" where
  "ShellStatusBar conn k8s =
     (let connected = (q_error conn = None \<and> q_error k8s = None) in
      \<lparr>ss_connected = connected,
       ss_connections = (case q_data conn of Some cs \<Rightarrow> length cs | None \<Rightarrow> 0),
       ss_services =
         [(''api'', if connected then Healthy else Unreach),
          (''acko'', if q_error k8s \<noteq> None then Unreach else Healthy),
          (''k8s'', case q_data k8s of Some (_ # _) \<Rightarrow> Healthy | _ \<Rightarrow> Degraded)]\<rparr>)"

section \<open>Properties\<close>

text \<open>A card and a line of the table offer the same link, state, note, address and action; only the environment label is left out of the card, whose section names it.\<close>

lemma views_agree:
  "cv_href (ClusterCard r) = cv_href (table_line r) \<and> cv_action (ClusterCard r) = cv_action (table_line r) \<and>
   cv_status (ClusterCard r) = cv_status (table_line r) \<and> cv_note (ClusterCard r) = cv_note (table_line r) \<and>
   (cv_hosts (ClusterCard r), cv_port (ClusterCard r), cv_fallback (ClusterCard r)) =
     (cv_hosts (table_line r), cv_port (table_line r), cv_fallback (table_line r))"
  by (simp add: ClusterCard_def table_line_def NameLink_def action_of_def)

lemma labels_agree:
  assumes "cv_labels (table_line r) = Some t"
  shows "(case cv_labels (ClusterCard r) of
      Some c \<Rightarrow> lc_visible c = lc_visible t \<and> lc_overflow c = lc_overflow t
    | None \<Rightarrow> lc_visible t = [] \<and> lc_overflow t = [])"
proof -
  have "(filter (\<lambda>(k, v). k \<noteq> ENV_LABEL_KEY) (cr_labels r) = []) = (\<not> hasCustomLabels r)"
    by (auto simp: hasCustomLabels_def filter_empty_conv)
  with assms show ?thesis by (auto simp: ClusterCard_def table_line_def LabelsCell_def Let_def split: if_splits)
qed

lemma insert_by_map: "insert_by c (f x) (map f xs) = map f (insert_by (\<lambda>a b. c (f a) (f b)) x xs)"
  by (induction xs) auto

lemma sort_by_map: "sort_by c (map f xs) = map f (sort_by (\<lambda>a b. c (f a) (f b)) xs)"
  by (induction xs) (simp_all add: insert_by_map)

definition chip_link :: "set_chip \<Rightarrow> string \<times> string option" where
  "chip_link ch = (case ch of EmptyChip n \<Rightarrow> (n, None) | SetLink h n _ _ _ \<Rightarrow> (n, Some h))"

lemma chips_agree:
  "map chip_link (nc_chips (NamespaceCard fs loc cmp i ns)) =
   map (\<lambda>x. (sn_name x, sn_href x)) (nn_sets (NamespaceNode cmp i b a (ni_name ns, map (\<lambda>s. (se_name s, se_objects s)) (ni_sets ns))))"
proof -
  have "(\<lambda>x y. compareSidebarSets cmp (se_name x, se_objects x) (se_name y, se_objects y)) = compareSets cmp"
    by (intro ext) (simp add: compareSidebarSets_def compareSets_def positive_num_def filled_def)
  then show ?thesis
    by (auto simp: NamespaceCard_def NamespaceNode_def set_chips_def sort_by_map chip_link_def SetChip_def SetNode_def)
qed


definition demo_namespace :: namespace_info where
  "demo_namespace =
     \<lparr>ni_name = ''test'', ni_objects = inum 0, ni_memoryUsed = inum 0, ni_memoryTotal = inum 0, ni_memoryFreePct = inum 0,
      ni_deviceUsed = inum 0, ni_deviceTotal = inum 0, ni_replicationFactor = inum 1, ni_stopWrites = False,
      ni_hwmBreached = False, ni_highWaterMemoryPct = inum 0, ni_highWaterDiskPct = inum 0, ni_nsupPeriod = inum 0,
      ni_defaultTtl = inum 0, ni_allowTtlWithoutNsup = False, ni_sets = []\<rparr>"


text \<open>
  The status bar reports the API as unreachable when only the request for Kubernetes clusters failed, also while the API
  answers every other request.
\<close>

theorem api_shown_unreachable:
  assumes "q_error k8s = Some e"
  shows "map_of (ss_services (ShellStatusBar conn k8s)) ''api'' = Some Unreach \<and> \<not> ss_connected (ShellStatusBar conn k8s)"
  using assms by (simp add: ShellStatusBar_def Let_def)

end
