(* ===== verification/Copilot_Context.thy ===== *)
theory Copilot_Context
  imports Copilot_Tools Stores Json_Text
begin

text \<open>
  What the application tells the assistant and what it shows of its answers: the context of every run
  (\<^verbatim>\<open>components/copilot/CopilotAppContext.tsx\<close>) and the cards of the write tools
  (\<open>ConfirmCard\<close>, \<open>ResultCard\<close> and \<open>hitlRender\<close> of \<^verbatim>\<open>components/copilot/tools/write-tools.tsx\<close>).
\<close>

section \<open>The context (CopilotAppContext.tsx)\<close>

definition or_null :: "json option \<Rightarrow> json" where
  "or_null j = nullish j JNull"

definition copied :: "json \<Rightarrow> string \<Rightarrow> (string \<times> json) list" where
  \<comment> \<open>\<open>k: c.k\<close>; a missing field stays missing when the context is sent\<close>
  "copied c k = (case json_field c k of Some v \<Rightarrow> [(k, v)] | None \<Rightarrow> [])"

definition context_connection :: "json \<Rightarrow> json" where
  "context_connection c =
     JObj (copied c ''id'' @ copied c ''name'' @ [(''clusterName'', or_null (json_field c ''clusterName''))])"

definition context_cluster :: "json \<Rightarrow> json" where
  "context_cluster c =
     JObj (copied c ''namespace'' @ copied c ''name'' @ copied c ''phase'')"

definition CopilotAppContext :: "string \<Rightarrow> string option \<Rightarrow> json list option \<Rightarrow> k8s_cluster_store \<Rightarrow> json" where
  \<comment> \<open>from the address, its \<open>clusterId\<close>, the profiles and the store of clusters\<close>
  "CopilotAppContext pathname clusterId data s =
     (let connections = nullish data [];
          current = find (\<lambda>c. json_field c ''id'' = Some (or_null (map_option JStr clusterId))) connections
      in JObj [(''route'', JStr pathname),
               (''selectedConnectionId'', or_null (map_option JStr clusterId)),
               (''selectedConnectionName'', or_null (Option.bind current (\<lambda>c. json_field c ''name''))),
               (''connections'', JArr (map context_connection connections)),
               (''ackoClusters'', JArr (map context_cluster (k8s_clusters s)))])"

section \<open>The cards (write-tools.tsx)\<close>

record confirm_card =
  co_badge :: string
  co_title :: string
  co_rows :: "(string \<times> string) list"
  co_note :: "string option"
  co_approve :: string
  co_disabled :: bool

definition ConfirmCard :: "plan \<Rightarrow> hitl \<Rightarrow> confirm_card" where
  "ConfirmCard pl h =
     \<lparr>co_badge = (if pl_destructive pl then ''destructive'' else ''ACKO''), co_title = pl_title pl, co_rows = pl_rows pl,
      co_note = (if truthy (pl_note pl) then pl_note pl else None),
      co_approve = (if ht_submitting h then ''Working'' @ [u_sub] else pl_approveLabel pl), co_disabled = ht_submitting h\<rparr>"

datatype result_card = NoCard | ErrorCard "json option" | CancelledCard | DoneCard "json option" "json option"

definition parsed_result :: "json option \<Rightarrow> json option" where
  "parsed_result result =
     (case result of
        Some (JObj kvs) \<Rightarrow> Some (JObj kvs)
      | Some (JArr js) \<Rightarrow> Some (JArr js)
      | Some (JStr s) \<Rightarrow> JSON_parse s
      | _ \<Rightarrow> None)"

definition ResultCard :: "json option \<Rightarrow> result_card" where
  "ResultCard result =
     (case parsed_result result of
        None \<Rightarrow> NoCard
      | Some p \<Rightarrow>
          if \<not> json_truthy p then NoCard
          else if json_field p ''status'' = Some (JStr ''error'') then ErrorCard (json_field p ''error'')
          else if json_field p ''status'' = Some (JStr ''cancelled'') then CancelledCard
          else DoneCard (json_field p ''message'') (if opt_truthy (json_field p ''link'') then json_field p ''link'' else None))"

datatype hitl_view = ConfirmView confirm_card | ResultView result_card | Preparing

definition hitlRender :: "(form \<Rightarrow> plan) \<Rightarrow> hitl \<Rightarrow> json option \<Rightarrow> hitl_view" where
  \<comment> \<open>the runtime passes \<open>respond\<close> while it executes the call\<close>
  "hitlRender build h result =
     (case ht_status h of
        Executing \<Rightarrow> ConfirmView (ConfirmCard (build (ht_args h)) h)
      | Complete \<Rightarrow> ResultView (ResultCard result)
      | InProgress \<Rightarrow> Preparing)"

section \<open>Properties\<close>

definition named_part :: "json \<Rightarrow> json option \<times> json option \<times> json option" where
  "named_part c = (json_field c ''id'', json_field c ''name'', json_field c ''clusterName'')"

lemma context_connection_cong: "named_part c = named_part d \<Longrightarrow> context_connection c = context_connection d"
  by (simp add: named_part_def context_connection_def copied_def)

lemma find_named:
  assumes "map named_part cs = map named_part ds"
  shows "map_option named_part (find (\<lambda>c. json_field c ''id'' = i) cs) = map_option named_part (find (\<lambda>c. json_field c ''id'' = i) ds)"
  using assms
proof (induction cs ds rule: list_induct2')
  case (4 c cs d ds)
  then show ?case by (auto simp: named_part_def)
qed simp_all

lemma selected_name_cong:
  assumes "map_option named_part c = map_option named_part d"
  shows "Option.bind c (\<lambda>x. json_field x ''name'') = Option.bind d (\<lambda>x. json_field x ''name'')"
  using assms by (cases c; cases d) (auto simp: named_part_def)

text \<open>
  Of the connection profiles the assistant learns the identifier, the name and the cluster name, and nothing
  else: two lists of profiles that agree in these, whatever their hosts, ports, user names, notes and labels are, give
  the same context.
\<close>

theorem context_reveals_only_names:
  assumes "map named_part cs = map named_part ds"
  shows "CopilotAppContext pathname clusterId (Some cs) s = CopilotAppContext pathname clusterId (Some ds) s"
proof -
  have "map context_connection cs = map context_connection ds"
    using assms
  proof (induction cs ds rule: list_induct2')
    case (4 c cs d ds)
    then show ?case using context_connection_cong [of c d] by simp
  qed simp_all
  moreover note selected_name_cong [OF find_named [OF assms, of "Some (or_null (map_option JStr clusterId))"]]
  ultimately show ?thesis by (simp add: CopilotAppContext_def Let_def)
qed

theorem context_reveals_only_names_witness:
  "CopilotAppContext ''/clusters'' None
     (Some [JObj [(''id'', JStr ''a''), (''name'', JStr ''n''), (''username'', JStr ''u'')]]) empty_k8s_clusters =
   CopilotAppContext ''/clusters'' None
     (Some [JObj [(''id'', JStr ''a''), (''name'', JStr ''n''), (''hosts'', JArr [JStr ''10.0.0.1''])]]) empty_k8s_clusters"
  by (rule context_reveals_only_names) (simp add: named_part_def json_field_def)

definition mutation_json :: "mutation_result \<Rightarrow> json" where
  \<comment> \<open>the object a tool responds with\<close>
  "mutation_json r =
     (case r of
        MOk m l \<Rightarrow> JObj ([(''status'', JStr ''ok''), (''message'', JStr m)] @ (case l of None \<Rightarrow> [] | Some h \<Rightarrow> [(''link'', JStr h)]))
      | MError e \<Rightarrow> JObj [(''status'', JStr ''error''), (''error'', JStr e)]
      | MCancelled \<Rightarrow> JObj [(''status'', JStr ''cancelled'')])"

lemma mutation_json_ok: "json_ok fs (mutation_json r)"
  by (cases r) (auto simp: mutation_json_def split: option.splits)

text \<open>
  The card of a finished call says how the call ended, and says the same whether the runtime hands back the
  response as an object or as its JSON text.
\<close>

theorem result_card_faithful:
  "ResultCard (Some (mutation_json r)) =
     (case r of
        MOk m l \<Rightarrow> DoneCard (Some (JStr m)) (if truthy l then map_option JStr l else None)
      | MError e \<Rightarrow> ErrorCard (Some (JStr e))
      | MCancelled \<Rightarrow> CancelledCard) \<and>
   ResultCard (Some (JStr (stringify fs (mutation_json r)))) = ResultCard (Some (mutation_json r))"
proof -
  have "JSON_parse (stringify fs (mutation_json r)) = Some (mutation_json r)"
    by (rule JSON_parse_stringify [OF mutation_json_ok])
  moreover have "parsed_result (Some (mutation_json r)) = Some (mutation_json r)"
    by (cases r) (simp_all add: parsed_result_def mutation_json_def)
  ultimately have "ResultCard (Some (JStr (stringify fs (mutation_json r)))) = ResultCard (Some (mutation_json r))"
    by (simp add: ResultCard_def parsed_result_def)
  moreover have "ResultCard (Some (mutation_json r)) =
     (case r of
        MOk m l \<Rightarrow> DoneCard (Some (JStr m)) (if truthy l then map_option JStr l else None)
      | MError e \<Rightarrow> ErrorCard (Some (JStr e))
      | MCancelled \<Rightarrow> CancelledCard)"
    by (cases r) (auto simp: ResultCard_def parsed_result_def mutation_json_def json_field_def split: option.splits)
  ultimately show ?thesis by blast
qed

end
