(* ===== verification/Spec2Isabelle.thy ===== *)
theory Spec2Isabelle
  imports Edge_Proxy Guide_Markdown Tool_Cards Step_Review Wizard_View Page_Views Guides_Page Overview_Pages Copilot_Context
begin

text \<open>
  Aerospike Cluster Manager: a verification library for the web client.

  \<^bold>\<open>The program.\<close> The repository holds a Next.js web client (\<^verbatim>\<open>src/ui\<close>, TypeScript) and a Python
  backend (\<^verbatim>\<open>src/api\<close>). The client signs users in with Keycloak, keeps a registry of backends and
  talks to the selected one through a single fetch layer; on top of it stand typed endpoint wrappers,
  hooks that load and poll data, a server-sent event stream, pages that browse and edit records,
  dialogs, a wizard that creates Aerospike clusters on Kubernetes, and a copilot whose server route
  authenticates and rate-limits requests and whose tools run in the browser. This library models the
  logic of that client as HOL functions and step relations and proves the properties that make it
  correct. Paths below are relative to \<^verbatim>\<open>src/ui/src\<close>.

  \<^bold>\<open>Conventions.\<close> Definitions keep the names of the source. An \<open>async\<close> function is cut at its
  \<open>await\<close>s: one definition up to the request, one for what follows its answer, and a step relation
  or an event list for the order in which they interleave. Errors are values (\<open>js_error\<close>, sums,
  options). Objects and \<open>Map\<close>s are association lists in insertion order (\<open>jsmap\<close>); numbers are the
  finite binary64 values, the infinities and NaN (\<open>jsnum\<close>, with rounding written out), strings are
  lists of code units below U+0100. What is not under \<^verbatim>\<open>src/\<close> is an argument: the network \<open>net\<close>,
  the Keycloak library \<open>upd\<close>, the token verifier \<open>idp\<close>, the clock, \<open>localeCompare\<close>,
  \<open>toLocaleString\<close>, the rendering \<open>fs\<close> of numbers that are not integers below \<open>2 ^ 53\<close>.

  \<^bold>\<open>Foundations.\<close>
  \<^item> \<open>Prelude\<close>: \<open>??\<close>, \<open>||\<close>, trimming, splitting, decimal numerals, dictionaries (locale
    \<open>dictionary\<close>, interpreted on \<open>jsmap\<close>), stable sorting by a comparator.
  \<^item> \<open>Latest_Load\<close>: the contract of a load guarded by a sequence number (locale \<open>latest_load\<close>): the
    newest request decides what is shown. It is interpreted on the fetch effects of the hooks, on the
    record queries of the browser and on the users page.
  \<^item> \<open>Js_Number\<close>: binary64 rounding, \<open>parseInt\<close>, \<open>parseFloat\<close>, \<open>Math\<close>; \<open>Js_Json\<close>: JSON values,
    \<open>JSON.stringify\<close>, percent and form encoding with their decoders; \<open>Json_Text\<close>: \<open>JSON.parse\<close>
    (fuel: the length of the text, which every call consumes) and its round trip with printing.

  \<^bold>\<open>Session and transport.\<close>
  \<^item> \<open>Auth_Session\<close> (\<^verbatim>\<open>stores/auth-store.ts\<close>, \<^verbatim>\<open>lib/auth/keycloak.ts\<close>): store, single-flight
    initialisation, refresh. A refresh leaves store and library in agreement.
  \<^item> \<open>Cluster_Selector\<close> (\<^verbatim>\<open>stores/cluster-selector-store.ts\<close>): the hydration promise as a transition
    system; no caller waits forever.
  \<^item> \<open>Api_Client\<close> (\<^verbatim>\<open>lib/api/client.ts\<close>, \<^verbatim>\<open>error-mapping.ts\<close>, \<^verbatim>\<open>log.ts\<close>): \<open>apiFetch\<close> with silent
    refresh and one retry. Traffic is bounded, values come only from successful answers, query
    strings decode to their parameters.
  \<^item> \<open>Api_Endpoints\<close> (\<^verbatim>\<open>lib/api/*.ts\<close>): one definition per wrapper; arguments arrive as decoded path
    segments, except that dot segments escape.
  \<^item> \<open>Shared_Fetch\<close> (\<^verbatim>\<open>lib/shared-fetch.ts\<close>): coalescing refines the map from keys to the request in
    flight (locale \<open>coalescer\<close>).
  \<^item> \<open>Event_Stream\<close> (\<^verbatim>\<open>lib/api/events.ts\<close>): tickets, reconnecting, closing, with every \<open>await\<close> a
    task. One activity at a time, delays in their envelope, only tickets in URLs, closing is final.

  \<^bold>\<open>Copilot.\<close>
  \<^item> \<open>Rate_Limit\<close> (\<^verbatim>\<open>lib/copilot/rate-limit.ts\<close>): both budgets; the spend in any minute is bounded.
  \<^item> \<open>Copilot_Gate\<close> (\<^verbatim>\<open>lib/copilot/server-config.ts\<close>, \<^verbatim>\<open>verify-jwt.ts\<close>, \<^verbatim>\<open>app/copilotkit\<close>): admission
    only past every gate, with the keys of the issuer.
  \<^item> \<open>Copilot_Tools\<close> (\<^verbatim>\<open>components/copilot/tools\<close>, \<^verbatim>\<open>lib/copilot/ce-constraints.ts\<close>): read tools only
    read and pass on bounded results; write tools act only on approval of the card, within limits.
  \<^item> \<open>Tool_Cards\<close> (\<^verbatim>\<open>components/copilot\<close>): the cards for tool results, composed with the read tools and the
    JSON text between them, the feature gate, the headers of requests and the suggestions.
  \<^item> \<open>Copilot_Context\<close> (\<^verbatim>\<open>CopilotAppContext.tsx\<close>, the cards of \<^verbatim>\<open>write-tools.tsx\<close>): what the assistant is told
    of the profiles is their names; the result card says how the call ended.
  \<^item> \<open>Edge_Proxy\<close> (\<^verbatim>\<open>src/ui/proxy.js\<close>): routing and header rewriting of the process in front of
    Next.js; the limiter's key behind it is the address of the peer, whatever the request claims.

  \<^bold>\<open>State, pages and forms.\<close>
  \<^item> \<open>App_Shell\<close> (\<^verbatim>\<open>components/AuthProvider.tsx\<close>, \<^verbatim>\<open>components/ui/navigation\<close>, \<^verbatim>\<open>app/siteConfig.ts\<close>):
    the boot sequence, the choice of backend and workspace, the sidebar and record links. Pages are
    gated by sign-in when a registry is present, the selection is always of something shown, links lead
    back to their record.
  \<^item> \<open>User_Menu\<close>, \<open>Side_Nav\<close> (\<^verbatim>\<open>components/ui/navigation\<close>): the identity of the user and signing out; the tree of
    the sidebar, the tabs, the drawer and the switchers. The sidebar highlights exactly the set in the
    address and opens the way to it; one tab is current on every page of a cluster.
  \<^item> \<open>Stores\<close>, \<open>Data_Hooks\<close> (\<^verbatim>\<open>stores\<close>, \<^verbatim>\<open>hooks\<close>): actions, migration, loading and polling; data
    shown is that of the connection unless a poll is in flight across a switch.
  \<^item> \<open>Record_Filters\<close>, \<open>Record_Browser\<close>, \<open>Record_Editor\<close> (\<^verbatim>\<open>components/browser\<close> and the pages under
    \<^verbatim>\<open>app/(main)/clusters/[clusterId]/sets\<close>): filters, sequence-guarded fetching, typed bin drafts and
    saving. The root theory composes the editor with the client: an unedited record reaches the
    server as it was loaded. \<open>Page_Views\<close> is what these pages show: a row opens its own record, and at
    rest the table is the answer to the applied query.
  \<^item> \<open>Validation\<close>, \<open>K8s_Types\<close>, \<open>Wizard_Steps\<close>, \<open>Wizard\<close> (\<^verbatim>\<open>lib/validation.ts\<close>,
    \<^verbatim>\<open>lib/validations/k8s.ts\<close>, \<^verbatim>\<open>lib/types/k8s.ts\<close>, \<^verbatim>\<open>components/k8s/create-cluster-wizard\<close>): request
    types as predicates, every editor handler, the wizard as a step relation. Edits keep the request
    typed, orderly runs submit valid payloads, cleaning is a projection; jumping skips validation.
    \<open>Step_Review\<close> (\<^verbatim>\<open>StepReview.tsx\<close>): what the review shows is what is sent, the workspace apart.
    \<open>Wizard_View\<close> (\<^verbatim>\<open>Stepper.tsx\<close>, \<^verbatim>\<open>StepCreationMode.tsx\<close>): the page on screen is the one the stepper names.
  \<^item> \<open>Cluster_Rows\<close>, \<open>Row_Widgets\<close> (\<^verbatim>\<open>components/clusters\<close>): labels, environments, merging and grouping
    of the cluster list; the parts of a row, with the copy button and its timer as a state machine.
  \<^item> \<open>List_Pages\<close> (the pages under \<^verbatim>\<open>app/(main)/clusters\<close> that list clusters, namespaces, indexes,
    modules, users and roles): loading, filtering, grouping, table states and number formats.
    \<open>Overview_Pages\<close> (cards and table of clusters, overview, namespace cards, status bar): the sidebar and
    the page of namespaces list the same sets with the same links.
  \<^item> \<open>Guide_Markdown\<close> (\<^verbatim>\<open>components/GuideMarkdown.tsx\<close>): the block and inline parser of guides. It
    ends on guides without lone carriage returns (fuel: the number of lines) and links only to safe
    schemes. \<open>Guides_Page\<close> (\<^verbatim>\<open>app/(main)/guides\<close>, \<^verbatim>\<open>hooks/use-guides.ts\<close>): the guides of a workspace and their
    editor, with answers and switches of the workspace in any order.
  \<^item> \<open>Dialogs\<close> (\<^verbatim>\<open>components/dialogs\<close>, \<^verbatim>\<open>components/notes\<close>): the life cycle of a dialog as one machine
    over the code of a dialog; its contract is the locale \<open>form_dialog\<close>, interpreted on each of the
    twelve dialogs.

  \<^bold>\<open>Not modelled.\<close> The Python backend (another language, reached only through the network argument),
  the generated schema, the presentational components (markup, styling, charts, date pickers copied
  from a component library), response-only types, the CopilotKit runtime, and the layout and style
  of every page. Code units above U+00FF do not occur in the model of strings.
\<close>

section \<open>From the form to the wire\<close>

definition body_of :: "(rat \<Rightarrow> string) \<Rightarrow> api_request_init \<Rightarrow> string option" where
  "body_of fs init = (case ri_json init of Some j \<Rightarrow> Some (stringify fs j) | None \<Rightarrow> ri_body init)"

lemma request_of_fields:
  "rq_url (request_of fs url init a t) = url" "rq_method (request_of fs url init a t) = ri_method init"
  "rq_body (request_of fs url init a t) = body_of fs init"
  by (simp_all add: request_of_def body_of_def)

text \<open>A call that is not aborted beforehand sends one or two requests, all with its URL, method and body.\<close>

lemma apiFetch_sends:
  assumes "apiFetch fs parse net upd path init w = (out, w')" "ri_signal init \<noteq> Some True"
  shows "\<exists>l. sent w' = sent w @ l \<and> l \<noteq> [] \<and>
    (\<forall>q \<in> set l. rq_url q = buildUrl fs (sel w) path (ri_query init) \<and> rq_method q = ri_method init \<and> rq_body q = body_of fs init)"
proof -
  have one: "sent v' = sent v @ [request_of fs url init True (world_token v)]"
    if "executeRequest fs net url init True v = (x, v')" for url x v v'
    using that by (rule executeRequest_cases) (use assms(2) in simp_all)
  from assms(1) show ?thesis
  proof (cases rule: apiFetch_cases)
    case (failed o1 t)
    then show ?thesis by (simp add: one request_of_fields)
  next
    case (answered r1)
    then show ?thesis by (simp add: one request_of_fields)
  next
    case (not_refreshed r1 w1 t w2)
    then show ?thesis using refresh_frame [OF not_refreshed(4)] after_unauthorized_frame [OF not_refreshed(6)]
      by (simp add: one request_of_fields)
  next
    case (retried r1 w1 t w2 r2 w3)
    then show ?thesis using refresh_frame [OF retried(4)] after_unauthorized_frame [OF retried(7)] one [OF retried(1)] one [OF retried(6)]
      by (simp add: request_of_fields)
  next
    case (retry_failed r1 w1 t w2 o2 n)
    then show ?thesis using refresh_frame [OF retry_failed(4)] one [OF retry_failed(1)] one [OF retry_failed(6)]
      by (simp add: request_of_fields)
  qed
qed

lemma json_ok_write_body:
  assumes "wf_obj bins" "\<forall>(k, v) \<in> set bins. json_ok fs v" "\<forall>x. ttl = Some x \<longrightarrow> reads fs x"
  shows "json_ok fs (write_body p pk bins ttl)"
  using assms by (cases ttl) (auto simp: write_body_def)

lemma kept_ttl_reads: "\<forall>x. t = Some x \<longrightarrow> reads fs x \<and> isInteger x \<Longrightarrow> \<forall>x. kept_ttl t = Some x \<longrightarrow> reads fs x"
  using reads_int [of "-1" fs] by (auto simp: kept_ttl_def split: if_splits)


definition quiet_net :: network where
  "quiet_net n q = Fetched \<lparr>status = 204, statusText = [], contentType = None, bodyText = None\<rparr>"


end
